(* ===== verification/Prelude.thy ===== *)
theory Prelude
  imports
    "HOL-Library.Word"
    "HOL-Library.Finite_Map"
    "HOL-Library.Sublist"
    "HOL-Library.Char_ord"
    "HOL-Library.List_Lexorder"
begin

text \<open>
  Shared vocabulary of the development: the machine integers of the Rust code, the operations of
  \<open>std::str\<close> that the crates use, hash maps as finite maps, and the generic lemmas that the
  component theories rely on.

  A Rust \<open>String\<close> is the list of its characters.  Isabelle's \<^typ>\<open>char\<close> has 256 values, which
  are read as the code points U+0000 to U+00FF; on that range every string operation below is
  exactly Rust's.  Paths of the local file system are strings with the Unix rules of
  \<open>PathBuf\<close>.  A \<open>HashMap\<close> is a finite map; where the code iterates over one, whose order Rust
  leaves unspecified, the model goes through the keys in ascending order.
\<close>

named_theorems store_simps \<open>frame equations of the store's helper operations\<close>
named_theorems vfs_simps \<open>frame equations of the virtual filesystem's helper operations\<close>

section \<open>Machine integers\<close>

type_synonym u8 = "8 word"
type_synonym u16 = "16 word"
type_synonym u32 = "32 word"
type_synonym u64 = "64 word"
type_synonym i64 = "64 word" \<comment> \<open>two's complement, read by \<open>sint\<close>\<close>
type_synonym bytes = "u8 list"
type_synonym duration = nat \<comment> \<open>\<open>std::time::Duration\<close>, in nanoseconds\<close>
type_synonym instant = nat \<comment> \<open>\<open>std::time::Instant\<close>, in nanoseconds since an unspecified origin\<close>

definition secs :: "nat \<Rightarrow> duration" where
  "secs n = n * 1000000000"

definition elapsed :: "instant \<Rightarrow> instant \<Rightarrow> duration" where
  "elapsed now at = now - at"

definition saturating_add :: "u64 \<Rightarrow> u64 \<Rightarrow> u64" where
  "saturating_add a b = (if unat a + unat b < 2 ^ 64 then a + b else - 1)"

definition checked_mul :: "u64 \<Rightarrow> u64 \<Rightarrow> u64 option" where
  "checked_mul a b = (if unat a * unat b < 2 ^ 64 then Some (a * b) else None)"

lemma unat_minus_one_u64: "unat (- 1 :: u64) = 2 ^ 64 - 1"
  by (simp add: unsigned_minus_1_eq_mask mask_eq_exp_minus_1)

lemma unat_saturating_add: "unat (saturating_add a b) = min (unat a + unat b) (2 ^ 64 - 1)"
proof (cases "unat a + unat b < 2 ^ 64")
  case True
  then show ?thesis
    by (simp add: saturating_add_def unat_word_ariths)
next
  case False
  then show ?thesis
    by (simp add: saturating_add_def unat_minus_one_u64)
qed

lemma unat_u64_less: "unat (x :: u64) < 2 ^ 64"
  using unsigned_less[of x, where 'a = nat] by simp

lemma unat_u32_less: "unat (x :: u32) < 2 ^ 32"
  using unsigned_less[of x, where 'a = nat] by simp

lemma unat_Suc_u64:
  fixes x :: u64
  assumes "unat x + 1 < 2 ^ 64"
  shows "unat (x + 1) = unat x + 1"
  using assms by (simp add: unat_word_ariths)

lemma unat_add_u64:
  fixes x y :: u64
  assumes "unat x + unat y < 2 ^ 64"
  shows "unat (x + y) = unat x + unat y"
  using assms by (simp add: unat_word_ariths)

lemma unat_sub_u64:
  fixes x y :: u64
  assumes "unat y \<le> unat x"
  shows "unat (x - y) = unat x - unat y"
  using assms by (simp add: unat_sub word_le_nat_alt)

lemma unat_mult_u64:
  fixes x y :: u64
  assumes "unat x * unat y < 2 ^ 64"
  shows "unat (x * y) = unat x * unat y"
  using assms by (simp add: unat_word_ariths)

lemma unat_of_nat_u64: "n < 2 ^ 64 \<Longrightarrow> unat (of_nat n :: u64) = n"
  by (simp add: unat_of_nat)

lemma unat_min_u64: "unat (min a b :: u64) = min (unat a) (unat b)"
  by (auto simp: min_def word_le_nat_alt)

lemma unat_max_u64: "unat (max a b :: u64) = max (unat a) (unat b)"
  by (auto simp: max_def word_le_nat_alt)

lemma max_one_u64: "0 < cs \<Longrightarrow> max cs 1 = (cs :: u64)"
proof -
  assume "0 < cs"
  then have "1 \<le> cs" by (simp add: word_le_nat_alt word_less_nat_alt)
  then show ?thesis by (auto simp: max_def)
qed

lemma unat_ucast_u32_u64: "unat (ucast (x :: u32) :: u64) = unat x"
proof -
  have "unat x < 2 ^ 64"
    using unat_u32_less[of x] by simp
  then show ?thesis
    by (simp add: unsigned_ucast_eq take_bit_nat_eq_self_iff)
qed

section \<open>Strings\<close>

fun str_split :: "char \<Rightarrow> string \<Rightarrow> string list" where
  "str_split c [] = [[]]"
| "str_split c (x # xs) =
     (if x = c then [] # str_split c xs
      else (case str_split c xs of [] \<Rightarrow> [[x]] | w # ws \<Rightarrow> (x # w) # ws))"

definition trim_end_matches :: "char \<Rightarrow> string \<Rightarrow> string" where
  "trim_end_matches c s = rev (dropWhile (\<lambda>x. x = c) (rev s))"

definition strip_prefix :: "string \<Rightarrow> string \<Rightarrow> string option" where
  "strip_prefix p s = (if prefix p s then Some (drop (length p) s) else None)"

definition strip_suffix :: "string \<Rightarrow> string \<Rightarrow> string option" where
  "strip_suffix p s = (if suffix p s then Some (take (length s - length p) s) else None)"

definition split_once :: "char \<Rightarrow> string \<Rightarrow> (string \<times> string) option" where
  "split_once c s =
     (if c \<in> set s
      then Some (takeWhile (\<lambda>x. x \<noteq> c) s, tl (dropWhile (\<lambda>x. x \<noteq> c) s)) else None)"

definition rsplit_once :: "char \<Rightarrow> string \<Rightarrow> (string \<times> string) option" where
  "rsplit_once c s =
     (case split_once c (rev s) of None \<Rightarrow> None | Some (b, a) \<Rightarrow> Some (rev a, rev b))"

definition is_whitespace :: "char \<Rightarrow> bool" where
  "is_whitespace c \<longleftrightarrow> c \<in> {CHR 0x09, CHR 0x0A, CHR 0x0B, CHR 0x0C, CHR 0x0D, CHR 0x20, CHR 0x85, CHR 0xA0}"

definition is_ascii_whitespace :: "char \<Rightarrow> bool" where
  "is_ascii_whitespace c \<longleftrightarrow> c \<in> {CHR 0x09, CHR 0x0A, CHR 0x0C, CHR 0x0D, CHR 0x20}"

definition is_ascii_digit :: "char \<Rightarrow> bool" where
  "is_ascii_digit c \<longleftrightarrow> 48 \<le> (of_char c :: nat) \<and> (of_char c :: nat) \<le> 57"

definition trim_start_matches :: "(char \<Rightarrow> bool) \<Rightarrow> string \<Rightarrow> string" where
  "trim_start_matches P s = dropWhile P s"

definition trim :: "string \<Rightarrow> string" where
  "trim s = rev (dropWhile is_whitespace (rev (dropWhile is_whitespace s)))"

definition to_ascii_lowercase :: "string \<Rightarrow> string" where
  "to_ascii_lowercase s =
     map (\<lambda>c. if 65 \<le> (of_char c :: nat) \<and> (of_char c :: nat) \<le> 90 then char_of (of_char c + 32 :: nat) else c) s"

definition split_whitespace :: "string \<Rightarrow> string list" where
  "split_whitespace s =
     filter (\<lambda>w. w \<noteq> []) (str_split CHR '' '' (map (\<lambda>c. if is_whitespace c then CHR '' '' else c) s))"

fun str_lines :: "string \<Rightarrow> string list" where
  "str_lines [] = []"
| "str_lines (x # xs) =
     (if x = CHR 0x0A then [] # str_lines xs
      else if x = CHR 0x0D \<and> prefix [CHR 0x0A] xs then str_lines xs
      else (case str_lines xs of
              [] \<Rightarrow> [[x]]
            | w # ws \<Rightarrow> (x # w) # ws))"

definition digits_value :: "string \<Rightarrow> nat" where
  "digits_value ds = foldl (\<lambda>n d. 10 * n + (of_char d - 48)) 0 ds"

definition parse_digits :: "nat \<Rightarrow> string \<Rightarrow> nat option" where
  "parse_digits limit ds =
     (if ds \<noteq> [] \<and> list_all is_ascii_digit ds \<and> digits_value ds < limit
      then Some (digits_value ds) else None)"

definition parse_uint :: "nat \<Rightarrow> string \<Rightarrow> nat option" where
  "parse_uint limit s =
     parse_digits limit (case s of c # cs \<Rightarrow> if c = CHR ''+'' then cs else s | [] \<Rightarrow> [])"

fun show_nat :: "nat \<Rightarrow> string" where
  "show_nat n = (if n < 10 then [] else show_nat (n div 10)) @ [char_of (48 + n mod 10)]"

declare show_nat.simps [simp del]

definition path_join :: "string \<Rightarrow> string \<Rightarrow> string" where
  "path_join base p =
     (if prefix ''/'' p then p
      else if base = [] \<or> last base = CHR ''/'' then base @ p
      else base @ ''/'' @ p)"

lemma str_split_not_Nil [simp]: "str_split c s \<noteq> []"
  by (induction s) (auto split: list.splits)

lemma str_split_append: "str_split c (a @ c # b) = str_split c a @ str_split c b"
  by (induction a) (auto split: list.splits)

lemma str_split_single: "c \<notin> set s \<Longrightarrow> str_split c s = [s]"
  by (induction s) auto

lemma str_split_no_sep: "w \<in> set (str_split c s) \<Longrightarrow> c \<notin> set w"
proof (induction s arbitrary: w)
  case Nil
  then show ?case by simp
next
  case (Cons x xs)
  then show ?case by (cases "str_split c xs") (auto split: if_splits)
qed

lemma trim_end_matches_decomp: "\<exists>k. s = trim_end_matches c s @ replicate k c"
proof -
  have "rev s = takeWhile (\<lambda>x. x = c) (rev s) @ dropWhile (\<lambda>x. x = c) (rev s)"
    by simp
  then have "s = trim_end_matches c s @ rev (takeWhile (\<lambda>x. x = c) (rev s))"
    by (metis rev_append rev_rev_ident trim_end_matches_def)
  moreover have "rev (takeWhile (\<lambda>x. x = c) (rev s)) =
      replicate (length (takeWhile (\<lambda>x. x = c) (rev s))) c"
    by (rule replicate_eqI) (auto dest: set_takeWhileD)
  ultimately show ?thesis by metis
qed

lemma split_once_Some:
  "split_once c s = Some (a, b) \<longleftrightarrow> s = a @ c # b \<and> c \<notin> set a"
proof
  assume "split_once c s = Some (a, b)"
  then have c: "c \<in> set s" and a: "a = takeWhile (\<lambda>x. x \<noteq> c) s"
    and b: "b = tl (dropWhile (\<lambda>x. x \<noteq> c) s)"
    by (auto simp: split_once_def split: if_splits)
  from c have ne: "dropWhile (\<lambda>x. x \<noteq> c) s \<noteq> []"
    by (auto simp: dropWhile_eq_Nil_conv)
  then have "dropWhile (\<lambda>x. x \<noteq> c) s = c # b"
    using hd_dropWhile[OF ne] b by (metis (mono_tags, lifting) list.collapse)
  then show "s = a @ c # b \<and> c \<notin> set a"
    using a by (metis (mono_tags, lifting) set_takeWhileD takeWhile_dropWhile_id)
next
  assume "s = a @ c # b \<and> c \<notin> set a"
  then show "split_once c s = Some (a, b)"
    by (auto simp: split_once_def takeWhile_append dropWhile_append2)
qed

lemma rsplit_once_Some:
  "rsplit_once c s = Some (a, b) \<longleftrightarrow> s = a @ c # b \<and> c \<notin> set b"
proof -
  have "rsplit_once c s = Some (a, b) \<longleftrightarrow> split_once c (rev s) = Some (rev b, rev a)"
    by (auto simp: rsplit_once_def split: option.splits)
  also have "\<dots> \<longleftrightarrow> rev s = rev b @ c # rev a \<and> c \<notin> set b"
    by (simp add: split_once_Some)
  also have "\<dots> \<longleftrightarrow> s = a @ c # b \<and> c \<notin> set b"
    by (metis append.assoc append_Cons append_Nil rev.simps(2) rev_append rev_rev_ident)
  finally show ?thesis .
qed

lemma digits_value_snoc: "digits_value (ds @ [d]) = 10 * digits_value ds + (of_char d - 48)"
  by (simp add: digits_value_def)

lemma show_nat_digits: "show_nat n \<noteq> [] \<and> list_all is_ascii_digit (show_nat n) \<and> digits_value (show_nat n) = n"
proof (induction n rule: show_nat.induct)
  case (1 n)
  have d: "of_char (char_of (48 + n mod 10) :: char) = (48 + n mod 10 :: nat)"
    by (simp add: mod_less_divisor less_trans[of _ 10])
  show ?case
  proof (cases "n < 10")
    case True
    then show ?thesis
      using d by (simp add: show_nat.simps[of n] is_ascii_digit_def digits_value_def)
  next
    case False
    with 1 d show ?thesis
      by (simp add: show_nat.simps[of n] is_ascii_digit_def digits_value_snoc)
  qed
qed

lemma parse_uint_show_nat:
  assumes "n < limit"
  shows "parse_uint limit (show_nat n) = Some n"
proof -
  obtain c cs where c: "show_nat n = c # cs" using show_nat_digits[of n] by (cases "show_nat n") auto
  then have "c \<noteq> CHR ''+''" using show_nat_digits[of n] by (auto simp: is_ascii_digit_def)
  with c assms show_nat_digits[of n] show ?thesis by (simp add: parse_uint_def parse_digits_def)
qed

section \<open>Hash maps\<close>

definition fm_keys :: "('k::linorder, 'v) fmap \<Rightarrow> 'k list" where
  "fm_keys m = sorted_list_of_fset (fmdom m)"

definition fm_values :: "('k::linorder, 'v) fmap \<Rightarrow> 'v list" where
  "fm_values m = map (\<lambda>k. the (fmlookup m k)) (fm_keys m)"

lemma set_fm_keys [simp]: "set (fm_keys m) = fmdom' m"
  by (simp add: fm_keys_def sorted_list_of_fset.rep_eq fmdom'_alt_def)

lemma set_fm_values: "set (fm_values m) = {v. \<exists>k. fmlookup m k = Some v}"
  by (force simp: fm_values_def fmlookup_dom'_iff image_iff)

lemma fm_values_empty [simp]: "fm_values fmempty = []"
  by (simp add: fm_values_def fm_keys_def sorted_list_of_fset.rep_eq)

lemma distinct_fm_keys [simp]: "distinct (fm_keys m)"
  by (simp add: fm_keys_def sorted_list_of_fset.rep_eq)

lemma distinct_fm_values:
  "distinct (fm_values m) \<longleftrightarrow>
   (\<forall>k k' v. fmlookup m k = Some v \<longrightarrow> fmlookup m k' = Some v \<longrightarrow> k = k')"
proof -
  have "distinct (fm_values m) \<longleftrightarrow> inj_on (\<lambda>k. the (fmlookup m k)) (fmdom' m)"
    by (simp add: fm_values_def distinct_map)
  also have "\<dots> \<longleftrightarrow> (\<forall>k k' v. fmlookup m k = Some v \<longrightarrow> fmlookup m k' = Some v \<longrightarrow> k = k')"
    by (auto simp: inj_on_def fmlookup_dom'_iff)
  finally show ?thesis .
qed

lemma fold_fmdrop_lookup:
  "fmlookup (fold fmdrop ks m) k = (if k \<in> set ks then None else fmlookup m k)"
  by (induction ks arbitrary: m) auto

section \<open>Polling loops\<close>

text \<open>
  A loop that pauses until a condition holds, as both mount calls wait for their shutdown signal.  It
  may run forever; it returns as soon as finitely many pauses reach the condition.
\<close>

locale polling =
  fixes wait :: "'w \<Rightarrow> 'w option" and stop :: "'w \<Rightarrow> bool" and pause :: "'w \<Rightarrow> 'w"
  assumes wait_step: "wait w = (if stop w then Some w else wait (pause w))"
    and stopped: "wait w = Some w' \<Longrightarrow> stop w'"
begin

lemma wait_reaches: "stop ((pause ^^ k) w) \<Longrightarrow> \<exists>j \<le> k. wait w = Some ((pause ^^ j) w) \<and> stop ((pause ^^ j) w)"
proof (induction k arbitrary: w)
  case 0
  then show ?case by (subst wait_step) simp
next
  case (Suc k)
  show ?case
  proof (cases "stop w")
    case True
    then show ?thesis by (intro exI[of _ 0]) (subst wait_step, simp)
  next
    case False
    from Suc obtain j where "j \<le> k" "wait (pause w) = Some ((pause ^^ j) (pause w))" "stop ((pause ^^ j) (pause w))"
      by (metis funpow_Suc_right o_apply)
    with False show ?thesis
      by (intro exI[of _ "Suc j"]) (subst wait_step, simp add: funpow_swap1)
  qed
qed

lemma returns: "\<exists>k. stop ((pause ^^ k) w) \<Longrightarrow> \<exists>w'. wait w = Some w'"
  using wait_reaches by blast

end

end
