(* ===== verification/Core_Types.thy ===== *)
theory Core_Types
  imports Prelude
begin

text \<open>
  The shared vocabulary of \<open>cacheshfs-core\<close> (\<open>crates/cacheshfs-core/src/lib.rs\<close>): configuration,
  errors, the two traits as records of state-passing operations, identifiers, remote paths and
  attribute types.  The lemmas are about remote paths: a path built by \<open>RemotePath::new\<close> or
  \<open>RemotePath::join\<close> is absolute, has no \<open>..\<close> component, and \<open>join\<close> descends by exactly one
  component.
\<close>

section \<open>Configuration and errors\<close>

datatype CacheMode = Remote | OnDemand | Pinned | Offline

record RemoteConfig =
  rc_target :: string
  rc_root :: string

record MountConfig =
  mc_remote :: RemoteConfig
  mc_mountpoint :: string
  mc_cache_dir :: string
  mc_cache_mode :: CacheMode
  mc_cache_chunk_size :: u64
  mc_read_only :: bool

definition DEFAULT_CACHE_CHUNK_SIZE :: u64 where
  "DEFAULT_CACHE_CHUNK_SIZE = 4 * 1024 * 1024"

datatype error =
    UnsupportedPlatform string
  | MountBackend string
  | RemoteBackend string
  | NotFound
  | AlreadyExists
  | PermissionDenied
  | InvalidInput string
  | UnsupportedOperation string
  | Unavailable string

datatype 'a result = Ok 'a | Err error

fun error_display :: "error \<Rightarrow> string" where
  "error_display (UnsupportedPlatform message) = message"
| "error_display (MountBackend message) = message"
| "error_display (RemoteBackend message) = message"
| "error_display NotFound = ''not found''"
| "error_display AlreadyExists = ''already exists''"
| "error_display PermissionDenied = ''permission denied''"
| "error_display (InvalidInput message) = message"
| "error_display (UnsupportedOperation message) = message"
| "error_display (Unavailable message) = message"

section \<open>Identifiers, attributes and flags\<close>

datatype NodeId = NodeId (node_num: u64)

definition ROOT :: NodeId where
  "ROOT = NodeId 1"

datatype FileHandle = FileHandle (handle_num: u64)

datatype FileKind = File | Directory | Symlink

record FileAttributes =
  kind :: FileKind
  fsize :: u64
  mode :: u32
  uid :: u32
  gid :: u32
  modified_unix_seconds :: "i64 option"
  accessed_unix_seconds :: "i64 option"
  changed_unix_seconds :: "i64 option"

record FileMetadata =
  node :: NodeId
  attributes :: FileAttributes

record DirectoryEntry =
  de_name :: string
  de_metadata :: FileMetadata

record RemoteDirectoryEntry =
  re_name :: string
  re_attributes :: FileAttributes

record CreatedFile =
  cf_metadata :: FileMetadata
  cf_handle :: FileHandle

record OpenFlags =
  of_read :: bool
  of_write :: bool
  of_append :: bool
  of_truncate :: bool

record SetAttributes =
  sa_size :: "u64 option"
  sa_mode :: "u32 option"
  sa_modified :: "i64 option"
  sa_accessed :: "i64 option"

definition SetAttributes_default :: SetAttributes where
  "SetAttributes_default = \<lparr>sa_size = None, sa_mode = None, sa_modified = None, sa_accessed = None\<rparr>"

section \<open>Remote paths\<close>

datatype RemotePath = RemotePath (as_str: string)

definition RemotePath_root :: RemotePath where
  "RemotePath_root = RemotePath ''/''"

definition RemotePath_new :: "string \<Rightarrow> RemotePath result" where
  "RemotePath_new path =
     (if path = [] \<or> \<not> prefix ''/'' path \<or> (\<exists>part \<in> set (str_split CHR ''/'' path). part = ''..'')
      then Err (InvalidInput
             (''remote paths must be absolute and must not contain '' @ CHR 0x27 # ''..'' @ [CHR 0x27]))
      else Ok (RemotePath path))"

definition RemotePath_join :: "RemotePath \<Rightarrow> string \<Rightarrow> RemotePath result" where
  "RemotePath_join self name =
     (if name = [] \<or> name = ''.'' \<or> name = ''..'' \<or> CHR ''/'' \<in> set name \<or> CHR 0x5C \<in> set name
      then Err (InvalidInput (CHR 0x27 # name @ CHR 0x27 # '' is not a valid path component''))
      else RemotePath_new (trim_end_matches CHR ''/'' (as_str self) @ ''/'' @ name))"

section \<open>The traits\<close>

record 'w RemoteFilesystem =
  rf_stat :: "RemotePath \<Rightarrow> 'w \<Rightarrow> FileAttributes result \<times> 'w"
  rf_read_dir :: "RemotePath \<Rightarrow> 'w \<Rightarrow> RemoteDirectoryEntry list result \<times> 'w"
  rf_read :: "RemotePath \<Rightarrow> u64 \<Rightarrow> u32 \<Rightarrow> 'w \<Rightarrow> bytes result \<times> 'w"
  rf_write :: "RemotePath \<Rightarrow> u64 \<Rightarrow> bytes \<Rightarrow> 'w \<Rightarrow> u32 result \<times> 'w"
  rf_create :: "RemotePath \<Rightarrow> u32 \<Rightarrow> 'w \<Rightarrow> FileAttributes result \<times> 'w"
  rf_mkdir :: "RemotePath \<Rightarrow> u32 \<Rightarrow> 'w \<Rightarrow> FileAttributes result \<times> 'w"
  rf_unlink :: "RemotePath \<Rightarrow> 'w \<Rightarrow> unit result \<times> 'w"
  rf_rmdir :: "RemotePath \<Rightarrow> 'w \<Rightarrow> unit result \<times> 'w"
  rf_rename :: "RemotePath \<Rightarrow> RemotePath \<Rightarrow> 'w \<Rightarrow> unit result \<times> 'w"
  rf_setattr :: "RemotePath \<Rightarrow> SetAttributes \<Rightarrow> 'w \<Rightarrow> FileAttributes result \<times> 'w"

record 's VirtualFilesystem =
  vf_lookup :: "NodeId \<Rightarrow> string \<Rightarrow> 's \<Rightarrow> FileMetadata result \<times> 's"
  vf_getattr :: "NodeId \<Rightarrow> 's \<Rightarrow> FileMetadata result \<times> 's"
  vf_readdir :: "NodeId \<Rightarrow> 's \<Rightarrow> DirectoryEntry list result \<times> 's"
  vf_open :: "NodeId \<Rightarrow> OpenFlags \<Rightarrow> 's \<Rightarrow> FileHandle result \<times> 's"
  vf_read :: "FileHandle \<Rightarrow> u64 \<Rightarrow> u32 \<Rightarrow> 's \<Rightarrow> bytes result \<times> 's"
  vf_write :: "FileHandle \<Rightarrow> u64 \<Rightarrow> bytes \<Rightarrow> 's \<Rightarrow> u32 result \<times> 's"
  vf_flush :: "FileHandle \<Rightarrow> 's \<Rightarrow> unit result \<times> 's"
  vf_release :: "FileHandle \<Rightarrow> 's \<Rightarrow> unit result \<times> 's"
  vf_create :: "NodeId \<Rightarrow> string \<Rightarrow> u32 \<Rightarrow> OpenFlags \<Rightarrow> 's \<Rightarrow> CreatedFile result \<times> 's"
  vf_mkdir :: "NodeId \<Rightarrow> string \<Rightarrow> u32 \<Rightarrow> 's \<Rightarrow> FileMetadata result \<times> 's"
  vf_unlink :: "NodeId \<Rightarrow> string \<Rightarrow> 's \<Rightarrow> unit result \<times> 's"
  vf_rmdir :: "NodeId \<Rightarrow> string \<Rightarrow> 's \<Rightarrow> unit result \<times> 's"
  vf_rename :: "NodeId \<Rightarrow> string \<Rightarrow> NodeId \<Rightarrow> string \<Rightarrow> 's \<Rightarrow> unit result \<times> 's"
  vf_setattr :: "NodeId \<Rightarrow> SetAttributes \<Rightarrow> 's \<Rightarrow> FileMetadata result \<times> 's"

definition unimplemented_vfs_error :: error where
  "unimplemented_vfs_error = UnsupportedOperation ''shared VFS is not implemented yet''"

definition UnimplementedVirtualFilesystem :: "'s VirtualFilesystem" where
  "UnimplementedVirtualFilesystem = \<lparr>
     vf_lookup = (\<lambda>_ _ s. (Err unimplemented_vfs_error, s)),
     vf_getattr = (\<lambda>_ s. (Err unimplemented_vfs_error, s)),
     vf_readdir = (\<lambda>_ s. (Err unimplemented_vfs_error, s)),
     vf_open = (\<lambda>_ _ s. (Err unimplemented_vfs_error, s)),
     vf_read = (\<lambda>_ _ _ s. (Err unimplemented_vfs_error, s)),
     vf_write = (\<lambda>_ _ _ s. (Err unimplemented_vfs_error, s)),
     vf_flush = (\<lambda>_ s. (Err unimplemented_vfs_error, s)),
     vf_release = (\<lambda>_ s. (Err unimplemented_vfs_error, s)),
     vf_create = (\<lambda>_ _ _ _ s. (Err unimplemented_vfs_error, s)),
     vf_mkdir = (\<lambda>_ _ _ s. (Err unimplemented_vfs_error, s)),
     vf_unlink = (\<lambda>_ _ s. (Err unimplemented_vfs_error, s)),
     vf_rmdir = (\<lambda>_ _ s. (Err unimplemented_vfs_error, s)),
     vf_rename = (\<lambda>_ _ _ _ s. (Err unimplemented_vfs_error, s)),
     vf_setattr = (\<lambda>_ _ s. (Err unimplemented_vfs_error, s))\<rparr>"

section \<open>Remote paths stay absolute and descend\<close>

definition valid_path :: "RemotePath \<Rightarrow> bool" where
  "valid_path p \<longleftrightarrow> (\<exists>s. as_str p = CHR ''/'' # s) \<and> ''..'' \<notin> set (str_split CHR ''/'' (as_str p))"

definition components :: "RemotePath \<Rightarrow> string list" where
  "components p = filter (\<lambda>part. part \<noteq> []) (str_split CHR ''/'' (as_str p))"

definition under :: "RemotePath \<Rightarrow> RemotePath \<Rightarrow> bool" where
  "under root p \<longleftrightarrow> valid_path p \<and> prefix (components root) (components p)"

lemma RemotePath_new_Ok: "RemotePath_new s = Ok p \<longleftrightarrow> p = RemotePath s \<and> valid_path p"
  by (cases s) (auto simp: RemotePath_new_def valid_path_def split: if_splits)

lemma RemotePath_new_Err:
  "RemotePath_new s = Err e \<Longrightarrow> \<exists>m. e = InvalidInput m"
  by (auto simp: RemotePath_new_def split: if_splits)

lemma split_slashes: "filter (\<lambda>part. part \<noteq> []) (str_split c (s @ replicate k c)) =
    filter (\<lambda>part. part \<noteq> []) (str_split c s)"
proof (induction k arbitrary: s)
  case 0
  then show ?case by simp
next
  case (Suc k)
  have "str_split c (s @ replicate (Suc k) c) = str_split c s @ str_split c (replicate k c)"
    using str_split_append[of c s "replicate k c"] by simp
  moreover have "filter (\<lambda>part. part \<noteq> []) (str_split c (replicate k c)) = []"
    using Suc.IH[of "[]"] by simp
  ultimately show ?case by simp
qed

lemma components_trim:
  "filter (\<lambda>part. part \<noteq> []) (str_split c (trim_end_matches c s)) =
   filter (\<lambda>part. part \<noteq> []) (str_split c s)"
  by (metis split_slashes trim_end_matches_decomp)

lemma RemotePath_join_cases:
  assumes "RemotePath_join p name = Ok q"
  shows "as_str q = trim_end_matches CHR ''/'' (as_str p) @ ''/'' @ name" "valid_path q"
    "name \<noteq> []" "CHR ''/'' \<notin> set name"
  using assms by (auto simp: RemotePath_join_def RemotePath_new_Ok split: if_splits)

lemma components_join:
  assumes "RemotePath_join p name = Ok q"
  shows "components q = components p @ [name]"
proof -
  let ?base = "trim_end_matches CHR ''/'' (as_str p)"
  have "str_split CHR ''/'' (as_str q) = str_split CHR ''/'' ?base @ [name]"
    using RemotePath_join_cases[OF assms] str_split_append[of "CHR ''/''" ?base name]
    by (simp add: str_split_single)
  then show ?thesis
    using RemotePath_join_cases(3)[OF assms] by (simp add: components_def components_trim)
qed

lemma under_join: "under root p \<Longrightarrow> RemotePath_join p name = Ok q \<Longrightarrow> under root q"
  by (auto simp: under_def components_join RemotePath_join_cases(2))

lemma under_refl: "valid_path root \<Longrightarrow> under root root"
  by (simp add: under_def)

lemma valid_path_root: "valid_path RemotePath_root"
  by (simp add: valid_path_def RemotePath_root_def)

lemma set_split_trim: "set (str_split c (trim_end_matches c s)) \<subseteq> set (str_split c s)"
proof -
  obtain k where s: "s = trim_end_matches c s @ replicate k c"
    using trim_end_matches_decomp by blast
  show ?thesis
  proof (cases k)
    case 0
    with s show ?thesis by simp
  next
    case (Suc j)
    with s have "s = trim_end_matches c s @ c # replicate j c" by simp
    then have "str_split c s = str_split c (trim_end_matches c s) @ str_split c (replicate j c)"
      using str_split_append by metis
    then show ?thesis by simp
  qed
qed

lemma trim_end_starts: "prefix [c] s \<Longrightarrow> trim_end_matches c' s = [] \<or> prefix [c] (trim_end_matches c' s)"
  by (metis trim_end_matches_decomp append_is_Nil_conv list.exhaust prefix_Cons prefix_append
      prefix_code(1) append.left_neutral prefix_def append_Cons)

lemma RemotePath_join_Ok:
  assumes "valid_path p"
    and name: "name \<noteq> []" "name \<noteq> ''.''" "name \<noteq> ''..''" "CHR ''/'' \<notin> set name" "CHR 0x5C \<notin> set name"
  shows "RemotePath_join p name = Ok (RemotePath (trim_end_matches CHR ''/'' (as_str p) @ ''/'' @ name))"
proof -
  let ?base = "trim_end_matches CHR ''/'' (as_str p)"
  have "str_split CHR ''/'' (?base @ ''/'' @ name) = str_split CHR ''/'' ?base @ [name]"
    using str_split_append[of "CHR ''/''" ?base name] name by (simp add: str_split_single)
  then have "''..'' \<notin> set (str_split CHR ''/'' (?base @ ''/'' @ name))"
    using assms set_split_trim[of "CHR ''/''" "as_str p"] by (auto simp: valid_path_def)
  moreover have "\<exists>s. ?base @ ''/'' @ name = CHR ''/'' # s"
    using trim_end_starts[of "CHR ''/''" "as_str p" "CHR ''/''"] assms(1)
    by (auto simp: valid_path_def prefix_def)
  ultimately have "valid_path (RemotePath (?base @ ''/'' @ name))"
    by (simp add: valid_path_def)
  with name show ?thesis
    by (simp add: RemotePath_join_def RemotePath_new_Ok)
qed

text \<open>
  C1: \<open>RemotePath::join\<close> cannot escape the remote root.  On a valid parent path it rejects exactly the
  empty name, \<open>.\<close>, \<open>..\<close> and names with a slash or a backslash, as invalid input; every other name is
  accepted, and the result is again an absolute path without \<open>..\<close> whose components are those of
  the parent followed by exactly that name.
\<close>

theorem join_descends_one_component:
  assumes "valid_path p"
  shows "if name = [] \<or> name = ''.'' \<or> name = ''..'' \<or> CHR ''/'' \<in> set name \<or> CHR 0x5C \<in> set name
    then \<exists>m. RemotePath_join p name = Err (InvalidInput m)
    else \<exists>q. RemotePath_join p name = Ok q \<and> valid_path q \<and> components q = components p @ [name]"
proof (cases "name = [] \<or> name = ''.'' \<or> name = ''..'' \<or> CHR ''/'' \<in> set name \<or> CHR 0x5C \<in> set name")
  case True
  then show ?thesis by (auto simp: RemotePath_join_def)
next
  case False
  then obtain q where "RemotePath_join p name = Ok q"
    using RemotePath_join_Ok[OF assms] by blast
  with False show ?thesis
    using components_join RemotePath_join_cases(2) by auto
qed

theorem join_descends_one_component_witness:
  "valid_path RemotePath_root
   \<and> (\<exists>q. RemotePath_join RemotePath_root ''a.txt'' = Ok q \<and> valid_path q
        \<and> components q = components RemotePath_root @ [''a.txt''])
   \<and> (\<exists>m. RemotePath_join RemotePath_root ''..'' = Err (InvalidInput m))"
  using join_descends_one_component[OF valid_path_root, of "''a.txt''"]
    join_descends_one_component[OF valid_path_root, of "''..''"] valid_path_root
  by simp

end
