(* ===== verification/Cache_Store.thy ===== *)
theory Cache_Store
  imports Core_Types
begin

text \<open>
  The persistent, path-keyed cache store (\<open>crates/cacheshfs-core/src/store.rs\<close>).

  \<^item> The index (\<open>Index\<close>, \<open>Entry\<close>, \<open>ContentRef\<close>, \<open>StoredAttrs\<close>) is a record of finite maps, as in
    the code.
  \<^item> The cache directory is a record: the content objects, the temporary files, what
    \<open>index.json\<close> holds, and the outcomes of the coming fallible file-system calls (\<open>io_plan\<close>):
    each call consumes one outcome, and an exhausted plan means success.  Quantifying over
    plans covers every pattern of I/O failures and short reads.
  \<^item> serde is not part of the repository: the (de)serialiser of the index is a parameter
    (\<open>codec\<close>), and so is the type of the encoded document.
  \<^item> Every operation of \<open>Store\<close> is a function on the store's state.  Its mutex serialises
    the critical sections; the operations here run one after the other.
\<close>

section \<open>The index\<close>

record StoredAttrs =
  s_kind :: u8
  s_size :: u64
  s_mode :: u32
  s_uid :: u32
  s_gid :: u32
  s_modified :: "i64 option"
  s_accessed :: "i64 option"
  s_changed :: "i64 option"

fun kind_to_u8 :: "FileKind \<Rightarrow> u8" where
  "kind_to_u8 File = 0"
| "kind_to_u8 Directory = 1"
| "kind_to_u8 Symlink = 2"

definition u8_to_kind :: "u8 \<Rightarrow> FileKind" where
  "u8_to_kind v = (if v = 1 then Directory else if v = 2 then Symlink else File)"

definition to_stored :: "FileAttributes \<Rightarrow> StoredAttrs" where
  "to_stored a = \<lparr>
     s_kind = kind_to_u8 (kind a), s_size = fsize a, s_mode = mode a, s_uid = uid a, s_gid = gid a,
     s_modified = modified_unix_seconds a, s_accessed = accessed_unix_seconds a,
     s_changed = changed_unix_seconds a\<rparr>"

definition from_stored :: "StoredAttrs \<Rightarrow> FileAttributes" where
  "from_stored a = \<lparr>
     kind = u8_to_kind (s_kind a), fsize = s_size a, mode = s_mode a, uid = s_uid a, gid = s_gid a,
     modified_unix_seconds = s_modified a, accessed_unix_seconds = s_accessed a,
     changed_unix_seconds = s_changed a\<rparr>"

record ContentRef =
  c_size :: u64
  c_modified :: "i64 option"
  c_chunk_size :: u64
  c_chunks :: "(u64, u64) fmap"
  c_object :: "u64 option"

record Entry =
  attrs :: StoredAttrs
  content :: "ContentRef option"

record Index =
  next_object :: u64
  entries :: "(string, Entry) fmap"
  listings :: "(string, string list) fmap"

definition Index_default :: Index where
  "Index_default = \<lparr>next_object = 0, entries = fmempty, listings = fmempty\<rparr>"

section \<open>The cache directory\<close>

datatype io_outcome = IoDone | IoShort nat | IoFail string

record 'j cache_dir =
  objects :: "(u64, bytes) fmap"
  tmp :: "(u64 \<times> u64, bytes) fmap"
  index_json :: "'j option"
  io_plan :: "io_outcome list"

record 'j codec =
  to_vec :: "Index \<Rightarrow> 'j option"
  from_reader :: "'j \<Rightarrow> Index option"

definition cache_io :: "string \<Rightarrow> error" where
  "cache_io e = RemoteBackend (''content cache io error: '' @ e)"

definition os_not_found :: string where
  "os_not_found = ''No such file or directory (os error 2)''"

definition io_next :: "'j cache_dir \<Rightarrow> io_outcome \<times> 'j cache_dir" where
  "io_next d = (case io_plan d of [] \<Rightarrow> (IoDone, d) | x # xs \<Rightarrow> (x, d\<lparr>io_plan := xs\<rparr>))"

definition io_call :: "'j cache_dir \<Rightarrow> unit result \<times> 'j cache_dir" where
  "io_call d = (case io_next d of (IoFail e, d') \<Rightarrow> (Err (cache_io e), d') | (_, d') \<Rightarrow> (Ok (), d'))"

fun io_calls :: "nat \<Rightarrow> 'j cache_dir \<Rightarrow> unit result \<times> 'j cache_dir" where
  "io_calls 0 d = (Ok (), d)"
| "io_calls (Suc n) d = (case io_call d of (Err e, d') \<Rightarrow> (Err e, d') | (Ok _, d') \<Rightarrow> io_calls n d')"

definition remove_object_file :: "u64 \<Rightarrow> 'j cache_dir \<Rightarrow> 'j cache_dir" where
  "remove_object_file ob d =
     (case io_call d of (Err _, d') \<Rightarrow> d' | (Ok _, d') \<Rightarrow> d'\<lparr>objects := fmdrop ob (objects d')\<rparr>)"

definition remove_temp_file :: "u64 \<times> u64 \<Rightarrow> 'j cache_dir \<Rightarrow> 'j cache_dir" where
  "remove_temp_file t d =
     (case io_call d of (Err _, d') \<Rightarrow> d' | (Ok _, d') \<Rightarrow> d'\<lparr>tmp := fmdrop t (tmp d')\<rparr>)"

section \<open>The store\<close>

record 'j Store =
  dir :: "'j cache_dir"
  chunk_size :: u64
  temp_counter :: u64
  index :: Index
  json :: "'j codec"

definition Store_new :: "'j codec \<Rightarrow> 'j cache_dir \<Rightarrow> u64 \<Rightarrow> 'j Store" where
  "Store_new cd d cs =
     (case io_call d of (r, d') \<Rightarrow>
       \<lparr>dir = d', chunk_size = max cs 1, temp_counter = 0,
        index = (case r of
            Err _ \<Rightarrow> Index_default
          | Ok _ \<Rightarrow>
              (case Option.bind (index_json d') (from_reader cd) of
                 None \<Rightarrow> Index_default
               | Some i \<Rightarrow> i)),
        json = cd\<rparr>)"

definition persist :: "'j Store \<Rightarrow> 'j Store" where
  "persist s =
     (case io_call (dir s) of
        (Err _, d) \<Rightarrow> s\<lparr>dir := d\<rparr>
      | (Ok _, d) \<Rightarrow>
          (case to_vec (json s) (index s) of
             None \<Rightarrow> s\<lparr>dir := d\<rparr>
           | Some bytes \<Rightarrow>
               (case io_calls 4 d of
                  (Err _, d') \<Rightarrow> s\<lparr>dir := d'\<rparr>
                | (Ok _, d') \<Rightarrow> s\<lparr>dir := d'\<lparr>index_json := Some bytes\<rparr>\<rparr>)))"

definition get_attrs :: "'j Store \<Rightarrow> RemotePath \<Rightarrow> FileAttributes option" where
  "get_attrs s path = map_option (\<lambda>e. from_stored (attrs e)) (fmlookup (entries (index s)) (as_str path))"

definition get_children :: "'j Store \<Rightarrow> RemotePath \<Rightarrow> string list option" where
  "get_children s path = fmlookup (listings (index s)) (as_str path)"

definition content_objects :: "ContentRef \<Rightarrow> u64 list" where
  "content_objects c = (case c_object c of None \<Rightarrow> [] | Some ob \<Rightarrow> [ob]) @ fm_values (c_chunks c)"

definition remove_objects :: "u64 list \<Rightarrow> 'j Store \<Rightarrow> 'j Store" where
  "remove_objects obs s = s\<lparr>dir := fold remove_object_file obs (dir s)\<rparr>"

definition store_attrs :: "Index \<Rightarrow> string \<Rightarrow> FileAttributes \<Rightarrow> u64 list \<times> Index" where
  "store_attrs ix key a =
     (let entry = (case fmlookup (entries ix) key of
                     Some e \<Rightarrow> e
                   | None \<Rightarrow> \<lparr>attrs = to_stored a, content = None\<rparr>);
          entry = entry\<lparr>attrs := to_stored a\<rparr>
      in case content entry of
           Some c \<Rightarrow>
             (if c_size c \<noteq> fsize a \<or> c_modified c \<noteq> modified_unix_seconds a
              then (content_objects c, ix\<lparr>entries := fmupd key (entry\<lparr>content := None\<rparr>) (entries ix)\<rparr>)
              else ([], ix\<lparr>entries := fmupd key entry (entries ix)\<rparr>))
         | None \<Rightarrow> ([], ix\<lparr>entries := fmupd key entry (entries ix)\<rparr>))"

definition put_attrs :: "'j Store \<Rightarrow> RemotePath \<Rightarrow> FileAttributes \<Rightarrow> 'j Store" where
  "put_attrs s path a =
     (case store_attrs (index s) (as_str path) a of
        (stale, ix) \<Rightarrow> remove_objects stale (persist (s\<lparr>index := ix\<rparr>)))"

fun record_children ::
  "RemotePath \<Rightarrow> (string \<times> FileAttributes) list \<Rightarrow> Index \<Rightarrow> u64 list \<Rightarrow> u64 list \<times> Index" where
  "record_children parent [] ix orphans = (orphans, ix)"
| "record_children parent ((name, a) # rest) ix orphans =
     (case RemotePath_join parent name of
        Err _ \<Rightarrow> record_children parent rest ix orphans
      | Ok child \<Rightarrow>
          (case store_attrs ix (as_str child) a of
             (obs, ix') \<Rightarrow> record_children parent rest ix' (orphans @ obs)))"

definition record_listing :: "'j Store \<Rightarrow> RemotePath \<Rightarrow> (string \<times> FileAttributes) list \<Rightarrow> 'j Store" where
  "record_listing s parent children =
     (case record_children parent children (index s) [] of
        (orphans, ix) \<Rightarrow>
          remove_objects orphans
            (persist (s\<lparr>index := ix\<lparr>listings := fmupd (as_str parent) (map fst children) (listings ix)\<rparr>\<rparr>)))"

definition invalidate_children :: "'j Store \<Rightarrow> RemotePath \<Rightarrow> 'j Store" where
  "invalidate_children s path =
     (case fmlookup (listings (index s)) (as_str path) of
        None \<Rightarrow> s
      | Some _ \<Rightarrow>
          persist (s\<lparr>index := (index s)\<lparr>listings := fmdrop (as_str path) (listings (index s))\<rparr>\<rparr>))"

definition store_remove :: "'j Store \<Rightarrow> RemotePath \<Rightarrow> 'j Store" where
  "store_remove s path =
     (let key = as_str path;
          entry = fmlookup (entries (index s)) key;
          had_listing = fmlookup (listings (index s)) key \<noteq> None;
          ix = (index s)\<lparr>entries := fmdrop key (entries (index s)),
                         listings := fmdrop key (listings (index s))\<rparr>;
          s = s\<lparr>index := ix\<rparr>;
          s = (if entry \<noteq> None \<or> had_listing then persist s else s)
      in case Option.bind entry content of
           None \<Rightarrow> s
         | Some c \<Rightarrow> remove_objects (content_objects c) s)"


definition entry_objects :: "Entry option \<Rightarrow> u64 list" where
  "entry_objects e = (case Option.bind e content of None \<Rightarrow> [] | Some c \<Rightarrow> content_objects c)"

definition move_key :: "string \<Rightarrow> string \<Rightarrow> (string, 'v) fmap \<Rightarrow> (string, 'v) fmap" where
  "move_key from to m =
     (case fmlookup m from of None \<Rightarrow> m | Some v \<Rightarrow> fmupd to v (fmdrop from m))"

definition store_rename :: "'j Store \<Rightarrow> RemotePath \<Rightarrow> RemotePath \<Rightarrow> 'j Store" where
  "store_rename s from to =
     (let es = move_key (as_str from) (as_str to) (entries (index s));
          ls = move_key (as_str from) (as_str to) (listings (index s));
          descendants = filter (prefix (as_str from @ ''/'')) (fm_keys es);
          orphans = concat (map (\<lambda>key. entry_objects (fmlookup es key)) descendants);
          ix = (index s)\<lparr>entries := fold fmdrop descendants es, listings := fold fmdrop descendants ls\<rparr>
      in remove_objects orphans (persist (s\<lparr>index := ix\<rparr>)))"

definition invalidate_content :: "'j Store \<Rightarrow> RemotePath \<Rightarrow> 'j Store" where
  "invalidate_content s path =
     (case fmlookup (entries (index s)) (as_str path) of
        None \<Rightarrow> s
      | Some e \<Rightarrow>
          (let obs = entry_objects (Some e);
               s = s\<lparr>index := (index s)\<lparr>entries :=
                      fmupd (as_str path) (e\<lparr>content := None\<rparr>) (entries (index s))\<rparr>\<rparr>;
               s = (if obs \<noteq> [] then persist s else s)
           in remove_objects obs s))"

section \<open>Reading and fetching content\<close>

definition chunk_range :: "u64 \<Rightarrow> u64 \<Rightarrow> u64 \<Rightarrow> u64 list" where
  "chunk_range offset end' cs =
     (let cs = max cs 1
      in map of_nat [unat (offset div cs) ..< Suc (unat ((end' - 1) div cs))])"

definition not_cached :: error where
  "not_cached = Unavailable ''file contents are not cached and the mount is offline''"

definition current_content :: "'j Store \<Rightarrow> RemotePath \<Rightarrow> ContentRef option" where
  "current_content s path =
     Option.bind (Option.bind (fmlookup (entries (index s)) (as_str path)) content)
       (\<lambda>c. if c_chunk_size c = chunk_size s then Some c else None)"

definition cached_chunk :: "'j Store \<Rightarrow> RemotePath \<Rightarrow> FileAttributes \<Rightarrow> u64 \<Rightarrow> u64 option" where
  "cached_chunk s path a chunk =
     Option.bind (Option.bind (fmlookup (entries (index s)) (as_str path)) content)
       (\<lambda>c. if c_size c = fsize a \<and> c_modified c = modified_unix_seconds a
               \<and> c_chunk_size c = chunk_size s
            then fmlookup (c_chunks c) chunk else None)"

function read_loop :: "bytes \<Rightarrow> nat \<Rightarrow> nat \<Rightarrow> bytes \<Rightarrow> 'j cache_dir \<Rightarrow> bytes result \<times> 'j cache_dir" where
  "read_loop file offset len buffer d =
     (if length buffer < len then
        (case io_next d of
           (IoFail e, d') \<Rightarrow> (Err (cache_io e), d')
         | (outcome, d') \<Rightarrow>
             (let available = take (len - length buffer) (drop (offset + length buffer) file);
                  got = (case outcome of IoShort k \<Rightarrow> take (max 1 k) available | _ \<Rightarrow> available)
              in if got = [] then (Ok buffer, d') else read_loop file offset len (buffer @ got) d'))
      else (Ok buffer, d))"
  by pat_completeness auto
termination
  by (relation "measure (\<lambda>(file, offset, len, buffer, d). len - length buffer)")
     (auto split: io_outcome.splits)

declare read_loop.simps [simp del]

definition read_object :: "'j Store \<Rightarrow> u64 \<Rightarrow> u64 \<Rightarrow> u32 \<Rightarrow> bytes result \<times> 'j Store" where
  "read_object s ob offset sz =
     (case io_call (dir s) of
        (Err e, d) \<Rightarrow> (Err e, s\<lparr>dir := d\<rparr>)
      | (Ok _, d) \<Rightarrow>
          (case fmlookup (objects d) ob of
             None \<Rightarrow> (Err (cache_io os_not_found), s\<lparr>dir := d\<rparr>)
           | Some file \<Rightarrow>
               (case io_call d of
                  (Err e, d') \<Rightarrow> (Err e, s\<lparr>dir := d'\<rparr>)
                | (Ok _, d') \<Rightarrow>
                    (case read_loop file (unat offset) (unat sz) [] d' of
                       (r, d'') \<Rightarrow> (r, s\<lparr>dir := d''\<rparr>)))))"

fun read_chunks ::
  "'j Store \<Rightarrow> (u64, u64) fmap \<Rightarrow> u64 \<Rightarrow> u64 \<Rightarrow> u64 list \<Rightarrow> bytes \<Rightarrow> bytes result \<times> 'j Store" where
  "read_chunks s chunks offset end' [] data = (Ok data, s)"
| "read_chunks s chunks offset end' (chunk # rest) data =
     (case fmlookup chunks chunk of
        None \<Rightarrow> (Err not_cached, s)
      | Some ob \<Rightarrow>
          (let chunk_start = chunk * chunk_size s;
               read_start = max offset chunk_start - chunk_start;
               read_end = min end' (chunk_start + chunk_size s) - chunk_start
           in case read_object s ob read_start (ucast (read_end - read_start)) of
                (Err e, s') \<Rightarrow> (Err e, s')
              | (Ok got, s') \<Rightarrow> read_chunks s' chunks offset end' rest (data @ got)))"

definition read_cached_range :: "'j Store \<Rightarrow> RemotePath \<Rightarrow> u64 \<Rightarrow> u64 \<Rightarrow> bytes result \<times> 'j Store" where
  "read_cached_range s path offset end' =
     (case current_content s path of
        None \<Rightarrow> (Err not_cached, s)
      | Some c \<Rightarrow> read_chunks s (c_chunks c) offset end' (chunk_range offset end' (chunk_size s)) [])"

definition read_cached :: "'j Store \<Rightarrow> RemotePath \<Rightarrow> u64 \<Rightarrow> u32 \<Rightarrow> bytes result \<times> 'j Store" where
  "read_cached s path offset sz =
     (case map_option c_size (current_content s path) of
        None \<Rightarrow> (Err not_cached, s)
      | Some size_on_server \<Rightarrow>
          if sz = 0 \<or> size_on_server \<le> offset then (Ok [], s)
          else read_cached_range s path offset
                 (min (saturating_add offset (ucast sz)) size_on_server))"

function download_loop ::
  "'w RemoteFilesystem \<Rightarrow> RemotePath \<Rightarrow> u64 \<times> u64 \<Rightarrow> u64 \<Rightarrow> u64 \<Rightarrow> bytes \<Rightarrow> 'j cache_dir \<Rightarrow> 'w
   \<Rightarrow> unit result \<times> 'j cache_dir \<times> 'w" where
  "download_loop remote path temp chunk_start chunk_len written d w =
     (if length written < unat chunk_len then
        (let want = min (unat chunk_len - length written) (2 ^ 32 - 1)
         in case rf_read remote path (chunk_start + of_nat (length written)) (of_nat want) w of
              (Err e, w') \<Rightarrow> (Err e, d, w')
            | (Ok data, w') \<Rightarrow>
                if data = [] then (Ok (), d, w')
                else (case io_call d of
                        (Err e, d') \<Rightarrow> (Err e, d', w')
                      | (Ok _, d') \<Rightarrow>
                          download_loop remote path temp chunk_start chunk_len (written @ data)
                            (d'\<lparr>tmp := fmupd temp (written @ data) (tmp d')\<rparr>) w'))
      else (Ok (), d, w))"
  by pat_completeness auto
termination
  by (relation "measure (\<lambda>(remote, path, temp, chunk_start, chunk_len, written, d, w).
        unat chunk_len - length written)") (auto intro!: diff_less_mono2)

declare download_loop.simps [simp del]

definition download ::
  "'w RemoteFilesystem \<Rightarrow> RemotePath \<Rightarrow> FileAttributes \<Rightarrow> u64 \<Rightarrow> u64 \<Rightarrow> u64 \<times> u64 \<Rightarrow> 'j cache_dir \<Rightarrow> 'w
   \<Rightarrow> unit result \<times> 'j cache_dir \<times> 'w" where
  "download remote path a cs chunk temp d w =
     (case io_call d of
        (Err e, d) \<Rightarrow> (Err e, d, w)
      | (Ok _, d) \<Rightarrow>
          (let chunk_start = chunk * cs;
               chunk_len = min (fsize a - chunk_start) cs
           in case download_loop remote path temp chunk_start chunk_len []
                     (d\<lparr>tmp := fmupd temp [] (tmp d)\<rparr>) w of
                (Err e, d, w) \<Rightarrow> (Err e, d, w)
              | (Ok _, d, w) \<Rightarrow> (case io_call d of (r, d) \<Rightarrow> (r, d, w))))"

definition record_chunk ::
  "u64 \<Rightarrow> FileAttributes \<Rightarrow> Entry option \<Rightarrow> u64 \<Rightarrow> u64 \<Rightarrow> u64 list \<times> Entry" where
  "record_chunk cs a entry chunk ob =
     (let entry = (case entry of
                     Some e \<Rightarrow> e
                   | None \<Rightarrow> \<lparr>attrs = to_stored a, content = None\<rparr>);
          c = (case content entry of
                 Some c \<Rightarrow> c
               | None \<Rightarrow> \<lparr>c_size = fsize a, c_modified = modified_unix_seconds a, c_chunk_size = cs,
                          c_chunks = fmempty, c_object = None\<rparr>);
          (stale, c) =
            (if c_size c \<noteq> fsize a \<or> c_modified c \<noteq> modified_unix_seconds a \<or> c_chunk_size c \<noteq> cs
             then (content_objects c, c\<lparr>c_chunks := fmempty, c_object := None\<rparr>) else ([], c));
          c = c\<lparr>c_size := fsize a, c_modified := modified_unix_seconds a, c_chunk_size := cs\<rparr>;
          replaced = (case fmlookup (c_chunks c) chunk of None \<Rightarrow> [] | Some old \<Rightarrow> [old])
      in (stale @ replaced, entry\<lparr>content := Some (c\<lparr>c_chunks := fmupd chunk ob (c_chunks c)\<rparr>)\<rparr>))"

definition fetch_chunk ::
  "'j Store \<Rightarrow> 'w RemoteFilesystem \<Rightarrow> RemotePath \<Rightarrow> FileAttributes \<Rightarrow> u64 \<Rightarrow> 'w
   \<Rightarrow> u64 result \<times> 'j Store \<times> 'w" where
  "fetch_chunk s remote path a chunk w =
     (case io_calls 2 (dir s) of
        (Err e, d) \<Rightarrow> (Err e, s\<lparr>dir := d\<rparr>, w)
      | (Ok _, d) \<Rightarrow>
          (let ob = next_object (index s);
               temp = (ob, temp_counter s);
               s = s\<lparr>index := (index s)\<lparr>next_object := ob + 1\<rparr>, temp_counter := temp_counter s + 1\<rparr>
           in case download remote path a (chunk_size s) chunk temp d w of
                (Err e, d, w) \<Rightarrow> (Err e, s\<lparr>dir := remove_temp_file temp d\<rparr>, w)
              | (Ok _, d, w) \<Rightarrow>
                  (case io_call d of
                     (Err e, d) \<Rightarrow> (Err e, s\<lparr>dir := d\<rparr>, w)
                   | (Ok _, d) \<Rightarrow>
                       (case fmlookup (tmp d) temp of
                          None \<Rightarrow> (Err (cache_io os_not_found), s\<lparr>dir := d\<rparr>, w)
                        | Some file \<Rightarrow>
                            (let s = s\<lparr>dir := d\<lparr>objects := fmupd ob file (objects d),
                                                tmp := fmdrop temp (tmp d)\<rparr>\<rparr>;
                                 (stale, entry) = record_chunk (chunk_size s) a
                                    (fmlookup (entries (index s)) (as_str path)) chunk ob;
                                 s = remove_objects stale s;
                                 s = s\<lparr>index := (index s)\<lparr>entries :=
                                        fmupd (as_str path) entry (entries (index s))\<rparr>\<rparr>
                             in (Ok ob, persist s, w))))))"

fun fetch_missing ::
  "'j Store \<Rightarrow> 'w RemoteFilesystem \<Rightarrow> RemotePath \<Rightarrow> FileAttributes \<Rightarrow> u64 list \<Rightarrow> 'w
   \<Rightarrow> unit result \<times> 'j Store \<times> 'w" where
  "fetch_missing s remote path a [] w = (Ok (), s, w)"
| "fetch_missing s remote path a (chunk # rest) w =
     (case cached_chunk s path a chunk of
        Some _ \<Rightarrow> fetch_missing s remote path a rest w
      | None \<Rightarrow>
          (case fetch_chunk s remote path a chunk w of
             (Err e, s', w') \<Rightarrow> (Err e, s', w')
           | (Ok _, s', w') \<Rightarrow> fetch_missing s' remote path a rest w'))"

definition store_read ::
  "'j Store \<Rightarrow> RemotePath \<Rightarrow> 'w RemoteFilesystem \<Rightarrow> FileAttributes \<Rightarrow> u64 \<Rightarrow> u32 \<Rightarrow> 'w
   \<Rightarrow> bytes result \<times> 'j Store \<times> 'w" where
  "store_read s path remote a offset sz w =
     (if sz = 0 \<or> fsize a \<le> offset then (Ok [], s, w)
      else
        (let end' = min (saturating_add offset (ucast sz)) (fsize a)
         in case fetch_missing s remote path a (chunk_range offset end' (chunk_size s)) w of
              (Err e, s', w') \<Rightarrow> (Err e, s', w')
            | (Ok _, s', w') \<Rightarrow>
                (case read_cached_range s' path offset end' of (r, s'') \<Rightarrow> (r, s'', w'))))"

end
