(* ===== verification/Store_Invariant.thy ===== *)
theory Store_Invariant
  imports Cache_Store
begin

text \<open>
  The referential invariant of the store: every content object that the in-memory index refers to is
  a file of the cache directory, was allocated before, and is referred to once.  Every operation keeps
  it, whatever file-system calls fail; it is stated over the runs of the store as a step relation.
\<close>

section \<open>Frame equations\<close>

lemma io_next_frame: "io_next d = (x, d') \<Longrightarrow> \<exists>pl. d' = d\<lparr>io_plan := pl\<rparr>"
  by (auto simp: io_next_def split: list.splits) (metis cache_dir.surjective cache_dir.update_convs(4))

lemma io_call_frame: "io_call d = (r, d') \<Longrightarrow> \<exists>pl. d' = d\<lparr>io_plan := pl\<rparr>"
  by (cases "io_next d") (auto simp: io_call_def dest: io_next_frame split: io_outcome.splits)

lemma io_calls_frame: "io_calls n d = (r, d') \<Longrightarrow> \<exists>pl. d' = d\<lparr>io_plan := pl\<rparr>"
proof (induction n arbitrary: d)
  case 0
  then show ?case by (auto intro: exI[of _ "io_plan d"])
next
  case (Suc n)
  obtain r1 d1 where c: "io_call d = (r1, d1)" by fastforce
  then obtain pl where d1: "d1 = d\<lparr>io_plan := pl\<rparr>" using io_call_frame by blast
  show ?case
  proof (cases r1)
    case (Ok u)
    with Suc.prems c have "io_calls n d1 = (r, d')" by simp
    with Suc.IH d1 show ?thesis by force
  next
    case (Err e)
    with Suc.prems c d1 show ?thesis by auto
  qed
qed

lemma read_loop_frame: "read_loop fl pos len buf d = (r, d') \<Longrightarrow> \<exists>pl. d' = d\<lparr>io_plan := pl\<rparr>"
proof (induction fl pos len buf d arbitrary: r d' rule: read_loop.induct)
  case (1 fl pos len buf d)
  obtain x d1 where n: "io_next d = (x, d1)" by fastforce
  then obtain pl where d1: "d1 = d\<lparr>io_plan := pl\<rparr>" using io_next_frame by blast
  show ?case
  proof (cases "length buf < len")
    case False
    with "1.prems" show ?thesis
      by (auto simp: read_loop.simps[of fl pos len buf d] intro: exI[of _ "io_plan d"])
  next
    case True
    let ?av = "take (len - length buf) (drop (pos + length buf) fl)"
    let ?got = "case x of IoShort k \<Rightarrow> take (max 1 k) ?av | _ \<Rightarrow> ?av"
    show ?thesis
    proof (cases "(\<exists>e. x = IoFail e) \<or> ?got = []")
      case c: True
      with "1.prems" True n d1 show ?thesis
        by (auto simp: read_loop.simps[of fl pos len buf d] Let_def split: io_outcome.splits)
    next
      case False
      with "1.prems" True n have "read_loop fl pos len (buf @ ?got) d1 = (r, d')"
        by (auto simp: read_loop.simps[of fl pos len buf d] Let_def split: io_outcome.splits)
      then have "\<exists>pl. d' = d1\<lparr>io_plan := pl\<rparr>"
        using "1.IH"[OF True] n False by (cases x) (auto simp: Let_def)
      with d1 show ?thesis by auto
    qed
  qed
qed

lemma remove_object_file_cases:
  obtains pl where "remove_object_file ob d = d\<lparr>io_plan := pl\<rparr>"
  | pl where "remove_object_file ob d = d\<lparr>io_plan := pl, objects := fmdrop ob (objects d)\<rparr>"
proof -
  obtain r d1 where c: "io_call d = (r, d1)" by fastforce
  then obtain pl where "d1 = d\<lparr>io_plan := pl\<rparr>" using io_call_frame by blast
  with c that show ?thesis
    by (cases r) (auto simp: remove_object_file_def)
qed

lemma remove_object_file_frame [store_simps]:
  "tmp (remove_object_file ob d) = tmp d"
  "index_json (remove_object_file ob d) = index_json d"
  by (rule remove_object_file_cases[of ob d]; simp)+

lemma remove_temp_file_frame [store_simps]:
  "objects (remove_temp_file t d) = objects d"
  "index_json (remove_temp_file t d) = index_json d"
  using io_call_frame[of d]
  by (auto simp: remove_temp_file_def split: prod.splits result.splits)

lemma fold_remove_frame [store_simps]:
  "tmp (fold remove_object_file obs d) = tmp d"
  "index_json (fold remove_object_file obs d) = index_json d"
  by (induction obs arbitrary: d) (simp_all add: store_simps)

lemma fold_remove_objects_other:
  "ob \<notin> set obs \<Longrightarrow> fmlookup (objects (fold remove_object_file obs d)) ob = fmlookup (objects d) ob"
proof (induction obs arbitrary: d)
  case Nil
  then show ?case by simp
next
  case (Cons a obs)
  have "fmlookup (objects (remove_object_file a d)) ob = fmlookup (objects d) ob"
    using Cons.prems by (rule_tac remove_object_file_cases[of a d]) auto
  with Cons show ?case by simp
qed

lemma persist_frame [store_simps, simp]:
  "index (persist s) = index s" "chunk_size (persist s) = chunk_size s"
  "temp_counter (persist s) = temp_counter s" "json (persist s) = json s"
  "objects (dir (persist s)) = objects (dir s)" "tmp (dir (persist s)) = tmp (dir s)"
  using io_call_frame[of "dir s"] io_calls_frame[of 4]
  by (auto simp: persist_def split: prod.splits result.splits option.splits) (fastforce)+

lemma remove_objects_frame [store_simps, simp]:
  "index (remove_objects obs s) = index s" "chunk_size (remove_objects obs s) = chunk_size s"
  "temp_counter (remove_objects obs s) = temp_counter s" "json (remove_objects obs s) = json s"
  "tmp (dir (remove_objects obs s)) = tmp (dir s)"
  "index_json (dir (remove_objects obs s)) = index_json (dir s)"
  by (simp_all add: remove_objects_def store_simps)

lemma remove_objects_other [simp]:
  "ob \<notin> set obs \<Longrightarrow>
   fmlookup (objects (dir (remove_objects obs s))) ob = fmlookup (objects (dir s)) ob"
  by (simp add: remove_objects_def fold_remove_objects_other)

lemma entry_objects_simps [simp]:
  "entry_objects None = []"
  "content e = None \<Longrightarrow> entry_objects (Some e) = []"
  "content e = Some c \<Longrightarrow> entry_objects (Some e) = content_objects c"
  by (simp_all add: entry_objects_def)

section \<open>The referential invariant\<close>

definition object_list :: "Index \<Rightarrow> string \<Rightarrow> u64 list" where
  "object_list ix k = entry_objects (fmlookup (entries ix) k)"

definition refs_ok :: "Index \<Rightarrow> (u64, bytes) fmap \<Rightarrow> bool" where
  "refs_ok ix obs \<longleftrightarrow>
     (\<forall>k. \<forall>ob \<in> set (object_list ix k). unat ob < unat (next_object ix) \<and> ob \<in> fmdom' obs) \<and>
     (\<forall>k k'. k \<noteq> k' \<longrightarrow> set (object_list ix k) \<inter> set (object_list ix k') = {}) \<and>
     (\<forall>k. distinct (object_list ix k))"

definition store_inv :: "'j Store \<Rightarrow> bool" where
  "store_inv s \<longleftrightarrow> 0 < chunk_size s \<and> refs_ok (index s) (objects (dir s))"

definition shrink :: "Index \<Rightarrow> Index \<Rightarrow> u64 list \<Rightarrow> bool" where
  "shrink ix ix' stale \<longleftrightarrow>
     next_object ix' = next_object ix \<and>
     (\<forall>k. object_list ix' k = [] \<or> object_list ix' k = object_list ix k) \<and>
     (\<forall>ob \<in> set stale. \<exists>k. ob \<in> set (object_list ix k) \<and> object_list ix' k = [])"

lemma shrink_refl: "shrink ix ix []"
  by (simp add: shrink_def)

lemma shrink_trans:
  assumes "shrink ix ix1 st1" "shrink ix1 ix2 st2"
  shows "shrink ix ix2 (st1 @ st2)"
  unfolding shrink_def
proof (intro conjI allI ballI)
  show "next_object ix2 = next_object ix"
    using assms by (simp add: shrink_def)
next
  fix k
  show "object_list ix2 k = [] \<or> object_list ix2 k = object_list ix k"
    using assms unfolding shrink_def by metis
next
  fix ob
  assume "ob \<in> set (st1 @ st2)"
  then consider "ob \<in> set st1" | "ob \<in> set st2" by auto
  then show "\<exists>k. ob \<in> set (object_list ix k) \<and> object_list ix2 k = []"
  proof cases
    case 1
    with assms show ?thesis unfolding shrink_def by metis
  next
    case 2
    with assms(2) obtain k where "ob \<in> set (object_list ix1 k)" "object_list ix2 k = []"
      unfolding shrink_def by blast
    with assms(1) show ?thesis unfolding shrink_def by (metis list.set(1) empty_iff)
  qed
qed

lemma refs_ok_shrink:
  assumes ok: "refs_ok ix obs" and sh: "shrink ix ix' stale"
    and keep: "\<And>ob. ob \<notin> set stale \<Longrightarrow> fmlookup obs' ob = fmlookup obs ob"
  shows "refs_ok ix' obs'"
proof -
  have sub: "set (object_list ix' k) \<subseteq> set (object_list ix k)" for k
    using sh unfolding shrink_def by (metis empty_subsetI list.set(1) order_refl)
  have "ob \<notin> set stale" if ob: "ob \<in> set (object_list ix' k)" for ob k
  proof
    assume "ob \<in> set stale"
    then obtain k' where k': "ob \<in> set (object_list ix k')" "object_list ix' k' = []"
      using sh unfolding shrink_def by blast
    with ob have "k \<noteq> k'" by auto
    with k'(1) ob sub ok show False unfolding refs_ok_def by blast
  qed
  then have dom: "ob \<in> fmdom' obs'" if "ob \<in> set (object_list ix' k)" for ob k
    using that sub ok keep unfolding refs_ok_def by (metis fmlookup_dom'_iff subsetD)
  have "distinct (object_list ix' k)" for k
    using sh ok unfolding shrink_def refs_ok_def by (metis distinct.simps(1))
  moreover have "unat ob < unat (next_object ix')" if "ob \<in> set (object_list ix' k)" for ob k
    using that sub sh ok unfolding refs_ok_def shrink_def by auto
  moreover have "set (object_list ix' k) \<inter> set (object_list ix' k') = {}" if "k \<noteq> k'" for k k'
    using that sub ok unfolding refs_ok_def by blast
  ultimately show ?thesis
    using dom unfolding refs_ok_def by blast
qed

lemma store_inv_shrink:
  assumes "store_inv s" "shrink (index s) ix stale"
  shows "store_inv (remove_objects stale (persist (s\<lparr>index := ix\<rparr>)))"
    "store_inv (remove_objects stale (s\<lparr>index := ix\<rparr>))"
  using assms refs_ok_shrink[where obs = "objects (dir s)", OF _ assms(2)]
  unfolding store_inv_def by auto

lemma store_inv_persist [simp]: "store_inv (persist s) = store_inv s"
  by (simp add: store_inv_def)

lemma store_inv_plan [simp]: "store_inv (s\<lparr>dir := (dir s)\<lparr>io_plan := pl\<rparr>\<rparr>) = store_inv s"
  by (simp add: store_inv_def)

lemma store_inv_listings [simp]:
  "store_inv (s\<lparr>index := (index s)\<lparr>listings := l\<rparr>\<rparr>) = store_inv s"
  by (simp add: store_inv_def refs_ok_def object_list_def)

section \<open>Metadata operations keep the invariant\<close>

lemma object_list_upd:
  "object_list (ix\<lparr>entries := fmupd key e m\<rparr>) k =
   (if k = key then entry_objects (Some e) else entry_objects (fmlookup m k))"
  by (simp add: object_list_def)

lemma shrink_key:
  assumes "next_object ix' = next_object ix"
    and "\<And>k. k \<noteq> key \<Longrightarrow> fmlookup (entries ix') k = fmlookup (entries ix) k"
    and "object_list ix' key = [] \<and> stale = object_list ix key
       \<or> object_list ix' key = object_list ix key \<and> stale = []"
  shows "shrink ix ix' stale"
proof -
  have "object_list ix' k = object_list ix k" if "k \<noteq> key" for k
    using assms(2)[OF that] by (simp add: object_list_def)
  with assms(1,3) show ?thesis unfolding shrink_def by (metis empty_iff list.set(1))
qed

lemma store_attrs_shrink:
  assumes "store_attrs ix key a = (stale, ix')"
  shows "shrink ix ix' stale"
  using assms
  by (intro shrink_key[where key = key])
     (auto simp: store_attrs_def object_list_def Let_def split: option.splits if_splits)

lemma record_children_shrink:
  "record_children parent cs ix orphans = (orphans', ix') \<Longrightarrow>
   \<exists>new. orphans' = orphans @ new \<and> shrink ix ix' new"
proof (induction parent cs ix orphans rule: record_children.induct)
  case (1 parent ix orphans)
  then show ?case by (simp add: shrink_refl)
next
  case (2 parent name a rest ix orphans)
  show ?case
  proof (cases "RemotePath_join parent name")
    case (Err e)
    with 2 show ?thesis by simp
  next
    case (Ok child)
    obtain obs ix1 where sa: "store_attrs ix (as_str child) a = (obs, ix1)" by fastforce
    with 2 Ok obtain new where "orphans' = (orphans @ obs) @ new" "shrink ix1 ix' new"
      by fastforce
    with shrink_trans[OF store_attrs_shrink[OF sa]] show ?thesis by auto
  qed
qed

lemma shrink_listings:
  "shrink ix (ix'\<lparr>listings := l\<rparr>) stale = shrink ix ix' stale"
  by (simp add: shrink_def object_list_def)

lemma put_attrs_inv: "store_inv s \<Longrightarrow> store_inv (put_attrs s p a)"
  by (auto simp: put_attrs_def split: prod.splits intro: store_inv_shrink(1) store_attrs_shrink)

lemma record_listing_inv: "store_inv s \<Longrightarrow> store_inv (record_listing s p cs)"
  using record_children_shrink[of p cs "index s" "[]"]
  by (force simp: record_listing_def shrink_listings split: prod.splits intro!: store_inv_shrink(1))

lemma invalidate_children_inv: "store_inv s \<Longrightarrow> store_inv (invalidate_children s p)"
  by (simp add: invalidate_children_def split: option.splits)

lemma drop_entry_shrink:
  "shrink ix (ix\<lparr>entries := fmdrop key (entries ix), listings := l\<rparr>)
     (entry_objects (fmlookup (entries ix) key))"
  by (intro shrink_key[where key = key]) (auto simp: object_list_def)

lemma shrink_weaken: "shrink ix ix' stale \<Longrightarrow> set st \<subseteq> set stale \<Longrightarrow> shrink ix ix' st"
  unfolding shrink_def by blast

lemma store_remove_inv:
  assumes "store_inv s"
  shows "store_inv (store_remove s p)"
proof -
  let ?key = "as_str p"
  let ?ix = "(index s)\<lparr>entries := fmdrop ?key (entries (index s)),
                       listings := fmdrop ?key (listings (index s))\<rparr>"
  let ?stale = "entry_objects (fmlookup (entries (index s)) ?key)"
  have sh: "shrink (index s) ?ix ?stale" by (rule drop_entry_shrink)
  have "store_remove s p = remove_objects ?stale (persist (s\<lparr>index := ?ix\<rparr>))
      \<or> store_remove s p = remove_objects ?stale (s\<lparr>index := ?ix\<rparr>)"
    by (auto simp: store_remove_def Let_def entry_objects_def remove_objects_def split: option.splits)
  with store_inv_shrink[OF assms sh] show ?thesis by auto
qed

lemma invalidate_content_inv:
  assumes "store_inv s"
  shows "store_inv (invalidate_content s p)"
proof (cases "fmlookup (entries (index s)) (as_str p)")
  case None
  with assms show ?thesis by (simp add: invalidate_content_def)
next
  case (Some e)
  let ?ix = "(index s)\<lparr>entries := fmupd (as_str p) (e\<lparr>content := None\<rparr>) (entries (index s))\<rparr>"
  have "shrink (index s) ?ix (entry_objects (Some e))"
    using Some by (intro shrink_key[where key = "as_str p"]) (auto simp: object_list_def)
  from store_inv_shrink[OF assms this] Some show ?thesis
    by (auto simp: invalidate_content_def Let_def)
qed

lemma move_key_lookup:
  "fmlookup (move_key from to m) k =
   (if fmlookup m from = None then fmlookup m k
    else if k = to then fmlookup m from else if k = from then None else fmlookup m k)"
  by (auto simp: move_key_def split: option.splits)

lemma move_refs_ok:
  assumes "refs_ok ix obs"
  shows "refs_ok (ix\<lparr>entries := move_key from to (entries ix), listings := l\<rparr>) obs"
proof -
  let ?ix = "ix\<lparr>entries := move_key from to (entries ix), listings := l\<rparr>"
  have "\<exists>f. (\<forall>k. object_list ?ix k = [] \<or> object_list ?ix k = object_list ix (f k))
      \<and> (\<forall>k k'. k \<noteq> k' \<longrightarrow> object_list ?ix k \<noteq> [] \<longrightarrow> object_list ?ix k' \<noteq> [] \<longrightarrow> f k \<noteq> f k')"
  proof (cases "fmlookup (entries ix) from = None")
    case True
    then show ?thesis
      by (intro exI[of _ id]) (simp add: object_list_def move_key_lookup)
  next
    case False
    then show ?thesis
      by (intro exI[of _ "\<lambda>k. if k = to then from else k"])
         (auto simp: object_list_def move_key_lookup)
  qed
  then obtain f where f: "\<And>k. object_list ?ix k = [] \<or> object_list ?ix k = object_list ix (f k)"
    and inj: "\<And>k k'. k \<noteq> k' \<Longrightarrow> object_list ?ix k \<noteq> [] \<Longrightarrow> object_list ?ix k' \<noteq> [] \<Longrightarrow> f k \<noteq> f k'"
    by blast
  show ?thesis
    unfolding refs_ok_def
  proof (intro conjI allI ballI impI)
    fix k ob
    assume "ob \<in> set (object_list ?ix k)"
    then have "ob \<in> set (object_list ix (f k))"
      using f[of k] by (metis empty_iff list.set(1))
    with assms show "unat ob < unat (next_object ?ix)" "ob \<in> fmdom' obs"
      by (auto simp: refs_ok_def)
  next
    fix k k' :: string
    assume "k \<noteq> k'"
    with inj[of k k'] f[of k] f[of k'] assms
    show "set (object_list ?ix k) \<inter> set (object_list ?ix k') = {}"
      unfolding refs_ok_def by (metis Int_empty_left Int_empty_right list.set(1))
  next
    fix k
    show "distinct (object_list ?ix k)"
      using f[of k] assms unfolding refs_ok_def by (metis distinct.simps(1))
  qed
qed

lemma drop_keys_shrink:
  "shrink ix (ix\<lparr>entries := fold fmdrop ks (entries ix), listings := l\<rparr>)
     (concat (map (\<lambda>k. entry_objects (fmlookup (entries ix) k)) ks))"
  unfolding shrink_def by (auto simp: object_list_def fold_fmdrop_lookup)

lemma store_rename_inv:
  assumes "store_inv s"
  shows "store_inv (store_rename s from to)"
proof -
  let ?ix = "(index s)\<lparr>entries := move_key (as_str from) (as_str to) (entries (index s)),
                       listings := move_key (as_str from) (as_str to) (listings (index s))\<rparr>"
  let ?ks = "filter (prefix (as_str from @ ''/'')) (fm_keys (entries ?ix))"
  have "store_inv (s\<lparr>index := ?ix\<rparr>)"
    using assms move_refs_ok by (auto simp: store_inv_def)
  from store_inv_shrink(1)[OF this, of "?ix\<lparr>entries := fold fmdrop ?ks (entries ?ix),
        listings := fold fmdrop ?ks (listings ?ix)\<rparr>"]
    drop_keys_shrink[where ix = ?ix and ks = ?ks]
  show ?thesis by (simp add: store_rename_def Let_def)
qed

section \<open>Fetching and reading keep the invariant\<close>

lemma download_loop_frame:
  "download_loop R p temp cst cl wr d w = (r, d', w') \<Longrightarrow> objects d' = objects d \<and> index_json d' = index_json d"
proof (induction R p temp cst cl wr d w arbitrary: r d' w' rule: download_loop.induct)
  case (1 R p temp cst cl wr d w)
  let ?want = "min (unat cl - length wr) (2 ^ 32 - 1)"
  show ?case
  proof (cases "length wr < unat cl")
    case False
    with "1.prems" show ?thesis by (simp add: download_loop.simps[of R p temp cst cl wr d w])
  next
    case less: True
    obtain rr w1 where rd: "rf_read R p (cst + of_nat (length wr)) (of_nat ?want) w = (rr, w1)"
      by fastforce
    obtain q d1 where io: "io_call d = (q, d1)" by fastforce
    then obtain pl where d1: "d1 = d\<lparr>io_plan := pl\<rparr>" using io_call_frame by blast
    show ?thesis
    proof (cases "\<exists>data. rr = Ok data \<and> data \<noteq> [] \<and> q = Ok ()")
      case False
      with "1.prems" less rd io d1 show ?thesis
        by (cases rr; cases q)
           (auto simp: download_loop.simps[of R p temp cst cl wr d w] Let_def split: if_splits)
    next
      case True
      then obtain data where data: "rr = Ok data" "data \<noteq> []" "q = Ok ()" by blast
      with "1.prems" less rd io have
        "download_loop R p temp cst cl (wr @ data) (d1\<lparr>tmp := fmupd temp (wr @ data) (tmp d1)\<rparr>) w1
          = (r, d', w')"
        by (simp add: download_loop.simps[of R p temp cst cl wr d w] Let_def)
      from "1.IH"[OF less refl rd[symmetric] data(1) _ io[symmetric] data(3) this] data(2) d1
      show ?thesis by simp
    qed
  qed
qed

lemma download_frame:
  assumes "download R p a cs chunk temp d w = (r, d', w')"
  shows "objects d' = objects d" "index_json d' = index_json d"
proof -
  obtain q1 d1 where c1: "io_call d = (q1, d1)" by fastforce
  then obtain pl1 where d1: "d1 = d\<lparr>io_plan := pl1\<rparr>" using io_call_frame by blast
  obtain r2 d2 w2 where dl: "download_loop R p temp (chunk * cs) (min (fsize a - chunk * cs) cs) []
      (d1\<lparr>tmp := fmupd temp [] (tmp d1)\<rparr>) w = (r2, d2, w2)"
    by (cases "download_loop R p temp (chunk * cs) (min (fsize a - chunk * cs) cs) []
      (d1\<lparr>tmp := fmupd temp [] (tmp d1)\<rparr>) w") auto
  have d2: "objects d2 = objects d" "index_json d2 = index_json d"
    using download_loop_frame[OF dl] d1 by auto
  obtain q3 d3 where c3: "io_call d2 = (q3, d3)" by fastforce
  then obtain pl3 where d3: "d3 = d2\<lparr>io_plan := pl3\<rparr>" using io_call_frame by blast
  show "objects d' = objects d" "index_json d' = index_json d"
    using assms c1 dl d1 d2 c3 d3
    by (auto simp: download_def Let_def split: result.splits)
qed

lemma record_chunk_objects:
  assumes "record_chunk cs a e chunk ob = (stale, e')"
    and fresh: "ob \<notin> set (entry_objects e)" and dist: "distinct (entry_objects e)"
  shows "set (entry_objects (Some e')) \<subseteq> insert ob (set (entry_objects e))"
    "set stale \<subseteq> set (entry_objects e)"
    "set stale \<inter> set (entry_objects (Some e')) = {}"
    "distinct (entry_objects (Some e'))"
proof -
  define c where "c = (case Option.bind e content of
      Some c \<Rightarrow> c
    | None \<Rightarrow> \<lparr>c_size = fsize a, c_modified = modified_unix_seconds a, c_chunk_size = cs,
               c_chunks = fmempty, c_object = None\<rparr>)"
  define mismatch where "mismatch \<longleftrightarrow>
      c_size c \<noteq> fsize a \<or> c_modified c \<noteq> modified_unix_seconds a \<or> c_chunk_size c \<noteq> cs"
  have obs: "set (content_objects c) = set (entry_objects e)" "distinct (content_objects c)"
    using dist by (auto simp: c_def entry_objects_def content_objects_def split: option.splits)
  have e': "content e' = Some (if mismatch
      then c\<lparr>c_chunks := fmupd chunk ob fmempty, c_object := None, c_size := fsize a,
             c_modified := modified_unix_seconds a, c_chunk_size := cs\<rparr>
      else c\<lparr>c_chunks := fmupd chunk ob (c_chunks c)\<rparr>)"
    and st: "stale = (if mismatch then content_objects c
      else (case fmlookup (c_chunks c) chunk of None \<Rightarrow> [] | Some old \<Rightarrow> [old]))"
    using assms(1)
    by (auto simp: record_chunk_def Let_def c_def mismatch_def split: option.splits if_splits)
  note facts = set_fm_values distinct_fm_values content_objects_def
  have "set (entry_objects (Some e')) \<subseteq> insert ob (set (content_objects c))
    \<and> set stale \<subseteq> set (content_objects c)
    \<and> set stale \<inter> set (entry_objects (Some e')) = {}
    \<and> distinct (entry_objects (Some e'))"
  proof (cases mismatch)
    case True
    with e' st fresh obs(1) show ?thesis by (auto simp: facts)
  next
    case False
    with e' have c': "entry_objects (Some e') = content_objects (c\<lparr>c_chunks := fmupd chunk ob (c_chunks c)\<rparr>)"
      by simp
    have old: "k = chunk" if "fmlookup (c_chunks c) k = Some v" "fmlookup (c_chunks c) chunk = Some v" for k v
      using that obs(2) by (auto simp: facts)
    have new: "fmlookup (c_chunks c) k \<noteq> Some ob" "c_object c \<noteq> Some ob" for k
      using fresh unfolding obs(1)[symmetric] by (auto simp: facts)
    show ?thesis
      unfolding c' using False st old new obs(2)
      by (auto simp: facts split: option.splits if_splits)
  qed
  with obs show "set (entry_objects (Some e')) \<subseteq> insert ob (set (entry_objects e))"
    "set stale \<subseteq> set (entry_objects e)" "set stale \<inter> set (entry_objects (Some e')) = {}"
    "distinct (entry_objects (Some e'))"
    by auto
qed


lemma fetch_chunk_cases:
  fixes s :: "'j Store"
  assumes "fetch_chunk s R p a chunk w = (r, s', w')"
  obtains (fail) e d s1 where "r = Err e" "s' = s1\<lparr>dir := d\<rparr>" "objects d = objects (dir s)"
      "index_json d = index_json (dir s)"
      "s1 = s \<or> s1 = s\<lparr>index := (index s)\<lparr>next_object := next_object (index s) + 1\<rparr>,
                        temp_counter := temp_counter s + 1\<rparr>"
      "w' = w \<or> (\<exists>(d0 :: 'j cache_dir) q d1. download R p a (chunk_size s) chunk (next_object (index s), temp_counter s)
                   d0 w = (q, d1, w'))"
  | (fetched) d0 d1 pl fl stale entry s1 where
      "r = Ok (next_object (index s))" "objects d0 = objects (dir s)"
      "download R p a (chunk_size s) chunk (next_object (index s), temp_counter s) d0 w = (Ok (), d1, w')"
      "fmlookup (tmp d1) (next_object (index s), temp_counter s) = Some fl"
      "record_chunk (chunk_size s) a (fmlookup (entries (index s)) (as_str p)) chunk
         (next_object (index s)) = (stale, entry)"
      "s1 = s\<lparr>index := (index s)\<lparr>next_object := next_object (index s) + 1\<rparr>,
               temp_counter := temp_counter s + 1,
               dir := d1\<lparr>io_plan := pl, objects := fmupd (next_object (index s)) fl (objects d1),
                        tmp := fmdrop (next_object (index s), temp_counter s) (tmp d1)\<rparr>\<rparr>"
      "s' = persist ((remove_objects stale s1)\<lparr>index := (index s1)\<lparr>entries :=
               fmupd (as_str p) entry (entries (index s))\<rparr>\<rparr>)"
      "io_calls 2 (dir s) = (Ok (), d0)" "io_call d1 = (Ok (), d1\<lparr>io_plan := pl\<rparr>)"
proof -
  let ?ob = "next_object (index s)" and ?cs = "chunk_size s"
  let ?temp = "(?ob, temp_counter s)"
  obtain q0 d0 where c0: "io_calls 2 (dir s) = (q0, d0)" by fastforce
  then obtain pl0 where d0: "d0 = (dir s)\<lparr>io_plan := pl0\<rparr>" using io_calls_frame by blast
  obtain q1 d1 w1 where c1: "download R p a ?cs chunk ?temp d0 w = (q1, d1, w1)"
    by (cases "download R p a ?cs chunk ?temp d0 w") auto
  obtain q2 d2 where c2: "io_call d1 = (q2, d2)" by fastforce
  then obtain pl where d2: "d2 = d1\<lparr>io_plan := pl\<rparr>" using io_call_frame by blast
  have obs: "objects d1 = objects (dir s)" "index_json d1 = index_json (dir s)"
    using download_frame[OF c1] d0 by simp_all
  obtain stale entry where rc: "record_chunk ?cs a (fmlookup (entries (index s)) (as_str p)) chunk ?ob
      = (stale, entry)" by fastforce
  note eq = assms[unfolded fetch_chunk_def Let_def] c0 c1 c2 rc
  consider (early) e where "q0 = Err e"
    | (down) u e where "q0 = Ok u" "q1 = Err e"
    | (mv) u v e where "q0 = Ok u" "q1 = Ok v" "q2 = Err e"
    | (lost) u v x where "q0 = Ok u" "q1 = Ok v" "q2 = Ok x" "fmlookup (tmp d2) ?temp = None"
    | (ok) u v x fl where "q0 = Ok u" "q1 = Ok v" "q2 = Ok x" "fmlookup (tmp d2) ?temp = Some fl"
    by (metis result.exhaust option.exhaust)
  then show thesis
  proof cases
    case early
    with eq d0 show thesis by (intro fail[where ?s1.0 = s and d = d0]) auto
  next
    case down
    with eq obs show thesis by (auto simp: store_simps intro!: fail)
  next
    case mv
    with eq d2 obs show thesis by (auto intro!: fail)
  next
    case lost
    with eq d2 obs show thesis by (auto intro!: fail)
  next
    case ok
    with eq d0 d2 show thesis
      by (intro fetched[where ?d0.0 = d0 and ?d1.0 = d1 and fl = fl and pl = pl]) auto
  qed
qed


definition can_allocate :: "'j Store \<Rightarrow> nat \<Rightarrow> bool" where
  "can_allocate s n \<longleftrightarrow> unat (next_object (index s)) + n < 2 ^ 64"

lemma refs_ok_alloc:
  assumes "refs_ok ix obs" "unat (next_object ix) + 1 < 2 ^ 64"
    and "\<And>k. fmlookup obs k \<noteq> None \<Longrightarrow> fmlookup obs' k \<noteq> None"
  shows "refs_ok (ix\<lparr>next_object := next_object ix + 1\<rparr>) obs'"
proof -
  have "object_list (ix\<lparr>next_object := next_object ix + 1\<rparr>) k = object_list ix k" for k
    by (simp add: object_list_def)
  moreover have "ob \<in> fmdom' obs'" if "ob \<in> fmdom' obs" for ob
    using that assms(3) by (fastforce simp: fmlookup_dom'_iff)
  ultimately show ?thesis
    using assms(1,2) unat_Suc_u64[OF assms(2)] unfolding refs_ok_def by fastforce
qed

lemma refs_ok_replace:
  assumes ok: "refs_ok ix obs"
    and new: "set (entry_objects (Some e)) \<subseteq> insert ob (set (object_list ix key))"
    and ob: "unat ob < unat (next_object ix)" "ob \<in> fmdom' obs'" "\<And>k. ob \<notin> set (object_list ix k)"
    and stale: "set stale \<subseteq> set (object_list ix key)" "set stale \<inter> set (entry_objects (Some e)) = {}"
    and dist: "distinct (entry_objects (Some e))"
    and keep: "\<And>k. k \<notin> set stale \<Longrightarrow> k \<noteq> ob \<Longrightarrow> fmlookup obs' k = fmlookup obs k"
  shows "refs_ok (ix\<lparr>entries := fmupd key e (entries ix)\<rparr>) obs'"
proof -
  let ?ix = "ix\<lparr>entries := fmupd key e (entries ix)\<rparr>"
  have ol: "object_list ?ix k = (if k = key then entry_objects (Some e) else object_list ix k)" for k
    by (simp add: object_list_def)
  have old: "x \<in> set (object_list ix k)" if "x \<in> set (object_list ?ix k)" "x \<noteq> ob" for x k
    using that new by (auto simp: ol split: if_splits)
  have live: "x \<notin> set stale" if "x \<in> set (object_list ?ix k)" for x k
  proof (cases "k = key")
    case True
    with that stale(2) show ?thesis by (auto simp: ol)
  next
    case False
    then have "set (object_list ix k) \<inter> set (object_list ix key) = {}"
      using ok unfolding refs_ok_def by blast
    with False that stale(1) show ?thesis by (auto simp: ol)
  qed
  show ?thesis
    unfolding refs_ok_def
  proof (intro conjI allI ballI impI)
    fix k x
    assume x: "x \<in> set (object_list ?ix k)"
    show "unat x < unat (next_object ?ix)"
      using old[OF x] ob(1) ok unfolding refs_ok_def by (cases "x = ob") auto
    show "x \<in> fmdom' obs'"
      using old[OF x] ob(2) keep[OF live[OF x]] ok unfolding refs_ok_def
      by (cases "x = ob") (auto simp: fmlookup_dom'_iff)
  next
    fix k k' :: string
    assume "k \<noteq> k'"
    then have "set (object_list ix k) \<inter> set (object_list ix k') = {}"
      using ok unfolding refs_ok_def by blast
    with \<open>k \<noteq> k'\<close> ob(3) new show "set (object_list ?ix k) \<inter> set (object_list ?ix k') = {}"
      by (auto simp: ol)
  next
    fix k
    show "distinct (object_list ?ix k)"
      using dist ok unfolding refs_ok_def ol by auto
  qed
qed


lemma fetch_chunk_inv:
  assumes "fetch_chunk s R p a chunk w = (r, s', w')" "store_inv s" "can_allocate s 1"
  shows "store_inv s'" "unat (next_object (index s')) \<le> unat (next_object (index s)) + 1"
    "chunk_size s' = chunk_size s"
proof -
  let ?ob = "next_object (index s)"
  let ?ix = "(index s)\<lparr>next_object := ?ob + 1\<rparr>"
  have ok: "refs_ok (index s) (objects (dir s))" and cs: "0 < chunk_size s"
    using assms(2) by (auto simp: store_inv_def)
  have room: "unat ?ob + 1 < 2 ^ 64" using assms(3) by (simp add: can_allocate_def)
  from assms(1) have "store_inv s' \<and> unat (next_object (index s')) \<le> unat ?ob + 1
    \<and> chunk_size s' = chunk_size s"
  proof (cases rule: fetch_chunk_cases)
    case (fail e d s1)
    then show ?thesis
      using ok cs room refs_ok_alloc[OF ok room] unat_Suc_u64[OF room] by (auto simp: store_inv_def)
  next
    case (fetched d0 d1 pl fl stale entry s1)
    have obs: "objects d1 = objects (dir s)"
      using download_frame(1)[OF fetched(3)] fetched(2) by simp
    have ok1: "refs_ok ?ix (objects (dir s))" by (rule refs_ok_alloc[OF ok room])
    have ol: "object_list ?ix k = object_list (index s) k" for k by (simp add: object_list_def)
    have fresh: "?ob \<notin> set (object_list ?ix k)" for k
      using ok unfolding refs_ok_def ol by blast
    have dist: "distinct (object_list (index s) (as_str p))"
      using ok unfolding refs_ok_def by blast
    have lk: "entry_objects (fmlookup (entries (index s)) (as_str p)) = object_list ?ix (as_str p)"
      by (simp add: object_list_def)
    note rc = record_chunk_objects[OF fetched(5), unfolded lk, OF fresh, unfolded ol, OF dist]
    have nst: "?ob \<notin> set stale" using rc(2) fresh[of "as_str p"] by (auto simp: ol)
    have "refs_ok (?ix\<lparr>entries := fmupd (as_str p) entry (entries ?ix)\<rparr>)
        (objects (dir (remove_objects stale s1)))"
    proof (rule refs_ok_replace[OF ok1, where ob = ?ob and stale = stale])
      show "unat ?ob < unat (next_object ?ix)" using unat_Suc_u64[OF room] by simp
      show "?ob \<in> fmdom' (objects (dir (remove_objects stale s1)))"
        using nst fetched(6) by (simp add: fmlookup_dom'_iff)
    next
      fix k
      assume "k \<notin> set stale" "k \<noteq> ?ob"
      then show "fmlookup (objects (dir (remove_objects stale s1))) k = fmlookup (objects (dir s)) k"
        using fetched(6) obs by simp
    qed (use rc fresh in \<open>auto simp: ol\<close>)
    then show ?thesis
      using cs fetched(6,7) unat_Suc_u64[OF room] by (simp add: store_inv_def)
  qed
  then show "store_inv s'" "unat (next_object (index s')) \<le> unat ?ob + 1" "chunk_size s' = chunk_size s"
    by auto
qed


lemma fetch_missing_inv:
  "fetch_missing s R p a cs w = (r, s', w') \<Longrightarrow> store_inv s \<Longrightarrow> can_allocate s (length cs) \<Longrightarrow>
   store_inv s' \<and> chunk_size s' = chunk_size s"
proof (induction s R p a cs w arbitrary: r s' w' rule: fetch_missing.induct)
  case (1 s R p a w)
  then show ?case by simp
next
  case (2 s R p a chunk rest w)
  obtain r1 s1 w1 where f: "fetch_chunk s R p a chunk w = (r1, s1, w1)"
    by (cases "fetch_chunk s R p a chunk w") auto
  have "can_allocate s 1" using "2.prems"(3) by (simp add: can_allocate_def)
  note fc = fetch_chunk_inv[OF f "2.prems"(2) this]
  have room: "can_allocate s1 (length rest)" "can_allocate s (length rest)"
    using "2.prems"(3) fc(2) by (auto simp: can_allocate_def)
  show ?case
  proof (cases "cached_chunk s p a chunk")
    case (Some ob)
    with "2.prems" "2.IH"(2)[OF Some _ "2.prems"(2) room(2)] show ?thesis by simp
  next
    case None
    with "2.prems" f fc room(1) "2.IH"(1)[OF None f[symmetric] _ refl] show ?thesis
      by (cases r1) auto
  qed
qed

lemma read_object_frame: "read_object s ob pos sz = (r, s') \<Longrightarrow> \<exists>pl. s' = s\<lparr>dir := (dir s)\<lparr>io_plan := pl\<rparr>\<rparr>"
proof -
  assume rd: "read_object s ob pos sz = (r, s')"
  obtain q d where c: "io_call (dir s) = (q, d)" by fastforce
  then obtain pl where d: "d = (dir s)\<lparr>io_plan := pl\<rparr>" using io_call_frame by blast
  obtain q2 d2 where c2: "io_call d = (q2, d2)" by fastforce
  then obtain pl2 where d2: "d2 = d\<lparr>io_plan := pl2\<rparr>" using io_call_frame by blast
  show ?thesis
  proof (cases q)
    case (Err e)
    with rd c d show ?thesis by (auto simp: read_object_def)
  next
    case q: (Ok u)
    show ?thesis
    proof (cases "fmlookup (objects d) ob")
      case None
      with rd c d q show ?thesis by (auto simp: read_object_def)
    next
      case (Some fl)
      obtain r3 d3 where l: "read_loop fl (unat pos) (unat sz) [] d2 = (r3, d3)" by fastforce
      then obtain pl3 where "d3 = d2\<lparr>io_plan := pl3\<rparr>" using read_loop_frame by blast
      with rd c d q Some c2 d2 l show ?thesis by (cases q2) (auto simp: read_object_def)
    qed
  qed
qed

lemma read_chunks_frame:
  "read_chunks s m pos en cs data = (r, s') \<Longrightarrow> \<exists>pl. s' = s\<lparr>dir := (dir s)\<lparr>io_plan := pl\<rparr>\<rparr>"
proof (induction s m pos en cs data arbitrary: r s' rule: read_chunks.induct)
  case (1 s m pos en data)
  then show ?case by (auto intro: exI[of _ "io_plan (dir s)"])
next
  case (2 s m pos en chunk rest data)
  show ?case
  proof (cases "fmlookup m chunk")
    case None
    with "2.prems" show ?thesis by (auto intro: exI[of _ "io_plan (dir s)"])
  next
    case (Some ob)
    let ?st = "chunk * chunk_size s"
    let ?rs = "max pos ?st - ?st" and ?re = "min en (?st + chunk_size s) - ?st"
    obtain r1 s1 where o: "read_object s ob ?rs (ucast (?re - ?rs)) = (r1, s1)" by fastforce
    then obtain pl where s1: "s1 = s\<lparr>dir := (dir s)\<lparr>io_plan := pl\<rparr>\<rparr>"
      using read_object_frame by blast
    show ?thesis
    proof (cases r1)
      case (Err e)
      with "2.prems" Some o s1 show ?thesis by (auto simp: Let_def)
    next
      case (Ok got)
      with "2.prems" Some o have "read_chunks s1 m pos en rest (data @ got) = (r, s')"
        by (simp add: Let_def)
      from "2.IH"[OF Some refl refl refl o[symmetric] Ok this] s1 show ?thesis by auto
    qed
  qed
qed

lemma read_cached_range_frame:
  "read_cached_range s p pos en = (r, s') \<Longrightarrow> \<exists>pl. s' = s\<lparr>dir := (dir s)\<lparr>io_plan := pl\<rparr>\<rparr>"
  by (auto simp: read_cached_range_def split: option.splits dest: read_chunks_frame
      intro: exI[of _ "io_plan (dir s)"])

lemma read_cached_frame:
  "read_cached s p pos sz = (r, s') \<Longrightarrow> \<exists>pl. s' = s\<lparr>dir := (dir s)\<lparr>io_plan := pl\<rparr>\<rparr>"
  by (auto simp: read_cached_def split: option.splits if_splits dest: read_cached_range_frame
      intro: exI[of _ "io_plan (dir s)"])

lemma store_read_keeps:
  assumes "store_read s p R a pos sz w = (r, s', w')" "store_inv s"
    "can_allocate s (length (chunk_range pos (min (saturating_add pos (ucast sz)) (fsize a)) (chunk_size s)))"
  shows "store_inv s' \<and> chunk_size s' = chunk_size s"
proof (cases "sz = 0 \<or> fsize a \<le> pos")
  case True
  with assms show ?thesis by (auto simp: store_read_def)
next
  case False
  let ?en = "min (saturating_add pos (ucast sz)) (fsize a)"
  obtain r1 s1 w1 where f: "fetch_missing s R p a (chunk_range pos ?en (chunk_size s)) w = (r1, s1, w1)"
    by (cases "fetch_missing s R p a (chunk_range pos ?en (chunk_size s)) w") auto
  with fetch_missing_inv[OF f assms(2,3)] assms(1) False show ?thesis
    by (cases r1) (auto simp: store_read_def Let_def split: prod.splits dest!: read_cached_range_frame)
qed


lemmas store_read_inv = store_read_keeps[THEN conjunct1]
lemmas store_read_frame = store_read_keeps[THEN conjunct2]

end
