(* ===== verification/Store_Content.thy ===== *)
theory Store_Content
  imports Store_Invariant
begin

text \<open>
  Correctness of the chunked content cache.  The interface of the transport that the cache relies on
  is the locale \<open>remote_content\<close>: a read returns a non-empty part of what was asked for, except at
  the end of the file, so short reads are allowed.  Against any such transport the objects that the
  store downloads are exact slices of the remote file, and a read through the store returns exactly
  the bytes of the requested range, however it is cut into chunks and whatever the local file system
  answers in short reads.
\<close>

section \<open>Slices\<close>

definition segment :: "'a list \<Rightarrow> nat \<Rightarrow> nat \<Rightarrow> 'a list" where
  "segment f a b = take (b - a) (drop a f)"

lemma segment_append:
  assumes "a \<le> b" "b \<le> c"
  shows "segment f a b @ segment f b c = segment f a c"
proof -
  have "take (c - a) (drop a f) = take (b - a) (drop a f) @ take (c - b) (drop (b - a) (drop a f))"
    using assms take_add[of "b - a" "c - b" "drop a f"] by simp
  with assms show ?thesis by (simp add: segment_def)
qed

lemma segment_empty [simp]: "b \<le> a \<Longrightarrow> segment f a b = []"
  by (simp add: segment_def)

lemma length_segment [simp]: "b \<le> length f \<Longrightarrow> length (segment f a b) = b - a"
  by (simp add: segment_def)

lemma segment_segment:
  assumes "x + b \<le> y"
  shows "segment (segment f x y) a b = segment f (x + a) (x + b)"
  using assms by (auto simp: segment_def drop_take add.commute min_def)

lemma prefix_take_D: "prefix d (take n xs) \<Longrightarrow> length d \<le> n \<and> d = take (length d) xs"
  using prefix_length_le[of d "take n xs"] take_is_prefix[of n xs]
  by (auto simp: prefix_def)

lemma prefix_extend: "prefix a xs \<Longrightarrow> prefix b (drop (length a) xs) \<Longrightarrow> prefix (a @ b) xs"
  by (auto simp: prefix_def)

section \<open>Reading an object back\<close>

lemma read_loop_exact:
  "read_loop fl pos len buf d = (Ok buf', d') \<Longrightarrow> length buf \<le> len \<Longrightarrow>
   prefix buf (drop pos fl) \<Longrightarrow> buf' = take len (drop pos fl)"
proof (induction fl pos len buf d arbitrary: rule: read_loop.induct)
  case (1 fl pos len buf d)
  obtain x d1 where n: "io_next d = (x, d1)" by fastforce
  have beq: "take (length buf) (drop pos fl) = buf"
    using "1.prems"(3) by (auto simp: prefix_def)
  show ?case
  proof (cases "length buf < len")
    case False
    with "1.prems"(1,2) beq show ?thesis by (auto simp: read_loop.simps[of fl pos len buf d])
  next
    case True
    let ?av = "take (len - length buf) (drop (pos + length buf) fl)"
    let ?got = "case x of IoShort k \<Rightarrow> take (max 1 k) ?av | _ \<Rightarrow> ?av"
    have nf: "\<not> (\<exists>e. x = IoFail e)"
      using "1.prems"(1) True n by (auto simp: read_loop.simps[of fl pos len buf d])
    show ?thesis
    proof (cases "?got = []")
      case emp: True
      then have "?av = []" by (cases x) auto
      then have "length fl \<le> pos + length buf" using True by auto
      moreover from emp nf "1.prems"(1) True n have "buf' = buf"
        by (auto simp: read_loop.simps[of fl pos len buf d] Let_def split: io_outcome.splits)
      ultimately show ?thesis using "1.prems"(2) beq by simp
    next
      case False
      have rec: "read_loop fl pos len (buf @ ?got) d1 = (Ok buf', d')"
        using False nf "1.prems"(1) True n
        by (auto simp: read_loop.simps[of fl pos len buf d] Let_def split: io_outcome.splits)
      obtain m where m: "?got = take m (drop (pos + length buf) fl)" "m \<le> len - length buf"
        by (cases x) (auto simp: min_def intro: that)
      have ext: "buf @ ?got = take (length buf + m) (drop pos fl)"
        unfolding m(1) take_add beq by (simp add: add.commute)
      have len: "length (buf @ ?got) \<le> len" using m(2) "1.prems"(2) unfolding m(1) by simp
      have pre: "prefix (buf @ ?got) (drop pos fl)" unfolding ext by (rule take_is_prefix)
      show ?thesis
      proof (cases x)
        case IoDone
        show ?thesis
          by (rule "1.IH"(1)[OF True n[symmetric] IoDone refl refl])
             (use False rec len pre IoDone in simp_all)
      next
        case (IoShort k)
        show ?thesis
          by (rule "1.IH"(2)[OF True n[symmetric] IoShort refl refl])
             (use False rec len pre IoShort in simp_all)
      next
        case (IoFail e)
        with nf show ?thesis by blast
      qed
    qed
  qed
qed

lemma read_object_exact:
  assumes "read_object s ob pos sz = (Ok data, s')" "fmlookup (objects (dir s)) ob = Some fl"
  shows "data = segment fl (unat pos) (unat pos + unat sz)"
proof -
  obtain q d where c: "io_call (dir s) = (q, d)" by fastforce
  then obtain pl where d: "d = (dir s)\<lparr>io_plan := pl\<rparr>" using io_call_frame by blast
  obtain q2 d2 where c2: "io_call d = (q2, d2)" by fastforce
  obtain r3 d3 where l: "read_loop fl (unat pos) (unat sz) [] d2 = (r3, d3)" by fastforce
  have "r3 = Ok data"
    using assms c c2 l d by (cases q; cases q2) (auto simp: read_object_def)
  with l read_loop_exact[of fl "unat pos" "unat sz" "[]" d2 data d3] show ?thesis
    by (simp add: segment_def)
qed


section \<open>Coherent content\<close>

text \<open>
  The cache identifies a version of a file by its size and modification time.  \<open>V key size mtime\<close> is
  the content of that version of the file at \<open>key\<close>; the store is coherent when every object that it
  refers to holds the bytes of its chunk of its version.
\<close>

type_synonym versions = "string \<Rightarrow> u64 \<Rightarrow> i64 option \<Rightarrow> bytes"

definition content_of :: "Index \<Rightarrow> string \<Rightarrow> ContentRef option" where
  "content_of ix key = Option.bind (fmlookup (entries ix) key) content"

definition chunk_bytes :: "bytes \<Rightarrow> u64 \<Rightarrow> u64 \<Rightarrow> u64 \<Rightarrow> bytes" where
  "chunk_bytes f sz cs k =
     segment f (unat k * unat cs) (min (unat sz) (unat k * unat cs + unat cs))"

definition coherent :: "versions \<Rightarrow> 'j Store \<Rightarrow> bool" where
  "coherent V s \<longleftrightarrow>
     (\<forall>key c k ob. content_of (index s) key = Some c \<longrightarrow> fmlookup (c_chunks c) k = Some ob \<longrightarrow>
        fmlookup (objects (dir s)) ob
          = Some (chunk_bytes (V key (c_size c) (c_modified c)) (c_size c) (c_chunk_size c) k))"

lemma coherentD:
  "coherent V s \<Longrightarrow> content_of (index s) key = Some c \<Longrightarrow> fmlookup (c_chunks c) k = Some ob \<Longrightarrow>
   fmlookup (objects (dir s)) ob
     = Some (chunk_bytes (V key (c_size c) (c_modified c)) (c_size c) (c_chunk_size c) k)"
  by (simp add: coherent_def)

lemma object_list_content:
  "content_of ix key = Some c \<Longrightarrow> object_list ix key = content_objects c"
  by (auto simp: content_of_def object_list_def entry_objects_def)

lemma store_inv_object:
  assumes "store_inv s" "content_of (index s) key = Some c" "fmlookup (c_chunks c) k = Some ob"
  shows "ob \<in> fmdom' (objects (dir s))" "unat ob < unat (next_object (index s))"
proof -
  have "ob \<in> set (object_list (index s) key)"
    using assms(3) unfolding object_list_content[OF assms(2)]
    by (auto simp: content_objects_def set_fm_values)
  with assms(1) show "ob \<in> fmdom' (objects (dir s))" "unat ob < unat (next_object (index s))"
    unfolding store_inv_def refs_ok_def by blast+
qed

lemma coherent_sub:
  assumes "coherent V s" "store_inv s'"
    and "\<And>key c. content_of (index s') key = Some c \<Longrightarrow> content_of (index s) key = Some c"
    and "\<And>ob x. fmlookup (objects (dir s')) ob = Some x \<Longrightarrow> fmlookup (objects (dir s)) ob = Some x"
  shows "coherent V s'"
  unfolding coherent_def
proof (intro allI impI)
  fix key c k ob
  assume c: "content_of (index s') key = Some c" and k: "fmlookup (c_chunks c) k = Some ob"
  obtain x where x: "fmlookup (objects (dir s')) ob = Some x"
    using store_inv_object(1)[OF assms(2) c k] by (auto simp: fmlookup_dom'_iff)
  with coherentD[OF assms(1) assms(3)[OF c] k] assms(4)[OF x]
  show "fmlookup (objects (dir s')) ob
      = Some (chunk_bytes (V key (c_size c) (c_modified c)) (c_size c) (c_chunk_size c) k)"
    by simp
qed

lemma fold_remove_objects_sub:
  "fmlookup (objects (fold remove_object_file obs d)) ob = Some x \<Longrightarrow> fmlookup (objects d) ob = Some x"
proof (induction obs arbitrary: d)
  case Nil
  then show ?case by simp
next
  case (Cons a obs)
  from Cons.IH[of "remove_object_file a d"] Cons.prems
  have "fmlookup (objects (remove_object_file a d)) ob = Some x" by simp
  then show ?case
    by (cases rule: remove_object_file_cases[of a d]) (auto split: if_splits)
qed

lemma remove_objects_sub:
  "fmlookup (objects (dir (remove_objects obs s))) ob = Some x \<Longrightarrow> fmlookup (objects (dir s)) ob = Some x"
  unfolding remove_objects_def by (rule fold_remove_objects_sub) simp

lemma cached_chunk_alt:
  "cached_chunk s p a k = Some ob \<longleftrightarrow>
   (\<exists>c. content_of (index s) (as_str p) = Some c \<and> c_size c = fsize a \<and>
        c_modified c = modified_unix_seconds a \<and> c_chunk_size c = chunk_size s \<and>
        fmlookup (c_chunks c) k = Some ob)"
  by (cases "content_of (index s) (as_str p)") (auto simp: cached_chunk_def content_of_def)

lemma current_content_alt:
  "current_content s p = Some c \<longleftrightarrow>
   content_of (index s) (as_str p) = Some c \<and> c_chunk_size c = chunk_size s"
  by (cases "content_of (index s) (as_str p)") (auto simp: current_content_def content_of_def)

lemma record_chunk_content:
  assumes "record_chunk cs a e chunk ob = (stale, e')"
  shows "\<exists>c. content e' = Some c \<and> c_size c = fsize a \<and> c_modified c = modified_unix_seconds a \<and>
    c_chunk_size c = cs \<and> (\<forall>k. fmlookup (c_chunks c) k =
      (if k = chunk then Some ob
       else Option.bind (Option.bind e content)
         (\<lambda>c0. if c_size c0 = fsize a \<and> c_modified c0 = modified_unix_seconds a \<and> c_chunk_size c0 = cs
               then fmlookup (c_chunks c0) k else None)))"
proof (cases "Option.bind e content")
  case None
  with assms show ?thesis by (auto simp: record_chunk_def Let_def split: option.splits)
next
  case (Some c0)
  with assms show ?thesis
    by (cases "c_size c0 = fsize a \<and> c_modified c0 = modified_unix_seconds a \<and> c_chunk_size c0 = cs")
       (auto simp: record_chunk_def Let_def split: option.splits)
qed

lemma record_coherent:
  assumes rc: "record_chunk (chunk_size s) a (fmlookup (entries (index s)) (as_str p)) chunk ob = (stale, entry)"
    and ix: "entries (index s') = fmupd (as_str p) entry (entries (index s))"
    and sub: "\<And>ob x. fmlookup (objects (dir s')) ob = Some x \<Longrightarrow> fmlookup (objects (dir s)) ob = Some x"
    and inv: "store_inv s'" and coh: "coherent V s"
    and obj: "fmlookup (objects (dir s)) ob
      = Some (chunk_bytes (V (as_str p) (fsize a) (modified_unix_seconds a)) (fsize a) (chunk_size s) chunk)"
  shows "coherent V s'"
  unfolding coherent_def
proof (intro allI impI)
  obtain c1 where c1: "content entry = Some c1" "c_size c1 = fsize a"
      "c_modified c1 = modified_unix_seconds a" "c_chunk_size c1 = chunk_size s"
    and ks: "\<And>k. fmlookup (c_chunks c1) k = (if k = chunk then Some ob else cached_chunk s p a k)"
    using record_chunk_content[OF rc] by (auto simp: cached_chunk_def)
  have cont: "content_of (index s') key = (if key = as_str p then Some c1 else content_of (index s) key)" for key
    using ix c1(1) by (simp add: content_of_def)
  fix key c k x
  assume c: "content_of (index s') key = Some c" "fmlookup (c_chunks c) k = Some x"
  obtain fl where fl: "fmlookup (objects (dir s')) x = Some fl"
    using store_inv_object(1)[OF inv c] by (auto simp: fmlookup_dom'_iff)
  show "fmlookup (objects (dir s')) x
      = Some (chunk_bytes (V key (c_size c) (c_modified c)) (c_size c) (c_chunk_size c) k)"
  proof (cases "key = as_str p \<and> k = chunk")
    case True
    with c cont ks fl sub[OF fl] obj c1 show ?thesis by simp
  next
    case False
    then obtain c0 where c0: "content_of (index s) key = Some c0" "fmlookup (c_chunks c0) k = Some x"
        "c_size c0 = c_size c" "c_modified c0 = c_modified c" "c_chunk_size c0 = c_chunk_size c"
      using c cont ks c1 by (fastforce simp: cached_chunk_alt split: if_splits)
    with coherentD[OF coh c0(1,2)] fl sub[OF fl] show ?thesis by simp
  qed
qed

section \<open>Assembling a range from chunks\<close>

lemma chunk_part:
  assumes seg: "unat k * unat cs < unat en" "unat pos < unat k * unat cs + unat cs"
    and rng: "unat pos < unat en" "unat en \<le> unat sz" "unat sz + unat cs < 2 ^ 64"
      "unat en - unat pos < 2 ^ 32"
  defines "st \<equiv> k * cs"
  defines "rs \<equiv> max pos st - st" and "re \<equiv> min en (st + cs) - st"
  shows "segment (chunk_bytes f sz cs k) (unat rs) (unat rs + unat (ucast (re - rs) :: u32))
    = segment f (max (unat pos) (unat k * unat cs)) (min (unat en) (unat k * unat cs + unat cs))"
proof -
  let ?K = "unat k * unat cs"
  have st: "unat st = ?K" unfolding st_def
    using seg(1) unat_u64_less[of en] by (intro unat_mult_u64) simp
  have stc: "unat (st + cs) = ?K + unat cs"
    using st seg(1) rng by (subst unat_add_u64) auto
  have rs: "unat rs = max (unat pos) ?K - ?K"
    unfolding rs_def by (subst unat_sub_u64) (auto simp: unat_max_u64 st)
  have re: "unat re = min (unat en) (?K + unat cs) - ?K"
    unfolding re_def using seg(1) by (subst unat_sub_u64) (auto simp: unat_min_u64 st stc)
  have diff: "unat (re - rs) = unat re - unat rs"
    using rs re seg rng by (intro unat_sub_u64) auto
  have "unat (ucast (re - rs) :: u32) = unat re - unat rs"
  proof -
    have "unat (re - rs) < 2 ^ 32" using diff rs re rng seg by (auto simp: min_def max_def)
    then show ?thesis using diff by (simp add: unsigned_ucast_eq take_bit_nat_eq_self_iff)
  qed
  moreover have "unat rs \<le> unat re" using rs re seg rng by auto
  ultimately show ?thesis
    unfolding chunk_bytes_def using rs re seg rng
    by (subst segment_segment) (auto simp: min_le_iff_disj)
qed

lemma read_chunks_exact:
  assumes "read_chunks s m pos en (map of_nat [k..<K]) data = (Ok out, s')"
    and "chunk_size s = cs" "objects (dir s) = obs"
    and chunks: "\<And>j. k \<le> j \<Longrightarrow> j < K \<Longrightarrow> \<exists>ob. fmlookup m (of_nat j) = Some ob \<and>
      fmlookup obs ob = Some (chunk_bytes f sz cs (of_nat j))"
    and rng: "unat pos < unat en" "unat en \<le> unat sz" "unat sz + unat cs < 2 ^ 64"
      "unat en - unat pos < 2 ^ 32"
    and ks: "k \<le> K" "unat pos < k * unat cs + unat cs" "\<And>j. j < K \<Longrightarrow> j * unat cs < unat en" "K < 2 ^ 64"
    and data: "data = segment f (unat pos) (min (unat en) (max (unat pos) (k * unat cs)))"
  shows "out = segment f (unat pos) (min (unat en) (max (unat pos) (K * unat cs)))"
  using assms(1-3) chunks ks(1,2) data
proof (induction "K - k" arbitrary: k data s)
  case 0
  then show ?case by auto
next
  case (Suc n)
  then have kK: "k < K" by simp
  let ?k = "of_nat k :: u64" and ?a = "max (unat pos) (k * unat cs)"
  let ?b = "min (unat en) (k * unat cs + unat cs)"
  have k: "unat ?k = k" using kK ks(4) by (intro unat_of_nat_u64) simp
  obtain ob where ob: "fmlookup m ?k = Some ob" "fmlookup obs ob = Some (chunk_bytes f sz cs ?k)"
    using Suc.prems(4)[OF order_refl kK] by blast
  let ?rs = "max pos (?k * cs) - ?k * cs" and ?re = "min en (?k * cs + cs) - ?k * cs"
  obtain r1 s1 where o: "read_object s ob ?rs (ucast (?re - ?rs)) = (r1, s1)" by fastforce
  then obtain pl where s1: "s1 = s\<lparr>dir := (dir s)\<lparr>io_plan := pl\<rparr>\<rparr>" using read_object_frame by blast
  have upt: "[k..<K] = k # [Suc k..<K]" using kK by (rule upt_conv_Cons)
  obtain got where r1: "r1 = Ok got"
    using Suc.prems(1,2) ob(1) o unfolding upt by (cases r1) (auto simp: Let_def)
  have got: "got = segment f ?a ?b"
    using read_object_exact[OF o[unfolded r1]] Suc.prems(3) ob(2)
      chunk_part[of ?k cs en pos sz f, unfolded k, OF ks(3)[OF kK] Suc.prems(6) rng] by simp
  have rec: "read_chunks s1 m pos en (map of_nat [Suc k..<K]) (data @ got) = (Ok out, s')"
    using Suc.prems(1,2) ob(1) o r1 unfolding upt by (simp add: Let_def)
  have "?a \<le> unat en" "?a \<le> ?b" "unat pos \<le> ?a" "?b = min (unat en) (max (unat pos) (Suc k * unat cs))"
    using ks(3)[OF kK] rng(1) Suc.prems(6) by auto
  then have dg: "data @ got = segment f (unat pos) (min (unat en) (max (unat pos) (Suc k * unat cs)))"
    using Suc.prems(7) got segment_append[of "unat pos" ?a ?b f] by (simp add: min_absorb2)
  show ?case
    by (rule Suc.hyps(1)[OF _ rec _ _ _ _ _ dg])
       (use Suc.hyps(2) Suc.prems kK s1 in auto)
qed

lemma chunk_range_bounds:
  assumes "0 < cs" "unat pos < unat en"
  defines "k \<equiv> unat pos div unat cs" and "K \<equiv> Suc ((unat en - 1) div unat cs)"
  shows "chunk_range pos en cs = map of_nat [k..<K]" "k \<le> K" "unat pos < k * unat cs + unat cs"
    "k * unat cs \<le> unat pos" "\<And>j. j < K \<Longrightarrow> j * unat cs < unat en" "K < 2 ^ 64" "unat en \<le> K * unat cs"
proof -
  have cs: "max cs 1 = cs" "0 < unat cs"
    using assms(1) by (simp_all add: max_one_u64 word_less_nat_alt)
  have one: "unat (1 :: u64) \<le> unat en" using assms(2) by simp
  show "chunk_range pos en cs = map of_nat [k..<K]"
    by (simp add: chunk_range_def Let_def cs(1) k_def K_def unat_div_distrib unat_sub_u64[OF one])
  show "k \<le> K" unfolding k_def K_def using assms(2) by (simp add: div_le_mono le_SucI)
  show "k * unat cs \<le> unat pos" by (simp add: k_def)
  have "unat pos mod unat cs < unat cs" using cs(2) by simp
  then show "unat pos < k * unat cs + unat cs"
    unfolding k_def by (metis div_mult_mod_eq nat_add_left_cancel_less)
  show "K < 2 ^ 64"
  proof -
    have "(unat en - 1) div unat cs \<le> unat en - 1" by simp
    then show ?thesis unfolding K_def using unat_u64_less[of en] assms(2) by linarith
  qed
  show "unat en \<le> K * unat cs"
  proof -
    have "(unat en - 1) mod unat cs < unat cs" using cs(2) by simp
    moreover have "unat en - 1 = (unat en - 1) div unat cs * unat cs + (unat en - 1) mod unat cs"
      by (simp only: div_mult_mod_eq)
    ultimately show ?thesis
      unfolding K_def mult_Suc using assms(2) by linarith
  qed
  fix j
  assume "j < K"
  then have "j * unat cs \<le> (unat en - 1) div unat cs * unat cs" unfolding K_def by simp
  also have "\<dots> \<le> unat en - 1" by simp
  finally show "j * unat cs < unat en" using assms(2) by simp
qed

lemma read_end_bounds:
  assumes "\<not> (sz = 0 \<or> fsize a \<le> pos)" "0 < cs"
  defines "en \<equiv> min (saturating_add pos (ucast (sz :: u32))) (fsize a)"
  shows "unat en = min (unat pos + unat sz) (unat (fsize a))" "unat pos < unat en"
    "\<forall>k \<in> set (chunk_range pos en cs). unat k * unat cs < unat (fsize a)" "chunk_range pos en cs \<noteq> []"
proof -
  have "0 < unat sz" using assms(1) by (simp add: unat_gt_0)
  then show en: "unat en = min (unat pos + unat sz) (unat (fsize a))" "unat pos < unat en"
    using assms(1) unat_u64_less[of "fsize a"] unfolding en_def
    by (auto simp: unat_min_u64 unat_saturating_add unat_ucast_u32_u64 word_le_nat_alt)
  note cr = chunk_range_bounds[OF assms(2) en(2)]
  show "\<forall>k \<in> set (chunk_range pos en cs). unat k * unat cs < unat (fsize a)"
  proof
    fix k
    assume "k \<in> set (chunk_range pos en cs)"
    then obtain j where j: "k = of_nat j" "j < Suc ((unat en - 1) div unat cs)"
      unfolding cr(1) by auto
    then have "unat k = j" using cr(6) by (simp add: unat_of_nat_u64)
    with cr(5)[OF j(2)] en(1) show "unat k * unat cs < unat (fsize a)" by simp
  qed
  show "chunk_range pos en cs \<noteq> []"
    unfolding cr(1) using en(2) by (simp add: div_le_mono)
qed

definition read_room :: "FileAttributes \<Rightarrow> 'j Store \<Rightarrow> bool" where
  "read_room a s \<longleftrightarrow> unat (fsize a) + unat (chunk_size s) < 2 ^ 64"

lemma read_cached_range_exact:
  assumes rd: "read_cached_range s p pos en = (Ok out, s')"
    and inv: "store_inv s" and coh: "coherent V s"
    and c: "content_of (index s) (as_str p) = Some c"
    and f: "f = V (as_str p) (c_size c) (c_modified c)"
    and chunks: "\<And>k. k \<in> set (chunk_range pos en (chunk_size s)) \<Longrightarrow> fmlookup (c_chunks c) k \<noteq> None"
    and rng: "unat pos < unat en" "unat en \<le> unat (c_size c)"
      "unat (c_size c) + unat (chunk_size s) < 2 ^ 64" "unat en - unat pos < 2 ^ 32"
  shows "out = segment f (unat pos) (unat en)"
proof -
  have cs: "0 < chunk_size s" using inv by (simp add: store_inv_def)
  note cr = chunk_range_bounds[OF cs rng(1)]
  have cc: "c_chunk_size c = chunk_size s" "current_content s p = Some c"
    using rd c by (auto simp: read_cached_range_def current_content_def content_of_def split: option.splits
        bind_splits if_splits)
  have rc: "read_chunks s (c_chunks c) pos en (map of_nat [unat pos div unat (chunk_size s)..<
      Suc ((unat en - 1) div unat (chunk_size s))]) [] = (Ok out, s')"
    using rd unfolding read_cached_range_def cc(2) by (simp add: cr(1))
  have "out = segment f (unat pos) (min (unat en) (max (unat pos)
      (Suc ((unat en - 1) div unat (chunk_size s)) * unat (chunk_size s))))"
  proof (rule read_chunks_exact[OF rc refl refl _ rng cr(2,3,5,6)])
    fix j
    assume j: "unat pos div unat (chunk_size s) \<le> j" "j < Suc ((unat en - 1) div unat (chunk_size s))"
    then have "(of_nat j :: u64) \<in> set (chunk_range pos en (chunk_size s))"
      unfolding cr(1) set_map by (intro imageI) (simp only: set_upt atLeastLessThan_iff)
    then obtain ob where ob: "fmlookup (c_chunks c) (of_nat j) = Some ob"
      using chunks by blast
    with coherentD[OF coh c ob] f cc(1) show "\<exists>ob. fmlookup (c_chunks c) (of_nat j) = Some ob \<and>
        fmlookup (objects (dir s)) ob = Some (chunk_bytes f (c_size c) (chunk_size s) (of_nat j))"
      by auto
  qed (use cr(4) rng(1) in \<open>simp_all add: max_absorb1\<close>)
  then show ?thesis using cr(7) by (simp add: min_absorb1 le_max_iff_disj)
qed

section \<open>Fetched chunks are cached\<close>

lemma fetch_chunk_cached:
  assumes "fetch_chunk s R p a chunk w = (Ok ob, s', w')"
  shows "cached_chunk s' p a k = (if k = chunk then Some ob else cached_chunk s p a k)"
  using assms
proof (cases rule: fetch_chunk_cases)
  case (fetched d0 d1 pl fl stale entry s1)
  obtain c1 where "content entry = Some c1" "c_size c1 = fsize a"
      "c_modified c1 = modified_unix_seconds a" "c_chunk_size c1 = chunk_size s"
    and "\<And>k. fmlookup (c_chunks c1) k = (if k = chunk then Some ob else cached_chunk s p a k)"
    using record_chunk_content[OF fetched(5)] fetched(1) by (auto simp: cached_chunk_def)
  moreover have "fmlookup (entries (index s')) (as_str p) = Some entry" "chunk_size s' = chunk_size s"
    using fetched(6,7) by simp_all
  ultimately show ?thesis
    by (simp add: cached_chunk_def[of s'])
qed simp

lemma fetch_missing_cached:
  "fetch_missing s R p a cs w = (Ok (), s', w') \<Longrightarrow>
   (\<forall>k. k \<in> set cs \<or> cached_chunk s p a k \<noteq> None \<longrightarrow> cached_chunk s' p a k \<noteq> None)"
proof (induction s R p a cs w rule: fetch_missing.induct)
  case (1 s R p a w)
  then show ?case by simp
next
  case (2 s R p a chunk rest w)
  obtain r1 s1 w1 where f: "fetch_chunk s R p a chunk w = (r1, s1, w1)"
    by (cases "fetch_chunk s R p a chunk w") auto
  show ?case
  proof (cases "cached_chunk s p a chunk")
    case (Some ob)
    with "2.prems" "2.IH"(2)[OF Some] show ?thesis by auto
  next
    case None
    with "2.prems" f obtain ob where r1: "r1 = Ok ob" by (cases r1) auto
    have "\<forall>k. k \<in> set rest \<or> cached_chunk s1 p a k \<noteq> None \<longrightarrow> cached_chunk s' p a k \<noteq> None"
      using "2.IH"(1)[OF None f[symmetric] r1 refl] "2.prems" None f r1 by simp
    with fetch_chunk_cached[OF f[unfolded r1]] show ?thesis by auto
  qed
qed

lemma fetch_missing_hit:
  "\<forall>k \<in> set cs. cached_chunk s p a k \<noteq> None \<Longrightarrow> fetch_missing s R p a cs w = (Ok (), s, w)"
  by (induction cs) auto

section \<open>The transport's contract\<close>

lemma chunk_window:
  fixes a :: FileAttributes and chunk cs :: u64
  assumes len: "length f = unat (fsize a)" and chunk: "unat chunk * unat cs < unat (fsize a)"
  shows "unat (chunk * cs) + unat (min (fsize a - chunk * cs) cs) \<le> length f"
    "unat (chunk * cs) + unat (min (fsize a - chunk * cs) cs) < 2 ^ 64"
    "segment f (unat (chunk * cs)) (unat (chunk * cs) + unat (min (fsize a - chunk * cs) cs))
       = chunk_bytes f (fsize a) cs chunk"
proof -
  let ?st = "chunk * cs" and ?cl = "min (fsize a - chunk * cs) cs"
  have st: "unat ?st = unat chunk * unat cs"
    using chunk unat_u64_less[of "fsize a"] by (intro unat_mult_u64) simp
  have cl: "unat ?cl = min (unat (fsize a) - unat ?st) (unat cs)"
    using chunk st by (simp add: unat_min_u64 unat_sub_u64)
  show "unat ?st + unat ?cl \<le> length f" "unat ?st + unat ?cl < 2 ^ 64"
    using cl st chunk len unat_u64_less[of "fsize a"] by auto
  show "segment f (unat ?st) (unat ?st + unat ?cl) = chunk_bytes f (fsize a) cs chunk"
    unfolding chunk_bytes_def cl st using chunk by (auto simp: min_def)
qed

locale remote_content =
  fixes R :: "'w RemoteFilesystem" and good :: "'w \<Rightarrow> bool" and file_of :: "'w \<Rightarrow> RemotePath \<Rightarrow> bytes option"
  assumes read_keeps: "good w \<Longrightarrow> rf_read R p pos sz w = (r, w') \<Longrightarrow> good w' \<and> file_of w' = file_of w"
    and read_part: "good w \<Longrightarrow> file_of w p = Some f \<Longrightarrow> rf_read R p pos sz w = (Ok data, w') \<Longrightarrow>
      prefix data (take (unat sz) (drop (unat pos) f)) \<and>
      (data = [] \<longrightarrow> sz = 0 \<or> length f \<le> unat pos)"
begin

lemma read_extends:
  fixes cst cl :: u64
  assumes w: "good w" "file_of w p = Some f" and less: "length wr < unat cl"
    and rd: "rf_read R p (cst + of_nat (length wr)) (of_nat (min (unat cl - length wr) (2 ^ 32 - 1))) w = (Ok data, w')"
    and bound: "unat cst + unat cl \<le> length f" "unat cst + unat cl < 2 ^ 64"
    and wr: "prefix wr (drop (unat cst) f)"
  shows "data \<noteq> []" "length (wr @ data) \<le> unat cl" "prefix (wr @ data) (drop (unat cst) f)"
proof -
  let ?want = "min (unat cl - length wr) (2 ^ 32 - 1)"
  have want: "unat (of_nat ?want :: u32) = ?want" by (simp add: unat_of_nat)
  have pos: "unat (cst + of_nat (length wr)) = unat cst + length wr"
    using bound(2) less by (subst unat_add_u64) (auto simp: unat_of_nat_u64)
  note part = read_part[OF w rd, unfolded want pos]
  show "data \<noteq> []" using part less bound(1) want by auto
  have len: "length data \<le> ?want" "data = take (length data) (drop (unat cst + length wr) f)"
    using prefix_take_D[of data ?want] part by auto
  then show "length (wr @ data) \<le> unat cl" using less by auto
  have "prefix data (drop (length wr) (drop (unat cst) f))"
    using len(2) by (metis add.commute drop_drop take_is_prefix)
  with wr show "prefix (wr @ data) (drop (unat cst) f)" by (rule prefix_extend)
qed

lemma download_loop_exact:
  "download_loop R p temp cst cl wr d w = (r, d', w') \<Longrightarrow> good w \<Longrightarrow> file_of w p = Some f \<Longrightarrow>
   unat cst + unat cl \<le> length f \<Longrightarrow> unat cst + unat cl < 2 ^ 64 \<Longrightarrow>
   length wr \<le> unat cl \<Longrightarrow> prefix wr (drop (unat cst) f) \<Longrightarrow>
   fmlookup (tmp d) temp = Some wr \<Longrightarrow>
   good w' \<and> file_of w' = file_of w \<and>
   (r = Ok () \<longrightarrow> fmlookup (tmp d') temp = Some (segment f (unat cst) (unat cst + unat cl)))"
proof (induction "unat cl - length wr" arbitrary: wr d w r d' w' rule: less_induct)
  case less
  let ?want = "min (unat cl - length wr) (2 ^ 32 - 1)"
  let ?pos = "cst + of_nat (length wr) :: u64" and ?sz = "of_nat ?want :: u32"
  show ?case
  proof (cases "length wr < unat cl")
    case False
    then have "length wr = unat cl" using less.prems(6) by simp
    moreover have "wr = take (length wr) (drop (unat cst) f)"
      using less.prems(7) by (auto simp: prefix_def)
    moreover have "d' = d \<and> w' = w"
      using False less.prems(1) by (simp add: download_loop.simps[of R p temp cst cl wr d w])
    ultimately show ?thesis
      using less.prems(2,8) by (simp add: segment_def)
  next
    case True
    obtain rr w1 where rd: "rf_read R p ?pos ?sz w = (rr, w1)" by fastforce
    have w1: "good w1" "file_of w1 = file_of w" using read_keeps[OF less.prems(2) rd] by auto
    obtain q d1 where io: "io_call d = (q, d1)" by fastforce
    then obtain pl where d1: "d1 = d\<lparr>io_plan := pl\<rparr>" using io_call_frame by blast
    note unf = download_loop.simps[of R p temp cst cl wr d w]
    show ?thesis
    proof (cases rr)
      case (Err e)
      with less.prems(1) True rd w1 show ?thesis by (auto simp: unf Let_def)
    next
      case (Ok data)
      note ext = read_extends[OF less.prems(2,3) True rd[unfolded Ok] less.prems(4,5,7)]
      show ?thesis
      proof (cases q)
        case (Err e)
        with less.prems(1) True rd w1 Ok io ext(1) show ?thesis by (auto simp: unf Let_def)
      next
        case q: (Ok u)
        let ?wr = "wr @ data"
        have rec: "download_loop R p temp cst cl ?wr (d1\<lparr>tmp := fmupd temp ?wr (tmp d1)\<rparr>) w1 = (r, d', w')"
          using less.prems(1) True rd Ok io q ext(1) by (simp add: unf Let_def)
        have "unat cl - length ?wr < unat cl - length wr"
          using ext(1) True by (auto intro: diff_less_mono2)
        from less.hyps[OF this rec w1(1) _ less.prems(4,5) ext(2,3)] w1(2) less.prems(3)
        show ?thesis by simp
      qed
    qed
  qed
qed


lemma download_exact:
  assumes dl: "download R p a cs chunk temp d w = (r, d', w')" and w: "good w" "file_of w p = Some f"
    and len: "length f = unat (fsize a)" and chunk: "unat chunk * unat cs < unat (fsize a)"
  shows "good w' \<and> file_of w' = file_of w \<and>
    (r = Ok () \<longrightarrow> fmlookup (tmp d') temp = Some (chunk_bytes f (fsize a) cs chunk))"
proof -
  let ?st = "chunk * cs" and ?cl = "min (fsize a - chunk * cs) cs"
  note win = chunk_window[OF len chunk]
  obtain q1 d1 where c1: "io_call d = (q1, d1)" by fastforce
  let ?d1 = "d1\<lparr>tmp := fmupd temp [] (tmp d1)\<rparr>"
  obtain r2 d2 w2 where l: "download_loop R p temp ?st ?cl [] ?d1 w = (r2, d2, w2)"
    by (cases "download_loop R p temp ?st ?cl [] ?d1 w") auto
  have ex: "good w2 \<and> file_of w2 = file_of w \<and>
      (r2 = Ok () \<longrightarrow> fmlookup (tmp d2) temp = Some (chunk_bytes f (fsize a) cs chunk))"
    using download_loop_exact[OF l w win(1,2)] unfolding win(3) by simp
  obtain q3 d3 where c3: "io_call d2 = (q3, d3)" by fastforce
  then obtain pl where d3: "d3 = d2\<lparr>io_plan := pl\<rparr>" using io_call_frame by blast
  show ?thesis
    using dl c1 l ex c3 d3 w by (cases q1; cases r2) (auto simp: download_def Let_def)
qed

lemma fetch_chunk_coherent:
  assumes f: "fetch_chunk s R p a chunk w = (r, s', w')" and w: "good w" "file_of w p = Some f"
    and V: "V (as_str p) (fsize a) (modified_unix_seconds a) = f"
    and len: "length f = unat (fsize a)" and chunk: "unat chunk * unat (chunk_size s) < unat (fsize a)"
    and inv: "store_inv s" "can_allocate s 1" and coh: "coherent V s"
  shows "coherent V s' \<and> good w' \<and> file_of w' = file_of w"
  using f
proof (cases rule: fetch_chunk_cases)
  case (fail e d s1)
  then have "coherent V s'" using coh by (auto simp: coherent_def content_of_def)
  with fail(6) download_exact[OF _ w len chunk] w show ?thesis by blast
next
  case (fetched d0 d1 pl fl stale entry s1)
  let ?ob = "next_object (index s)"
  have dl: "good w'" "file_of w' = file_of w" "fl = chunk_bytes f (fsize a) (chunk_size s) chunk"
    using download_exact[OF fetched(3) w len chunk] fetched(4) by auto
  have obs: "objects d1 = objects (dir s)"
    using download_frame(1)[OF fetched(3)] fetched(2) by simp
  have s': "store_inv s'" by (rule fetch_chunk_inv(1)[OF f inv])
  have s1: "entries (index s1) = entries (index s)" "chunk_size s1 = chunk_size s"
      "objects (dir s1) = fmupd ?ob fl (objects (dir s))"
    using fetched(6) obs by simp_all
  have "ob \<noteq> ?ob" if "content_of (index s) key = Some c" "fmlookup (c_chunks c) k = Some ob" for key c k ob
    using store_inv_object(2)[OF inv(1) that] by blast
  then have "coherent V s1"
    using coh s1 by (fastforce simp: coherent_def content_of_def)
  moreover have "entries (index s') = fmupd (as_str p) entry (entries (index s1))"
    using fetched(7) s1(1) by simp
  moreover have "fmlookup (objects (dir s1)) ob = Some x" if "fmlookup (objects (dir s')) ob = Some x" for ob x
    using that fetched(7) remove_objects_sub[of stale s1 ob x] by simp
  ultimately have "coherent V s'"
    using fetched(5) s' dl(3) V s1 by (intro record_coherent[of s1 a p chunk ?ob stale entry s']) simp_all
  with dl show ?thesis by simp
qed

lemma fetch_missing_coherent:
  assumes V: "V (as_str p) (fsize a) (modified_unix_seconds a) = f" and len: "length f = unat (fsize a)"
  shows "fetch_missing s R p a cs w = (r, s', w') \<Longrightarrow> good w \<Longrightarrow> file_of w p = Some f \<Longrightarrow>
    \<forall>k \<in> set cs. unat k * unat (chunk_size s) < unat (fsize a) \<Longrightarrow>
    store_inv s \<Longrightarrow> can_allocate s (length cs) \<Longrightarrow> coherent V s \<Longrightarrow>
    coherent V s' \<and> good w' \<and> file_of w' = file_of w"
proof (induction cs arbitrary: s w)
  case Nil
  then show ?case by simp
next
  case (Cons chunk rest)
  show ?case
  proof (cases "cached_chunk s p a chunk")
    case (Some ob)
    with Cons.prems show ?thesis by (intro Cons.IH) (auto simp: can_allocate_def)
  next
    case None
    obtain r1 s1 w1 where f1: "fetch_chunk s R p a chunk w = (r1, s1, w1)"
      by (cases "fetch_chunk s R p a chunk w") auto
    have room: "can_allocate s 1" using Cons.prems(6) by (simp add: can_allocate_def)
    note coh = fetch_chunk_coherent[OF f1 Cons.prems(2,3) V len _ Cons.prems(5) room Cons.prems(7)]
      and inv = fetch_chunk_inv[OF f1 Cons.prems(5) room]
    show ?thesis
    proof (cases r1)
      case (Err e)
      with Cons.prems(1,4) None f1 coh show ?thesis by simp
    next
      case (Ok ob)
      have "coherent V s' \<and> good w' \<and> file_of w' = file_of w1"
      proof (rule Cons.IH)
        show "fetch_missing s1 R p a rest w1 = (r, s', w')" using Cons.prems(1) None f1 Ok by simp
        show "can_allocate s1 (length rest)"
          using Cons.prems(6) inv(2) by (simp add: can_allocate_def)
      qed (use coh inv Cons.prems in auto)
      with coh Cons.prems(4) show ?thesis by simp
    qed
  qed
qed

lemma store_read_coherent:
  assumes rd: "store_read s p R a pos sz w = (r, s', w')"
    and w: "good w" "file_of w p = Some f"
    and V: "V (as_str p) (fsize a) (modified_unix_seconds a) = f" and len: "length f = unat (fsize a)"
    and inv: "store_inv s" and coh: "coherent V s" and room: "read_room a s"
      "can_allocate s (length (chunk_range pos (min (saturating_add pos (ucast sz)) (fsize a)) (chunk_size s)))"
  shows "coherent V s' \<and> good w' \<and> file_of w' = file_of w \<and>
    (\<forall>out. r = Ok out \<longrightarrow> out = take (unat sz) (drop (unat pos) f))"
proof (cases "sz = 0 \<or> fsize a \<le> pos")
  case True
  with rd w coh len show ?thesis by (auto simp: store_read_def word_le_nat_alt)
next
  case False
  let ?en = "min (saturating_add pos (ucast sz)) (fsize a)"
  let ?cr = "chunk_range pos ?en (chunk_size s)"
  have cs: "0 < chunk_size s" using inv by (simp add: store_inv_def)
  note en = read_end_bounds(1,2)[OF False cs] and ks = read_end_bounds(3)[OF False cs]
  obtain r1 s1 w1 where f1: "fetch_missing s R p a ?cr w = (r1, s1, w1)"
    by (cases "fetch_missing s R p a ?cr w") auto
  have c1: "coherent V s1" "good w1" "file_of w1 = file_of w"
    using fetch_missing_coherent[OF V len f1 w ks inv room(2) coh] by auto
  have i1: "store_inv s1" "chunk_size s1 = chunk_size s"
    using fetch_missing_inv[OF f1 inv room(2)] by auto
  show ?thesis
  proof (cases r1)
    case (Err e)
    with rd False f1 c1 show ?thesis by (auto simp: store_read_def Let_def)
  next
    case (Ok u)
    obtain r2 s2 where r2: "read_cached_range s1 p pos ?en = (r2, s2)" by fastforce
    then obtain pl where s2: "s2 = s1\<lparr>dir := (dir s1)\<lparr>io_plan := pl\<rparr>\<rparr>"
      using read_cached_range_frame by blast
    have res: "r = r2" "s' = s2" "w' = w1"
      using rd False f1 r2 Ok by (auto simp: store_read_def Let_def)
    have "coherent V s2" using c1(1) s2 by (simp add: coherent_def)
    moreover have "out = take (unat sz) (drop (unat pos) f)" if out: "r2 = Ok out" for out
    proof -
      have hit: "\<And>k. k \<in> set ?cr \<Longrightarrow> cached_chunk s1 p a k \<noteq> None"
        using fetch_missing_cached[of s R p a ?cr w s1 w1] f1 Ok by simp
      have "hd ?cr \<in> set ?cr" using read_end_bounds(4)[OF False cs] by simp
      from hit[OF this] obtain c where c: "content_of (index s1) (as_str p) = Some c"
          "c_size c = fsize a" "c_modified c = modified_unix_seconds a" "c_chunk_size c = chunk_size s1"
        by (auto simp: cached_chunk_alt)
      have "out = segment f (unat pos) (unat ?en)"
      proof (rule read_cached_range_exact[OF r2[unfolded out] i1(1) c1(1) c(1)])
        fix k
        assume "k \<in> set (chunk_range pos ?en (chunk_size s1))"
        with hit[of k] c(1) i1(2) show "fmlookup (c_chunks c) k \<noteq> None"
          by (auto simp: cached_chunk_alt)
      qed (use V c en room(1) i1(2) unat_u32_less[of sz] in \<open>auto simp: read_room_def\<close>)
      then show ?thesis using en(1) len by (simp add: segment_def min_def)
    qed
    ultimately show ?thesis using res c1 by auto
  qed
qed

end

end
