(* ===== verification/Store_Liveness.thy ===== *)
theory Store_Liveness
  imports Store_Content
begin

text \<open>
  Reads through the store succeed: when no local file-system call fails (short reads are still
  allowed) and the transport answers every read, \<open>Store::read\<close> returns the requested bytes.  The
  lemmas show for each operation on the way that it ends with \<open>Ok\<close>.
\<close>

section \<open>Directories whose calls do not fail\<close>

definition benign :: "'j cache_dir \<Rightarrow> bool" where
  "benign d \<longleftrightarrow> (\<forall>e. IoFail e \<notin> set (io_plan d))"

lemma benign_upd [simp]:
  "benign (d\<lparr>objects := x\<rparr>) = benign d" "benign (d\<lparr>tmp := y\<rparr>) = benign d"
  "benign (d\<lparr>index_json := z\<rparr>) = benign d"
  by (simp_all add: benign_def)

lemma io_next_benign: "benign d \<Longrightarrow> io_next d = (x, d') \<Longrightarrow> (\<forall>e. x \<noteq> IoFail e) \<and> benign d'"
  by (auto simp: io_next_def benign_def split: list.splits)

lemma io_call_benign: "benign d \<Longrightarrow> io_call d = (r, d') \<Longrightarrow> r = Ok () \<and> benign d'"
  using io_next_benign[of d] by (auto simp: io_call_def split: prod.splits io_outcome.splits)

lemma io_calls_benign: "benign d \<Longrightarrow> io_calls n d = (r, d') \<Longrightarrow> r = Ok () \<and> benign d'"
proof (induction n arbitrary: d)
  case 0
  then show ?case by simp
next
  case (Suc n)
  obtain r1 d1 where c: "io_call d = (r1, d1)" by fastforce
  with io_call_benign[OF Suc.prems(1)] Suc.prems(2) Suc.IH[of d1] show ?case by auto
qed

lemma remove_object_file_benign:
  assumes "benign d"
  shows "benign (remove_object_file ob d)"
proof -
  obtain r d1 where c: "io_call d = (r, d1)" by fastforce
  with io_call_benign[OF assms c] show ?thesis by (simp add: remove_object_file_def)
qed

lemma remove_objects_benign: "benign (dir s) \<Longrightarrow> benign (dir (remove_objects obs s))"
proof -
  have "benign d \<Longrightarrow> benign (fold remove_object_file obs d)" for d :: "'a cache_dir"
    by (induction obs arbitrary: d) (simp_all add: remove_object_file_benign)
  then show "benign (dir s) \<Longrightarrow> benign (dir (remove_objects obs s))" by (simp add: remove_objects_def)
qed

lemma persist_benign: "benign (dir s) \<Longrightarrow> benign (dir (persist s))"
proof -
  assume b: "benign (dir s)"
  obtain r d where c: "io_call (dir s) = (r, d)" by fastforce
  obtain r4 d4 where c4: "io_calls 4 d = (r4, d4)" by fastforce
  from io_call_benign[OF b c] io_calls_benign[OF _ c4] c c4
  show ?thesis by (auto simp: persist_def split: option.splits)
qed

lemma read_loop_benign: "benign d \<Longrightarrow> \<exists>out d'. read_loop fl pos len buf d = (Ok out, d') \<and> benign d'"
proof (induction fl pos len buf d rule: read_loop.induct)
  case (1 fl pos len buf d)
  obtain x d1 where n: "io_next d = (x, d1)" by fastforce
  note b = io_next_benign[OF "1.prems" n]
  show ?case
  proof (cases "length buf < len")
    case False
    with "1.prems" show ?thesis by (simp add: read_loop.simps[of fl pos len buf d])
  next
    case True
    then show ?thesis
      using n b "1.IH"(1)[OF True n[symmetric] _ refl refl] "1.IH"(2)[OF True n[symmetric] _ refl refl]
      by (cases x) (auto simp: read_loop.simps[of fl pos len buf d] Let_def)
  qed
qed

lemma read_object_benign:
  assumes "benign (dir s)" "ob \<in> fmdom' (objects (dir s))"
  shows "\<exists>out s'. read_object s ob pos sz = (Ok out, s') \<and> benign (dir s')"
proof -
  obtain r d where c: "io_call (dir s) = (r, d)" by fastforce
  then obtain pl where d: "d = (dir s)\<lparr>io_plan := pl\<rparr>" using io_call_frame by blast
  note b = io_call_benign[OF assms(1) c]
  obtain r2 d2 where c2: "io_call d = (r2, d2)" by fastforce
  note b2 = io_call_benign[OF _ c2]
  obtain fl where fl: "fmlookup (objects d) ob = Some fl"
    using assms(2) d by (auto simp: fmlookup_dom'_iff)
  obtain out d3 where "read_loop fl (unat pos) (unat sz) [] d2 = (Ok out, d3)" "benign d3"
    using read_loop_benign b b2 by blast
  with c b c2 b2 fl show ?thesis by (simp add: read_object_def)
qed

lemma read_chunks_benign:
  "benign (dir s) \<Longrightarrow>
   (\<And>k. k \<in> set cs \<Longrightarrow> \<exists>ob. fmlookup m k = Some ob \<and> ob \<in> fmdom' (objects (dir s))) \<Longrightarrow>
   \<exists>out s'. read_chunks s m pos en cs data = (Ok out, s') \<and> benign (dir s')"
proof (induction cs arbitrary: s data)
  case Nil
  then show ?case by simp
next
  case (Cons k cs)
  obtain ob where ob: "fmlookup m k = Some ob" "ob \<in> fmdom' (objects (dir s))"
    using Cons.prems(2)[of k] by auto
  let ?st = "k * chunk_size s"
  let ?rs = "max pos ?st - ?st" and ?re = "min en (?st + chunk_size s) - ?st"
  obtain out s1 where rd: "read_object s ob ?rs (ucast (?re - ?rs)) = (Ok out, s1)" "benign (dir s1)"
    using read_object_benign[OF Cons.prems(1) ob(2)] by blast
  then have "objects (dir s1) = objects (dir s)" using read_object_frame by fastforce
  with Cons.IH[OF rd(2), of "data @ out"] Cons.prems(2) ob(1) rd(1) show ?case
    by (auto simp: Let_def)
qed

section \<open>A transport that answers\<close>

locale remote_answers = remote_content R good file_of
  for R :: "'w RemoteFilesystem" and good and file_of +
  assumes read_answers: "good w \<Longrightarrow> file_of w p = Some f \<Longrightarrow> \<exists>data w'. rf_read R p pos sz w = (Ok data, w')"
begin

lemma download_loop_total:
  "benign d \<Longrightarrow> good w \<Longrightarrow> file_of w p = Some f \<Longrightarrow>
   \<exists>d' w'. download_loop R p temp cst cl wr d w = (Ok (), d', w') \<and> benign d'"
proof (induction "unat cl - length wr" arbitrary: wr d w rule: less_induct)
  case less
  note unf = download_loop.simps[of R p temp cst cl wr d w]
  show ?case
  proof (cases "length wr < unat cl")
    case False
    with less.prems(1) show ?thesis by (simp add: unf)
  next
    case True
    let ?want = "min (unat cl - length wr) (2 ^ 32 - 1)"
    obtain data w1 where rd: "rf_read R p (cst + of_nat (length wr)) (of_nat ?want) w = (Ok data, w1)"
      using read_answers[OF less.prems(2,3)] by blast
    have w1: "good w1" "file_of w1 p = Some f" using read_keeps[OF less.prems(2) rd] less.prems(3) by auto
    obtain q d1 where io: "io_call d = (q, d1)" by fastforce
    note b = io_call_benign[OF less.prems(1) io]
    show ?thesis
    proof (cases "data = []")
      case emp: True
      with True rd less.prems(1) show ?thesis by (simp add: unf Let_def)
    next
      case False
      then have "unat cl - length (wr @ data) < unat cl - length wr"
        using True by (simp add: diff_less_mono2)
      from less.hyps[OF this _ w1, of "d1\<lparr>tmp := fmupd temp (wr @ data) (tmp d1)\<rparr>"] b True rd False io
      show ?thesis by (simp add: unf Let_def)
    qed
  qed
qed

lemma download_total:
  assumes "benign d" "good w" "file_of w p = Some f"
  shows "\<exists>d' w'. download R p a cs chunk temp d w = (Ok (), d', w') \<and> benign d'"
proof -
  obtain q d1 where io: "io_call d = (q, d1)" by fastforce
  note b = io_call_benign[OF assms(1) io]
  let ?d1 = "d1\<lparr>tmp := fmupd temp [] (tmp d1)\<rparr>"
  obtain d2 w2 where l: "download_loop R p temp (chunk * cs) (min (fsize a - chunk * cs) cs) [] ?d1 w
      = (Ok (), d2, w2)" "benign d2"
    using download_loop_total[where d = ?d1 and w = w and temp = temp, OF _ assms(2,3)] b by fastforce
  obtain q3 d3 where "io_call d2 = (q3, d3)" by fastforce
  with io_call_benign[OF l(2) this] b io l(1) show ?thesis by (simp add: download_def Let_def)
qed

lemma fetch_chunk_total:
  assumes b: "benign (dir s)" and w: "good w" "file_of w p = Some f"
    and len: "length f = unat (fsize a)" and chunk: "unat chunk * unat (chunk_size s) < unat (fsize a)"
  shows "\<exists>ob s' w'. fetch_chunk s R p a chunk w = (Ok ob, s', w') \<and> benign (dir s')"
proof -
  let ?temp = "(next_object (index s), temp_counter s)"
  obtain q d where c: "io_calls 2 (dir s) = (q, d)" by fastforce
  note b1 = io_calls_benign[OF b c]
  obtain d2 w2 where dl: "download R p a (chunk_size s) chunk ?temp d w = (Ok (), d2, w2)" "benign d2"
    using download_total[of d, OF _ w] b1 by blast
  obtain q3 d3 where c3: "io_call d2 = (q3, d3)" by fastforce
  note b3 = io_call_benign[OF dl(2) c3]
  obtain pl where "d3 = d2\<lparr>io_plan := pl\<rparr>" using c3 io_call_frame by blast
  with download_exact[OF dl(1) w len chunk] obtain fl where "fmlookup (tmp d3) ?temp = Some fl" by auto
  with c b1 dl c3 b3 show ?thesis
    by (auto simp: fetch_chunk_def Let_def split: prod.splits intro!: persist_benign)
       (rule remove_objects_benign, simp)+
qed


lemma fetch_missing_total:
  assumes V: "V (as_str p) (fsize a) (modified_unix_seconds a) = f" and len: "length f = unat (fsize a)"
  shows "benign (dir s) \<Longrightarrow> good w \<Longrightarrow> file_of w p = Some f \<Longrightarrow>
    \<forall>k \<in> set cs. unat k * unat (chunk_size s) < unat (fsize a) \<Longrightarrow>
    store_inv s \<Longrightarrow> can_allocate s (length cs) \<Longrightarrow> coherent V s \<Longrightarrow>
    \<exists>s' w'. fetch_missing s R p a cs w = (Ok (), s', w') \<and> benign (dir s')"
proof (induction cs arbitrary: s w)
  case Nil
  then show ?case by simp
next
  case (Cons chunk rest)
  have chunk: "unat chunk * unat (chunk_size s) < unat (fsize a)" using Cons.prems(4) by simp
  show ?case
  proof (cases "cached_chunk s p a chunk")
    case (Some ob)
    with Cons.prems Cons.IH[of s w] show ?thesis by (auto simp: can_allocate_def)
  next
    case None
    obtain ob s1 w1 where f1: "fetch_chunk s R p a chunk w = (Ok ob, s1, w1)" "benign (dir s1)"
      using fetch_chunk_total[OF Cons.prems(1-3) len chunk] by blast
    have room: "can_allocate s 1" using Cons.prems(6) by (simp add: can_allocate_def)
    note coh = fetch_chunk_coherent[OF f1(1) Cons.prems(2,3) V len chunk Cons.prems(5) room Cons.prems(7)]
      and inv = fetch_chunk_inv[OF f1(1) Cons.prems(5) room]
    have "\<exists>s' w'. fetch_missing s1 R p a rest w1 = (Ok (), s', w') \<and> benign (dir s')"
      using coh inv f1(2) Cons.prems by (intro Cons.IH) (auto simp: can_allocate_def)
    with None f1(1) show ?thesis by simp
  qed
qed

lemma store_read_total:
  assumes b: "benign (dir s)" and w: "good w" "file_of w p = Some f"
    and V: "V (as_str p) (fsize a) (modified_unix_seconds a) = f" and len: "length f = unat (fsize a)"
    and inv: "store_inv s" and coh: "coherent V s" and room: "read_room a s"
      "can_allocate s (length (chunk_range pos (min (saturating_add pos (ucast sz)) (fsize a)) (chunk_size s)))"
  shows "\<exists>s' w'. store_read s p R a pos sz w = (Ok (take (unat sz) (drop (unat pos) f)), s', w')
    \<and> benign (dir s')"
proof (cases "sz = 0 \<or> fsize a \<le> pos")
  case True
  with b len show ?thesis by (auto simp: store_read_def word_le_nat_alt)
next
  case False
  let ?en = "min (saturating_add pos (ucast sz)) (fsize a)"
  let ?cr = "chunk_range pos ?en (chunk_size s)"
  have cs: "0 < chunk_size s" using inv by (simp add: store_inv_def)
  note ks = read_end_bounds(3,4)[OF False cs]
  obtain s1 w1 where f1: "fetch_missing s R p a ?cr w = (Ok (), s1, w1)" "benign (dir s1)"
    using fetch_missing_total[OF V len b w ks(1) inv room(2) coh] by blast
  have i1: "store_inv s1" "chunk_size s1 = chunk_size s"
    using fetch_missing_inv[OF f1(1) inv room(2)] by auto
  have hit: "\<And>k. k \<in> set ?cr \<Longrightarrow> cached_chunk s1 p a k \<noteq> None"
    using fetch_missing_cached[OF f1(1)] by simp
  have "hd ?cr \<in> set ?cr" using ks(2) by simp
  from hit[OF this] obtain c where c: "content_of (index s1) (as_str p) = Some c"
      "c_chunk_size c = chunk_size s1"
    by (auto simp: cached_chunk_alt)
  have "\<exists>ob. fmlookup (c_chunks c) k = Some ob \<and> ob \<in> fmdom' (objects (dir s1))" if "k \<in> set ?cr" for k
    using hit[OF that] c(1) store_inv_object(1)[OF i1(1) c(1)] by (auto simp: cached_chunk_alt)
  from read_chunks_benign[OF f1(2) this]
  obtain out s2 where "read_chunks s1 (c_chunks c) pos ?en ?cr [] = (Ok out, s2)" "benign (dir s2)"
    by blast
  with c i1(2) have "read_cached_range s1 p pos ?en = (Ok out, s2)"
    using current_content_alt[of s1 p c] by (simp add: read_cached_range_def)
  with False f1(1) have rd: "store_read s p R a pos sz w = (Ok out, s2, w1)"
    by (simp add: store_read_def Let_def)
  with store_read_coherent[OF rd w V len inv coh room] \<open>benign (dir s2)\<close> show ?thesis by auto
qed

end

end
