(* ===== verification/Store_Laws.thy ===== *)
theory Store_Laws
  imports Store_Content
begin

text \<open>
  What the virtual filesystem relies on: the store as a keyed cache.  The interface is the locale
  \<open>keyed_cache\<close> (the laws of get, put and forget); it is interpreted twice on the store's operations, for
  attributes and for directory listings.  The client lemma of the locale says that after any sequence
  of recorded answers the cache returns the last one.  The remaining lemmas describe what the
  operations do to cached content.
\<close>

section \<open>The interface of a keyed cache\<close>

datatype ('k, 'x) answer = Answer 'k 'x | Gone 'k

fun answer_for :: "('x \<Rightarrow> 'v) \<Rightarrow> 'k \<Rightarrow> ('k, 'x) answer list \<Rightarrow> 'v option \<Rightarrow> 'v option" where
  "answer_for view k [] v = v"
| "answer_for view k (Answer k' x # as) v = answer_for view k as (if k' = k then Some (view x) else v)"
| "answer_for view k (Gone k' # as) v = answer_for view k as (if k' = k then None else v)"

fun record_answer ::
  "('s \<Rightarrow> 'k \<Rightarrow> 'x \<Rightarrow> 's) \<Rightarrow> ('s \<Rightarrow> 'k \<Rightarrow> 's) \<Rightarrow> ('k, 'x) answer \<Rightarrow> 's \<Rightarrow> 's" where
  "record_answer put forget (Answer k x) s = put s k x"
| "record_answer put forget (Gone k) s = forget s k"

locale keyed_cache =
  fixes get :: "'s \<Rightarrow> 'k \<Rightarrow> 'v option" and put :: "'s \<Rightarrow> 'k \<Rightarrow> 'x \<Rightarrow> 's" and forget :: "'s \<Rightarrow> 'k \<Rightarrow> 's"
    and view :: "'x \<Rightarrow> 'v"
  assumes get_put: "get (put s k x) k' = (if k' = k then Some (view x) else get s k')"
    and get_forget: "get (forget s k) k' = (if k' = k then None else get s k')"
begin

lemma last_answer_wins:
  "get (fold (record_answer put forget) as s) k = answer_for view k as (get s k)"
proof (induction as arbitrary: s)
  case Nil
  then show ?case by simp
next
  case (Cons ans as)
  then show ?case by (cases ans) (simp_all add: get_put get_forget)
qed

lemma put_forget_commute: "k \<noteq> k' \<Longrightarrow> get (put (forget s k') k x) = get (forget (put s k x) k')"
  by (auto simp: get_put get_forget)

end

section \<open>Attributes and listings of the store\<close>

lemma as_str_inject [simp]: "as_str p = as_str q \<longleftrightarrow> p = q"
  by (cases p; cases q) simp

lemma u8_to_kind_kind_to_u8 [simp]: "u8_to_kind (kind_to_u8 k) = k"
  by (cases k) (simp_all add: u8_to_kind_def)

lemma from_stored_to_stored [simp]: "from_stored (to_stored a) = a"
  by (simp add: from_stored_def to_stored_def)

lemma get_attrs_index: "index s' = index s \<Longrightarrow> get_attrs s' = get_attrs s"
  by (simp add: get_attrs_def fun_eq_iff)

definition attrs_in :: "Index \<Rightarrow> string \<Rightarrow> FileAttributes option" where
  "attrs_in ix key = map_option (\<lambda>e. from_stored (attrs e)) (fmlookup (entries ix) key)"

lemma get_attrs_in: "get_attrs s p = attrs_in (index s) (as_str p)"
  by (simp add: get_attrs_def attrs_in_def)

lemma store_attrs_spec:
  assumes "store_attrs ix key a = (stale, ix')"
  shows "attrs_in ix' k = (if k = key then Some a else attrs_in ix k)"
    "listings ix' = listings ix" "next_object ix' = next_object ix"
    "content_of ix' k =
      (if k = key
       then Option.bind (content_of ix key)
         (\<lambda>c. if c_size c = fsize a \<and> c_modified c = modified_unix_seconds a then Some c else None)
       else content_of ix k)"
  using assms
  by (auto simp: store_attrs_def attrs_in_def content_of_def Let_def split: option.splits if_splits)

lemma put_attrs_index:
  obtains stale ix where "store_attrs (index s) (as_str p) a = (stale, ix)" "index (put_attrs s p a) = ix"
  by (cases "store_attrs (index s) (as_str p) a") (auto simp: put_attrs_def)

lemma get_put_attrs: "get_attrs (put_attrs s p a) q = (if q = p then Some a else get_attrs s q)"
  by (rule put_attrs_index[of s p a]) (simp add: get_attrs_in store_attrs_spec)

lemma children_put_attrs [simp]: "get_children (put_attrs s p a) = get_children s"
  by (rule put_attrs_index[of s p a]) (simp add: get_children_def store_attrs_spec fun_eq_iff)

lemma store_remove_index:
  "index (store_remove s p) = (index s)\<lparr>entries := fmdrop (as_str p) (entries (index s)),
     listings := fmdrop (as_str p) (listings (index s))\<rparr>"
  by (auto simp: store_remove_def Let_def split: option.splits)

lemma get_store_remove: "get_attrs (store_remove s p) q = (if q = p then None else get_attrs s q)"
  by (simp add: get_attrs_in store_remove_index attrs_in_def)

interpretation attr_cache: keyed_cache get_attrs put_attrs store_remove "\<lambda>a. a"
  by unfold_locales (simp_all add: get_put_attrs get_store_remove)

lemma record_children_spec:
  "record_children parent cs ix orphans = (orphans', ix') \<Longrightarrow>
   listings ix' = listings ix \<and> next_object ix' = next_object ix \<and>
   (\<forall>k c. content_of ix' k = Some c \<longrightarrow> content_of ix k = Some c)"
proof (induction parent cs ix orphans rule: record_children.induct)
  case (1 parent ix orphans)
  then show ?case by simp
next
  case (2 parent name a rest ix orphans)
  show ?case
  proof (cases "RemotePath_join parent name")
    case (Err e)
    with 2 show ?thesis by simp
  next
    case (Ok child)
    obtain obs ix1 where sa: "store_attrs ix (as_str child) a = (obs, ix1)" by fastforce
    with 2 Ok have "listings ix' = listings ix1 \<and> next_object ix' = next_object ix1 \<and>
        (\<forall>k c. content_of ix' k = Some c \<longrightarrow> content_of ix1 k = Some c)" by simp
    moreover have "content_of ix k = Some c" if "content_of ix1 k = Some c" for k c
      using that unfolding store_attrs_spec(4)[OF sa]
      by (cases "content_of ix (as_str child)") (auto split: if_splits)
    ultimately show ?thesis
      using store_attrs_spec(2,3)[OF sa] by auto
  qed
qed

lemma record_listing_index:
  obtains orphans ix where "record_children p cs (index s) [] = (orphans, ix)"
    "index (record_listing s p cs) = ix\<lparr>listings := fmupd (as_str p) (map fst cs) (listings ix)\<rparr>"
  by (cases "record_children p cs (index s) []") (auto simp: record_listing_def)

lemma get_record_listing:
  "get_children (record_listing s p cs) q = (if q = p then Some (map fst cs) else get_children s q)"
  by (rule record_listing_index[of p cs s]) (simp add: get_children_def record_children_spec)

lemma invalidate_children_index:
  "index (invalidate_children s p) = (index s)\<lparr>listings := fmdrop (as_str p) (listings (index s))\<rparr>"
proof (cases "fmlookup (listings (index s)) (as_str p)")
  case None
  then have "fmdrop (as_str p) (listings (index s)) = listings (index s)"
    by (auto intro!: fmap_ext)
  with None show ?thesis by (simp add: invalidate_children_def)
qed (simp add: invalidate_children_def)

lemma get_invalidate_children:
  "get_children (invalidate_children s p) q = (if q = p then None else get_children s q)"
  by (simp add: get_children_def invalidate_children_index)

lemma attrs_invalidate_children [simp]: "get_attrs (invalidate_children s p) = get_attrs s"
  by (simp add: get_attrs_in fun_eq_iff invalidate_children_index attrs_in_def)

interpretation listing_cache: keyed_cache get_children record_listing invalidate_children "map fst"
  by unfold_locales (simp_all add: get_record_listing get_invalidate_children)


section \<open>Cached content under metadata operations\<close>

lemma content_put_attrs:
  "content_of (index (put_attrs s p a)) k =
    (if k = as_str p
     then Option.bind (content_of (index s) k)
       (\<lambda>c. if c_size c = fsize a \<and> c_modified c = modified_unix_seconds a then Some c else None)
     else content_of (index s) k)"
  by (rule put_attrs_index[of s p a]) (simp add: store_attrs_spec)

lemma content_put_attrs_sub:
  "content_of (index (put_attrs s p a)) k = Some c \<Longrightarrow> content_of (index s) k = Some c"
  unfolding content_put_attrs by (cases "content_of (index s) k") (auto split: if_splits)

lemma content_record_listing_sub:
  "content_of (index (record_listing s p cs)) k = Some c \<Longrightarrow> content_of (index s) k = Some c"
  by (rule record_listing_index[of p cs s]) (auto simp: content_of_def dest!: record_children_spec)

lemma content_store_remove:
  "content_of (index (store_remove s p)) k = (if k = as_str p then None else content_of (index s) k)"
  by (simp add: content_of_def store_remove_index)

lemma content_invalidate_children [simp]:
  "content_of (index (invalidate_children s p)) = content_of (index s)"
  by (simp add: content_of_def fun_eq_iff invalidate_children_index)

lemma invalidate_content_spec:
  "content_of (index (invalidate_content s p)) k = (if k = as_str p then None else content_of (index s) k)"
  "get_attrs (invalidate_content s p) q = get_attrs s q"
  "get_children (invalidate_content s p) = get_children s"
  "next_object (index (invalidate_content s p)) = next_object (index s)"
  by (auto simp: invalidate_content_def content_of_def get_attrs_def get_children_def Let_def fun_eq_iff
      split: option.splits)

lemma rename_index:
  "entries (index (store_rename s from to)) = fold fmdrop
     (filter (prefix (as_str from @ ''/'')) (fm_keys (move_key (as_str from) (as_str to) (entries (index s)))))
     (move_key (as_str from) (as_str to) (entries (index s)))"
  "next_object (index (store_rename s from to)) = next_object (index s)"
  by (simp_all add: store_rename_def Let_def)

lemma rename_entries:
  "fmlookup (entries (index (store_rename s from to))) k =
    (if prefix (as_str from @ ''/'') k then None
     else if fmlookup (entries (index s)) (as_str from) = None then fmlookup (entries (index s)) k
     else if k = as_str to then fmlookup (entries (index s)) (as_str from)
     else if k = as_str from then None else fmlookup (entries (index s)) k)"
proof -
  let ?m = "move_key (as_str from) (as_str to) (entries (index s))"
  have "fmlookup (entries (index (store_rename s from to))) k =
      (if prefix (as_str from @ ''/'') k \<and> k \<in> fmdom' ?m then None else fmlookup ?m k)"
    by (simp add: rename_index fold_fmdrop_lookup)
  also have "\<dots> = (if prefix (as_str from @ ''/'') k then None else fmlookup ?m k)"
    by (auto simp: fmlookup_dom'_iff)
  finally show ?thesis by (simp add: move_key_lookup)
qed

section \<open>Coherence under metadata operations\<close>

lemma objects_sub:
  "fmlookup (objects (dir (put_attrs s p a))) ob = Some x \<Longrightarrow> fmlookup (objects (dir s)) ob = Some x"
  "fmlookup (objects (dir (record_listing s p cs))) ob = Some x \<Longrightarrow> fmlookup (objects (dir s)) ob = Some x"
  "fmlookup (objects (dir (invalidate_children s p))) ob = Some x \<Longrightarrow> fmlookup (objects (dir s)) ob = Some x"
  "fmlookup (objects (dir (store_remove s p))) ob = Some x \<Longrightarrow> fmlookup (objects (dir s)) ob = Some x"
  "fmlookup (objects (dir (invalidate_content s p))) ob = Some x \<Longrightarrow> fmlookup (objects (dir s)) ob = Some x"
  "fmlookup (objects (dir (store_rename s p q))) ob = Some x \<Longrightarrow> fmlookup (objects (dir s)) ob = Some x"
  by (auto simp: put_attrs_def record_listing_def invalidate_children_def store_remove_def
      invalidate_content_def store_rename_def Let_def dest!: remove_objects_sub
      split: prod.splits option.splits if_splits)

lemma put_attrs_coherent: "store_inv s \<Longrightarrow> coherent V s \<Longrightarrow> coherent V (put_attrs s p a)"
  by (rule coherent_sub[where s = s, OF _ put_attrs_inv]) (auto dest: objects_sub content_put_attrs_sub)

lemma record_listing_coherent: "store_inv s \<Longrightarrow> coherent V s \<Longrightarrow> coherent V (record_listing s p cs)"
  by (rule coherent_sub[where s = s, OF _ record_listing_inv]) (auto dest: objects_sub content_record_listing_sub)

lemma invalidate_children_coherent: "store_inv s \<Longrightarrow> coherent V s \<Longrightarrow> coherent V (invalidate_children s p)"
  by (rule coherent_sub[where s = s, OF _ invalidate_children_inv]) (auto dest: objects_sub)

lemma store_remove_coherent: "store_inv s \<Longrightarrow> coherent V s \<Longrightarrow> coherent V (store_remove s p)"
  by (rule coherent_sub[where s = s, OF _ store_remove_inv]) (auto simp: content_store_remove dest: objects_sub split: if_splits)

lemma invalidate_content_coherent: "store_inv s \<Longrightarrow> coherent V s \<Longrightarrow> coherent V (invalidate_content s p)"
  by (rule coherent_sub[where s = s, OF _ invalidate_content_inv])
     (auto simp: invalidate_content_spec dest: objects_sub split: if_splits)

lemma store_rename_coherent:
  assumes inv: "store_inv s" and coh: "coherent V s" and V: "V (as_str to) = V (as_str from)"
  shows "coherent V (store_rename s from to)"
  unfolding coherent_def
proof (intro allI impI)
  fix key c k ob
  let ?s' = "store_rename s from to"
  assume c: "content_of (index ?s') key = Some c" and k: "fmlookup (c_chunks c) k = Some ob"
  obtain x where x: "fmlookup (objects (dir ?s')) ob = Some x"
    using store_inv_object(1)[OF store_rename_inv[OF inv] c k] by (auto simp: fmlookup_dom'_iff)
  note x' = objects_sub(6)[OF x]
  have "\<exists>key'. content_of (index s) key' = Some c \<and> V key' = V key"
    using c V by (auto simp: content_of_def rename_entries split: if_splits
        intro: exI[of _ "as_str from"] exI[of _ key])
  then obtain key' where key': "content_of (index s) key' = Some c" "V key' = V key" by blast
  from coherentD[OF coh key'(1) k] x x' key'(2)
  show "fmlookup (objects (dir ?s')) ob
      = Some (chunk_bytes (V key (c_size c) (c_modified c)) (c_size c) (c_chunk_size c) k)"
    by simp
qed

lemmas coherent_intros = put_attrs_coherent record_listing_coherent invalidate_children_coherent
  store_remove_coherent invalidate_content_coherent

end
