(* ===== verification/Mock_Remote.thy ===== *)
theory Mock_Remote
  imports Core_Types
begin

text \<open>
  The in-memory remote tree of the test module of \<open>crates/cacheshfs-core/src/vfs.rs\<close>
  (\<open>MockState\<close>, \<open>MockRemote\<close>), against which the crate exercises its virtual filesystem.  Here it is
  the concrete transport on which the interfaces that the cache relies on are interpreted.

  The mutex around \<open>MockState\<close> becomes state passing: the world of this remote is the \<open>MockState\<close>.
  \<open>usize\<close> is 64 bits wide; offsets are read as natural numbers, since no vector reaches 2^64 bytes.
  The two \<open>unwrap\<close> calls of \<open>read_dir\<close> panic in the code on a listed child without a node; the
  model gives that panic the error \<open>mock_panic\<close>, and the lemma \<open>mock_read_dir_no_panic\<close> shows that
  it does not happen on a well-formed tree.
\<close>

section \<open>State\<close>

record MockState =
  nodes :: "(string, FileAttributes \<times> bytes option) fmap"
  dirs :: "(string, string list) fmap"
  stat_calls :: nat
  read_dir_calls :: nat
  read_calls :: nat
  ms_unreachable :: bool

definition path_split :: "string \<Rightarrow> string \<times> string" where
  "path_split path =
     (let trimmed = trim_end_matches CHR ''/'' path
      in case rsplit_once CHR ''/'' trimmed of
           Some (parent, name) \<Rightarrow> (if parent = [] then ''/'' else parent, name)
         | None \<Rightarrow> (''/'', trimmed))"

definition dir_attrs :: FileAttributes where
  "dir_attrs = \<lparr>kind = Directory, fsize = 0, mode = 0x1ED, uid = 0, gid = 0,
     modified_unix_seconds = None, accessed_unix_seconds = None, changed_unix_seconds = None\<rparr>"

definition file_attrs :: "u64 \<Rightarrow> FileAttributes" where
  "file_attrs sz = \<lparr>kind = File, fsize = sz, mode = 0x1A4, uid = 0, gid = 0,
     modified_unix_seconds = Some 1700000000, accessed_unix_seconds = None,
     changed_unix_seconds = None\<rparr>"

definition byte_string :: "string \<Rightarrow> bytes" where
  "byte_string s = map (\<lambda>c. of_nat (of_char c)) s"

definition MockRemote_new :: MockState where
  "MockRemote_new = \<lparr>
     nodes = fmap_of_list
       [(''/'', (dir_attrs, None)),
        (''/readme.txt'', (file_attrs 5, Some (byte_string ''hello''))),
        (''/sub'', (dir_attrs, None)),
        (''/sub/a.txt'', (file_attrs 4, Some (byte_string ''aaaa'')))],
     dirs = fmap_of_list [(''/'', [''readme.txt'', ''sub'']), (''/sub'', [''a.txt''])],
     stat_calls = 0, read_dir_calls = 0, read_calls = 0, ms_unreachable = False\<rparr>"

definition set_unreachable :: "bool \<Rightarrow> MockState \<Rightarrow> MockState" where
  "set_unreachable b st = st\<lparr>ms_unreachable := b\<rparr>"

definition set_file :: "string \<Rightarrow> bytes \<Rightarrow> MockState \<Rightarrow> MockState option" where
  "set_file path contents st =
     (case fmlookup (nodes st) path of
        None \<Rightarrow> None
      | Some (a, _) \<Rightarrow>
          (let a = a\<lparr>fsize := of_nat (length contents),
                     modified_unix_seconds :=
                       Some ((case modified_unix_seconds a of None \<Rightarrow> 0 | Some t \<Rightarrow> t) + 1)\<rparr>
           in Some (st\<lparr>nodes := fmupd path (a, Some contents) (nodes st)\<rparr>)))"

section \<open>The remote operations\<close>

definition connection_lost :: error where
  "connection_lost = Unavailable ''connection lost''"

definition is_a_directory :: error where
  "is_a_directory = InvalidInput ''is a directory''"

definition mock_panic :: error where
  "mock_panic = MountBackend ''called `Option::unwrap()` on a `None` value''"

definition mock_stat :: "RemotePath \<Rightarrow> MockState \<Rightarrow> FileAttributes result \<times> MockState" where
  "mock_stat path st =
     (let st = st\<lparr>stat_calls := stat_calls st + 1\<rparr>
      in if ms_unreachable st then (Err connection_lost, st)
         else (case fmlookup (nodes st) (as_str path) of
                 None \<Rightarrow> (Err NotFound, st)
               | Some (a, _) \<Rightarrow> (Ok a, st)))"

fun mock_children :: "MockState \<Rightarrow> RemotePath \<Rightarrow> string list \<Rightarrow> RemoteDirectoryEntry list result" where
  "mock_children st path [] = Ok []"
| "mock_children st path (name # names) =
     (case RemotePath_join path name of
        Err _ \<Rightarrow> Err mock_panic
      | Ok child \<Rightarrow>
          (case fmlookup (nodes st) (as_str child) of
             None \<Rightarrow> Err mock_panic
           | Some (a, _) \<Rightarrow>
               (case mock_children st path names of
                  Err e \<Rightarrow> Err e
                | Ok es \<Rightarrow> Ok (\<lparr>re_name = name, re_attributes = a\<rparr> # es))))"

definition mock_read_dir :: "RemotePath \<Rightarrow> MockState \<Rightarrow> RemoteDirectoryEntry list result \<times> MockState" where
  "mock_read_dir path st =
     (let st = st\<lparr>read_dir_calls := read_dir_calls st + 1\<rparr>
      in if ms_unreachable st then (Err connection_lost, st)
         else (case fmlookup (dirs st) (as_str path) of
                 None \<Rightarrow> (Err NotFound, st)
               | Some names \<Rightarrow> (mock_children st path names, st)))"

definition mock_read :: "RemotePath \<Rightarrow> u64 \<Rightarrow> u32 \<Rightarrow> MockState \<Rightarrow> bytes result \<times> MockState" where
  "mock_read path offset sz st =
     (let st = st\<lparr>read_calls := read_calls st + 1\<rparr>
      in if ms_unreachable st then (Err connection_lost, st)
         else (case fmlookup (nodes st) (as_str path) of
                 None \<Rightarrow> (Err NotFound, st)
               | Some (_, None) \<Rightarrow> (Err is_a_directory, st)
               | Some (_, Some contents) \<Rightarrow>
                   (let start = min (unat offset) (length contents);
                        end' = min (start + unat sz) (length contents)
                    in (Ok (take (end' - start) (drop start contents)), st))))"

definition resize :: "bytes \<Rightarrow> nat \<Rightarrow> bytes" where
  "resize xs n = take n xs @ replicate (n - length xs) 0"

definition mock_write :: "RemotePath \<Rightarrow> u64 \<Rightarrow> bytes \<Rightarrow> MockState \<Rightarrow> u32 result \<times> MockState" where
  "mock_write path offset data st =
     (case fmlookup (nodes st) (as_str path) of
        None \<Rightarrow> (Err NotFound, st)
      | Some (_, None) \<Rightarrow> (Err is_a_directory, st)
      | Some (a, Some contents) \<Rightarrow>
          (let end' = unat offset + length data;
               contents = (if length contents < end' then resize contents end' else contents);
               contents = take (unat offset) contents @ data @ drop end' contents
           in (Ok (of_nat (length data)),
               st\<lparr>nodes := fmupd (as_str path)
                    (a\<lparr>fsize := of_nat (length contents)\<rparr>, Some contents) (nodes st)\<rparr>)))"

definition push_child :: "string \<Rightarrow> string \<Rightarrow> (string, string list) fmap \<Rightarrow> (string, string list) fmap" where
  "push_child parent name ds =
     fmupd parent ((case fmlookup ds parent of None \<Rightarrow> [] | Some ns \<Rightarrow> ns) @ [name]) ds"

definition retain_others ::
  "string \<Rightarrow> string \<Rightarrow> (string, string list) fmap \<Rightarrow> (string, string list) fmap" where
  "retain_others parent name ds =
     (case fmlookup ds parent of
        None \<Rightarrow> ds
      | Some ns \<Rightarrow> fmupd parent (filter (\<lambda>child. child \<noteq> name) ns) ds)"

definition mock_create :: "RemotePath \<Rightarrow> u32 \<Rightarrow> MockState \<Rightarrow> FileAttributes result \<times> MockState" where
  "mock_create path m st =
     (if fmlookup (nodes st) (as_str path) \<noteq> None then (Err AlreadyExists, st)
      else
        (let a = (file_attrs 0)\<lparr>mode := m\<rparr>;
             (parent, name) = path_split (as_str path)
         in (Ok a, st\<lparr>nodes := fmupd (as_str path) (a, Some []) (nodes st),
                      dirs := push_child parent name (dirs st)\<rparr>)))"

definition mock_mkdir :: "RemotePath \<Rightarrow> u32 \<Rightarrow> MockState \<Rightarrow> FileAttributes result \<times> MockState" where
  "mock_mkdir path m st =
     (if fmlookup (nodes st) (as_str path) \<noteq> None then (Err AlreadyExists, st)
      else
        (let a = dir_attrs\<lparr>mode := m\<rparr>;
             (parent, name) = path_split (as_str path)
         in (Ok a, st\<lparr>nodes := fmupd (as_str path) (a, None) (nodes st),
                      dirs := push_child parent name (fmupd (as_str path) [] (dirs st))\<rparr>)))"

definition mock_unlink :: "RemotePath \<Rightarrow> MockState \<Rightarrow> unit result \<times> MockState" where
  "mock_unlink path st =
     (case fmlookup (nodes st) (as_str path) of
        None \<Rightarrow> (Err NotFound, st)
      | Some _ \<Rightarrow>
          (let (parent, name) = path_split (as_str path)
           in (Ok (), st\<lparr>nodes := fmdrop (as_str path) (nodes st),
                         dirs := retain_others parent name (dirs st)\<rparr>)))"

definition mock_rmdir :: "RemotePath \<Rightarrow> MockState \<Rightarrow> unit result \<times> MockState" where
  "mock_rmdir path st =
     (case fmlookup (nodes st) (as_str path) of
        None \<Rightarrow> (Err NotFound, st)
      | Some _ \<Rightarrow>
          (let (parent, name) = path_split (as_str path)
           in (Ok (), st\<lparr>nodes := fmdrop (as_str path) (nodes st),
                         dirs := retain_others parent name (fmdrop (as_str path) (dirs st))\<rparr>)))"

definition mock_rename :: "RemotePath \<Rightarrow> RemotePath \<Rightarrow> MockState \<Rightarrow> unit result \<times> MockState" where
  "mock_rename from to st =
     (case fmlookup (nodes st) (as_str from) of
        None \<Rightarrow> (Err NotFound, st)
      | Some nd \<Rightarrow>
          (let ds = (case fmlookup (dirs st) (as_str from) of
                       None \<Rightarrow> dirs st
                     | Some listing \<Rightarrow> fmupd (as_str to) listing (fmdrop (as_str from) (dirs st)));
               (from_parent, from_name) = path_split (as_str from);
               (to_parent, to_name) = path_split (as_str to)
           in (Ok (), st\<lparr>nodes := fmupd (as_str to) nd (fmdrop (as_str from) (nodes st)),
                         dirs := push_child to_parent to_name (retain_others from_parent from_name ds)\<rparr>)))"

definition mock_setattr :: "RemotePath \<Rightarrow> SetAttributes \<Rightarrow> MockState \<Rightarrow> FileAttributes result \<times> MockState" where
  "mock_setattr path sa st =
     (case fmlookup (nodes st) (as_str path) of
        None \<Rightarrow> (Err NotFound, st)
      | Some (a, contents) \<Rightarrow>
          (let (a, contents) =
                 (case sa_size sa of
                    None \<Rightarrow> (a, contents)
                  | Some sz \<Rightarrow> (a\<lparr>fsize := sz\<rparr>, map_option (\<lambda>c. resize c (unat sz)) contents));
               a = (case sa_mode sa of None \<Rightarrow> a | Some m \<Rightarrow> a\<lparr>mode := m\<rparr>);
               a = (if sa_modified sa \<noteq> None then a\<lparr>modified_unix_seconds := sa_modified sa\<rparr> else a);
               a = (if sa_accessed sa \<noteq> None then a\<lparr>accessed_unix_seconds := sa_accessed sa\<rparr> else a)
           in (Ok a, st\<lparr>nodes := fmupd (as_str path) (a, contents) (nodes st)\<rparr>)))"

definition MockRemote :: "MockState RemoteFilesystem" where
  "MockRemote = \<lparr>
     rf_stat = mock_stat, rf_read_dir = mock_read_dir, rf_read = mock_read, rf_write = mock_write,
     rf_create = mock_create, rf_mkdir = mock_mkdir, rf_unlink = mock_unlink, rf_rmdir = mock_rmdir,
     rf_rename = mock_rename, rf_setattr = mock_setattr\<rparr>"

section \<open>Well-formed trees\<close>

definition mock_wf :: "MockState \<Rightarrow> bool" where
  "mock_wf st \<longleftrightarrow>
     (\<forall>p names name. fmlookup (dirs st) (as_str p) = Some names \<longrightarrow> name \<in> set names \<longrightarrow>
        (\<exists>child. RemotePath_join p name = Ok child \<and> as_str child \<in> fmdom' (nodes st)))"

lemma mock_read_slice:
  assumes "\<not> ms_unreachable st" "fmlookup (nodes st) (as_str p) = Some (a, Some contents)"
  shows "fst (mock_read p pos sz st) = Ok (take (unat sz) (drop (unat pos) contents))"
proof -
  have "take (min (min (unat pos) (length contents) + unat sz) (length contents)
          - min (unat pos) (length contents)) (drop (min (unat pos) (length contents)) contents)
      = take (unat sz) (drop (unat pos) contents)"
    by (cases "unat pos \<le> length contents") (auto simp: min_def)
  with assms show ?thesis by (simp add: mock_read_def Let_def)
qed

lemma mock_read_dir_no_panic:
  assumes "mock_wf st"
  shows "fst (mock_read_dir p st) \<noteq> Err mock_panic"
proof -
  have "mock_children st' p names \<noteq> Err mock_panic"
    if "\<forall>name \<in> set names. \<exists>child. RemotePath_join p name = Ok child \<and> as_str child \<in> fmdom' (nodes st')"
    for names and st' :: MockState
    using that
    by (induction names) (force simp: fmlookup_dom'_iff split: result.splits)+
  with assms show ?thesis
    by (auto simp: mock_read_dir_def mock_wf_def Let_def connection_lost_def mock_panic_def
        split: option.splits)
qed

end
