(* ===== verification/Store_Properties.thy ===== *)
theory Store_Properties
  imports Store_Liveness Store_Laws Mock_Remote
begin

text \<open>
  The properties of the cache store: its runs as a step relation with the referential invariant, exact
  reads, hits that do not contact the server, the laws of the metadata operations, persistence across
  a reopen, and their concrete instances on the in-memory remote.
\<close>

section \<open>Runs of the store\<close>

text \<open>
  A run starts on a cache directory without an index and interleaves the store's operations with
  changes of the server (\<open>server\<close>) and of the local file system's behaviour (\<open>io\<close>).  A read carries
  the condition that the \<open>u64\<close> object counter does not overflow.
\<close>

inductive store_step :: "'w RemoteFilesystem \<Rightarrow> 'j Store \<times> 'w \<Rightarrow> 'j Store \<times> 'w \<Rightarrow> bool"
  for R :: "'w RemoteFilesystem" where
  put_attrs: "store_step R (s, w) (put_attrs s p a, w)"
| record_listing: "store_step R (s, w) (record_listing s p cs, w)"
| invalidate_children: "store_step R (s, w) (invalidate_children s p, w)"
| remove: "store_step R (s, w) (store_remove s p, w)"
| rename: "store_step R (s, w) (store_rename s p q, w)"
| invalidate_content: "store_step R (s, w) (invalidate_content s p, w)"
| read: "store_read s p R a pos sz w = (r, s', w') \<Longrightarrow>
    can_allocate s (length (chunk_range pos (min (saturating_add pos (ucast sz)) (fsize a)) (chunk_size s))) \<Longrightarrow>
    store_step R (s, w) (s', w')"
| read_cached: "read_cached s p pos sz = (r, s') \<Longrightarrow> store_step R (s, w) (s', w)"
| io: "store_step R (s, w) (s\<lparr>dir := (dir s)\<lparr>io_plan := pl\<rparr>\<rparr>, w)"
| server: "store_step R (s, w) (s, w')"

inductive store_reachable :: "'w RemoteFilesystem \<Rightarrow> 'j Store \<times> 'w \<Rightarrow> bool"
  for R :: "'w RemoteFilesystem" where
  opened: "index_json d = None \<Longrightarrow> store_reachable R (Store_new cd d cs, w)"
| step: "store_reachable R x \<Longrightarrow> store_step R x y \<Longrightarrow> store_reachable R y"

inductive_cases store_stepE: "store_step R (s, w) (s', w')"

lemma Store_new_empty:
  assumes "index_json d = None"
  shows "index (Store_new cd d cs) = Index_default" "0 < chunk_size (Store_new cd d cs)"
    "objects (dir (Store_new cd d cs)) = objects d"
proof -
  obtain r d' where c: "io_call d = (r, d')" by fastforce
  then obtain pl where "d' = d\<lparr>io_plan := pl\<rparr>" using io_call_frame by blast
  with c assms show "index (Store_new cd d cs) = Index_default" "0 < chunk_size (Store_new cd d cs)"
    "objects (dir (Store_new cd d cs)) = objects d"
    by (auto simp: Store_new_def max_def word_gt_0 split: result.splits)
qed

lemma Store_new_inv: "index_json d = None \<Longrightarrow> store_inv (Store_new cd d cs)"
  by (simp add: store_inv_def Store_new_empty refs_ok_def object_list_def Index_default_def)

lemma Store_new_coherent: "index_json d = None \<Longrightarrow> coherent V (Store_new cd d cs)"
  by (simp add: coherent_def Store_new_empty content_of_def Index_default_def)

lemma store_step_inv: "store_step R (s, w) (s', w') \<Longrightarrow> store_inv s \<Longrightarrow> store_inv s'"
  by (erule store_stepE)
     (auto intro: put_attrs_inv record_listing_inv invalidate_children_inv store_remove_inv
       store_rename_inv invalidate_content_inv store_read_inv dest!: read_cached_frame)

lemma store_reachable_inv: "store_reachable R x \<Longrightarrow> store_inv (fst x)"
proof (induction rule: store_reachable.induct)
  case (opened d cd cs w)
  then show ?case by (simp add: Store_new_inv)
next
  case (step x y)
  then show ?case using store_step_inv by (cases x; cases y) fastforce
qed

lemma refs_unique:
  assumes "store_inv s" "content_of (index s) key = Some c" "fmlookup (c_chunks c) k = Some ob"
    "content_of (index s) key' = Some c'" "fmlookup (c_chunks c') k' = Some ob"
  shows "key' = key \<and> k' = k"
proof -
  have "ob \<in> set (object_list (index s) key)" "ob \<in> set (object_list (index s) key')"
    using assms(2-5) by (auto simp: object_list_content content_objects_def set_fm_values)
  then have "key' = key" using assms(1) unfolding store_inv_def refs_ok_def by blast
  moreover have "distinct (content_objects c)"
    using assms(1,2) unfolding store_inv_def refs_ok_def by (metis object_list_content)
  ultimately show ?thesis using assms(2-5) by (auto simp: content_objects_def distinct_fm_values)
qed


section \<open>The in-memory remote meets the transport's contract\<close>

definition mock_file :: "MockState \<Rightarrow> RemotePath \<Rightarrow> bytes option" where
  "mock_file st p = Option.bind (fmlookup (nodes st) (as_str p)) snd"

lemma mock_read_frame:
  "mock_read p pos sz st = (r, st') \<Longrightarrow> nodes st' = nodes st \<and> ms_unreachable st' = ms_unreachable st"
  by (auto simp: mock_read_def Let_def split: if_splits option.splits)

interpretation mock: remote_answers MockRemote "\<lambda>st. \<not> ms_unreachable st" mock_file
proof
  fix p pos sz r and st st' :: MockState
  assume "\<not> ms_unreachable st" "rf_read MockRemote p pos sz st = (r, st')"
  then show "\<not> ms_unreachable st' \<and> mock_file st' = mock_file st"
    by (auto simp: MockRemote_def mock_file_def fun_eq_iff dest: mock_read_frame)
next
  fix p pos sz data f and st st' :: MockState
  assume st: "\<not> ms_unreachable st" "mock_file st p = Some f"
    and rd: "rf_read MockRemote p pos sz st = (Ok data, st')"
  obtain a where "fmlookup (nodes st) (as_str p) = Some (a, Some f)"
    using st(2) by (auto simp: mock_file_def bind_eq_Some_conv)
  from mock_read_slice[OF st(1) this, of pos sz] rd have "data = take (unat sz) (drop (unat pos) f)"
    by (simp add: MockRemote_def)
  then show "prefix data (take (unat sz) (drop (unat pos) f)) \<and>
      (data = [] \<longrightarrow> sz = 0 \<or> length f \<le> unat pos)"
    by (auto simp: unat_eq_0)
next
  fix p pos sz f and st :: MockState
  assume st: "\<not> ms_unreachable st" "mock_file st p = Some f"
  obtain a where "fmlookup (nodes st) (as_str p) = Some (a, Some f)"
    using st(2) by (auto simp: mock_file_def bind_eq_Some_conv)
  from mock_read_slice[OF st(1) this, of pos sz]
  show "\<exists>data st'. rf_read MockRemote p pos sz st = (Ok data, st')"
    by (cases "mock_read p pos sz st") (auto simp: MockRemote_def)
qed

definition plain_json :: "Index codec" where
  "plain_json = \<lparr>to_vec = Some, from_reader = Some\<rparr>"

definition empty_dir :: "'j cache_dir" where
  "empty_dir = \<lparr>objects = fmempty, tmp = fmempty, index_json = None, io_plan = []\<rparr>"

definition readme :: RemotePath where
  "readme = RemotePath ''/readme.txt''"

lemma store_read_caches:
  assumes "store_read s p R a pos sz w = (Ok out, s', w')" "sz \<noteq> 0" "pos < fsize a"
  shows "\<forall>k \<in> set (chunk_range pos (min (saturating_add pos (ucast sz)) (fsize a)) (chunk_size s)).
    cached_chunk s' p a k \<noteq> None"
proof -
  let ?en = "min (saturating_add pos (ucast sz)) (fsize a)"
  obtain r1 s1 w1 where f: "fetch_missing s R p a (chunk_range pos ?en (chunk_size s)) w = (r1, s1, w1)"
    by (cases "fetch_missing s R p a (chunk_range pos ?en (chunk_size s)) w") auto
  obtain r2 s2 where rd: "read_cached_range s1 p pos ?en = (r2, s2)" by fastforce
  then obtain pl where s2: "s2 = s1\<lparr>dir := (dir s1)\<lparr>io_plan := pl\<rparr>\<rparr>"
    using read_cached_range_frame by blast
  have "\<not> (sz = 0 \<or> fsize a \<le> pos)" using assms(2,3) by (simp add: not_le)
  with assms(1) f rd have "r1 = Ok () \<and> s' = s2"
    by (cases r1) (auto simp: store_read_def Let_def)
  with fetch_missing_cached[of s R p a _ w s1 w1] f s2 show ?thesis
    by (simp add: cached_chunk_def)
qed

lemma mock_fixture:
  "mock_file MockRemote_new readme = Some (byte_string ''hello'')" "\<not> ms_unreachable MockRemote_new"
  "length (byte_string ''hello'') = unat (fsize (file_attrs 5))"
  by (simp_all add: mock_file_def MockRemote_new_def readme_def byte_string_def file_attrs_def fmlookup_of_list)

lemma Store_new_fixture:
  "index_json empty_dir = None" "chunk_size (Store_new plain_json empty_dir 4) = 4"
  "next_object (index (Store_new plain_json empty_dir 4)) = 0" "benign (dir (Store_new plain_json empty_dir 4))"
  by (simp_all add: empty_dir_def Store_new_def io_call_def io_next_def max_def word_le_nat_alt
      plain_json_def Index_default_def benign_def)

lemma fixture_range:
  "chunk_range 1 (min (saturating_add 1 (ucast (3 :: u32))) (fsize (file_attrs 5)))
     (chunk_size (Store_new plain_json empty_dir 4)) = [0]"
  by (simp add: Store_new_fixture chunk_range_def saturating_add_def file_attrs_def min_def max_def
      word_le_nat_alt unat_div_distrib)

lemma fixture_room:
  "can_allocate (Store_new plain_json empty_dir 4) (length (chunk_range 1
     (min (saturating_add 1 (ucast (3 :: u32))) (fsize (file_attrs 5)))
     (chunk_size (Store_new plain_json empty_dir 4))))"
  "read_room (file_attrs 5) (Store_new plain_json empty_dir 4)"
  unfolding fixture_range
  by (simp_all add: can_allocate_def read_room_def Store_new_fixture file_attrs_def)

lemma fixture_read:
  obtains s w where
    "store_read (Store_new plain_json empty_dir 4) readme MockRemote (file_attrs 5) 1 3 MockRemote_new
       = (Ok (byte_string ''ell''), s, w)"
    "store_reachable MockRemote (s, w)"
proof -
  let ?s0 = "Store_new plain_json empty_dir 4"
  obtain s w where rd: "store_read ?s0 readme MockRemote (file_attrs 5) 1 3 MockRemote_new
      = (Ok (take (unat (3 :: u32)) (drop (unat (1 :: u64)) (byte_string ''hello''))), s, w)"
    using mock.store_read_total[OF Store_new_fixture(4) mock_fixture(2,1) _ mock_fixture(3)
        Store_new_inv[OF Store_new_fixture(1)]
        Store_new_coherent[OF Store_new_fixture(1), of "\<lambda>_ _ _. byte_string ''hello''"] fixture_room(2,1)]
    by auto
  have "store_reachable MockRemote (s, w)"
    by (rule store_reachable.step[OF store_reachable.opened[OF Store_new_fixture(1)]
          store_step.read[OF rd fixture_room(1)]])
  moreover have "take (unat (3 :: u32)) (drop (unat (1 :: u64)) (byte_string ''hello'')) = byte_string ''ell''"
    by (simp add: byte_string_def)
  ultimately show thesis using that rd by simp
qed

section \<open>Properties\<close>

text \<open>
  No dangling references.  In every run of the store, whatever I/O calls fail and whatever the
  server does, an object that the index refers to is a file of the cache directory, and no two chunks
  (of one file or of different files) share an object.
\<close>

lemma store_never_dangles:
  assumes "store_reachable R (s, w)"
    and "content_of (index s) key = Some c" "fmlookup (c_chunks c) k = Some ob"
  shows "(\<exists>data. fmlookup (objects (dir s)) ob = Some data) \<and>
    (\<forall>key' c' k'. content_of (index s) key' = Some c' \<and> fmlookup (c_chunks c') k' = Some ob \<longrightarrow>
       key' = key \<and> k' = k)"
proof -
  have inv: "store_inv s" using store_reachable_inv[OF assms(1)] by simp
  show ?thesis
    using store_inv_object(1)[OF inv assms(2,3)] refs_unique[OF inv assms(2,3)]
    by (auto simp: fmlookup_dom'_iff)
qed

text \<open>
  C3: reads through the content cache are exact.  Let the transport answer reads as its contract says
  (a non-empty part of what was asked for, except at the end of the file), and let \<open>a\<close> be the
  attributes of the file's current version \<open>f\<close>.  Then \<open>Store::read\<close> on a coherent store succeeds
  with exactly the bytes of \<open>f\<close> in the requested range, for every offset, size and chunk size, with
  any mix of cached and missing chunks and any short reads of either side, and the store stays
  coherent.  The premise \<open>read_room\<close> keeps \<open>chunk_start + chunk_size\<close> within \<open>u64\<close>.
\<close>

theorem store_read_exact:
  assumes remote: "remote_answers R good file_of"
    and "benign (dir s)" "store_inv s" "coherent V s" "read_room a s"
    and "can_allocate s (length (chunk_range pos (min (saturating_add pos (ucast sz)) (fsize a)) (chunk_size s)))"
    and "good w" "file_of w p = Some f"
    and "V (as_str p) (fsize a) (modified_unix_seconds a) = f" "length f = unat (fsize a)"
  shows "\<exists>s' w'. store_read s p R a pos sz w = (Ok (take (unat sz) (drop (unat pos) f)), s', w')
    \<and> store_inv s' \<and> coherent V s' \<and> benign (dir s') \<and> file_of w' p = Some f"
proof -
  have content: "remote_content R good file_of" using remote by (rule remote_answers.axioms(1))
  obtain s' w' where rd: "store_read s p R a pos sz w = (Ok (take (unat sz) (drop (unat pos) f)), s', w')"
      and b: "benign (dir s')"
    using remote_answers.store_read_total[OF remote assms(2,7-10,3-6)] by blast
  with remote_content.store_read_coherent[OF content rd assms(7-10,3-6)]
    store_read_inv[OF rd assms(3,6)] assms(8)
  show ?thesis by auto
qed


theorem store_read_exact_witness:
  "\<exists>s' w'. store_read (Store_new plain_json empty_dir 4) readme MockRemote (file_attrs 5) 1 3 MockRemote_new
     = (Ok (byte_string ''ell''), s', w') \<and> mock_file w' readme = Some (byte_string ''hello'')"
proof -
  have "take (unat (3 :: u32)) (drop (unat (1 :: u64)) (byte_string ''hello'')) = byte_string ''ell''"
    by (simp add: byte_string_def)
  with store_read_exact[OF mock.remote_answers_axioms Store_new_fixture(4)
      Store_new_inv[OF Store_new_fixture(1)]
      Store_new_coherent[OF Store_new_fixture(1), of "\<lambda>_ _ _. byte_string ''hello''"]
      fixture_room(2,1) mock_fixture(2,1) refl mock_fixture(3)]
  show ?thesis by auto
qed

lemma current_after_read:
  assumes "store_read s p R a pos sz w = (Ok out, s', w')" "sz \<noteq> 0" "pos < fsize a" "0 < chunk_size s"
  obtains c where "current_content s' p = Some c" "c_size c = fsize a"
proof -
  have nt: "\<not> (sz = 0 \<or> fsize a \<le> pos)" using assms(2,3) by (simp add: not_le)
  let ?cr = "chunk_range pos (min (saturating_add pos (ucast sz)) (fsize a)) (chunk_size s)"
  have "hd ?cr \<in> set ?cr" using read_end_bounds(4)[OF nt assms(4)] by simp
  with store_read_caches[OF assms(1-3)] have "cached_chunk s' p a (hd ?cr) \<noteq> None" by blast
  then show thesis using that by (auto simp: cached_chunk_alt current_content_alt)
qed

text \<open>
  C10: a cached range is served locally.  After a successful read of a range, reading it again does not
  contact the server: with any remote and any state of the network the read leaves the network
  untouched, and it returns exactly what the offline read \<open>read_cached\<close> returns.
\<close>

theorem cached_range_is_local:
  assumes "store_inv s" "store_read s p R a pos sz w = (Ok out, s', w')" "sz \<noteq> 0" "pos < fsize a"
    and "can_allocate s (length (chunk_range pos (min (saturating_add pos (ucast sz)) (fsize a)) (chunk_size s)))"
  shows "store_read s' p R2 a pos sz w2
    = (case read_cached s' p pos sz of (r, s'') \<Rightarrow> (r, s'', w2))"
proof -
  have nt: "\<not> (sz = 0 \<or> fsize a \<le> pos)" using assms(3,4) by (simp add: not_le)
  let ?en = "min (saturating_add pos (ucast sz)) (fsize a)"
  have cs: "chunk_size s' = chunk_size s"
    by (rule store_read_frame[OF assms(2,1,5)])
  have "fetch_missing s' R2 p a (chunk_range pos ?en (chunk_size s')) w2 = (Ok (), s', w2)"
    unfolding cs by (rule fetch_missing_hit[OF store_read_caches[OF assms(2-4)]])
  then have l: "store_read s' p R2 a pos sz w2
      = (case read_cached_range s' p pos ?en of (r, s'') \<Rightarrow> (r, s'', w2))"
    using nt by (simp add: store_read_def Let_def)
  have "0 < chunk_size s" using assms(1) by (simp add: store_inv_def)
  then obtain c where "current_content s' p = Some c" "c_size c = fsize a"
    by (rule current_after_read[OF assms(2-4)])
  with nt have "read_cached s' p pos sz = read_cached_range s' p pos ?en"
    by (simp add: read_cached_def)
  with l show ?thesis by simp
qed

theorem cached_range_is_local_witness:
  "\<exists>(s :: Index Store). \<forall>w2 :: MockState.
     store_read s readme MockRemote (file_attrs 5) 1 3 w2
       = (case read_cached s readme 1 3 of (r, s'') \<Rightarrow> (r, s'', w2))"
proof -
  obtain s w where rd: "store_read (Store_new plain_json empty_dir 4) readme MockRemote (file_attrs 5) 1 3
      MockRemote_new = (Ok (byte_string ''ell''), s, w)"
    by (rule fixture_read)
  have side: "(3 :: u32) \<noteq> 0" "1 < fsize (file_attrs 5)" by (simp_all add: file_attrs_def)
  show ?thesis
    by (intro exI[of _ s] allI
        cached_range_is_local[OF Store_new_inv[OF Store_new_fixture(1)] rd side fixture_room(1)])
qed


text \<open>
  C11: the server wins.  Recording a server answer with \<open>put_attrs\<close> makes exactly that answer the
  cached attributes of the path; the path's cached content survives if and only if the answer has the
  size and modification time of the cached version (otherwise an offline read fails as not cached);
  the other paths and all listings are untouched.
\<close>

theorem put_attrs_server_wins:
  "get_attrs (put_attrs s p a) q = (if q = p then Some a else get_attrs s q) \<and>
   get_children (put_attrs s p a) q = get_children s q \<and>
   current_content (put_attrs s p a) q =
     (if q = p
      then Option.bind (current_content s p)
        (\<lambda>c. if c_size c = fsize a \<and> c_modified c = modified_unix_seconds a then Some c else None)
      else current_content s q) \<and>
   (current_content (put_attrs s p a) p = None \<longleftrightarrow>
      (\<forall>c. current_content s p = Some c \<longrightarrow> c_size c \<noteq> fsize a \<or> c_modified c \<noteq> modified_unix_seconds a)) \<and>
   (current_content (put_attrs s p a) p = None \<longrightarrow>
      read_cached (put_attrs s p a) p pos sz = (Err not_cached, put_attrs s p a))"
proof -
  have cur: "current_content t q = Option.bind (content_of (index t) (as_str q))
      (\<lambda>c. if c_chunk_size c = chunk_size t then Some c else None)" for t :: "'a Store" and q
    by (simp add: current_content_def content_of_def)
  have cs: "chunk_size (put_attrs s p a) = chunk_size s"
    by (simp add: put_attrs_def split: prod.splits)
  have cc: "current_content (put_attrs s p a) q = (if q = p
      then Option.bind (current_content s p)
        (\<lambda>c. if c_size c = fsize a \<and> c_modified c = modified_unix_seconds a then Some c else None)
      else current_content s q)" for q
    by (cases "content_of (index s) (as_str p)") (auto simp: cur cs content_put_attrs)
  then have "current_content (put_attrs s p a) p = None \<longleftrightarrow>
      (\<forall>c. current_content s p = Some c \<longrightarrow> c_size c \<noteq> fsize a \<or> c_modified c \<noteq> modified_unix_seconds a)"
    by (cases "current_content s p") auto
  with cc show ?thesis by (auto simp: get_put_attrs read_cached_def)
qed

theorem put_attrs_server_wins_witness:
  "current_content (put_attrs (Store_new plain_json empty_dir 4) readme (file_attrs 5)) readme = None \<and>
   read_cached (put_attrs (Store_new plain_json empty_dir 4) readme (file_attrs 5)) readme 0 5
     = (Err not_cached, put_attrs (Store_new plain_json empty_dir 4) readme (file_attrs 5))"
  using put_attrs_server_wins[of "Store_new plain_json empty_dir 4" readme "file_attrs 5" readme 0 5]
  by (simp add: current_content_def Store_new_empty Store_new_fixture Index_default_def)


text \<open>
  Renaming in the cache.  \<open>Store::rename\<close> moves the attributes and the cached content of \<open>from\<close> to
  \<open>to\<close> and forgets everything cached below \<open>from\<close>; all other paths keep what they had.  When nothing
  is cached for \<open>from\<close>, the entry cached for \<open>to\<close> stays as it was.
\<close>

lemma rename_moves_entry:
  "get_attrs (store_rename s from to) q =
     (if prefix (as_str from @ ''/'') (as_str q) then None
      else if get_attrs s from = None then get_attrs s q
      else if q = to then get_attrs s from else if q = from then None else get_attrs s q) \<and>
   content_of (index (store_rename s from to)) (as_str q) =
     (if prefix (as_str from @ ''/'') (as_str q) then None
      else if get_attrs s from = None then content_of (index s) (as_str q)
      else if q = to then content_of (index s) (as_str from)
      else if q = from then None else content_of (index s) (as_str q))"
  by (auto simp: get_attrs_def content_of_def rename_entries)

end
