(* ===== verification/Store_Restart.thy ===== *)
theory Store_Restart
  imports Store_Properties
begin

text \<open>
  Persistence of the store.  When no file-system call fails and the serialiser of the index round
  trips, what \<open>Store::new\<close> loads from the cache directory is at every moment what the running store
  knows: a restart loses neither attributes nor listings nor content.
\<close>

section \<open>What a restart loads\<close>

definition codec_ok :: "'j codec \<Rightarrow> bool" where
  "codec_ok cd \<longleftrightarrow> (\<forall>ix. \<exists>j. to_vec cd ix = Some j \<and> from_reader cd j = Some ix)"

definition disk_index :: "'j Store \<Rightarrow> Index" where
  "disk_index s =
     (case Option.bind (index_json (dir s)) (from_reader (json s)) of
        None \<Rightarrow> Index_default
      | Some ix \<Rightarrow> ix)"

definition restart :: "'j Store \<Rightarrow> u64 \<Rightarrow> 'j Store" where
  "restart s cs = Store_new (json s) (dir s) cs"

definition synced :: "'j Store \<Rightarrow> bool" where
  "synced s \<longleftrightarrow>
     entries (disk_index s) = entries (index s) \<and> listings (disk_index s) = listings (index s) \<and>
     refs_ok (disk_index s) (objects (dir s)) \<and>
     (\<forall>key c. content_of (index s) key = Some c \<longrightarrow> content_objects c \<noteq> [])"

lemma restart_frame:
  assumes "benign (dir s)"
  shows "index (restart s cs) = disk_index s" "benign (dir (restart s cs))"
    "objects (dir (restart s cs)) = objects (dir s)" "index_json (dir (restart s cs)) = index_json (dir s)"
    "json (restart s cs) = json s" "chunk_size (restart s cs) = max cs 1"
proof -
  obtain r d where c: "io_call (dir s) = (r, d)" by fastforce
  then obtain pl where "d = (dir s)\<lparr>io_plan := pl\<rparr>" using io_call_frame by blast
  with io_call_benign[OF assms c] c
  show "index (restart s cs) = disk_index s" "benign (dir (restart s cs))"
    "objects (dir (restart s cs)) = objects (dir s)" "index_json (dir (restart s cs)) = index_json (dir s)"
    "json (restart s cs) = json s" "chunk_size (restart s cs) = max cs 1"
    by (auto simp: restart_def Store_new_def disk_index_def)
qed

lemma persist_disk_index:
  assumes "benign (dir s)" "codec_ok (json s)"
  shows "disk_index (persist s) = index s"
proof -
  obtain r d where c: "io_call (dir s) = (r, d)" by fastforce
  obtain r4 d4 where c4: "io_calls 4 d = (r4, d4)" by fastforce
  obtain j where j: "to_vec (json s) (index s) = Some j" "from_reader (json s) j = Some (index s)"
    using assms(2) by (auto simp: codec_ok_def)
  from io_call_benign[OF assms(1) c] io_calls_benign[OF _ c4] c c4 j
  show ?thesis by (simp add: persist_def disk_index_def)
qed

lemma remove_objects_disk_index [simp]: "disk_index (remove_objects obs s) = disk_index s"
  by (simp add: disk_index_def)

lemma synced_persisted:
  assumes "disk_index s = index s" "store_inv s"
    and "\<And>key c. content_of (index s) key = Some c \<Longrightarrow> content_objects c \<noteq> []"
  shows "synced s"
  using assms by (auto simp: synced_def store_inv_def)

section \<open>Every operation keeps the disk in step\<close>

lemma put_attrs_disk:
  assumes "benign (dir s)" "codec_ok (json s)"
  shows "disk_index (put_attrs s p a) = index (put_attrs s p a)"
  using assms by (auto simp: put_attrs_def persist_disk_index split: prod.splits)

lemma record_listing_disk:
  assumes "benign (dir s)" "codec_ok (json s)"
  shows "disk_index (record_listing s p cs) = index (record_listing s p cs)"
  using assms by (auto simp: record_listing_def persist_disk_index split: prod.splits)

lemma store_rename_disk:
  assumes "benign (dir s)" "codec_ok (json s)"
  shows "disk_index (store_rename s p q) = index (store_rename s p q)"
  using assms by (simp add: store_rename_def Let_def persist_disk_index)

lemma fmdrop_absent: "fmlookup m k = None \<Longrightarrow> fmdrop k m = m"
  by (auto intro!: fmap_ext)

lemma store_remove_disk:
  assumes "benign (dir s)" "codec_ok (json s)"
  shows "disk_index (store_remove s p) = index (store_remove s p) \<or> store_remove s p = s"
proof (cases "fmlookup (entries (index s)) (as_str p) = None \<and> fmlookup (listings (index s)) (as_str p) = None")
  case True
  then show ?thesis by (simp add: store_remove_def Let_def fmdrop_absent)
next
  case False
  with assms show ?thesis
    by (auto simp: store_remove_def Let_def persist_disk_index split: option.splits)
qed

lemma invalidate_children_disk:
  assumes "benign (dir s)" "codec_ok (json s)"
  shows "disk_index (invalidate_children s p) = index (invalidate_children s p) \<or> invalidate_children s p = s"
  using assms by (auto simp: invalidate_children_def persist_disk_index split: option.splits)

lemma invalidate_content_disk:
  assumes "benign (dir s)" "codec_ok (json s)"
    and "\<And>key c. content_of (index s) key = Some c \<Longrightarrow> content_objects c \<noteq> []"
  shows "disk_index (invalidate_content s p) = index (invalidate_content s p) \<or> invalidate_content s p = s"
proof (cases "content_of (index s) (as_str p)")
  case None
  have "fmupd (as_str p) (e\<lparr>content := None\<rparr>) (entries (index s)) = entries (index s)"
    if "fmlookup (entries (index s)) (as_str p) = Some e" for e
    using that None by (intro fmap_ext) (auto simp: content_of_def)
  with None show ?thesis
    by (auto simp: invalidate_content_def content_of_def Let_def remove_objects_def split: option.splits)
next
  case (Some c)
  with assms(3)[OF Some] assms(1,2) show ?thesis
    by (auto simp: invalidate_content_def content_of_def Let_def persist_disk_index bind_eq_Some_conv)
qed


lemma download_loop_benign:
  "download_loop R p temp cst cl wr d w = (r, d', w') \<Longrightarrow> benign d \<Longrightarrow> benign d'"
proof (induction R p temp cst cl wr d w arbitrary: r d' w' rule: download_loop.induct)
  case (1 R p temp cst cl wr d w)
  note unf = download_loop.simps[of R p temp cst cl wr d w]
  let ?want = "min (unat cl - length wr) (2 ^ 32 - 1)"
  obtain rr w1 where rd: "rf_read R p (cst + of_nat (length wr)) (of_nat ?want) w = (rr, w1)" by fastforce
  obtain q d1 where io: "io_call d = (q, d1)" by fastforce
  note b = io_call_benign[OF "1.prems"(2) io]
  show ?case
  proof (cases "length wr < unat cl \<and> (\<exists>data. rr = Ok data \<and> data \<noteq> [])")
    case False
    with "1.prems" rd show ?thesis
      by (cases rr) (auto simp: unf Let_def split: if_splits)
  next
    case True
    then obtain data where less: "length wr < unat cl" and data: "rr = Ok data" "data \<noteq> []" by blast
    with "1.prems"(1) rd io b have
      "download_loop R p temp cst cl (wr @ data) (d1\<lparr>tmp := fmupd temp (wr @ data) (tmp d1)\<rparr>) w1 = (r, d', w')"
      by (simp add: unf Let_def)
    from "1.IH"[OF less refl rd[symmetric] data(1) _ io[symmetric] _ this] data(2) b show ?thesis by simp
  qed
qed

lemma download_benign:
  assumes "download R p a cs chunk temp d w = (r, d', w')" "benign d"
  shows "benign d'"
proof -
  obtain q1 d1 where c1: "io_call d = (q1, d1)" by fastforce
  let ?d1 = "d1\<lparr>tmp := fmupd temp [] (tmp d1)\<rparr>"
  obtain r2 d2 w2 where l: "download_loop R p temp (chunk * cs) (min (fsize a - chunk * cs) cs) [] ?d1 w
      = (r2, d2, w2)"
    by (cases "download_loop R p temp (chunk * cs) (min (fsize a - chunk * cs) cs) [] ?d1 w") auto
  obtain q3 d3 where c3: "io_call d2 = (q3, d3)" by fastforce
  have "benign d2"
    using download_loop_benign[OF l] io_call_benign[OF assms(2) c1] by simp
  with io_call_benign[OF this c3] io_call_benign[OF assms(2) c1] assms(1) c1 l c3 show ?thesis
    by (cases r2) (auto simp: download_def Let_def)
qed

lemma record_chunk_has_object:
  assumes "record_chunk cs a e chunk ob = (stale, e')" "content e' = Some c"
  shows "content_objects c \<noteq> []"
proof -
  have "fmlookup (c_chunks c) chunk = Some ob"
    using record_chunk_content[OF assms(1)] assms(2) by auto
  then have "ob \<in> set (content_objects c)" by (auto simp: content_objects_def set_fm_values)
  then show ?thesis by auto
qed

definition durable :: "'j Store \<Rightarrow> bool" where
  "durable s \<longleftrightarrow> store_inv s \<and> synced s \<and> codec_ok (json s)"

lemma durable_plan: "durable (s\<lparr>dir := (dir s)\<lparr>io_plan := pl\<rparr>\<rparr>) = durable s"
  by (simp add: durable_def synced_def disk_index_def)

lemma durable_persisted:
  assumes "durable s" "store_inv s'" "json s' = json s"
    and "disk_index s' = index s' \<or> s' = s"
    and "\<And>key c. content_of (index s') key = Some c \<Longrightarrow> \<exists>key'. content_of (index s) key' = Some c"
  shows "durable s'"
  using assms synced_persisted[of s'] by (fastforce simp: durable_def synced_def)

lemma ops_json [simp]:
  "json (put_attrs s p a) = json s" "json (record_listing s p cs) = json s"
  "json (invalidate_children s p) = json s" "json (store_remove s p) = json s"
  "json (store_rename s p q) = json s" "json (invalidate_content s p) = json s"
  by (simp_all add: put_attrs_def record_listing_def invalidate_children_def store_remove_def
      store_rename_def invalidate_content_def Let_def split: prod.splits option.splits)

lemma fetch_chunk_durable:
  assumes f: "fetch_chunk s R p a chunk w = (r, s', w')"
    and d: "durable s" "benign (dir s)" "can_allocate s 1"
  shows "durable s'"
proof -
  have inv: "store_inv s'" using fetch_chunk_inv(1)[OF f] d by (simp add: durable_def)
  from f show ?thesis
  proof (cases rule: fetch_chunk_cases)
    case (fail e dd s1)
    then have "disk_index s' = disk_index s" "entries (index s') = entries (index s)"
      "listings (index s') = listings (index s)" "json s' = json s"
      "objects (dir s') = objects (dir s)"
      by (auto simp: disk_index_def)
    with inv d(1) show ?thesis by (simp add: durable_def synced_def content_of_def)
  next
    case (fetched d0 d1 pl fl stale entry s1)
    let ?s2 = "(remove_objects stale s1)\<lparr>index := (index s1)\<lparr>entries :=
        fmupd (as_str p) entry (entries (index s))\<rparr>\<rparr>"
    have "benign d0" using io_calls_benign[OF d(2) fetched(8)] by simp
    then have "benign d1" by (rule download_benign[OF fetched(3)])
    then have "benign (d1\<lparr>io_plan := pl\<rparr>)" using io_call_benign[OF _ fetched(9)] by blast
    then have "benign (dir s1)" using fetched(6) by (simp add: benign_def)
    then have "benign (dir ?s2)" using remove_objects_benign by simp
    moreover have "codec_ok (json ?s2)" using fetched(6) d(1) by (simp add: durable_def)
    ultimately have disk: "disk_index s' = index s'"
      using persist_disk_index[of ?s2] fetched(7) by simp
    have "content_objects c \<noteq> []" if "content_of (index s') key = Some c" for key c
      using that fetched(6,7) record_chunk_has_object[OF fetched(5)] d(1)
      by (auto simp: content_of_def durable_def synced_def split: if_splits)
    from synced_persisted[OF disk inv this] inv fetched(6,7) d(1) show ?thesis
      by (simp add: durable_def)
  qed
qed


lemma fetch_chunk_benign:
  assumes "fetch_chunk s R p a chunk w = (Ok ob, s', w')" "benign (dir s)"
  shows "benign (dir s')"
  using assms(1)
proof (cases rule: fetch_chunk_cases)
  case (fetched d0 d1 pl fl stale entry s1)
  have "benign d0" using io_calls_benign[OF assms(2) fetched(8)] by simp
  then have "benign d1" by (rule download_benign[OF fetched(3)])
  then have "benign (d1\<lparr>io_plan := pl\<rparr>)" using io_call_benign[OF _ fetched(9)] by blast
  then have "benign (dir s1)" using fetched(6) by (simp add: benign_def)
  with fetched(7) show ?thesis by (simp add: persist_benign remove_objects_benign)
qed simp

lemma fetch_missing_durable:
  "fetch_missing s R p a cs w = (r, s', w') \<Longrightarrow> durable s \<Longrightarrow> benign (dir s) \<Longrightarrow>
   can_allocate s (length cs) \<Longrightarrow> durable s'"
proof (induction s R p a cs w arbitrary: r s' w' rule: fetch_missing.induct)
  case (1 s R p a w)
  then show ?case by simp
next
  case (2 s R p a chunk rest w)
  show ?case
  proof (cases "cached_chunk s p a chunk")
    case (Some ob)
    with "2.prems" "2.IH"(2)[OF Some] show ?thesis by (auto simp: can_allocate_def)
  next
    case None
    obtain r1 s1 w1 where f: "fetch_chunk s R p a chunk w = (r1, s1, w1)"
      by (cases "fetch_chunk s R p a chunk w") auto
    have room: "can_allocate s 1" using "2.prems"(4) by (simp add: can_allocate_def)
    have inv: "store_inv s" using "2.prems"(2) by (simp add: durable_def)
    note d1 = fetch_chunk_durable[OF f "2.prems"(2,3) room]
    have room1: "can_allocate s1 (length rest)"
      using "2.prems"(4) fetch_chunk_inv(2)[OF f inv room] by (simp add: can_allocate_def)
    show ?thesis
    proof (cases r1)
      case (Err e)
      with "2.prems"(1) None f d1 show ?thesis by simp
    next
      case (Ok ob)
      with "2.prems"(1) None f have "fetch_missing s1 R p a rest w1 = (r, s', w')" by simp
      from "2.IH"(1)[OF None f[symmetric] Ok refl this d1 fetch_chunk_benign[OF f[unfolded Ok] "2.prems"(3)] room1]
      show ?thesis .
    qed
  qed
qed

lemma store_read_durable:
  assumes rd: "store_read s p R a pos sz w = (r, s', w')" and d: "durable s" "benign (dir s)"
    and room: "can_allocate s (length (chunk_range pos (min (saturating_add pos (ucast sz)) (fsize a)) (chunk_size s)))"
  shows "durable s'"
proof (cases "sz = 0 \<or> fsize a \<le> pos")
  case True
  with rd d show ?thesis by (auto simp: store_read_def)
next
  case False
  let ?en = "min (saturating_add pos (ucast sz)) (fsize a)"
  obtain r1 s1 w1 where f: "fetch_missing s R p a (chunk_range pos ?en (chunk_size s)) w = (r1, s1, w1)"
    by (cases "fetch_missing s R p a (chunk_range pos ?en (chunk_size s)) w") auto
  have "durable s1" by (rule fetch_missing_durable[OF f d room])
  with rd False f durable_plan[where s = s1] show ?thesis
    by (cases r1) (auto simp: store_read_def Let_def split: prod.splits dest!: read_cached_range_frame)
qed


lemma rename_content_sub:
  "content_of (index (store_rename s p q)) key = Some c \<Longrightarrow> \<exists>key'. content_of (index s) key' = Some c"
  by (auto simp: content_of_def rename_entries split: if_splits intro: exI[of _ "as_str p"] exI[of _ key])

lemma store_step_durable:
  assumes "store_step R (s, w) (s', w')" "durable s" "benign (dir s)"
  shows "durable s'"
proof -
  have inv: "store_inv s" "codec_ok (json s)"
    and objs: "\<And>key c. content_of (index s) key = Some c \<Longrightarrow> content_objects c \<noteq> []"
    using assms(2) by (auto simp: durable_def synced_def)
  note persisted = durable_persisted[OF assms(2) store_step_inv[OF assms(1) inv(1)]]
  from assms(1) show ?thesis
  proof cases
    case (put_attrs p a)
    then show ?thesis
      using put_attrs_disk[OF assms(3) inv(2)] by (intro persisted) (auto dest: content_put_attrs_sub)
  next
    case (record_listing p cs)
    then show ?thesis
      using record_listing_disk[OF assms(3) inv(2)]
      by (intro persisted) (auto dest: content_record_listing_sub)
  next
    case (invalidate_children p)
    then show ?thesis
      using invalidate_children_disk[OF assms(3) inv(2)] by (intro persisted) auto
  next
    case (remove p)
    then show ?thesis
      using store_remove_disk[OF assms(3) inv(2)]
      by (intro persisted) (auto simp: content_store_remove split: if_splits)
  next
    case (rename p q)
    then show ?thesis
      using store_rename_disk[OF assms(3) inv(2)] by (intro persisted) (auto dest: rename_content_sub)
  next
    case (invalidate_content p)
    then show ?thesis
      using invalidate_content_disk[OF assms(3) inv(2) objs]
      by (intro persisted) (auto simp: invalidate_content_spec split: if_splits)
  next
    case (read p a pos sz r)
    with assms(2,3) show ?thesis by (auto intro: store_read_durable)
  next
    case (read_cached p pos sz r)
    with assms(2) show ?thesis by (auto simp: durable_plan dest!: read_cached_frame)
  next
    case (io pl)
    with assms(2) show ?thesis by (simp add: durable_plan)
  next
    case server
    with assms(2) show ?thesis by simp
  qed
qed

section \<open>Runs with restarts\<close>

inductive quiet_run :: "'w RemoteFilesystem \<Rightarrow> 'j codec \<Rightarrow> 'j Store \<times> 'w \<Rightarrow> bool"
  for R :: "'w RemoteFilesystem" and cd :: "'j codec" where
  opened: "index_json d = None \<Longrightarrow> benign d \<Longrightarrow> quiet_run R cd (Store_new cd d cs, w)"
| operation: "quiet_run R cd x \<Longrightarrow> store_step R x y \<Longrightarrow> benign (dir (fst y)) \<Longrightarrow> quiet_run R cd y"
| restarted: "quiet_run R cd (s, w) \<Longrightarrow> quiet_run R cd (restart s cs, w)"

lemma restart_durable:
  assumes "durable s" "benign (dir s)"
  shows "durable (restart s cs)"
proof -
  have "disk_index (restart s cs) = disk_index s" using restart_frame[OF assms(2)] by (simp add: disk_index_def)
  moreover have "0 < max cs 1" by (auto simp: max_def word_gt_0)
  ultimately show ?thesis
    using assms(1) restart_frame[OF assms(2)] by (auto simp: durable_def synced_def store_inv_def content_of_def)
qed

lemma quiet_run_durable:
  "quiet_run R cd x \<Longrightarrow> codec_ok cd \<Longrightarrow> durable (fst x) \<and> benign (dir (fst x))"
proof (induction rule: quiet_run.induct)
  case (opened d cs w)
  obtain r d' where c: "io_call d = (r, d')" by fastforce
  then obtain pl where d': "d' = d\<lparr>io_plan := pl\<rparr>" using io_call_frame by blast
  from io_call_benign[OF opened(2) c] have b: "benign (dir (Store_new cd d cs))"
    using c by (simp add: Store_new_def)
  have "disk_index (Store_new cd d cs) = Index_default"
    using c d' opened(1) by (simp add: disk_index_def Store_new_def)
  moreover have "json (Store_new cd d cs) = cd" by (simp add: Store_new_def split: prod.splits)
  ultimately have "durable (Store_new cd d cs)"
    using opened Store_new_inv[OF opened(1)]
    by (simp add: durable_def synced_def Store_new_empty content_of_def store_inv_def)
       (simp add: Index_default_def)
  with b show ?case by simp
next
  case (operation x y)
  then show ?case
    using store_step_durable by (cases x; cases y) fastforce
next
  case (restarted s w cs)
  then show ?case
    using restart_durable restart_frame(2) by auto
qed


section \<open>Reads after a restart\<close>

lemma read_object_same:
  fixes s t :: "'j Store"
  assumes "benign (dir s)" "benign (dir t)" "objects (dir s) = objects (dir t)"
  shows "fst (read_object s ob pos sz) = fst (read_object t ob pos sz)"
proof (cases "fmlookup (objects (dir t)) ob")
  case None
  have "fst (read_object u ob pos sz) = Err (cache_io os_not_found)"
    if b: "benign (dir u)" and n: "fmlookup (objects (dir u)) ob = None" for u :: "'j Store"
  proof -
    obtain r d where c: "io_call (dir u) = (r, d)" by fastforce
    then obtain pl where "d = (dir u)\<lparr>io_plan := pl\<rparr>" using io_call_frame by blast
    with io_call_benign[OF b c] c n show ?thesis by (simp add: read_object_def)
  qed
  with None assms show ?thesis by simp
next
  case (Some fl)
  then have "ob \<in> fmdom' (objects (dir s))" "ob \<in> fmdom' (objects (dir t))"
    using assms(3) by (auto simp: fmlookup_dom'_iff)
  with read_object_benign[OF assms(1), of ob pos sz] read_object_benign[OF assms(2), of ob pos sz]
  obtain o1 s1 o2 t1 where rd: "read_object s ob pos sz = (Ok o1, s1)" "read_object t ob pos sz = (Ok o2, t1)"
    by blast
  have "o1 = o2"
    using read_object_exact[OF rd(1)] read_object_exact[OF rd(2)] Some assms(3) by simp
  with rd show ?thesis by simp
qed

lemma read_object_keeps_benign:
  assumes "benign (dir s)" "read_object s ob pos sz = (r, s')"
  shows "benign (dir s')"
proof -
  obtain q d where c: "io_call (dir s) = (q, d)" by fastforce
  note b = io_call_benign[OF assms(1) c]
  obtain q2 d2 where c2: "io_call d = (q2, d2)" by fastforce
  note b2 = io_call_benign[OF _ c2]
  have "benign d3" if "read_loop fl x y [] d2 = (r3, d3)" for fl x y r3 d3
    using read_loop_benign[of d2 fl x y "[]"] b b2 that by auto
  with assms(2) c b c2 b2 show ?thesis
    by (auto simp: read_object_def split: option.splits prod.splits)
qed

lemma read_chunks_same:
  fixes s t :: "'j Store"
  shows "benign (dir s) \<Longrightarrow> benign (dir t) \<Longrightarrow> objects (dir s) = objects (dir t) \<Longrightarrow> chunk_size s = chunk_size t \<Longrightarrow>
   fst (read_chunks s m pos en cs data) = fst (read_chunks t m pos en cs data)"
proof (induction cs arbitrary: s t data)
  case Nil
  then show ?case by simp
next
  case (Cons k cs)
  show ?case
  proof (cases "fmlookup m k")
    case None
    then show ?thesis by simp
  next
    case (Some ob)
    let ?st = "k * chunk_size t"
    let ?rs = "max pos ?st - ?st" and ?re = "min en (?st + chunk_size t) - ?st"
    obtain r1 s1 where rs: "read_object s ob ?rs (ucast (?re - ?rs)) = (r1, s1)" by fastforce
    obtain r2 t1 where rt: "read_object t ob ?rs (ucast (?re - ?rs)) = (r2, t1)" by fastforce
    have "r1 = r2" using read_object_same[OF Cons.prems(1-3), of ob] rs rt by (metis fst_conv)
    moreover have "benign (dir s1)" "benign (dir t1)"
      using read_object_keeps_benign Cons.prems(1,2) rs rt by blast+
    moreover have "objects (dir s1) = objects (dir t1)" "chunk_size s1 = chunk_size t1"
      using read_object_frame[OF rs] read_object_frame[OF rt] Cons.prems(3,4) by auto
    ultimately show ?thesis
      using Some rs rt Cons.prems(4) Cons.IH[of s1 t1] by (cases r2) (auto simp: Let_def)
  qed
qed

lemma read_cached_same:
  fixes s t :: "'j Store"
  assumes "benign (dir s)" "benign (dir t)" "objects (dir s) = objects (dir t)"
    "chunk_size s = chunk_size t" "entries (index s) = entries (index t)"
  shows "fst (read_cached s p pos sz) = fst (read_cached t p pos sz)"
proof -
  have "current_content s p = current_content t p" using assms by (simp add: current_content_def)
  then show ?thesis
    using read_chunks_same[OF assms(1-4)] assms(4)
    by (simp add: read_cached_def read_cached_range_def split: option.splits)
qed

text \<open>
  C13: the cache survives restarts.  In every run without file-system failures, with any number of
  restarts in between and any behaviour of the server, the store that \<open>Store::new\<close> opens on the cache
  directory gives the same attributes, listings and offline reads as the running store; the restarted
  store again refers only to objects that exist.  The serialiser of the index is a parameter: it is
  assumed to read back what it wrote.
\<close>

theorem restart_keeps_cache:
  assumes "quiet_run R cd (s, w)" "codec_ok cd"
  shows "get_attrs (restart s (chunk_size s)) p = get_attrs s p \<and>
    get_children (restart s (chunk_size s)) p = get_children s p \<and>
    fst (read_cached (restart s (chunk_size s)) p pos sz) = fst (read_cached s p pos sz) \<and>
    store_inv (restart s cs)"
proof -
  have d: "durable s" "benign (dir s)" using quiet_run_durable[OF assms] by auto
  then have sy: "entries (disk_index s) = entries (index s)" "listings (disk_index s) = listings (index s)"
    and cs: "max (chunk_size s) 1 = chunk_size s"
    by (auto simp: durable_def synced_def store_inv_def max_one_u64)
  note fr = restart_frame[OF d(2)]
  have "fst (read_cached (restart s (chunk_size s)) p pos sz) = fst (read_cached s p pos sz)"
    by (rule read_cached_same) (simp_all add: fr d(2) cs sy)
  moreover have "store_inv (restart s cs)"
    using restart_durable[OF d] by (simp add: durable_def)
  ultimately show ?thesis by (simp add: get_attrs_def get_children_def fr sy)
qed

theorem restart_keeps_cache_witness:
  "\<exists>(s :: Index Store) w. quiet_run MockRemote plain_json (s, w) \<and> codec_ok plain_json \<and>
     fst (read_cached (restart s (chunk_size s)) readme 1 3) = fst (read_cached s readme 1 3) \<and>
     store_inv (restart s 4)"
proof -
  have cd: "codec_ok plain_json" by (simp add: codec_ok_def plain_json_def)
  have q0: "quiet_run MockRemote plain_json (Store_new plain_json empty_dir 4, MockRemote_new)"
    by (rule quiet_run.opened) (simp_all add: empty_dir_def benign_def)
  obtain s w where rd: "store_read (Store_new plain_json empty_dir 4) readme MockRemote (file_attrs 5) 1 3
      MockRemote_new = (Ok (byte_string ''ell''), s, w)"
    by (rule fixture_read)
  have "benign (dir s)"
    using mock.store_read_total[OF Store_new_fixture(4) mock_fixture(2,1) _ mock_fixture(3)
        Store_new_inv[OF Store_new_fixture(1)]
        Store_new_coherent[OF Store_new_fixture(1), of "\<lambda>_ _ _. byte_string ''hello''"] fixture_room(2,1)]
      rd by auto
  then have "quiet_run MockRemote plain_json (s, w)"
    using quiet_run.operation[OF q0 store_step.read[OF rd fixture_room(1)]] by simp
  with restart_keeps_cache[OF this cd] cd show ?thesis by blast
qed

end
