(* ===== verification/Store_Interleaving.thy ===== *)
theory Store_Interleaving
  imports Store_Properties
begin

text \<open>
  The store as several threads run it.  The index is behind one mutex, but an operation holds it only
  for its index section: the object files it made unreachable are removed afterwards, one by one, and
  \<open>fetch_chunk\<close> releases it between the allocation of the object and the recording of the chunk,
  while it downloads.  Here an operation is split at these points into tasks of a pool, a run
  interleaves the steps of all tasks in any order, and the referential invariant is shown for every
  interleaving.  The sequential \<open>fetch_chunk\<close> is the run in which one task is never interrupted.
\<close>

section \<open>The index sections of the metadata operations\<close>

text \<open>
  What each operation does while it holds the lock, with the objects it removes after releasing it.
\<close>

definition put_attrs_locked :: "'j Store \<Rightarrow> RemotePath \<Rightarrow> FileAttributes \<Rightarrow> u64 list \<times> 'j Store" where
  "put_attrs_locked s path a =
     (case store_attrs (index s) (as_str path) a of (stale, ix) \<Rightarrow> (stale, persist (s\<lparr>index := ix\<rparr>)))"

definition record_listing_locked ::
  "'j Store \<Rightarrow> RemotePath \<Rightarrow> (string \<times> FileAttributes) list \<Rightarrow> u64 list \<times> 'j Store" where
  "record_listing_locked s parent children =
     (case record_children parent children (index s) [] of
        (orphans, ix) \<Rightarrow>
          (orphans, persist (s\<lparr>index := ix\<lparr>listings :=
             fmupd (as_str parent) (map fst children) (listings ix)\<rparr>\<rparr>)))"

definition store_remove_locked :: "'j Store \<Rightarrow> RemotePath \<Rightarrow> u64 list \<times> 'j Store" where
  "store_remove_locked s path =
     (let key = as_str path;
          entry = fmlookup (entries (index s)) key;
          had_listing = fmlookup (listings (index s)) key \<noteq> None;
          ix = (index s)\<lparr>entries := fmdrop key (entries (index s)),
                         listings := fmdrop key (listings (index s))\<rparr>;
          s = s\<lparr>index := ix\<rparr>
      in (entry_objects entry, if entry \<noteq> None \<or> had_listing then persist s else s))"

definition store_rename_locked :: "'j Store \<Rightarrow> RemotePath \<Rightarrow> RemotePath \<Rightarrow> u64 list \<times> 'j Store" where
  "store_rename_locked s from to =
     (let es = move_key (as_str from) (as_str to) (entries (index s));
          ls = move_key (as_str from) (as_str to) (listings (index s));
          descendants = filter (prefix (as_str from @ ''/'')) (fm_keys es);
          orphans = concat (map (\<lambda>key. entry_objects (fmlookup es key)) descendants);
          ix = (index s)\<lparr>entries := fold fmdrop descendants es, listings := fold fmdrop descendants ls\<rparr>
      in (orphans, persist (s\<lparr>index := ix\<rparr>)))"

definition invalidate_content_locked :: "'j Store \<Rightarrow> RemotePath \<Rightarrow> u64 list \<times> 'j Store" where
  "invalidate_content_locked s path =
     (case fmlookup (entries (index s)) (as_str path) of
        None \<Rightarrow> ([], s)
      | Some e \<Rightarrow>
          (let obs = entry_objects (Some e);
               s = s\<lparr>index := (index s)\<lparr>entries :=
                      fmupd (as_str path) (e\<lparr>content := None\<rparr>) (entries (index s))\<rparr>\<rparr>
           in (obs, if obs \<noteq> [] then persist s else s)))"

section \<open>A fetch, step by step\<close>

datatype phase = Create | Download bytes | Sync | Rename | Record | Cleanup error | Done "u64 result"

record Fetch =
  f_path :: RemotePath
  f_attrs :: FileAttributes
  f_chunk :: u64
  f_object :: u64
  f_temp :: "u64 \<times> u64"
  f_phase :: phase

definition fetch_start ::
  "'j Store \<Rightarrow> RemotePath \<Rightarrow> FileAttributes \<Rightarrow> u64 \<Rightarrow> Fetch result \<times> 'j Store" where
  "fetch_start s path a chunk =
     (case io_calls 2 (dir s) of
        (Err e, d) \<Rightarrow> (Err e, s\<lparr>dir := d\<rparr>)
      | (Ok _, d) \<Rightarrow>
          (let ob = next_object (index s)
           in (Ok \<lparr>f_path = path, f_attrs = a, f_chunk = chunk, f_object = ob,
                   f_temp = (ob, temp_counter s), f_phase = Create\<rparr>,
               s\<lparr>dir := d, index := (index s)\<lparr>next_object := ob + 1\<rparr>, temp_counter := temp_counter s + 1\<rparr>)))"

definition fetch_record :: "'j Store \<Rightarrow> Fetch \<Rightarrow> 'j Store" where
  "fetch_record s f =
     (let (stale, entry) = record_chunk (chunk_size s) (f_attrs f)
            (fmlookup (entries (index s)) (as_str (f_path f))) (f_chunk f) (f_object f);
          s = remove_objects stale s
      in persist (s\<lparr>index := (index s)\<lparr>entries :=
           fmupd (as_str (f_path f)) entry (entries (index s))\<rparr>\<rparr>))"

definition fetch_step ::
  "'w RemoteFilesystem \<Rightarrow> 'j Store \<Rightarrow> Fetch \<Rightarrow> 'w \<Rightarrow> phase \<times> 'j Store \<times> 'w" where
  "fetch_step remote s f w =
     (let temp = f_temp f; ob = f_object f
      in case f_phase f of
        Create \<Rightarrow>
          (case io_call (dir s) of
             (Err e, d) \<Rightarrow> (Cleanup e, s\<lparr>dir := d\<rparr>, w)
           | (Ok _, d) \<Rightarrow> (Download [], s\<lparr>dir := d\<lparr>tmp := fmupd temp [] (tmp d)\<rparr>\<rparr>, w))
      | Download written \<Rightarrow>
          (let chunk_start = f_chunk f * chunk_size s;
               chunk_len = min (fsize (f_attrs f) - chunk_start) (chunk_size s)
           in if length written < unat chunk_len then
                (let want = min (unat chunk_len - length written) (2 ^ 32 - 1)
                 in case rf_read remote (f_path f) (chunk_start + of_nat (length written)) (of_nat want) w of
                      (Err e, w') \<Rightarrow> (Cleanup e, s, w')
                    | (Ok data, w') \<Rightarrow>
                        if data = [] then (Sync, s, w')
                        else (case io_call (dir s) of
                                (Err e, d) \<Rightarrow> (Cleanup e, s\<lparr>dir := d\<rparr>, w')
                              | (Ok _, d) \<Rightarrow>
                                  (Download (written @ data),
                                   s\<lparr>dir := d\<lparr>tmp := fmupd temp (written @ data) (tmp d)\<rparr>\<rparr>, w')))
              else (Sync, s, w))
      | Sync \<Rightarrow>
          (case io_call (dir s) of
             (Err e, d) \<Rightarrow> (Cleanup e, s\<lparr>dir := d\<rparr>, w)
           | (Ok _, d) \<Rightarrow> (Rename, s\<lparr>dir := d\<rparr>, w))
      | Rename \<Rightarrow>
          (case io_call (dir s) of
             (Err e, d) \<Rightarrow> (Done (Err e), s\<lparr>dir := d\<rparr>, w)
           | (Ok _, d) \<Rightarrow>
               (case fmlookup (tmp d) temp of
                  None \<Rightarrow> (Done (Err (cache_io os_not_found)), s\<lparr>dir := d\<rparr>, w)
                | Some file \<Rightarrow>
                    (Record, s\<lparr>dir := d\<lparr>objects := fmupd ob file (objects d), tmp := fmdrop temp (tmp d)\<rparr>\<rparr>, w)))
      | Record \<Rightarrow> (Done (Ok ob), fetch_record s f, w)
      | Cleanup e \<Rightarrow> (Done (Err e), s\<lparr>dir := remove_temp_file temp (dir s)\<rparr>, w)
      | Done r \<Rightarrow> (Done r, s, w))"

section \<open>Runs of several threads\<close>

text \<open>
  A pool holds the unfinished work of the threads: fetches, and object files still to be removed.
  \<open>fetch\<close> and \<open>remove_file\<close> advance any one task of the pool; \<open>io\<close> lets the local file system's
  behaviour change between any two steps (in particular through the reads of cached content).  A calm
  step leaves the files of the server alone; \<open>server\<close> lets them change between any two steps (in
  particular through the writes of other threads, which go to the server outside the lock).
\<close>

datatype task = Fetching Fetch | Removing "u64 list"

inductive calm_step ::
  "'w RemoteFilesystem \<Rightarrow> 'j Store \<times> 'w \<times> task list \<Rightarrow> 'j Store \<times> 'w \<times> task list \<Rightarrow> bool"
  for R :: "'w RemoteFilesystem" where
  put_attrs: "put_attrs_locked s p a = (st, s') \<Longrightarrow> calm_step R (s, w, T) (s', w, Removing st # T)"
| record_listing: "record_listing_locked s p cs = (st, s') \<Longrightarrow> calm_step R (s, w, T) (s', w, Removing st # T)"
| invalidate_children: "calm_step R (s, w, T) (invalidate_children s p, w, T)"
| remove: "store_remove_locked s p = (st, s') \<Longrightarrow> calm_step R (s, w, T) (s', w, Removing st # T)"
| invalidate_content: "invalidate_content_locked s p = (st, s') \<Longrightarrow> calm_step R (s, w, T) (s', w, Removing st # T)"
| start: "fetch_start s p a chunk = (Ok f, s') \<Longrightarrow> can_allocate s 1 \<Longrightarrow>
    calm_step R (s, w, T) (s', w, Fetching f # T)"
| start_fails: "fetch_start s p a chunk = (Err e, s') \<Longrightarrow> calm_step R (s, w, T) (s', w, T)"
| fetch: "fetch_step R s f w = (ph, s', w') \<Longrightarrow>
    calm_step R (s, w, T @ Fetching f # U) (s', w', T @ Fetching (f\<lparr>f_phase := ph\<rparr>) # U)"
| returned: "f_phase f = Done r \<Longrightarrow> calm_step R (s, w, T @ Fetching f # U) (s, w, T @ U)"
| remove_file: "calm_step R (s, w, T @ Removing (ob # obs) # U)
    (s\<lparr>dir := remove_object_file ob (dir s)\<rparr>, w, T @ Removing obs # U)"
| removed: "calm_step R (s, w, T @ Removing [] # U) (s, w, T @ U)"
| io: "calm_step R (s, w, T) (s\<lparr>dir := (dir s)\<lparr>io_plan := pl\<rparr>\<rparr>, w, T)"

inductive thread_step ::
  "'w RemoteFilesystem \<Rightarrow> 'j Store \<times> 'w \<times> task list \<Rightarrow> 'j Store \<times> 'w \<times> task list \<Rightarrow> bool"
  for R :: "'w RemoteFilesystem" where
  calm: "calm_step R x y \<Longrightarrow> thread_step R x y"
| rename: "store_rename_locked s p q = (st, s') \<Longrightarrow> thread_step R (s, w, T) (s', w, Removing st # T)"
| server: "thread_step R (s, w, T) (s, w', T)"

inductive thread_reachable :: "'w RemoteFilesystem \<Rightarrow> 'j Store \<times> 'w \<times> task list \<Rightarrow> bool"
  for R :: "'w RemoteFilesystem" where
  opened: "index_json d = None \<Longrightarrow> thread_reachable R (Store_new cd d cs, w, [])"
| step: "thread_reachable R x \<Longrightarrow> thread_step R x y \<Longrightarrow> thread_reachable R y"

section \<open>The operations are their sections put together\<close>

lemma locked_sections:
  "put_attrs s p a = (case put_attrs_locked s p a of (st, s') \<Rightarrow> remove_objects st s')"
  "record_listing s p cs = (case record_listing_locked s p cs of (st, s') \<Rightarrow> remove_objects st s')"
  "store_remove s p = (case store_remove_locked s p of (st, s') \<Rightarrow> remove_objects st s')"
  "store_rename s p q = (case store_rename_locked s p q of (st, s') \<Rightarrow> remove_objects st s')"
  "invalidate_content s p = (case invalidate_content_locked s p of (st, s') \<Rightarrow> remove_objects st s')"
  by (auto simp: put_attrs_def put_attrs_locked_def record_listing_def record_listing_locked_def
      store_remove_def store_remove_locked_def store_rename_def store_rename_locked_def
      invalidate_content_def invalidate_content_locked_def entry_objects_def remove_objects_def Let_def
      split: prod.splits option.splits)


lemma fetch_step_frame:
  "fetch_step R s f w = (ph, s', w') \<Longrightarrow> chunk_size s' = chunk_size s"
  by (auto simp: fetch_step_def fetch_record_def Let_def
      split: phase.splits prod.splits result.splits option.splits if_splits)

definition steps_left :: "'j Store \<Rightarrow> Fetch \<Rightarrow> nat" where
  "steps_left s f =
     (case f_phase f of
        Create \<Rightarrow> 2 ^ 64 + 5
      | Download written \<Rightarrow> unat (min (fsize (f_attrs f) - f_chunk f * chunk_size s) (chunk_size s)) - length written + 4
      | Sync \<Rightarrow> 3 | Rename \<Rightarrow> 2 | Record \<Rightarrow> 1 | Cleanup _ \<Rightarrow> 1 | Done _ \<Rightarrow> 0)"

lemma fetch_step_decreases:
  assumes "fetch_step R s f w = (ph, s', w')" "\<nexists>r. f_phase f = Done r"
  shows "steps_left s' (f\<lparr>f_phase := ph\<rparr>) < steps_left s f"
proof -
  let ?len = "unat (min (fsize (f_attrs f) - f_chunk f * chunk_size s) (chunk_size s))"
  have cs: "chunk_size s' = chunk_size s" by (rule fetch_step_frame[OF assms(1)])
  have "?len < 2 ^ 64" using unsigned_less[of "min (fsize (f_attrs f) - f_chunk f * chunk_size s) (chunk_size s)"] by simp
  with assms cs show ?thesis
    by (auto simp: fetch_step_def steps_left_def Let_def diff_less_mono2
        split: phase.splits prod.splits result.splits option.splits if_splits)
qed

function fetch_run :: "'w RemoteFilesystem \<Rightarrow> 'j Store \<Rightarrow> Fetch \<Rightarrow> 'w \<Rightarrow> u64 result \<times> 'j Store \<times> 'w" where
  "fetch_run R s f w =
     (case f_phase f of
        Done r \<Rightarrow> (r, s, w)
      | _ \<Rightarrow> (case fetch_step R s f w of (ph, s', w') \<Rightarrow> fetch_run R s' (f\<lparr>f_phase := ph\<rparr>) w'))"
  by pat_completeness auto
termination
  by (relation "measure (\<lambda>(R, s, f, w). steps_left s f)") (auto intro!: fetch_step_decreases dest: sym)

declare fetch_run.simps [simp del]

lemma fetch_run_done: "f_phase f = Done r \<Longrightarrow> fetch_run R s f w = (r, s, w)"
  by (simp add: fetch_run.simps)

lemma fetch_run_step:
  "\<lbrakk>fetch_step R s f w = (ph, s', w'); \<nexists>r. f_phase f = Done r\<rbrakk> \<Longrightarrow>
   fetch_run R s f w = fetch_run R s' (f\<lparr>f_phase := ph\<rparr>) w'"
  by (simp add: fetch_run.simps[of R s f w] split: phase.splits)


lemma fetch_run_cleanup:
  "f_phase f = Cleanup e \<Longrightarrow>
   fetch_run R s f w = (Err e, s\<lparr>dir := remove_temp_file (f_temp f) (dir s)\<rparr>, w)"
  by (simp add: fetch_run_step fetch_step_def fetch_run_done)

lemma fetch_run_download:
  assumes "f_phase f = Download written"
  shows "fetch_run R s f w =
    (case download_loop R (f_path f) (f_temp f) (f_chunk f * chunk_size s)
            (min (fsize (f_attrs f) - f_chunk f * chunk_size s) (chunk_size s)) written (dir s) w of
       (Err e, d, w') \<Rightarrow> (Err e, s\<lparr>dir := remove_temp_file (f_temp f) d\<rparr>, w')
     | (Ok _, d, w') \<Rightarrow> fetch_run R (s\<lparr>dir := d\<rparr>) (f\<lparr>f_phase := Sync\<rparr>) w')"
  using assms
proof (induction "unat (min (fsize (f_attrs f) - f_chunk f * chunk_size s) (chunk_size s)) - length written"
    arbitrary: s f w written rule: less_induct)
  case less
  let ?cst = "f_chunk f * chunk_size s"
  let ?cl = "min (fsize (f_attrs f) - ?cst) (chunk_size s)"
  let ?want = "min (unat ?cl - length written) (2 ^ 32 - 1)"
  obtain rr w1 where rd: "rf_read R (f_path f) (?cst + of_nat (length written)) (of_nat ?want) w = (rr, w1)"
    by fastforce
  obtain q d1 where io: "io_call (dir s) = (q, d1)" by fastforce
  note unf = download_loop.simps[of R "f_path f" "f_temp f" ?cst ?cl written "dir s" w]
  show ?case
  proof (cases "length written < unat ?cl \<and> (\<exists>data. rr = Ok data \<and> data \<noteq> [] \<and> q = Ok ())")
    case True
    then obtain data where data: "length written < unat ?cl" "rr = Ok data" "data \<noteq> []" "q = Ok ()" by blast
    let ?s = "s\<lparr>dir := d1\<lparr>tmp := fmupd (f_temp f) (written @ data) (tmp d1)\<rparr>\<rparr>"
    have "fetch_step R s f w = (Download (written @ data), ?s, w1)"
      using less.prems rd io data by (simp add: fetch_step_def Let_def)
    then have "fetch_run R s f w = fetch_run R ?s (f\<lparr>f_phase := Download (written @ data)\<rparr>) w1"
      using less.prems by (simp add: fetch_run_step)
    also have "\<dots> = (case download_loop R (f_path f) (f_temp f) ?cst ?cl (written @ data) (dir ?s) w1 of
       (Err e, d, w') \<Rightarrow> (Err e, s\<lparr>dir := remove_temp_file (f_temp f) d\<rparr>, w')
     | (Ok _, d, w') \<Rightarrow> fetch_run R (s\<lparr>dir := d\<rparr>) (f\<lparr>f_phase := Sync\<rparr>) w')"
      using less.hyps[of "f\<lparr>f_phase := Download (written @ data)\<rparr>" ?s "written @ data" w1] data
      by (simp add: diff_less_mono2 split: prod.split result.split)
    finally show ?thesis using rd io data by (simp add: unf Let_def)
  next
    case False
    with less.prems rd io show ?thesis
      by (cases rr; cases q)
         (auto simp: unf fetch_run_step fetch_step_def Let_def fetch_run_cleanup fetch_run_done)
  qed
qed

lemma fetch_run_create:
  assumes "f_phase f = Create"
  shows "fetch_run R s f w =
    (case download R (f_path f) (f_attrs f) (chunk_size s) (f_chunk f) (f_temp f) (dir s) w of
       (Err e, d, w') \<Rightarrow> (Err e, s\<lparr>dir := remove_temp_file (f_temp f) d\<rparr>, w')
     | (Ok _, d, w') \<Rightarrow> fetch_run R (s\<lparr>dir := d\<rparr>) (f\<lparr>f_phase := Rename\<rparr>) w')"
proof -
  obtain q d1 where io: "io_call (dir s) = (q, d1)" by fastforce
  have sync: "fetch_run R (s\<lparr>dir := d\<rparr>) (f\<lparr>f_phase := Sync\<rparr>) w1 =
      (case io_call d of
         (Err e, d') \<Rightarrow> (Err e, s\<lparr>dir := remove_temp_file (f_temp f) d'\<rparr>, w1)
       | (Ok _, d') \<Rightarrow> fetch_run R (s\<lparr>dir := d'\<rparr>) (f\<lparr>f_phase := Rename\<rparr>) w1)" for d w1
    by (cases "io_call d"; cases "fst (io_call d)")
       (auto simp: fetch_run_step fetch_step_def fetch_run_cleanup fetch_run_done)
  show ?thesis
  proof (cases q)
    case (Err e)
    with io assms show ?thesis
      by (simp add: fetch_run_step fetch_step_def fetch_run_cleanup fetch_run_done download_def)
  next
    case (Ok u)
    with io assms show ?thesis
      by (simp add: fetch_run_step fetch_step_def fetch_run_download download_def Let_def sync
          split: prod.split result.split)
  qed
qed

lemma fetch_run_rename:
  "f_phase f = Rename \<Longrightarrow> fetch_run R s f w =
    (case io_call (dir s) of
       (Err e, d) \<Rightarrow> (Err e, s\<lparr>dir := d\<rparr>, w)
     | (Ok _, d) \<Rightarrow>
         (case fmlookup (tmp d) (f_temp f) of
            None \<Rightarrow> (Err (cache_io os_not_found), s\<lparr>dir := d\<rparr>, w)
          | Some file \<Rightarrow>
              (Ok (f_object f), fetch_record (s\<lparr>dir := d\<lparr>objects := fmupd (f_object f) file (objects d),
                 tmp := fmdrop (f_temp f) (tmp d)\<rparr>\<rparr>) (f\<lparr>f_phase := Record\<rparr>), w)))"
  by (cases "io_call (dir s)"; cases "fst (io_call (dir s))")
     (auto simp: fetch_run_step fetch_step_def fetch_run_done split: option.split)

lemma fetch_chunk_as_run:
  "fetch_chunk s R p a chunk w =
     (case fetch_start s p a chunk of
        (Err e, s') \<Rightarrow> (Err e, s', w)
      | (Ok f, s') \<Rightarrow> fetch_run R s' f w)"
  by (auto simp: fetch_chunk_def fetch_start_def fetch_run_create fetch_run_rename fetch_record_def Let_def
      split: prod.split result.split option.split)


section \<open>The invariant of the pool\<close>

definition refs :: "Index \<Rightarrow> u64 set" where
  "refs ix = (\<Union>k. set (object_list ix k))"

lemma chunk_in_refs:
  assumes "content_of ix key = Some c" "fmlookup (c_chunks c) k = Some ob"
  shows "ob \<in> refs ix"
proof -
  have "ob \<in> set (object_list ix key)"
    using assms by (auto simp: object_list_content content_objects_def set_fm_values)
  then show ?thesis by (auto simp: refs_def)
qed

fun claim :: "task \<Rightarrow> u64 list" where
  "claim (Fetching f) = (case f_phase f of Done _ \<Rightarrow> [] | _ \<Rightarrow> [f_object f])"
| "claim (Removing obs) = []"

fun doomed :: "task \<Rightarrow> u64 set" where
  "doomed (Fetching f) = {}"
| "doomed (Removing obs) = set obs"

fun ready :: "task \<Rightarrow> u64 set" where
  "ready (Fetching f) = (if f_phase f = Record then {f_object f} else {})"
| "ready (Removing obs) = {}"

definition claims :: "task list \<Rightarrow> u64 list" where
  "claims T = concat (map claim T)"

definition dooms :: "task list \<Rightarrow> u64 set" where
  "dooms T = \<Union>(doomed ` set T)"

definition placed :: "task list \<Rightarrow> u64 set" where
  "placed T = \<Union>(ready ` set T)"

lemma pool_simps [simp]:
  "claims [] = []" "claims (t # T) = claim t @ claims T" "claims (T @ U) = claims T @ claims U"
  "dooms [] = {}" "dooms (t # T) = doomed t \<union> dooms T" "dooms (T @ U) = dooms T \<union> dooms U"
  "placed [] = {}" "placed (t # T) = ready t \<union> placed T" "placed (T @ U) = placed T \<union> placed U"
  by (auto simp: claims_def dooms_def placed_def)

lemma ready_claimed: "ready t \<subseteq> set (claim t)"
  by (cases t) auto

lemma placed_claimed: "placed T \<subseteq> set (claims T)"
  using ready_claimed by (induction T) auto

text \<open>
  The objects of unfinished fetches (\<open>claims\<close>) are pairwise different, none of them is about to be
  removed (\<open>dooms\<close>), neither are referred to by the index, and all were allocated before; a fetch that
  is about to record its chunk has its object file in place.
\<close>

definition pool_inv :: "'j Store \<Rightarrow> task list \<Rightarrow> bool" where
  "pool_inv s T \<longleftrightarrow>
     store_inv s \<and>
     distinct (claims T) \<and>
     set (claims T) \<inter> dooms T = {} \<and>
     (\<forall>ob \<in> set (claims T) \<union> dooms T. unat ob < unat (next_object (index s))) \<and>
     (set (claims T) \<union> dooms T) \<inter> refs (index s) = {} \<and>
     placed T \<subseteq> fmdom' (objects (dir s))"

definition detaches :: "'j Store \<Rightarrow> u64 list \<Rightarrow> 'j Store \<Rightarrow> bool" where
  "detaches s st s' \<longleftrightarrow>
     store_inv s' \<and> objects (dir s') = objects (dir s) \<and>
     next_object (index s') = next_object (index s) \<and>
     refs (index s') \<subseteq> refs (index s) \<and> set st \<subseteq> refs (index s) - refs (index s')"

lemma refs_allocated: "store_inv s \<Longrightarrow> ob \<in> refs (index s) \<Longrightarrow> unat ob < unat (next_object (index s))"
  by (auto simp: store_inv_def refs_ok_def refs_def)

lemma detaches_shrink:
  assumes inv: "store_inv s" and sh: "shrink (index s) (index s') st"
    and "objects (dir s') = objects (dir s)" "chunk_size s' = chunk_size s"
  shows "detaches s st s'"
proof -
  have sub: "set (object_list (index s') k) \<subseteq> set (object_list (index s) k)" for k
    using sh unfolding shrink_def by (metis empty_subsetI list.set(1) order_refl)
  have lost: "\<forall>ob \<in> set st. \<exists>k. ob \<in> set (object_list (index s) k) \<and> object_list (index s') k = []"
    using sh by (simp add: shrink_def)
  have st: "ob \<in> refs (index s) \<and> ob \<notin> refs (index s')" if ob: "ob \<in> set st" for ob
  proof -
    obtain k where k: "ob \<in> set (object_list (index s) k)" "object_list (index s') k = []"
      using lost ob by blast
    have "ob \<notin> set (object_list (index s') k')" for k'
    proof (cases "k' = k")
      case False
      then have "set (object_list (index s) k) \<inter> set (object_list (index s) k') = {}"
        using inv unfolding store_inv_def refs_ok_def by blast
      with k(1) sub[of k'] show ?thesis by blast
    qed (simp add: k(2))
    with k(1) show ?thesis by (auto simp: refs_def)
  qed
  have "store_inv s'"
    using inv assms(3,4) refs_ok_shrink[OF _ sh, of "objects (dir s)" "objects (dir s')"]
    by (simp add: store_inv_def)
  with sub st sh assms(3) show ?thesis
    by (auto simp: detaches_def refs_def shrink_def)
qed

lemma locked_detaches:
  assumes "store_inv s"
  shows "put_attrs_locked s p a = (st, s') \<Longrightarrow> detaches s st s'"
    "record_listing_locked s p cs = (st, s') \<Longrightarrow> detaches s st s'"
    "store_remove_locked s p = (st, s') \<Longrightarrow> detaches s st s'"
    "invalidate_content_locked s p = (st, s') \<Longrightarrow> detaches s st s'"
proof -
  show "detaches s st s'" if "put_attrs_locked s p a = (st, s')"
    using that assms
    by (intro detaches_shrink) (auto simp: put_attrs_locked_def split: prod.splits intro: store_attrs_shrink)
  show "detaches s st s'" if "record_listing_locked s p cs = (st, s')"
    using that assms record_children_shrink[of p cs "index s" "[]"]
    by (intro detaches_shrink) (force simp: record_listing_locked_def shrink_listings split: prod.splits)+
  show "detaches s st s'" if "store_remove_locked s p = (st, s')"
    using that assms
    by (intro detaches_shrink shrink_key[where key = "as_str p"])
       (auto simp: store_remove_locked_def Let_def object_list_def split: if_splits)
  show "detaches s st s'" if "invalidate_content_locked s p = (st, s')"
    using that assms
    by (intro detaches_shrink shrink_key[where key = "as_str p"])
       (auto simp: invalidate_content_locked_def Let_def object_list_def split: option.splits if_splits)
qed

lemma refs_move:
  "refs (ix\<lparr>entries := move_key from to (entries ix), listings := l\<rparr>) \<subseteq> refs ix"
  by (auto simp: refs_def object_list_def move_key_lookup split: if_splits) metis+

lemma rename_detaches:
  assumes "store_inv s" "store_rename_locked s p q = (st, s')"
  shows "detaches s st s'"
proof -
  let ?ix = "(index s)\<lparr>entries := move_key (as_str p) (as_str q) (entries (index s)),
                       listings := move_key (as_str p) (as_str q) (listings (index s))\<rparr>"
  let ?s = "s\<lparr>index := ?ix\<rparr>"
  have "store_inv ?s" using assms(1) move_refs_ok by (auto simp: store_inv_def)
  then have "detaches ?s st s'"
    using assms(2) drop_keys_shrink[where ix = ?ix]
    by (intro detaches_shrink) (auto simp: store_rename_locked_def Let_def)
  moreover have "refs ?ix \<subseteq> refs (index s)" by (rule refs_move)
  ultimately show ?thesis by (auto simp: detaches_def)
qed

lemma pool_inv_detach:
  assumes "pool_inv s T" "detaches s st s'"
  shows "pool_inv s' (Removing st # T)"
  using assms refs_allocated[of s] unfolding pool_inv_def detaches_def by auto

lemma store_inv_keep:
  assumes "store_inv s" "index s' = index s" "chunk_size s' = chunk_size s"
    and "refs (index s) \<inter> fmdom' (objects (dir s)) \<subseteq> fmdom' (objects (dir s'))"
  shows "store_inv s'"
proof -
  have "ob \<in> refs (index s) \<inter> fmdom' (objects (dir s))" if "ob \<in> set (object_list (index s) k)" for ob k
    using that assms(1) unfolding store_inv_def refs_ok_def refs_def by blast
  then have "\<forall>k. \<forall>ob \<in> set (object_list (index s) k). ob \<in> fmdom' (objects (dir s'))"
    using assms(4) by blast
  with assms(1-3) show ?thesis by (simp add: store_inv_def refs_ok_def)
qed

lemma pool_inv_dir:
  assumes "pool_inv s T" "index s' = index s" "chunk_size s' = chunk_size s"
    and "(refs (index s) \<union> placed T) \<inter> fmdom' (objects (dir s)) \<subseteq> fmdom' (objects (dir s'))"
  shows "pool_inv s' T"
proof -
  have "store_inv s" using assms(1) by (simp add: pool_inv_def)
  moreover have "refs (index s) \<inter> fmdom' (objects (dir s)) \<subseteq> fmdom' (objects (dir s'))" using assms(4) by blast
  ultimately have "store_inv s'" using assms(2,3) store_inv_keep by blast
  moreover have "placed T \<subseteq> fmdom' (objects (dir s'))"
    using assms(1,4) unfolding pool_inv_def by blast
  ultimately show ?thesis using assms(1,2) by (simp add: pool_inv_def)
qed

lemma pool_inv_phase:
  assumes "pool_inv s (T @ Fetching f # U)" "\<nexists>r. f_phase f = Done r"
    and "ph = Record \<Longrightarrow> f_object f \<in> fmdom' (objects (dir s))"
  shows "pool_inv s (T @ Fetching (f\<lparr>f_phase := ph\<rparr>) # U)"
proof -
  have "claim (Fetching f) = [f_object f]" using assms(2) by (simp split: phase.splits)
  moreover have "claim (Fetching (f\<lparr>f_phase := ph\<rparr>)) = [] \<or> claim (Fetching (f\<lparr>f_phase := ph\<rparr>)) = [f_object f]"
    by (simp split: phase.splits)
  ultimately show ?thesis using assms(1,3) by (auto simp: pool_inv_def simp del: claim.simps(1))
qed

lemma pool_inv_drop:
  "pool_inv s (T @ t # U) \<Longrightarrow> pool_inv s (T @ U)"
  by (auto simp: pool_inv_def)

lemma fetch_step_quiet:
  assumes "fetch_step R s f w = (ph, s', w')" "f_phase f \<noteq> Record"
  shows "index s' = index s" "fmdom' (objects (dir s)) \<subseteq> fmdom' (objects (dir s'))"
    "ph = Record \<Longrightarrow> f_object f \<in> fmdom' (objects (dir s'))"
proof -
  obtain q d where io: "io_call (dir s) = (q, d)" by fastforce
  then have "objects d = objects (dir s)" using io_call_frame by fastforce
  with assms io show "index s' = index s" "fmdom' (objects (dir s)) \<subseteq> fmdom' (objects (dir s'))"
    "ph = Record \<Longrightarrow> f_object f \<in> fmdom' (objects (dir s'))"
    by (auto simp: fetch_step_def Let_def store_simps
        split: phase.splits prod.splits result.splits option.splits if_splits)
qed

lemma fetch_record_inv:
  assumes inv: "store_inv s" and ob: "unat (f_object f) < unat (next_object (index s))"
      "f_object f \<notin> refs (index s)" "f_object f \<in> fmdom' (objects (dir s))"
  shows "store_inv (fetch_record s f)" "next_object (index (fetch_record s f)) = next_object (index s)"
    "refs (index (fetch_record s f)) \<subseteq> insert (f_object f) (refs (index s))"
    "x \<notin> refs (index s) \<Longrightarrow> fmlookup (objects (dir (fetch_record s f))) x = fmlookup (objects (dir s)) x"
proof -
  let ?key = "as_str (f_path f)" and ?ob = "f_object f"
  let ?e = "fmlookup (entries (index s)) ?key"
  obtain stale entry where rc: "record_chunk (chunk_size s) (f_attrs f) ?e (f_chunk f) ?ob = (stale, entry)"
    by fastforce
  have ok: "refs_ok (index s) (objects (dir s))" using inv by (simp add: store_inv_def)
  have e: "entry_objects ?e = object_list (index s) ?key" by (simp add: object_list_def)
  have fresh: "?ob \<notin> set (object_list (index s) k)" for k using ob(2) by (auto simp: refs_def)
  have dist: "distinct (object_list (index s) ?key)" using ok by (simp add: refs_ok_def)
  note new = record_chunk_objects[OF rc, unfolded e, OF fresh dist]
  let ?s = "remove_objects stale s"
  let ?ix = "(index s)\<lparr>entries := fmupd ?key entry (entries (index s))\<rparr>"
  have fr: "fetch_record s f = persist (?s\<lparr>index := ?ix\<rparr>)"
    using rc by (simp add: fetch_record_def)
  have stale: "set stale \<subseteq> refs (index s)" using new(2) by (auto simp: refs_def)
  have "?ob \<notin> set stale" using stale ob(2) by blast
  with ob(3) have "?ob \<in> fmdom' (objects (dir ?s))" by (simp add: fmlookup_dom'_iff)
  then have "refs_ok ?ix (objects (dir ?s))"
    using new by (intro refs_ok_replace[OF ok _ ob(1) _ fresh]) auto
  with inv fr show "store_inv (fetch_record s f)" by (simp add: store_inv_def)
  show "next_object (index (fetch_record s f)) = next_object (index s)" using fr by simp
  show "refs (index (fetch_record s f)) \<subseteq> insert ?ob (refs (index s))"
    using new(1) fr by (auto simp: refs_def object_list_upd object_list_def split: if_splits)
  show "fmlookup (objects (dir (fetch_record s f))) x = fmlookup (objects (dir s)) x" if "x \<notin> refs (index s)"
  proof -
    have "x \<notin> set stale" using that stale by blast
    with fr show ?thesis by simp
  qed
qed

lemma fetch_claimed:
  assumes "pool_inv s (T @ Fetching f # U)" "\<nexists>r. f_phase f = Done r"
  shows "store_inv s" "unat (f_object f) < unat (next_object (index s))" "f_object f \<notin> refs (index s)"
    "f_phase f = Record \<Longrightarrow> f_object f \<in> fmdom' (objects (dir s))"
proof -
  have "claim (Fetching f) = [f_object f]" using assms(2) by (simp split: phase.splits)
  with assms(1) show "store_inv s" "unat (f_object f) < unat (next_object (index s))"
    "f_object f \<notin> refs (index s)" "f_phase f = Record \<Longrightarrow> f_object f \<in> fmdom' (objects (dir s))"
    by (auto simp: pool_inv_def simp del: claim.simps)
qed

lemma pool_inv_fetch:
  assumes inv: "pool_inv s (T @ Fetching f # U)" and st: "fetch_step R s f w = (ph, s', w')"
  shows "pool_inv s' (T @ Fetching (f\<lparr>f_phase := ph\<rparr>) # U)"
proof -
  consider (ended) r where "f_phase f = Done r" | (recording) "f_phase f = Record"
    | (quiet) "f_phase f \<noteq> Record" "\<nexists>r. f_phase f = Done r" by blast
  then show ?thesis
  proof cases
    case ended
    with st have "s' = s" "ph = Done r" by (auto simp: fetch_step_def)
    moreover have "f\<lparr>f_phase := Done r\<rparr> = f" using ended by simp
    ultimately show ?thesis using inv by simp
  next
    case quiet
    note q = fetch_step_quiet[OF st quiet(1)]
    have "pool_inv s' (T @ Fetching f # U)"
      using inv q fetch_step_frame[OF st] by (intro pool_inv_dir[OF inv]) auto
    then show ?thesis using quiet(2) q(3) by (rule pool_inv_phase)
  next
    case recording
    with st have s': "s' = fetch_record s f" and ph: "ph = Done (Ok (f_object f))"
      by (auto simp: fetch_step_def)
    note own = fetch_claimed[OF inv, unfolded recording, simplified]
    note r = fetch_record_inv[OF own, folded s']
    have "placed T \<union> placed U \<subseteq> fmdom' (objects (dir s)) - refs (index s)"
      using inv placed_claimed[of T] placed_claimed[of U] unfolding pool_inv_def by auto
    then have "placed T \<union> placed U \<subseteq> fmdom' (objects (dir s'))"
      using r(4) by (fastforce simp: fmlookup_dom'_iff)
    then show ?thesis
      using inv r(1,2,3) recording ph unfolding pool_inv_def by auto
  qed
qed

lemma pool_inv_start:
  assumes inv: "pool_inv s T" and room: "can_allocate s 1" and st: "fetch_start s p a chunk = (Ok f, s')"
  shows "pool_inv s' (Fetching f # T)"
proof -
  obtain d where io: "io_calls 2 (dir s) = (Ok (), d)"
    and s': "s' = s\<lparr>dir := d, index := (index s)\<lparr>next_object := next_object (index s) + 1\<rparr>,
                temp_counter := temp_counter s + 1\<rparr>"
    and f: "f_object f = next_object (index s)" "f_phase f = Create"
    using st by (auto simp: fetch_start_def Let_def split: prod.splits result.splits)
  have obs: "objects d = objects (dir s)" using io_calls_frame[OF io] by auto
  have next': "unat (next_object (index s')) = unat (next_object (index s)) + 1"
    using room s' by (simp add: can_allocate_def unat_Suc_u64)
  have ol: "refs (index s') = refs (index s)" using s' by (simp add: refs_def object_list_def)
  have "store_inv s" using inv by (simp add: pool_inv_def)
  then have inv': "store_inv s'"
    using s' obs room refs_ok_alloc[of "index s" "objects (dir s)" "objects (dir s)"]
    by (simp add: store_inv_def can_allocate_def)
  have "unat ob < unat (next_object (index s))" if "ob \<in> set (claims T) \<union> dooms T \<union> refs (index s)" for ob
    using that inv refs_allocated[of s] unfolding pool_inv_def by blast
  then have "next_object (index s) \<notin> set (claims T) \<union> dooms T \<union> refs (index s)"
    and "\<forall>ob \<in> set (claims T) \<union> dooms T. unat ob < unat (next_object (index s'))"
    using next' by fastforce+
  with inv inv' f next' ol s' obs show ?thesis
    by (simp add: pool_inv_def)
qed

lemma pool_inv_remove_file:
  assumes "pool_inv s (T @ Removing (ob # obs) # U)"
  shows "pool_inv (s\<lparr>dir := remove_object_file ob (dir s)\<rparr>) (T @ Removing obs # U)"
proof -
  have "fmdom' (objects (dir s)) - {ob} \<subseteq> fmdom' (objects (remove_object_file ob (dir s)))"
    by (rule remove_object_file_cases[of ob "dir s"]) auto
  moreover have "ob \<notin> refs (index s) \<union> placed (T @ Removing (ob # obs) # U)"
    using assms placed_claimed[of T] placed_claimed[of U] by (auto simp: pool_inv_def)
  ultimately have "pool_inv (s\<lparr>dir := remove_object_file ob (dir s)\<rparr>) (T @ Removing (ob # obs) # U)"
    using assms by (intro pool_inv_dir[OF assms]) auto
  then show ?thesis by (auto simp: pool_inv_def)
qed


lemma calm_step_inv:
  assumes "calm_step R (s, w, T) (s', w', T')" "pool_inv s T"
  shows "pool_inv s' T'"
proof -
  have si: "store_inv s" using assms(2) by (simp add: pool_inv_def)
  from assms(1) show ?thesis
  proof cases
    case (put_attrs p a st)
    with pool_inv_detach[OF assms(2) locked_detaches(1)[OF si]] show ?thesis by simp
  next
    case (record_listing p cs st)
    with pool_inv_detach[OF assms(2) locked_detaches(2)[OF si]] show ?thesis by simp
  next
    case (invalidate_children p)
    then have "pool_inv s' T"
      using assms(2) invalidate_children_inv[OF si, of p]
      by (auto simp: pool_inv_def invalidate_children_def refs_def object_list_def split: option.splits)
    with invalidate_children show ?thesis by simp
  next
    case (remove p st)
    with pool_inv_detach[OF assms(2) locked_detaches(3)[OF si]] show ?thesis by simp
  next
    case (invalidate_content p st)
    with pool_inv_detach[OF assms(2) locked_detaches(4)[OF si]] show ?thesis by simp
  next
    case (start p a chunk f)
    with pool_inv_start[OF assms(2)] show ?thesis by simp
  next
    case (start_fails p a chunk e)
    then obtain d where "io_calls 2 (dir s) = (Err e, d)" "s' = s\<lparr>dir := d\<rparr>"
      by (auto simp: fetch_start_def Let_def split: prod.splits result.splits)
    moreover from this(1) have "objects d = objects (dir s)" using io_calls_frame by fastforce
    ultimately have "pool_inv s' T" by (intro pool_inv_dir[OF assms(2)]) auto
    with start_fails show ?thesis by simp
  next
    case (fetch f ph V U)
    with pool_inv_fetch[OF _ fetch(3)] assms(2) show ?thesis by simp
  next
    case (returned f r V U)
    with pool_inv_drop assms(2) show ?thesis by blast
  next
    case (remove_file V ob obs U)
    with pool_inv_remove_file assms(2) show ?thesis by blast
  next
    case (removed V U)
    with pool_inv_drop assms(2) show ?thesis by blast
  next
    case (io pl)
    with assms(2) show ?thesis by (auto intro: pool_inv_dir[OF assms(2)])
  qed
qed

lemma thread_step_inv:
  assumes "thread_step R (s, w, T) (s', w', T')" "pool_inv s T"
  shows "pool_inv s' T'"
  using assms
proof cases
  case (rename p q st)
  then show ?thesis
    using pool_inv_detach[OF assms(2) rename_detaches[of s]] assms(2) by (simp add: pool_inv_def)
qed (use assms(2) calm_step_inv in auto)

lemma thread_reachable_inv: "thread_reachable R x \<Longrightarrow> pool_inv (fst x) (snd (snd x))"
proof (induction rule: thread_reachable.induct)
  case (opened d cd cs w)
  then show ?case by (simp add: pool_inv_def Store_new_inv)
next
  case (step x y)
  then show ?case using thread_step_inv by (cases x; cases y) fastforce
qed

section \<open>A fetch on the in-memory remote\<close>

definition advance ::
  "'w RemoteFilesystem \<Rightarrow> 'j Store \<times> Fetch \<times> 'w \<Rightarrow> 'j Store \<times> Fetch \<times> 'w" where
  "advance R = (\<lambda>(s, f, w). case fetch_step R s f w of (ph, s', w') \<Rightarrow> (s', f\<lparr>f_phase := ph\<rparr>, w'))"

lemma thread_reachable_advance:
  "thread_reachable R (s, w, [Fetching f]) \<Longrightarrow> (advance R ^^ n) (s, f, w) = (s', f', w') \<Longrightarrow>
   thread_reachable R (s', w', [Fetching f'])"
proof (induction n arbitrary: s' f' w')
  case (Suc n)
  obtain s1 f1 w1 where n: "(advance R ^^ n) (s, f, w) = (s1, f1, w1)" by (metis prod_cases3)
  obtain ph s2 w2 where st: "fetch_step R s1 f1 w1 = (ph, s2, w2)" by (metis prod_cases3)
  from Suc.IH[OF Suc.prems(1) n] have "thread_reachable R (s1, w1, [] @ Fetching f1 # [])" by simp
  from thread_reachable.step[OF this thread_step.calm[OF calm_step.fetch[OF st]]] Suc.prems(2) n st
  show ?case by (simp add: advance_def)
qed simp

definition fixture_store :: "Index Store" where
  "fixture_store = \<lparr>dir = empty_dir, chunk_size = 8, temp_counter = 0, index = Index_default, json = plain_json\<rparr>"

definition fixture_fetch :: "phase \<Rightarrow> Fetch" where
  "fixture_fetch ph = \<lparr>f_path = readme, f_attrs = file_attrs 5, f_chunk = 0, f_object = 0, f_temp = (0, 0), f_phase = ph\<rparr>"

definition fixture_allocated :: "Index Store" where
  "fixture_allocated = fixture_store\<lparr>index := Index_default\<lparr>next_object := 1\<rparr>, temp_counter := 1\<rparr>"

lemma fixture_begin:
  "Store_new plain_json empty_dir 8 = fixture_store"
  "fetch_start fixture_store readme (file_attrs 5) 0 = (Ok (fixture_fetch Create), fixture_allocated)"
  "can_allocate fixture_store 1"
  subgoal by (simp add: Store_new_def empty_dir_def io_call_def io_next_def fixture_store_def max_def word_le_nat_alt)
  subgoal by (simp add: fetch_start_def fixture_store_def fixture_fetch_def fixture_allocated_def Index_default_def
      empty_dir_def io_call_def io_next_def numeral_2_eq_2)
  subgoal by (simp add: can_allocate_def fixture_store_def Index_default_def)
  done

lemma fixture_start:
  "thread_reachable MockRemote (fixture_allocated, w, [Fetching (fixture_fetch Create)])"
proof -
  have "thread_reachable MockRemote (fixture_store, w, [])"
    using thread_reachable.opened[OF Store_new_fixture(1), of MockRemote plain_json 8 w]
    by (simp add: fixture_begin(1))
  then show ?thesis
    using thread_reachable.step thread_step.calm[OF calm_step.start[OF fixture_begin(2,3)]] by metis
qed

lemma five_steps: "(g ^^ 5) x = g (g (g (g (g x))))"
  by (simp add: eval_nat_numeral)

lemma fmdrop_single: "fmdrop k (fmupd k v fmempty) = fmempty"
  by (rule fmap_ext) simp

lemma fixture_downloaded:
  "(advance MockRemote ^^ 5) (fixture_allocated, fixture_fetch Create, MockRemote_new) =
     (fixture_allocated\<lparr>dir := empty_dir\<lparr>objects := fmupd 0 (byte_string ''hello'') fmempty\<rparr>\<rparr>,
      fixture_fetch Record, MockRemote_new\<lparr>read_calls := 1\<rparr>)"
  by (simp add: advance_def fetch_step_def fixture_allocated_def fixture_fetch_def fixture_store_def
      empty_dir_def io_call_def io_next_def MockRemote_def mock_read_def MockRemote_new_def
      readme_def file_attrs_def byte_string_def fmlookup_of_list five_steps fmdrop_single min_def word_le_nat_alt Let_def)

lemma fixture_recorded:
  obtains s f w where
    "(advance MockRemote ^^ Suc 5) (fixture_allocated, fixture_fetch Create, MockRemote_new) = (s, f, w)"
    "cached_chunk s readme (file_attrs 5) 0 = Some 0" "chunk_size s = 8"
proof -
  let ?s = "fixture_allocated\<lparr>dir := empty_dir\<lparr>objects := fmupd 0 (byte_string ''hello'') fmempty\<rparr>\<rparr>"
  let ?s' = "fetch_record ?s (fixture_fetch Record)"
  have "(advance MockRemote ^^ Suc 5) (fixture_allocated, fixture_fetch Create, MockRemote_new) =
      advance MockRemote (?s, fixture_fetch Record, MockRemote_new\<lparr>read_calls := 1\<rparr>)"
    by (simp only: funpow.simps(2) comp_apply fixture_downloaded)
  also have "\<dots> = (?s', (fixture_fetch Record)\<lparr>f_phase := Done (Ok 0)\<rparr>, MockRemote_new\<lparr>read_calls := 1\<rparr>)"
    by (simp add: advance_def fetch_step_def fixture_fetch_def)
  finally show thesis
    by (rule that[where s = ?s'])
       (simp_all add: fetch_record_def record_chunk_def cached_chunk_def fixture_allocated_def fixture_store_def
          fixture_fetch_def Index_default_def readme_def file_attrs_def)
qed

section \<open>Properties\<close>

text \<open>
  C2: no dangling references under concurrency.  However the steps of any number of concurrent fetches,
  metadata operations and file removals are interleaved, whatever I/O calls fail and whatever the
  server does, an object that the index refers to is a file of the cache directory, no two chunks share
  an object, and no thread is about to remove it or to overwrite it.
\<close>

theorem interleaved_store_never_dangles:
  assumes "thread_reachable R (s, w, T)"
    and "content_of (index s) key = Some c" "fmlookup (c_chunks c) k = Some ob"
  shows "(\<exists>data. fmlookup (objects (dir s)) ob = Some data) \<and>
    (\<forall>key' c' k'. content_of (index s) key' = Some c' \<and> fmlookup (c_chunks c') k' = Some ob \<longrightarrow>
       key' = key \<and> k' = k) \<and>
    (\<forall>obs. Removing obs \<in> set T \<longrightarrow> ob \<notin> set obs) \<and>
    (\<forall>f. Fetching f \<in> set T \<and> (\<nexists>r. f_phase f = Done r) \<longrightarrow> f_object f \<noteq> ob)"
proof -
  have inv: "pool_inv s T" using thread_reachable_inv[OF assms(1)] by simp
  then have si: "store_inv s" by (simp add: pool_inv_def)
  have free: "ob \<notin> set (claims T) \<union> dooms T"
    using inv chunk_in_refs[OF assms(2,3)] by (auto simp: pool_inv_def)
  have "ob \<notin> set obs" if "Removing obs \<in> set T" for obs
    using free that by (force simp: dooms_def)
  moreover have "f_object f \<noteq> ob" if "Fetching f \<in> set T" "\<nexists>r. f_phase f = Done r" for f
  proof -
    have "f_object f \<in> set (claim (Fetching f))" using that(2) by (simp split: phase.splits)
    with that(1) free show ?thesis by (auto simp: claims_def)
  qed
  ultimately show ?thesis
    using store_inv_object(1)[OF si assms(2,3)] refs_unique[OF si assms(2,3)]
    by (auto simp: fmlookup_dom'_iff)
qed


theorem interleaved_store_never_dangles_witness:
  "\<exists>(s :: Index Store) w T c. thread_reachable MockRemote (s, w, T) \<and>
     content_of (index s) ''/readme.txt'' = Some c \<and> fmlookup (c_chunks c) 0 = Some 0 \<and>
     (\<exists>data. fmlookup (objects (dir s)) 0 = Some data)"
proof -
  obtain s f w where a: "(advance MockRemote ^^ Suc 5) (fixture_allocated, fixture_fetch Create, MockRemote_new) = (s, f, w)"
    and hit: "cached_chunk s readme (file_attrs 5) 0 = Some 0"
    by (rule fixture_recorded)
  obtain c where c: "content_of (index s) ''/readme.txt'' = Some c" "fmlookup (c_chunks c) 0 = Some 0"
    using hit by (auto simp: cached_chunk_alt readme_def)
  have re: "thread_reachable MockRemote (s, w, [Fetching f])"
    by (rule thread_reachable_advance[OF fixture_start a])
  have "\<exists>data. fmlookup (objects (dir s)) 0 = Some data"
    using interleaved_store_never_dangles[OF re c] by (elim conjE)
  with re c show ?thesis by blast
qed

text \<open>
  C35: a fetch that overlaps a write undoes its invalidation.  Let a fetch have its chunk downloaded but not
  yet recorded when another thread drops the cached content of the file, as \<open>write\<close> does after the server
  has the new bytes.  The fetch then records its object all the same: from then on the chunk counts as
  cached for the version the fetch was started with, with the bytes from before the write, and a read of
  that version does not ask the server again, whatever the server holds.
\<close>

theorem late_fetch_undoes_invalidation:
  assumes "thread_reachable R (s, w, T @ Fetching f # U)" "f_phase f = Record"
    and "invalidate_content_locked s (f_path f) = (st, s1)"
    and "fetch_step R s1 f w1 = (ph, s2, w2)"
  shows "cached_chunk s1 (f_path f) (f_attrs f) (f_chunk f) = None \<and>
    cached_chunk s2 (f_path f) (f_attrs f) (f_chunk f) = Some (f_object f) \<and>
    (\<exists>old. fmlookup (objects (dir s)) (f_object f) = Some old \<and>
           fmlookup (objects (dir s2)) (f_object f) = Some old) \<and>
    (\<forall>w'. fetch_missing s2 R (f_path f) (f_attrs f) [f_chunk f] w' = (Ok (), s2, w'))"
proof -
  have inv: "pool_inv s (T @ Fetching f # U)" using thread_reachable_inv[OF assms(1)] by simp
  then have si: "store_inv s" by (simp add: pool_inv_def)
  have det: "detaches s st s1" by (rule locked_detaches(4)[OF si assms(3)])
  then have inv1: "store_inv s1" "unat (f_object f) < unat (next_object (index s1))"
    "f_object f \<notin> refs (index s1)" "f_object f \<in> fmdom' (objects (dir s1))"
    and obs: "objects (dir s1) = objects (dir s)"
    using inv assms(2) by (auto simp: pool_inv_def detaches_def)
  have s2: "s2 = fetch_record s1 f" using assms(2,4) by (simp add: fetch_step_def)
  have gone: "cached_chunk s1 (f_path f) (f_attrs f) (f_chunk f) = None"
    using assms(3)
    by (auto simp: invalidate_content_locked_def cached_chunk_def Let_def split: option.splits if_splits)
  have hit: "cached_chunk s2 (f_path f) (f_attrs f) (f_chunk f) = Some (f_object f)"
    unfolding s2 by (auto simp: fetch_record_def record_chunk_def cached_chunk_def Let_def split: prod.splits)
  have "fmlookup (objects (dir s2)) (f_object f) = fmlookup (objects (dir s)) (f_object f)"
    using fetch_record_inv(4)[OF inv1 inv1(3)] s2 obs by simp
  with inv1(4) obs gone hit show ?thesis by (auto simp: fmlookup_dom'_iff)
qed

theorem late_fetch_undoes_invalidation_witness:
  "\<exists>(s :: Index Store) w s1 w1 s2 ph. thread_reachable MockRemote (s, w, [Fetching (fixture_fetch Record)]) \<and>
     mock_write readme 0 (byte_string ''J'') w = (Ok 1, w1) \<and>
     mock_file w1 readme = Some (byte_string ''Jello'') \<and>
     invalidate_content_locked s readme = ([], s1) \<and>
     fetch_step MockRemote s1 (fixture_fetch Record) w1 = (ph, s2, w1) \<and>
     cached_chunk s2 readme (file_attrs 5) 0 = Some 0 \<and>
     fmlookup (objects (dir s2)) 0 = Some (byte_string ''hello'')"
proof -
  let ?f = "fixture_fetch Record"
  let ?s = "fixture_allocated\<lparr>dir := empty_dir\<lparr>objects := fmupd 0 (byte_string ''hello'') fmempty\<rparr>\<rparr>"
  let ?w = "MockRemote_new\<lparr>read_calls := 1\<rparr>"
  let ?w1 = "snd (mock_write readme 0 (byte_string ''J'') ?w)"
  have re: "thread_reachable MockRemote (?s, ?w, [] @ Fetching ?f # [])"
    using thread_reachable_advance[OF fixture_start fixture_downloaded] by simp
  have wr: "mock_write readme 0 (byte_string ''J'') ?w = (Ok 1, ?w1)"
    "mock_file ?w1 readme = Some (byte_string ''Jello'')"
    by (simp_all add: mock_write_def mock_file_def readme_def MockRemote_new_def byte_string_def fmlookup_of_list)
  have ph: "f_phase ?f = Record" and f: "f_path ?f = readme" "f_attrs ?f = file_attrs 5" "f_chunk ?f = 0" "f_object ?f = 0"
    by (simp_all add: fixture_fetch_def)
  have il: "invalidate_content_locked ?s (f_path ?f) = ([], ?s)"
    by (simp add: invalidate_content_locked_def fixture_allocated_def Index_default_def)
  have st: "fetch_step MockRemote ?s ?f ?w1 = (Done (Ok 0), fetch_record ?s ?f, ?w1)"
    by (simp add: fetch_step_def ph f)
  from late_fetch_undoes_invalidation[OF re ph il st] re wr il st show ?thesis
    by (intro exI[of _ ?s] exI[of _ ?w] exI[of _ ?w1] exI[of _ "fetch_record ?s ?f"] exI[of _ "Done (Ok 0)"])
       (simp add: f)
qed

end
