(* ===== verification/Interleaving_Content.thy ===== *)
theory Interleaving_Content
  imports Store_Interleaving
begin

text \<open>
  What concurrent fetches store.  As long as the files of the server stay as they are, every
  interleaving of fetches (of the same chunk, of different chunks and of different files) with metadata
  operations and file removals leaves a coherent store: each recorded object holds exactly its chunk
  of the version it is recorded for.  The reasons are those the code gives: an object id and a
  temporary file belong to one fetch, the object file appears by a rename once it is complete, and the
  reference is recorded after that.
\<close>

section \<open>What a fetch in progress has stored\<close>

definition wanted :: "versions \<Rightarrow> u64 \<Rightarrow> Fetch \<Rightarrow> bytes" where
  "wanted V cs f =
     chunk_bytes (V (as_str (f_path f)) (fsize (f_attrs f)) (modified_unix_seconds (f_attrs f)))
       (fsize (f_attrs f)) cs (f_chunk f)"

text \<open>
  A fetch is current when it was started with the attributes of the file as the server has it, for a
  chunk within the file.
\<close>

definition current :: "versions \<Rightarrow> (RemotePath \<Rightarrow> bytes option) \<Rightarrow> u64 \<Rightarrow> Fetch \<Rightarrow> bool" where
  "current V F cs f \<longleftrightarrow>
     (case F (f_path f) of
        None \<Rightarrow> False
      | Some file \<Rightarrow>
          V (as_str (f_path f)) (fsize (f_attrs f)) (modified_unix_seconds (f_attrs f)) = file \<and>
          length file = unat (fsize (f_attrs f)) \<and>
          unat (f_chunk f) * unat cs < unat (fsize (f_attrs f)))"

fun task_current :: "versions \<Rightarrow> (RemotePath \<Rightarrow> bytes option) \<Rightarrow> u64 \<Rightarrow> task \<Rightarrow> bool" where
  "task_current V F cs (Fetching f) = current V F cs f"
| "task_current V F cs (Removing obs) = True"

definition phase_ok :: "versions \<Rightarrow> 'j Store \<Rightarrow> Fetch \<Rightarrow> bool" where
  "phase_ok V s f \<longleftrightarrow>
     (let chunk_start = f_chunk f * chunk_size s;
          chunk_len = min (fsize (f_attrs f) - chunk_start) (chunk_size s);
          file = V (as_str (f_path f)) (fsize (f_attrs f)) (modified_unix_seconds (f_attrs f));
          temp = fmlookup (tmp (dir s)) (f_temp f)
      in case f_phase f of
           Download written \<Rightarrow>
             temp = Some written \<and> length written \<le> unat chunk_len \<and> prefix written (drop (unat chunk_start) file)
         | Sync \<Rightarrow> temp = Some (wanted V (chunk_size s) f)
         | Rename \<Rightarrow> temp = Some (wanted V (chunk_size s) f)
         | Record \<Rightarrow> fmlookup (objects (dir s)) (f_object f) = Some (wanted V (chunk_size s) f)
         | _ \<Rightarrow> True)"

fun task_ok :: "versions \<Rightarrow> 'j Store \<Rightarrow> task \<Rightarrow> bool" where
  "task_ok V s (Fetching f) \<longleftrightarrow> fst (f_temp f) = f_object f \<and> phase_ok V s f"
| "task_ok V s (Removing obs) \<longleftrightarrow> True"

definition pool_exact :: "versions \<Rightarrow> 'j Store \<Rightarrow> task list \<Rightarrow> bool" where
  "pool_exact V s T \<longleftrightarrow> pool_inv s T \<and> coherent V s \<and> (\<forall>t \<in> set T. task_ok V s t)"

text \<open>A run of calm steps in which every fetch is current.\<close>

inductive calm_run ::
  "'w RemoteFilesystem \<Rightarrow> versions \<Rightarrow> (RemotePath \<Rightarrow> bytes option) \<Rightarrow> 'j Store \<times> 'w \<times> task list \<Rightarrow>
   'j Store \<times> 'w \<times> task list \<Rightarrow> bool"
  for R :: "'w RemoteFilesystem" and V F x where
  refl: "calm_run R V F x x"
| step: "calm_run R V F x y \<Longrightarrow> calm_step R y (s, w, T) \<Longrightarrow> \<forall>t \<in> set T. task_current V F (chunk_size s) t \<Longrightarrow>
    calm_run R V F x (s, w, T)"

section \<open>Steps of other tasks\<close>

lemma wanted_phase [simp]: "wanted V cs (f\<lparr>f_phase := ph\<rparr>) = wanted V cs f"
  by (simp add: wanted_def)

lemma current_phase [simp]: "current V F cs (f\<lparr>f_phase := ph\<rparr>) = current V F cs f"
  by (simp add: current_def split: option.split)

lemma phase_ok_frame:
  assumes "phase_ok V s f" "chunk_size s' = chunk_size s"
    and "fmlookup (tmp (dir s')) (f_temp f) = fmlookup (tmp (dir s)) (f_temp f)"
    and "f_phase f = Record \<Longrightarrow> fmlookup (objects (dir s')) (f_object f) = fmlookup (objects (dir s)) (f_object f)"
  shows "phase_ok V s' f"
  using assms by (auto simp: phase_ok_def Let_def split: phase.splits)

lemma locked_frame:
  "put_attrs_locked s p a = (st, s') \<Longrightarrow> tmp (dir s') = tmp (dir s) \<and> chunk_size s' = chunk_size s"
  "record_listing_locked s p cs = (st, s') \<Longrightarrow> tmp (dir s') = tmp (dir s) \<and> chunk_size s' = chunk_size s"
  "store_remove_locked s p = (st, s') \<Longrightarrow> tmp (dir s') = tmp (dir s) \<and> chunk_size s' = chunk_size s"
  "invalidate_content_locked s p = (st, s') \<Longrightarrow> tmp (dir s') = tmp (dir s) \<and> chunk_size s' = chunk_size s"
  by (auto simp: put_attrs_locked_def record_listing_locked_def store_remove_locked_def
      invalidate_content_locked_def Let_def split: prod.splits option.splits if_splits)

lemma locked_index:
  "put_attrs_locked s p a = (st, s') \<Longrightarrow> index s' = index (put_attrs s p a)"
  "record_listing_locked s p cs = (st, s') \<Longrightarrow> index s' = index (record_listing s p cs)"
  "store_remove_locked s p = (st, s') \<Longrightarrow> index s' = index (store_remove s p)"
  "invalidate_content_locked s p = (st, s') \<Longrightarrow> index s' = index (invalidate_content s p)"
  by (simp_all add: locked_sections)

lemma locked_content_sub:
  assumes "content_of (index s') key = Some c"
  shows "put_attrs_locked s p a = (st, s') \<Longrightarrow> content_of (index s) key = Some c"
    "record_listing_locked s p cs = (st, s') \<Longrightarrow> content_of (index s) key = Some c"
    "store_remove_locked s p = (st, s') \<Longrightarrow> content_of (index s) key = Some c"
    "invalidate_content_locked s p = (st, s') \<Longrightarrow> content_of (index s) key = Some c"
proof -
  show "content_of (index s) key = Some c" if "put_attrs_locked s p a = (st, s')"
    using assms unfolding locked_index(1)[OF that] by (rule content_put_attrs_sub)
  show "content_of (index s) key = Some c" if "record_listing_locked s p cs = (st, s')"
    using assms unfolding locked_index(2)[OF that] by (rule content_record_listing_sub)
  show "content_of (index s) key = Some c" if "store_remove_locked s p = (st, s')"
    using assms unfolding locked_index(3)[OF that] by (simp add: content_store_remove split: if_splits)
  show "content_of (index s) key = Some c" if "invalidate_content_locked s p = (st, s')"
    using assms unfolding locked_index(4)[OF that] by (simp add: invalidate_content_spec split: if_splits)
qed

lemma pool_exact_detach:
  assumes "pool_exact V s T" "detaches s st s'" "tmp (dir s') = tmp (dir s) \<and> chunk_size s' = chunk_size s"
    and "\<And>key c. content_of (index s') key = Some c \<Longrightarrow> content_of (index s) key = Some c"
  shows "pool_exact V s' (Removing st # T)"
proof -
  have obs: "objects (dir s') = objects (dir s)" and si: "store_inv s'" using assms(2) by (auto simp: detaches_def)
  have "task_ok V s' t" if "task_ok V s t" for t
    using that assms(3) obs by (cases t) (auto intro: phase_ok_frame[of V s])
  moreover have "coherent V s'"
  proof (rule coherent_sub[where s = s])
    show "coherent V s" using assms(1) by (simp add: pool_exact_def)
  qed (use si obs assms(4) in simp_all)
  moreover have "pool_inv s' (Removing st # T)"
    using assms(1,2) pool_inv_detach by (auto simp: pool_exact_def)
  ultimately show ?thesis using assms(1) by (simp add: pool_exact_def)
qed


lemma fetch_step_temp:
  assumes "fetch_step R s f w = (ph, s', w')" "t \<noteq> f_temp f"
  shows "fmlookup (tmp (dir s')) t = fmlookup (tmp (dir s)) t"
proof -
  obtain q d where io: "io_call (dir s) = (q, d)" by fastforce
  then have d: "tmp d = tmp (dir s)" using io_call_frame by fastforce
  have rm: "fmlookup (tmp (remove_temp_file (f_temp f) (dir s))) t = fmlookup (tmp (dir s)) t"
    using io d assms(2) by (cases q) (auto simp: remove_temp_file_def)
  have rc: "tmp (dir (fetch_record s f)) = tmp (dir s)"
    by (simp add: fetch_record_def Let_def split: prod.split)
  show ?thesis using assms io d rm rc
    by (auto simp: fetch_step_def Let_def
        split: phase.splits prod.splits result.splits option.splits if_splits)
qed

lemma fetch_step_object:
  assumes "fetch_step R s f w = (ph, s', w')" "f_phase f \<noteq> Record" "ob \<noteq> f_object f"
  shows "fmlookup (objects (dir s')) ob = fmlookup (objects (dir s)) ob"
proof -
  obtain q d where io: "io_call (dir s) = (q, d)" by fastforce
  then have "objects d = objects (dir s)" using io_call_frame by fastforce
  with assms io show ?thesis
    by (auto simp: fetch_step_def Let_def store_simps
        split: phase.splits prod.splits result.splits option.splits if_splits)
qed

lemma claimed_apart:
  assumes "distinct (claims (T @ Fetching f # U))" "\<nexists>r. f_phase f = Done r"
    and "Fetching g \<in> set T \<union> set U" "\<nexists>r. f_phase g = Done r"
  shows "f_object g \<noteq> f_object f"
proof -
  have "claim (Fetching f) = [f_object f]" "f_object g \<in> set (claim (Fetching g))"
    using assms(2,4) by (simp_all split: phase.splits)
  moreover have "set (claim (Fetching g)) \<subseteq> set (claims T) \<union> set (claims U)"
    using assms(3) by (auto simp: claims_def)
  ultimately show ?thesis using assms(1) by (auto simp del: claim.simps)
qed

lemma task_ok_keep:
  assumes "task_ok V s t" "chunk_size s' = chunk_size s"
    and "\<And>f. t = Fetching f \<Longrightarrow> \<nexists>r. f_phase f = Done r \<Longrightarrow>
      fmlookup (tmp (dir s')) (f_temp f) = fmlookup (tmp (dir s)) (f_temp f) \<and>
      (f_phase f = Record \<longrightarrow> fmlookup (objects (dir s')) (f_object f) = fmlookup (objects (dir s)) (f_object f))"
  shows "task_ok V s' t"
proof (cases t)
  case (Fetching f)
  show ?thesis
  proof (cases "\<exists>r. f_phase f = Done r")
    case True
    with Fetching assms(1) show ?thesis by (auto simp: phase_ok_def)
  next
    case False
    with Fetching assms(1) assms(3)[OF Fetching] have "phase_ok V s' f"
      by (intro phase_ok_frame[OF _ assms(2)]) auto
    with Fetching assms(1) show ?thesis by simp
  qed
qed simp

lemma pool_exact_keep:
  assumes "pool_exact V s T" "pool_inv s' T'" "chunk_size s' = chunk_size s" "coherent V s'"
    and "tmp (dir s') = tmp (dir s)"
    and "\<And>ob. ob \<in> placed T \<Longrightarrow> fmlookup (objects (dir s')) ob = fmlookup (objects (dir s)) ob"
    and "\<And>t. t \<in> set T' \<Longrightarrow> t \<in> set T \<or> task_ok V s' t"
  shows "pool_exact V s' T'"
proof -
  have "task_ok V s' t" if t: "t \<in> set T" for t
  proof (rule task_ok_keep[where s = s])
    show "task_ok V s t" using assms(1) t by (simp add: pool_exact_def)
    show "chunk_size s' = chunk_size s" by (rule assms(3))
    fix f
    assume "t = Fetching f"
    then have "f_object f \<in> placed T" if "f_phase f = Record"
      using t that by (force simp: placed_def)
    with assms(5,6) show "fmlookup (tmp (dir s')) (f_temp f) = fmlookup (tmp (dir s)) (f_temp f) \<and>
      (f_phase f = Record \<longrightarrow> fmlookup (objects (dir s')) (f_object f) = fmlookup (objects (dir s)) (f_object f))"
      by simp
  qed
  with assms(2,4,7) show ?thesis by (auto simp: pool_exact_def)
qed

lemma pool_exact_start:
  assumes ex: "pool_exact V s T" and st: "fetch_start s p a chunk = (Ok f, s')" and room: "can_allocate s 1"
  shows "pool_exact V s' (Fetching f # T)"
proof -
  obtain d where io: "io_calls 2 (dir s) = (Ok (), d)"
    and s': "s' = s\<lparr>dir := d, index := (index s)\<lparr>next_object := next_object (index s) + 1\<rparr>,
                temp_counter := temp_counter s + 1\<rparr>"
    and f: "fst (f_temp f) = f_object f" "f_phase f = Create"
    using st by (auto simp: fetch_start_def Let_def split: prod.splits result.splits)
  have d: "objects d = objects (dir s)" "tmp d = tmp (dir s)" using io_calls_frame[OF io] by auto
  have "coherent V s'" using ex s' d(1) by (simp add: pool_exact_def coherent_def content_of_def)
  moreover have "pool_inv s' (Fetching f # T)"
    using ex pool_inv_start[OF _ room st] by (simp add: pool_exact_def)
  ultimately show ?thesis
    using s' d f by (intro pool_exact_keep[OF ex]) (auto simp: phase_ok_def)
qed

lemma pool_exact_remove_file:
  assumes ex: "pool_exact V s (T @ Removing (ob # obs) # U)"
  shows "pool_exact V (s\<lparr>dir := remove_object_file ob (dir s)\<rparr>) (T @ Removing obs # U)"
proof (rule pool_exact_keep[OF ex])
  let ?s = "s\<lparr>dir := remove_object_file ob (dir s)\<rparr>"
  have inv: "pool_inv s (T @ Removing (ob # obs) # U)" and coh: "coherent V s"
    using ex by (simp_all add: pool_exact_def)
  show inv': "pool_inv ?s (T @ Removing obs # U)" by (rule pool_inv_remove_file[OF inv])
  show "coherent V ?s"
  proof (rule coherent_sub[OF coh])
    show "store_inv ?s" using inv' by (simp add: pool_inv_def)
    show "fmlookup (objects (dir s)) x = Some y" if "fmlookup (objects (dir ?s)) x = Some y" for x y
      using that fold_remove_objects_sub[of "[ob]" "dir s" x y] by simp
  qed simp
  show "fmlookup (objects (dir ?s)) x = fmlookup (objects (dir s)) x" if "x \<in> placed (T @ Removing (ob # obs) # U)" for x
  proof -
    have "x \<noteq> ob" using that inv placed_claimed[of T] placed_claimed[of U] by (auto simp: pool_inv_def)
    then show ?thesis using fold_remove_objects_other[of x "[ob]" "dir s"] by simp
  qed
qed (auto simp: store_simps)

lemma fetch_record_coherent:
  assumes inv: "store_inv s" and ob: "unat (f_object f) < unat (next_object (index s))"
      "f_object f \<notin> refs (index s)" "f_object f \<in> fmdom' (objects (dir s))"
    and coh: "coherent V s" and obj: "fmlookup (objects (dir s)) (f_object f) = Some (wanted V (chunk_size s) f)"
  shows "coherent V (fetch_record s f)"
proof -
  obtain stale entry where rc: "record_chunk (chunk_size s) (f_attrs f)
      (fmlookup (entries (index s)) (as_str (f_path f))) (f_chunk f) (f_object f) = (stale, entry)" by fastforce
  have s': "fetch_record s f = persist ((remove_objects stale s)\<lparr>index := (index s)\<lparr>entries :=
      fmupd (as_str (f_path f)) entry (entries (index s))\<rparr>\<rparr>)"
    using rc by (simp add: fetch_record_def)
  show ?thesis
  proof (rule record_coherent[OF rc _ _ fetch_record_inv(1)[OF inv ob] coh])
    show "fmlookup (objects (dir s)) ob = Some x" if "fmlookup (objects (dir (fetch_record s f))) ob = Some x" for ob x
      using that s' remove_objects_sub[of stale s ob x] by simp
  qed (use s' obj in \<open>simp_all add: wanted_def\<close>)
qed

lemma fetch_step_objects:
  assumes inv: "pool_inv s (T @ Fetching f # U)" and st: "fetch_step R s f w = (ph, s', w')"
    and live: "\<nexists>r. f_phase f = Done r"
    and x: "x \<noteq> f_object f" "f_phase f = Record \<Longrightarrow> x \<notin> refs (index s)"
  shows "fmlookup (objects (dir s')) x = fmlookup (objects (dir s)) x"
proof (cases "f_phase f = Record")
  case True
  with st have "s' = fetch_record s f" by (simp add: fetch_step_def)
  with fetch_record_inv(4)[OF fetch_claimed[OF inv live] x(2)] True show ?thesis by simp
qed (rule fetch_step_object[OF st _ x(1)])

lemma fetch_step_coherent:
  assumes ex: "pool_exact V s (T @ Fetching f # U)" and st: "fetch_step R s f w = (ph, s', w')"
    and live: "\<nexists>r. f_phase f = Done r"
  shows "coherent V s'"
proof -
  have inv: "pool_inv s (T @ Fetching f # U)" and coh: "coherent V s" and ok: "phase_ok V s f"
    using ex by (auto simp: pool_exact_def)
  note own = fetch_claimed[OF inv live]
  show ?thesis
  proof (cases "f_phase f = Record")
    case True
    with st ok have "s' = fetch_record s f" "fmlookup (objects (dir s)) (f_object f) = Some (wanted V (chunk_size s) f)"
      by (simp_all add: fetch_step_def phase_ok_def Let_def)
    with fetch_record_coherent[OF own(1-3) own(4)[OF True] coh] show ?thesis by simp
  next
    case False
    have "x \<noteq> f_object f" if "content_of (index s) key = Some c" "fmlookup (c_chunks c) k = Some x" for key c k x
      using chunk_in_refs[OF that] own(3) by blast
    with False fetch_step_objects[OF inv st live] coh fetch_step_quiet(1)[OF st False]
    show ?thesis by (simp add: coherent_def)
  qed
qed

lemma fetch_step_others:
  assumes ex: "pool_exact V s (T @ Fetching f # U)" and st: "fetch_step R s f w = (ph, s', w')"
    and live: "\<nexists>r. f_phase f = Done r" and t: "t \<in> set T \<union> set U"
  shows "task_ok V s' t"
proof (rule task_ok_keep[where s = s, OF _ fetch_step_frame[OF st]])
  have inv: "pool_inv s (T @ Fetching f # U)" using ex by (simp add: pool_exact_def)
  show tok: "task_ok V s t" using ex t by (auto simp: pool_exact_def)
  fix g
  assume g: "t = Fetching g" "\<nexists>r. f_phase g = Done r"
  have apart: "f_object g \<noteq> f_object f"
    using claimed_apart[OF _ live, of T U g] inv t g by (auto simp: pool_inv_def simp del: claim.simps)
  moreover have "fst (f_temp g) = f_object g" "fst (f_temp f) = f_object f"
    using ex tok g(1) by (auto simp: pool_exact_def)
  ultimately have "f_temp g \<noteq> f_temp f" by auto
  moreover have "f_object g \<in> set (claim t)" using g by (simp split: phase.splits)
  then have "f_object g \<in> set (claims T) \<union> set (claims U)" using t by (auto simp: claims_def)
  then have "f_object g \<notin> refs (index s)" using inv by (auto simp: pool_inv_def simp del: claim.simps)
  ultimately show "fmlookup (tmp (dir s')) (f_temp g) = fmlookup (tmp (dir s)) (f_temp g) \<and>
    (f_phase g = Record \<longrightarrow> fmlookup (objects (dir s')) (f_object g) = fmlookup (objects (dir s)) (f_object g))"
    using fetch_step_temp[OF st] fetch_step_objects[OF inv st live] apart by simp
qed

section \<open>Steps of a fetch\<close>

context remote_content
begin

lemma fetch_step_exact:
  assumes st: "fetch_step R s f w = (ph, s', w')" and w: "good w"
    and cur: "current V (file_of w) (chunk_size s) f" and ok: "phase_ok V s f"
  shows "good w' \<and> file_of w' = file_of w \<and> phase_ok V s' (f\<lparr>f_phase := ph\<rparr>)"
proof -
  let ?cst = "f_chunk f * chunk_size s"
  let ?cl = "min (fsize (f_attrs f) - ?cst) (chunk_size s)"
  obtain fl where fl: "file_of w (f_path f) = Some fl" "length fl = unat (fsize (f_attrs f))"
    "V (as_str (f_path f)) (fsize (f_attrs f)) (modified_unix_seconds (f_attrs f)) = fl"
    "unat (f_chunk f) * unat (chunk_size s) < unat (fsize (f_attrs f))"
    using cur by (auto simp: current_def split: option.splits)
  note win = chunk_window[OF fl(2,4)]
  have want: "wanted V (chunk_size s) f = segment fl (unat ?cst) (unat ?cst + unat ?cl)"
    using fl(3) win(3) by (simp add: wanted_def)
  obtain q d where io: "io_call (dir s) = (q, d)" by fastforce
  then have d: "tmp d = tmp (dir s)" "objects d = objects (dir s)" using io_call_frame by fastforce+
  show ?thesis
  proof (cases "f_phase f")
    case (Download wr)
    then have wr: "fmlookup (tmp (dir s)) (f_temp f) = Some wr" "length wr \<le> unat ?cl" "prefix wr (drop (unat ?cst) fl)"
      using ok fl(3) by (auto simp: phase_ok_def Let_def)
    show ?thesis
    proof (cases "length wr < unat ?cl")
      case False
      with wr(2) have "length wr = unat ?cl" by simp
      moreover have "wr = take (length wr) (drop (unat ?cst) fl)" using wr(3) by (auto simp: prefix_def)
      ultimately have "wr = wanted V (chunk_size s) f" by (simp add: want segment_def)
      with False st Download wr(1) w show ?thesis
        by (auto simp: fetch_step_def Let_def phase_ok_def)
    next
      case True
      obtain rr w1 where rd: "rf_read R (f_path f) (?cst + of_nat (length wr))
          (of_nat (min (unat ?cl - length wr) (2 ^ 32 - 1))) w = (rr, w1)" by fastforce
      have w1: "good w1" "file_of w1 = file_of w" using read_keeps[OF w rd] by auto
      show ?thesis
      proof (cases rr)
        case (Err e)
        with st Download True rd w1 show ?thesis by (auto simp: fetch_step_def Let_def phase_ok_def)
      next
        case (Ok data)
        note ext = read_extends[OF w fl(1) True rd[unfolded Ok] win(1,2) wr(3)]
        show ?thesis
          using st Download True rd w1 Ok ext io fl(3)
          by (cases q) (auto simp: fetch_step_def Let_def phase_ok_def)
      qed
    qed
  next
    case Create
    with st w io show ?thesis by (cases q) (auto simp: fetch_step_def phase_ok_def Let_def)
  next
    case Sync
    with st w io ok d show ?thesis by (cases q) (auto simp: fetch_step_def phase_ok_def Let_def)
  next
    case Rename
    with ok have "fmlookup (tmp d) (f_temp f) = Some (wanted V (chunk_size s) f)"
      using d by (simp add: phase_ok_def Let_def)
    with Rename st w io show ?thesis by (cases q) (auto simp: fetch_step_def phase_ok_def Let_def)
  next
    case (Done r)
    with st have "ph = Done r" "s' = s" "w' = w" by (auto simp: fetch_step_def)
    with w show ?thesis by (simp add: phase_ok_def)
  qed (use st w in \<open>auto simp: fetch_step_def phase_ok_def Let_def\<close>)
qed

lemma pool_exact_fetch:
  assumes ex: "pool_exact V s (T @ Fetching f # U)" and st: "fetch_step R s f w = (ph, s', w')"
    and w: "good w" "current V (file_of w) (chunk_size s) f"
  shows "pool_exact V s' (T @ Fetching (f\<lparr>f_phase := ph\<rparr>) # U) \<and> good w' \<and> file_of w' = file_of w"
proof (cases "\<exists>r. f_phase f = Done r")
  case True
  then obtain r where r: "f_phase f = Done r" by blast
  with st have "ph = f_phase f" "s' = s" "w' = w" by (auto simp: fetch_step_def)
  with ex w(1) show ?thesis by simp
next
  case live: False
  have inv: "pool_inv s (T @ Fetching f # U)" and ok: "phase_ok V s f" "fst (f_temp f) = f_object f"
    using ex by (auto simp: pool_exact_def)
  have "\<forall>t \<in> set T \<union> set U. task_ok V s' t"
    using fetch_step_others[OF ex st live] by blast
  moreover have "coherent V s'" by (rule fetch_step_coherent[OF ex st live])
  moreover have "pool_inv s' (T @ Fetching (f\<lparr>f_phase := ph\<rparr>) # U)" by (rule pool_inv_fetch[OF inv st])
  ultimately show ?thesis using fetch_step_exact[OF st w ok(1)] ok(2) by (auto simp: pool_exact_def)
qed

lemma calm_step_exact:
  assumes "calm_step R (s, w, T) (s', w', T')" "pool_exact V s T" "good w"
    and "\<forall>t \<in> set T. task_current V (file_of w) (chunk_size s) t"
  shows "pool_exact V s' T' \<and> good w' \<and> file_of w' = file_of w"
proof -
  have inv: "pool_inv s T" and coh: "coherent V s" and si: "store_inv s"
    using assms(2) by (auto simp: pool_exact_def pool_inv_def)
  note inv' = calm_step_inv[OF assms(1) inv]
  from assms(1) show ?thesis
  proof cases
    case (put_attrs p a st)
    with pool_exact_detach[OF assms(2) locked_detaches(1)[OF si] locked_frame(1) locked_content_sub(1)] assms(3)
    show ?thesis by simp
  next
    case (record_listing p cs st)
    with pool_exact_detach[OF assms(2) locked_detaches(2)[OF si] locked_frame(2) locked_content_sub(2)] assms(3)
    show ?thesis by simp
  next
    case (invalidate_children p)
    then have "coherent V s'" "chunk_size s' = chunk_size s" "tmp (dir s') = tmp (dir s)" "objects (dir s') = objects (dir s)"
      using invalidate_children_coherent[OF si coh]
      by (simp_all add: invalidate_children_def split: option.split)
    with invalidate_children inv' assms(3) show ?thesis by (auto intro!: pool_exact_keep[OF assms(2)])
  next
    case (remove p st)
    with pool_exact_detach[OF assms(2) locked_detaches(3)[OF si] locked_frame(3) locked_content_sub(3)] assms(3)
    show ?thesis by simp
  next
    case (invalidate_content p st)
    with pool_exact_detach[OF assms(2) locked_detaches(4)[OF si] locked_frame(4) locked_content_sub(4)] assms(3)
    show ?thesis by simp
  next
    case (start p a chunk f)
    with pool_exact_start[OF assms(2)] assms(3) show ?thesis by simp
  next
    case (start_fails p a chunk e)
    then obtain d where io: "io_calls 2 (dir s) = (Err e, d)" and s': "s' = s\<lparr>dir := d\<rparr>"
      by (auto simp: fetch_start_def Let_def split: prod.splits result.splits)
    have "objects d = objects (dir s)" "tmp d = tmp (dir s)" using io_calls_frame[OF io] by auto
    moreover from this have "coherent V s'" using coh s' by (simp add: coherent_def)
    ultimately show ?thesis using s' inv' start_fails assms(3) by (auto intro!: pool_exact_keep[OF assms(2)])
  next
    case (fetch f ph A B)
    with pool_exact_fetch[OF _ fetch(3) assms(3)] assms(2,4) show ?thesis by simp
  next
    case (returned f r A B)
    with inv' coh assms(3) show ?thesis by (auto intro!: pool_exact_keep[OF assms(2)])
  next
    case (remove_file A ob obs B)
    with pool_exact_remove_file assms(2,3) show ?thesis by simp
  next
    case (removed A B)
    with inv' coh assms(3) show ?thesis by (auto intro!: pool_exact_keep[OF assms(2)])
  next
    case (io pl)
    moreover from this have "coherent V s'" using coh by (simp add: coherent_def)
    ultimately show ?thesis using inv' assms(3) by (auto intro!: pool_exact_keep[OF assms(2)])
  qed
qed

lemma calm_run_exact:
  assumes "calm_run R V (file_of w) (s, w, []) x" "good w" "store_inv s" "coherent V s"
  shows "pool_exact V (fst x) (snd (snd x)) \<and> good (fst (snd x)) \<and> file_of (fst (snd x)) = file_of w \<and>
    (\<forall>t \<in> set (snd (snd x)). task_current V (file_of w) (chunk_size (fst x)) t)"
  using assms(1)
proof (induction rule: calm_run.induct)
  case refl
  with assms(2-4) show ?case by (simp add: pool_exact_def pool_inv_def)
next
  case (step y s' w' T')
  obtain s1 w1 T1 where y: "y = (s1, w1, T1)" by (metis prod_cases3)
  with step calm_step_exact[of s1 w1 T1 s' w' T' V] show ?case by simp
qed

end

section \<open>A calm run on the in-memory remote\<close>

lemma calm_run_advance:
  "calm_run R V F x (s, w, [Fetching f]) \<Longrightarrow> current V F (chunk_size s) f \<Longrightarrow>
   (advance R ^^ n) (s, f, w) = (s', f', w') \<Longrightarrow>
   calm_run R V F x (s', w', [Fetching f']) \<and> current V F (chunk_size s') f'"
proof (induction n arbitrary: s' f' w')
  case (Suc n)
  obtain s1 f1 w1 where n: "(advance R ^^ n) (s, f, w) = (s1, f1, w1)" by (metis prod_cases3)
  obtain ph s2 w2 where st: "fetch_step R s1 f1 w1 = (ph, s2, w2)" by (metis prod_cases3)
  have eq: "s' = s2" "f' = f1\<lparr>f_phase := ph\<rparr>" "w' = w2" using Suc.prems(3) n st by (auto simp: advance_def)
  from Suc.IH[OF Suc.prems(1,2) n] have run: "calm_run R V F x (s1, w1, [] @ Fetching f1 # [])"
    and cur: "current V F (chunk_size s2) (f1\<lparr>f_phase := ph\<rparr>)"
    using fetch_step_frame[OF st] by simp_all
  from calm_run.step[OF run calm_step.fetch[OF st]] cur show ?case unfolding eq by simp
qed simp

section \<open>Properties\<close>

text \<open>
  C23: concurrent fetches are exact.  Let the transport answer reads as its contract says and let the files
  of the server stay as they are.  Start with a store that refers only to exact chunks, run any number of
  fetches of current versions concurrently (of one chunk, of several chunks, of several files), interleave
  their steps with metadata operations, invalidations and file removals in any order, and let any I/O call
  fail: every chunk that counts as cached at any moment is backed by an object file with exactly the bytes
  of its part of that version, and nothing the run did changed the files of the server.
\<close>

theorem concurrent_fetches_exact:
  assumes "remote_content R good file_of" "store_inv s" "coherent V s" "good w"
    and "calm_run R V (file_of w) (s, w, []) (s', w', T)"
    and "cached_chunk s' p a k = Some ob"
  shows "fmlookup (objects (dir s')) ob =
      Some (chunk_bytes (V (as_str p) (fsize a) (modified_unix_seconds a)) (fsize a) (chunk_size s') k) \<and>
    file_of w' = file_of w"
proof -
  have "coherent V s'" "file_of w' = file_of w"
    using remote_content.calm_run_exact[OF assms(1,5,4,2,3)] by (auto simp: pool_exact_def)
  moreover obtain c where "content_of (index s') (as_str p) = Some c" "c_size c = fsize a"
    "c_modified c = modified_unix_seconds a" "c_chunk_size c = chunk_size s'" "fmlookup (c_chunks c) k = Some ob"
    using assms(6) by (auto simp: cached_chunk_alt)
  ultimately show ?thesis using coherentD by metis
qed


theorem concurrent_fetches_exact_witness:
  "\<exists>(s :: Index Store) w f. calm_run MockRemote (\<lambda>_ _ _. byte_string ''hello'') (mock_file MockRemote_new)
       (Store_new plain_json empty_dir 8, MockRemote_new, []) (s, w, [Fetching f]) \<and>
     cached_chunk s readme (file_attrs 5) 0 = Some 0 \<and>
     fmlookup (objects (dir s)) 0 = Some (byte_string ''hello'') \<and> mock_file w readme = Some (byte_string ''hello'')"
proof -
  let ?V = "\<lambda>_ _ _. byte_string ''hello''" and ?F = "mock_file MockRemote_new"
  let ?x = "(Store_new plain_json empty_dir 8, MockRemote_new, [])"
  obtain s f w where a: "(advance MockRemote ^^ Suc 5) (fixture_allocated, fixture_fetch Create, MockRemote_new) = (s, f, w)"
    and hit: "cached_chunk s readme (file_attrs 5) 0 = Some 0" "chunk_size s = 8"
    by (rule fixture_recorded)
  have cur: "current ?V ?F (chunk_size fixture_allocated) (fixture_fetch Create)"
    using mock_fixture(1,3) by (simp add: current_def fixture_fetch_def fixture_allocated_def file_attrs_def)
  have "calm_run MockRemote ?V ?F ?x (fixture_allocated, MockRemote_new, [Fetching (fixture_fetch Create)])"
    unfolding fixture_begin(1)
    by (rule calm_run.step[OF calm_run.refl calm_step.start[OF fixture_begin(2,3)]]) (simp add: cur)
  from calm_run_advance[OF this cur a] have run: "calm_run MockRemote ?V ?F ?x (s, w, [Fetching f])" by simp
  have d: "index_json empty_dir = None" by (simp add: empty_dir_def)
  have "chunk_bytes (byte_string ''hello'') (fsize (file_attrs 5)) 8 0 = byte_string ''hello''"
    by (simp add: chunk_bytes_def segment_def file_attrs_def byte_string_def)
  with concurrent_fetches_exact[OF mock.remote_content_axioms Store_new_inv[OF d] Store_new_coherent[OF d]
      mock_fixture(2) run hit(1)] hit(2) mock_fixture(1)
  have "fmlookup (objects (dir s)) 0 = Some (byte_string ''hello'')" "mock_file w readme = Some (byte_string ''hello'')"
    by simp_all
  with run hit(1) show ?thesis by blast
qed

end
