(* ===== verification/Cache_Vfs.thy ===== *)
theory Cache_Vfs
  imports Cache_Store
begin

text \<open>
  The shared cache-backed virtual filesystem (\<open>crates/cacheshfs-core/src/vfs.rs\<close>): the node and handle
  tables (\<open>State\<close>), the freshness maps, and every operation of \<open>VirtualFilesystem\<close> as a
  state-passing function on \<open>CacheVfs\<close>.

  The state of a \<open>CacheVfs\<close> also holds what the Rust value reaches through its fields: the world in
  which the transport runs (a type parameter, changed only by calls of the \<open>RemoteFilesystem\<close>)
  and the monotonic clock read from it.  Between two calls of the remote the clock does not move;
  the operations read it at most once before and once after a remote call, apart from
  \<open>lookup\<close>, whose two reads before its call may coincide (an entry found expired stays expired).
\<close>

section \<open>State\<close>

record OpenFile =
  of_node :: NodeId
  of_path :: RemotePath

record State =
  next_node :: u64
  next_handle :: u64
  path_to_node :: "(RemotePath, NodeId) fmap"
  node_to_path :: "(NodeId, RemotePath) fmap"
  handles :: "(FileHandle, OpenFile) fmap"
  validated :: "(RemotePath, instant) fmap"
  negative :: "(NodeId \<times> string, instant) fmap"

definition path_of :: "State \<Rightarrow> NodeId \<Rightarrow> RemotePath result" where
  "path_of st n = (case fmlookup (node_to_path st) n of None \<Rightarrow> Err NotFound | Some p \<Rightarrow> Ok p)"

definition intern :: "State \<Rightarrow> RemotePath \<Rightarrow> NodeId \<times> State" where
  "intern st path =
     (case fmlookup (path_to_node st) path of
        Some n \<Rightarrow> (n, st)
      | None \<Rightarrow>
          (let n = NodeId (next_node st)
           in (n, st\<lparr>next_node := next_node st + 1,
                     path_to_node := fmupd path n (path_to_node st),
                     node_to_path := fmupd n path (node_to_path st)\<rparr>)))"

definition open_handle :: "State \<Rightarrow> NodeId \<Rightarrow> RemotePath \<Rightarrow> FileHandle \<times> State" where
  "open_handle st n path =
     (let h = FileHandle (next_handle st)
      in (h, st\<lparr>next_handle := next_handle st + 1,
                handles := fmupd h \<lparr>of_node = n, of_path = path\<rparr> (handles st)\<rparr>))"

definition rename_path :: "State \<Rightarrow> RemotePath \<Rightarrow> RemotePath \<Rightarrow> State" where
  "rename_path st from to =
     (case fmlookup (path_to_node st) from of
        None \<Rightarrow> st
      | Some n \<Rightarrow> st\<lparr>path_to_node := fmupd to n (fmdrop from (path_to_node st)),
                     node_to_path := fmupd n to (node_to_path st)\<rparr>)"

definition NEGATIVE_TTL_CAP :: duration where
  "NEGATIVE_TTL_CAP = secs 1"

record ('j, 'w) CacheVfs =
  remote :: "'w RemoteFilesystem"
  read_only :: bool
  cache_mode :: CacheMode
  metadata_ttl :: duration
  negative_ttl :: duration
  store :: "'j Store"
  state :: State
  world :: 'w
  clock :: "'w \<Rightarrow> instant"

definition State_new :: "RemotePath \<Rightarrow> State" where
  "State_new root = \<lparr>
     next_node = node_num ROOT + 1, next_handle = 1,
     path_to_node = fmupd root ROOT fmempty, node_to_path = fmupd ROOT root fmempty,
     handles = fmempty, validated = fmempty, negative = fmempty\<rparr>"

definition CacheVfs_new ::
  "'w RemoteFilesystem \<Rightarrow> RemotePath \<Rightarrow> bool \<Rightarrow> CacheMode \<Rightarrow> duration \<Rightarrow> 'j codec \<Rightarrow> 'j cache_dir \<Rightarrow> u64
   \<Rightarrow> 'w \<Rightarrow> ('w \<Rightarrow> instant) \<Rightarrow> ('j, 'w) CacheVfs" where
  "CacheVfs_new r root ro cm ttl cd d cs w now = \<lparr>
     remote = r, read_only = ro, cache_mode = cm, metadata_ttl = ttl,
     negative_ttl = min ttl NEGATIVE_TTL_CAP, store = Store_new cd d cs,
     state = State_new root, world = w, clock = now\<rparr>"

section \<open>The disconnected remote\<close>

definition disconnected :: error where
  "disconnected = Unavailable ''the mount is offline; the remote is not connected''"

definition DisconnectedRemote :: "'w RemoteFilesystem" where
  "DisconnectedRemote = \<lparr>
     rf_stat = (\<lambda>_ w. (Err disconnected, w)),
     rf_read_dir = (\<lambda>_ w. (Err disconnected, w)),
     rf_read = (\<lambda>_ _ _ w. (Err disconnected, w)),
     rf_write = (\<lambda>_ _ _ w. (Err disconnected, w)),
     rf_create = (\<lambda>_ _ w. (Err disconnected, w)),
     rf_mkdir = (\<lambda>_ _ w. (Err disconnected, w)),
     rf_unlink = (\<lambda>_ w. (Err disconnected, w)),
     rf_rmdir = (\<lambda>_ w. (Err disconnected, w)),
     rf_rename = (\<lambda>_ _ w. (Err disconnected, w)),
     rf_setattr = (\<lambda>_ _ w. (Err disconnected, w))\<rparr>"

definition CacheVfs_new_offline ::
  "RemotePath \<Rightarrow> bool \<Rightarrow> duration \<Rightarrow> 'j codec \<Rightarrow> 'j cache_dir \<Rightarrow> u64 \<Rightarrow> 'w \<Rightarrow> ('w \<Rightarrow> instant)
   \<Rightarrow> ('j, 'w) CacheVfs" where
  "CacheVfs_new_offline root ro ttl cd d cs w now =
     CacheVfs_new DisconnectedRemote root ro Offline ttl cd d cs w now"

fun is_unreachable :: "error \<Rightarrow> bool" where
  "is_unreachable (Unavailable _) = True"
| "is_unreachable _ = False"

section \<open>Helpers\<close>

definition now :: "('j, 'w) CacheVfs \<Rightarrow> instant" where
  "now v = clock v (world v)"

definition offline :: "('j, 'w) CacheVfs \<Rightarrow> bool" where
  "offline v \<longleftrightarrow> cache_mode v = Offline"

definition metadata_fresh :: "('j, 'w) CacheVfs \<Rightarrow> RemotePath \<Rightarrow> bool" where
  "metadata_fresh v path \<longleftrightarrow>
     offline v \<or>
     (case fmlookup (validated (state v)) path of
        None \<Rightarrow> False
      | Some at \<Rightarrow> elapsed (now v) at < metadata_ttl v)"

definition fresh_negative :: "('j, 'w) CacheVfs \<Rightarrow> instant \<Rightarrow> bool" where
  "fresh_negative v at \<longleftrightarrow> offline v \<or> elapsed (now v) at < negative_ttl v"

definition ensure_writable :: "('j, 'w) CacheVfs \<Rightarrow> unit result" where
  "ensure_writable v = (if read_only v then Err PermissionDenied else Ok ())"

definition child_path :: "('j, 'w) CacheVfs \<Rightarrow> NodeId \<Rightarrow> string \<Rightarrow> RemotePath result" where
  "child_path v parent name =
     (case path_of (state v) parent of Err e \<Rightarrow> Err e | Ok p \<Rightarrow> RemotePath_join p name)"

definition validate :: "RemotePath \<Rightarrow> instant \<Rightarrow> State \<Rightarrow> State" where
  "validate path at st = st\<lparr>validated := fmupd path at (validated st)\<rparr>"

definition unvalidate :: "RemotePath \<Rightarrow> State \<Rightarrow> State" where
  "unvalidate path st = st\<lparr>validated := fmdrop path (validated st)\<rparr>"

definition add_negative :: "NodeId \<Rightarrow> string \<Rightarrow> instant \<Rightarrow> State \<Rightarrow> State" where
  "add_negative n name at st = st\<lparr>negative := fmupd (n, name) at (negative st)\<rparr>"

definition drop_negative :: "NodeId \<Rightarrow> string \<Rightarrow> State \<Rightarrow> State" where
  "drop_negative n name st = st\<lparr>negative := fmdrop (n, name) (negative st)\<rparr>"

fun collect_children ::
  "'j Store \<Rightarrow> RemotePath \<Rightarrow> string list \<Rightarrow> (string \<times> RemotePath \<times> FileAttributes) list option" where
  "collect_children s path [] = Some []"
| "collect_children s path (name # rest) =
     (case RemotePath_join path name of
        Err _ \<Rightarrow> None
      | Ok child \<Rightarrow>
          (case collect_children s path rest of
             None \<Rightarrow> None
           | Some collected \<Rightarrow>
               (case get_attrs s child of
                  None \<Rightarrow> Some collected
                | Some a \<Rightarrow> Some ((name, child, a) # collected))))"

fun intern_all ::
  "State \<Rightarrow> (string \<times> RemotePath \<times> FileAttributes) list \<Rightarrow> DirectoryEntry list \<times> State" where
  "intern_all st [] = ([], st)"
| "intern_all st ((name, child, a) # rest) =
     (case intern st child of
        (n, st') \<Rightarrow>
          (case intern_all st' rest of
             (es, st'') \<Rightarrow>
               (\<lparr>de_name = name, de_metadata = \<lparr>node = n, attributes = a\<rparr>\<rparr> # es, st'')))"

definition readdir_from_cache ::
  "('j, 'w) CacheVfs \<Rightarrow> RemotePath \<Rightarrow> (DirectoryEntry list \<times> ('j, 'w) CacheVfs) option" where
  "readdir_from_cache v path =
     (case Option.bind (get_children (store v) path) (collect_children (store v) path) of
        None \<Rightarrow> None
      | Some collected \<Rightarrow>
          (case intern_all (state v) collected of (es, st) \<Rightarrow> Some (es, v\<lparr>state := st\<rparr>)))"

section \<open>Metadata operations\<close>

definition vfs_lookup ::
  "NodeId \<Rightarrow> string \<Rightarrow> ('j, 'w) CacheVfs \<Rightarrow> FileMetadata result \<times> ('j, 'w) CacheVfs" where
  "vfs_lookup parent name v =
     (case child_path v parent name of
        Err e \<Rightarrow> (Err e, v)
      | Ok child \<Rightarrow>
          if (case fmlookup (negative (state v)) (parent, name) of
                None \<Rightarrow> False | Some at \<Rightarrow> fresh_negative v at)
          then (Err NotFound, v)
          else
            (case (if metadata_fresh v child then get_attrs (store v) child else None) of
               Some a \<Rightarrow>
                 (case intern (state v) child of
                    (n, st) \<Rightarrow> (Ok \<lparr>node = n, attributes = a\<rparr>, v\<lparr>state := st\<rparr>))
             | None \<Rightarrow>
                 if offline v then (Err NotFound, v)
                 else
                   (case rf_stat (remote v) child (world v) of
                      (Ok a, w) \<Rightarrow>
                        (let v = v\<lparr>world := w, store := put_attrs (store v) child a\<rparr>;
                             st = drop_negative parent name (validate child (now v) (state v));
                             (n, st) = intern st child
                         in (Ok \<lparr>node = n, attributes = a\<rparr>, v\<lparr>state := st\<rparr>))
                    | (Err e, w) \<Rightarrow>
                        (let v = v\<lparr>world := w\<rparr>
                         in if e = NotFound
                            then (Err NotFound,
                                  v\<lparr>store := store_remove (store v) child,
                                    state := add_negative parent name (now v) (state v)\<rparr>)
                            else (case get_attrs (store v) child of
                                    Some a \<Rightarrow>
                                      if is_unreachable e
                                      then (case intern (state v) child of
                                              (n, st) \<Rightarrow>
                                                (Ok \<lparr>node = n, attributes = a\<rparr>, v\<lparr>state := st\<rparr>))
                                      else (Err e, v)
                                  | None \<Rightarrow> (Err e, v))))))"

definition vfs_getattr ::
  "NodeId \<Rightarrow> ('j, 'w) CacheVfs \<Rightarrow> FileMetadata result \<times> ('j, 'w) CacheVfs" where
  "vfs_getattr n v =
     (case path_of (state v) n of
        Err e \<Rightarrow> (Err e, v)
      | Ok path \<Rightarrow>
          (case (if metadata_fresh v path then get_attrs (store v) path else None) of
             Some a \<Rightarrow> (Ok \<lparr>node = n, attributes = a\<rparr>, v)
           | None \<Rightarrow>
               if offline v then (Err NotFound, v)
               else
                 (case rf_stat (remote v) path (world v) of
                    (Ok a, w) \<Rightarrow>
                      (let v = v\<lparr>world := w, store := put_attrs (store v) path a\<rparr>
                       in (Ok \<lparr>node = n, attributes = a\<rparr>,
                           v\<lparr>state := validate path (now v) (state v)\<rparr>))
                  | (Err e, w) \<Rightarrow>
                      (let v = v\<lparr>world := w\<rparr>
                       in if e = NotFound
                          then (Err NotFound, v\<lparr>store := store_remove (store v) path\<rparr>)
                          else (case get_attrs (store v) path of
                                  Some a \<Rightarrow>
                                    if is_unreachable e
                                    then (Ok \<lparr>node = n, attributes = a\<rparr>, v) else (Err e, v)
                                | None \<Rightarrow> (Err e, v))))))"

fun intern_listing ::
  "RemotePath \<Rightarrow> instant \<Rightarrow> (string \<times> FileAttributes) list \<Rightarrow> State
   \<Rightarrow> DirectoryEntry list result \<times> State" where
  "intern_listing path at [] st = (Ok [], st)"
| "intern_listing path at ((name, a) # rest) st =
     (case RemotePath_join path name of
        Err e \<Rightarrow> (Err e, st)
      | Ok child \<Rightarrow>
          (case intern (validate child at st) child of
             (n, st') \<Rightarrow>
               (case intern_listing path at rest st' of
                  (Err e, st'') \<Rightarrow> (Err e, st'')
                | (Ok es, st'') \<Rightarrow>
                    (Ok (\<lparr>de_name = name, de_metadata = \<lparr>node = n, attributes = a\<rparr>\<rparr> # es), st''))))"

definition real_children :: "RemoteDirectoryEntry list \<Rightarrow> (string \<times> FileAttributes) list" where
  "real_children es =
     map (\<lambda>e. (re_name e, re_attributes e)) (filter (\<lambda>e. re_name e \<noteq> ''.'' \<and> re_name e \<noteq> ''..'') es)"

definition vfs_readdir ::
  "NodeId \<Rightarrow> ('j, 'w) CacheVfs \<Rightarrow> DirectoryEntry list result \<times> ('j, 'w) CacheVfs" where
  "vfs_readdir n v =
     (case path_of (state v) n of
        Err e \<Rightarrow> (Err e, v)
      | Ok path \<Rightarrow>
          (case (if metadata_fresh v path then readdir_from_cache v path else None) of
             Some (es, v') \<Rightarrow> (Ok es, v')
           | None \<Rightarrow>
               if offline v then (Err NotFound, v)
               else
                 (case rf_read_dir (remote v) path (world v) of
                    (Err e, w) \<Rightarrow>
                      (let v = v\<lparr>world := w\<rparr>
                       in case (if is_unreachable e then readdir_from_cache v path else None) of
                            Some (es, v') \<Rightarrow> (Ok es, v')
                          | None \<Rightarrow> (Err e, v))
                  | (Ok es, w) \<Rightarrow>
                      (let v = v\<lparr>world := w\<rparr>;
                           at = now v;
                           children = real_children es;
                           v = v\<lparr>store := record_listing (store v) path children\<rparr>
                       in case intern_listing path at children (state v) of
                            (Err e, st) \<Rightarrow> (Err e, v\<lparr>state := st\<rparr>)
                          | (Ok r, st) \<Rightarrow> (Ok r, v\<lparr>state := validate path at st\<rparr>)))))"

section \<open>File operations\<close>

definition vfs_open ::
  "NodeId \<Rightarrow> OpenFlags \<Rightarrow> ('j, 'w) CacheVfs \<Rightarrow> FileHandle result \<times> ('j, 'w) CacheVfs" where
  "vfs_open n flags v =
     (case (if of_write flags \<or> of_append flags \<or> of_truncate flags then ensure_writable v else Ok ()) of
        Err e \<Rightarrow> (Err e, v)
      | Ok _ \<Rightarrow>
          (case path_of (state v) n of
             Err e \<Rightarrow> (Err e, v)
           | Ok path \<Rightarrow>
               (case (if of_truncate flags
                      then (case rf_setattr (remote v) path
                                   (SetAttributes_default\<lparr>sa_size := Some 0\<rparr>) (world v) of
                              (Err e, w) \<Rightarrow> (Err e, v\<lparr>world := w\<rparr>)
                            | (Ok _, w) \<Rightarrow>
                                (Ok (), v\<lparr>world := w, store := invalidate_content (store v) path,
                                          state := unvalidate path (state v)\<rparr>))
                      else (Ok (), v)) of
                  (Err e, v) \<Rightarrow> (Err e, v)
                | (Ok _, v) \<Rightarrow>
                    (case open_handle (state v) n path of (h, st) \<Rightarrow> (Ok h, v\<lparr>state := st\<rparr>)))))"

definition unknown_handle :: error where
  "unknown_handle = InvalidInput ''unknown file handle''"

definition vfs_read ::
  "FileHandle \<Rightarrow> u64 \<Rightarrow> u32 \<Rightarrow> ('j, 'w) CacheVfs \<Rightarrow> bytes result \<times> ('j, 'w) CacheVfs" where
  "vfs_read h offset sz v =
     (case fmlookup (handles (state v)) h of
        None \<Rightarrow> (Err unknown_handle, v)
      | Some file \<Rightarrow>
          (case cache_mode v of
             Remote \<Rightarrow>
               (case rf_read (remote v) (of_path file) offset sz (world v) of
                  (r, w) \<Rightarrow> (r, v\<lparr>world := w\<rparr>))
           | Offline \<Rightarrow>
               (case read_cached (store v) (of_path file) offset sz of
                  (r, s) \<Rightarrow> (r, v\<lparr>store := s\<rparr>))
           | _ \<Rightarrow>
               (case vfs_getattr (of_node file) v of
                  (Err e, v) \<Rightarrow> (Err e, v)
                | (Ok m, v) \<Rightarrow>
                    (case store_read (store v) (of_path file) (remote v) (attributes m) offset sz
                            (world v) of
                       (r, s, w) \<Rightarrow> (r, v\<lparr>store := s, world := w\<rparr>)))))"

definition vfs_write ::
  "FileHandle \<Rightarrow> u64 \<Rightarrow> bytes \<Rightarrow> ('j, 'w) CacheVfs \<Rightarrow> u32 result \<times> ('j, 'w) CacheVfs" where
  "vfs_write h offset data v =
     (case ensure_writable v of
        Err e \<Rightarrow> (Err e, v)
      | Ok _ \<Rightarrow>
          (case fmlookup (handles (state v)) h of
             None \<Rightarrow> (Err unknown_handle, v)
           | Some file \<Rightarrow>
               (case rf_write (remote v) (of_path file) offset data (world v) of
                  (Err e, w) \<Rightarrow> (Err e, v\<lparr>world := w\<rparr>)
                | (Ok written, w) \<Rightarrow>
                    (Ok written,
                     v\<lparr>world := w, store := invalidate_content (store v) (of_path file),
                       state := unvalidate (of_path file) (state v)\<rparr>))))"

definition vfs_flush :: "FileHandle \<Rightarrow> ('j, 'w) CacheVfs \<Rightarrow> unit result \<times> ('j, 'w) CacheVfs" where
  "vfs_flush h v = (Ok (), v)"

definition vfs_release :: "FileHandle \<Rightarrow> ('j, 'w) CacheVfs \<Rightarrow> unit result \<times> ('j, 'w) CacheVfs" where
  "vfs_release h v = (Ok (), v\<lparr>state := (state v)\<lparr>handles := fmdrop h (handles (state v))\<rparr>\<rparr>)"

section \<open>Mutations of the tree\<close>

definition vfs_create ::
  "NodeId \<Rightarrow> string \<Rightarrow> u32 \<Rightarrow> OpenFlags \<Rightarrow> ('j, 'w) CacheVfs \<Rightarrow> CreatedFile result \<times> ('j, 'w) CacheVfs" where
  "vfs_create parent name m flags v =
     (case ensure_writable v of
        Err e \<Rightarrow> (Err e, v)
      | Ok _ \<Rightarrow>
          (case path_of (state v) parent of
             Err e \<Rightarrow> (Err e, v)
           | Ok parent_path \<Rightarrow>
               (case RemotePath_join parent_path name of
                  Err e \<Rightarrow> (Err e, v)
                | Ok child \<Rightarrow>
                    (case rf_create (remote v) child m (world v) of
                       (Err e, w) \<Rightarrow> (Err e, v\<lparr>world := w\<rparr>)
                     | (Ok a, w) \<Rightarrow>
                         (let v = v\<lparr>world := w,
                                    store := invalidate_children (put_attrs (store v) child a) parent_path\<rparr>;
                              st = drop_negative parent name (validate child (now v) (state v));
                              (n, st) = intern st child;
                              (h, st) = open_handle st n child
                          in (Ok \<lparr>cf_metadata = \<lparr>node = n, attributes = a\<rparr>, cf_handle = h\<rparr>,
                              v\<lparr>state := st\<rparr>))))))"

definition vfs_mkdir ::
  "NodeId \<Rightarrow> string \<Rightarrow> u32 \<Rightarrow> ('j, 'w) CacheVfs \<Rightarrow> FileMetadata result \<times> ('j, 'w) CacheVfs" where
  "vfs_mkdir parent name m v =
     (case ensure_writable v of
        Err e \<Rightarrow> (Err e, v)
      | Ok _ \<Rightarrow>
          (case path_of (state v) parent of
             Err e \<Rightarrow> (Err e, v)
           | Ok parent_path \<Rightarrow>
               (case RemotePath_join parent_path name of
                  Err e \<Rightarrow> (Err e, v)
                | Ok child \<Rightarrow>
                    (case rf_mkdir (remote v) child m (world v) of
                       (Err e, w) \<Rightarrow> (Err e, v\<lparr>world := w\<rparr>)
                     | (Ok a, w) \<Rightarrow>
                         (let v = v\<lparr>world := w,
                                    store := invalidate_children (put_attrs (store v) child a) parent_path\<rparr>;
                              st = drop_negative parent name (validate child (now v) (state v));
                              (n, st) = intern st child
                          in (Ok \<lparr>node = n, attributes = a\<rparr>, v\<lparr>state := st\<rparr>))))))"

definition forget_child ::
  "NodeId \<Rightarrow> string \<Rightarrow> RemotePath \<Rightarrow> RemotePath \<Rightarrow> ('j, 'w) CacheVfs \<Rightarrow> ('j, 'w) CacheVfs" where
  "forget_child parent name parent_path child v =
     v\<lparr>store := invalidate_children (store_remove (store v) child) parent_path,
       state := add_negative parent name (now v) (state v)\<rparr>"

definition vfs_unlink ::
  "NodeId \<Rightarrow> string \<Rightarrow> ('j, 'w) CacheVfs \<Rightarrow> unit result \<times> ('j, 'w) CacheVfs" where
  "vfs_unlink parent name v =
     (case ensure_writable v of
        Err e \<Rightarrow> (Err e, v)
      | Ok _ \<Rightarrow>
          (case path_of (state v) parent of
             Err e \<Rightarrow> (Err e, v)
           | Ok parent_path \<Rightarrow>
               (case RemotePath_join parent_path name of
                  Err e \<Rightarrow> (Err e, v)
                | Ok child \<Rightarrow>
                    (case rf_unlink (remote v) child (world v) of
                       (Err e, w) \<Rightarrow> (Err e, v\<lparr>world := w\<rparr>)
                     | (Ok _, w) \<Rightarrow>
                         (Ok (), forget_child parent name parent_path child (v\<lparr>world := w\<rparr>))))))"

definition vfs_rmdir ::
  "NodeId \<Rightarrow> string \<Rightarrow> ('j, 'w) CacheVfs \<Rightarrow> unit result \<times> ('j, 'w) CacheVfs" where
  "vfs_rmdir parent name v =
     (case ensure_writable v of
        Err e \<Rightarrow> (Err e, v)
      | Ok _ \<Rightarrow>
          (case path_of (state v) parent of
             Err e \<Rightarrow> (Err e, v)
           | Ok parent_path \<Rightarrow>
               (case RemotePath_join parent_path name of
                  Err e \<Rightarrow> (Err e, v)
                | Ok child \<Rightarrow>
                    (case rf_rmdir (remote v) child (world v) of
                       (Err e, w) \<Rightarrow> (Err e, v\<lparr>world := w\<rparr>)
                     | (Ok _, w) \<Rightarrow>
                         (Ok (), forget_child parent name parent_path child (v\<lparr>world := w\<rparr>))))))"

definition rename_paths ::
  "('j, 'w) CacheVfs \<Rightarrow> NodeId \<Rightarrow> string \<Rightarrow> NodeId \<Rightarrow> string
   \<Rightarrow> (RemotePath \<times> RemotePath \<times> RemotePath \<times> RemotePath) result" where
  "rename_paths v parent name new_parent new_name =
     (case path_of (state v) parent of
        Err e \<Rightarrow> Err e
      | Ok from_parent \<Rightarrow>
          (case path_of (state v) new_parent of
             Err e \<Rightarrow> Err e
           | Ok to_parent \<Rightarrow>
               (case RemotePath_join from_parent name of
                  Err e \<Rightarrow> Err e
                | Ok from \<Rightarrow>
                    (case RemotePath_join to_parent new_name of
                       Err e \<Rightarrow> Err e
                     | Ok to \<Rightarrow> Ok (from, to, from_parent, to_parent)))))"

definition vfs_rename ::
  "NodeId \<Rightarrow> string \<Rightarrow> NodeId \<Rightarrow> string \<Rightarrow> ('j, 'w) CacheVfs \<Rightarrow> unit result \<times> ('j, 'w) CacheVfs" where
  "vfs_rename parent name new_parent new_name v =
     (case ensure_writable v of
        Err e \<Rightarrow> (Err e, v)
      | Ok _ \<Rightarrow>
          (case rename_paths v parent name new_parent new_name of
             Err e \<Rightarrow> (Err e, v)
           | Ok (from, to, from_parent, to_parent) \<Rightarrow>
               (case rf_rename (remote v) from to (world v) of
                  (Err e, w) \<Rightarrow> (Err e, v\<lparr>world := w\<rparr>)
                | (Ok _, w) \<Rightarrow>
                    (let v = v\<lparr>world := w,
                               store := invalidate_children
                                 (invalidate_children (store_rename (store v) from to) from_parent)
                                 to_parent\<rparr>;
                         st = unvalidate from (rename_path (state v) from to);
                         st = drop_negative new_parent new_name (add_negative parent name (now v) st)
                     in (Ok (), v\<lparr>state := st\<rparr>)))))"

definition vfs_setattr ::
  "NodeId \<Rightarrow> SetAttributes \<Rightarrow> ('j, 'w) CacheVfs \<Rightarrow> FileMetadata result \<times> ('j, 'w) CacheVfs" where
  "vfs_setattr n sa v =
     (case ensure_writable v of
        Err e \<Rightarrow> (Err e, v)
      | Ok _ \<Rightarrow>
          (case path_of (state v) n of
             Err e \<Rightarrow> (Err e, v)
           | Ok path \<Rightarrow>
               (case rf_setattr (remote v) path sa (world v) of
                  (Err e, w) \<Rightarrow> (Err e, v\<lparr>world := w\<rparr>)
                | (Ok a, w) \<Rightarrow>
                    (let v = v\<lparr>world := w, store := put_attrs (store v) path a\<rparr>
                     in (Ok \<lparr>node = n, attributes = a\<rparr>,
                         v\<lparr>state := validate path (now v) (state v)\<rparr>)))))"

definition CacheVfs_ops :: "('j, 'w) CacheVfs VirtualFilesystem" where
  "CacheVfs_ops = \<lparr>
     vf_lookup = vfs_lookup, vf_getattr = vfs_getattr, vf_readdir = vfs_readdir, vf_open = vfs_open,
     vf_read = vfs_read, vf_write = vfs_write, vf_flush = vfs_flush, vf_release = vfs_release,
     vf_create = vfs_create, vf_mkdir = vfs_mkdir, vf_unlink = vfs_unlink, vf_rmdir = vfs_rmdir,
     vf_rename = vfs_rename, vf_setattr = vfs_setattr\<rparr>"

end
