(* ===== verification/Vfs_Confinement.thy ===== *)
theory Vfs_Confinement
  imports Cache_Vfs Store_Content
begin

text \<open>
  What a mount can reach on the server.  The node table and the handle table of a \<open>CacheVfs\<close> hold only
  paths at or below the mounted root, and every operation keeps it so.  The contract that all
  operations share is the locale \<open>vfs_operation\<close>: an operation keeps the tables confined and the
  configuration unchanged, and its result depends on the server only through calls on paths below the
  root, through no call that changes the server when the mount is read-only, and through no read
  in offline mode.  It is interpreted on each of the fourteen operations; the client lemma is about
  arbitrary sequences of operations.
\<close>

section \<open>Confined states\<close>

definition confined :: "RemotePath \<Rightarrow> ('j, 'w) CacheVfs \<Rightarrow> bool" where
  "confined root v \<longleftrightarrow>
     (\<forall>n p. fmlookup (node_to_path (state v)) n = Some p \<longrightarrow> under root p) \<and>
     (\<forall>h file. fmlookup (handles (state v)) h = Some file \<longrightarrow> under root (of_path file))"

definition same_config :: "('j, 'w) CacheVfs \<Rightarrow> ('j, 'w) CacheVfs \<Rightarrow> bool" where
  "same_config v v' \<longleftrightarrow>
     remote v' = remote v \<and> read_only v' = read_only v \<and> cache_mode v' = cache_mode v \<and>
     metadata_ttl v' = metadata_ttl v \<and> negative_ttl v' = negative_ttl v \<and> clock v' = clock v"

definition agrees :: "RemotePath \<Rightarrow> ('j, 'w) CacheVfs \<Rightarrow> 'w RemoteFilesystem \<Rightarrow> bool" where
  "agrees root v R \<longleftrightarrow>
     (\<not> offline v \<longrightarrow> (\<forall>p. under root p \<longrightarrow>
        rf_stat R p = rf_stat (remote v) p \<and> rf_read_dir R p = rf_read_dir (remote v) p \<and>
        rf_read R p = rf_read (remote v) p)) \<and>
     (\<not> read_only v \<longrightarrow> (\<forall>p q. under root p \<longrightarrow> under root q \<longrightarrow>
        rf_write R p = rf_write (remote v) p \<and> rf_create R p = rf_create (remote v) p \<and>
        rf_mkdir R p = rf_mkdir (remote v) p \<and> rf_unlink R p = rf_unlink (remote v) p \<and>
        rf_rmdir R p = rf_rmdir (remote v) p \<and> rf_rename R p q = rf_rename (remote v) p q \<and>
        rf_setattr R p = rf_setattr (remote v) p))"

locale vfs_operation =
  fixes f :: "('j, 'w) CacheVfs \<Rightarrow> 'a result \<times> ('j, 'w) CacheVfs"
  assumes keeps: "confined root v \<Longrightarrow> f v = (r, v') \<Longrightarrow> confined root v' \<and> same_config v v'"
    and depends: "confined root v \<Longrightarrow> agrees root v R \<Longrightarrow>
      f (v\<lparr>remote := R\<rparr>) = map_prod id (\<lambda>v. v\<lparr>remote := R\<rparr>) (f v)"
begin

lemma keeps_snd: "confined root v \<Longrightarrow> confined root (snd (f v)) \<and> same_config v (snd (f v))"
  by (cases "f v") (auto dest: keeps)

end

section \<open>The state helpers\<close>

lemma same_config_refl [simp]: "same_config v v"
  by (simp add: same_config_def)

lemma same_config_upd [simp]:
  "same_config v (v'\<lparr>store := s\<rparr>) = same_config v v'" "same_config v (v'\<lparr>state := st\<rparr>) = same_config v v'"
  "same_config v (v'\<lparr>world := w\<rparr>) = same_config v v'" "same_config (v\<lparr>world := w\<rparr>) v' = same_config v v'"
  by (simp_all add: same_config_def)

lemma confined_upd [simp]:
  "confined root (v\<lparr>store := s\<rparr>) = confined root v" "confined root (v\<lparr>world := w\<rparr>) = confined root v"
  "confined root (v\<lparr>remote := R\<rparr>) = confined root v"
  by (simp_all add: confined_def)

definition tables_confined :: "RemotePath \<Rightarrow> State \<Rightarrow> bool" where
  "tables_confined root st \<longleftrightarrow>
     (\<forall>n p. fmlookup (node_to_path st) n = Some p \<longrightarrow> under root p) \<and>
     (\<forall>h file. fmlookup (handles st) h = Some file \<longrightarrow> under root (of_path file))"

lemma confined_state [simp]: "confined root (v\<lparr>state := st\<rparr>) = tables_confined root st"
  by (simp add: confined_def tables_confined_def)

lemma confined_tables: "confined root v \<Longrightarrow> tables_confined root (state v)"
  by (simp add: confined_def tables_confined_def)

lemma tables_confined_upd [simp]:
  "tables_confined root (validate p t st) = tables_confined root st"
  "tables_confined root (unvalidate p st) = tables_confined root st"
  "tables_confined root (add_negative n name t st) = tables_confined root st"
  "tables_confined root (drop_negative n name st) = tables_confined root st"
  by (simp_all add: tables_confined_def validate_def unvalidate_def add_negative_def drop_negative_def)

lemma path_of_under: "confined root v \<Longrightarrow> path_of (state v) n = Ok p \<Longrightarrow> under root p"
  by (auto simp: path_of_def confined_def split: option.splits)

lemma child_path_under: "confined root v \<Longrightarrow> child_path v n name = Ok p \<Longrightarrow> under root p"
  by (auto simp: child_path_def split: result.splits dest: path_of_under intro: under_join)

lemma handle_under: "confined root v \<Longrightarrow> fmlookup (handles (state v)) h = Some file \<Longrightarrow> under root (of_path file)"
  by (simp add: confined_def)

lemma intern_confined:
  "tables_confined root st \<Longrightarrow> under root p \<Longrightarrow> intern st p = (n, st') \<Longrightarrow> tables_confined root st'"
  by (auto simp: intern_def tables_confined_def Let_def split: option.splits if_splits)

lemma open_handle_confined:
  "tables_confined root st \<Longrightarrow> under root p \<Longrightarrow> open_handle st n p = (h, st') \<Longrightarrow> tables_confined root st'"
  by (auto simp: open_handle_def tables_confined_def Let_def split: if_splits)

lemma intern_open_confined:
  "open_handle st1 n p = (h, st2) \<Longrightarrow> intern st p = (n, st1) \<Longrightarrow> tables_confined root st \<Longrightarrow> under root p \<Longrightarrow>
   tables_confined root st2"
  using open_handle_confined intern_confined by blast

lemma rename_path_confined:
  "tables_confined root st \<Longrightarrow> under root q \<Longrightarrow> tables_confined root (rename_path st p q)"
  by (auto simp: rename_path_def tables_confined_def split: option.splits if_splits)

lemma intern_all_confined:
  "tables_confined root st \<Longrightarrow> (\<And>name p a. (name, p, a) \<in> set cs \<Longrightarrow> under root p) \<Longrightarrow>
   intern_all st cs = (es, st') \<Longrightarrow> tables_confined root st'"
proof (induction st cs arbitrary: es st' rule: intern_all.induct)
  case (1 st)
  then show ?case by simp
next
  case (2 st name child a rest)
  obtain n st1 where i: "intern st child = (n, st1)" by fastforce
  have "under root child" using "2.prems"(2)[of name child a] by simp
  then have "tables_confined root st1" using intern_confined[OF "2.prems"(1) _ i] by simp
  with "2.IH"[OF i[symmetric]] "2.prems"(2,3) i show ?case by (auto split: prod.splits)
qed

lemma collect_children_under:
  "collect_children s p names = Some cs \<Longrightarrow> under root p \<Longrightarrow> (name, q, a) \<in> set cs \<Longrightarrow> under root q"
  by (induction s p names arbitrary: cs rule: collect_children.induct)
     (auto split: result.splits option.splits intro: under_join)

lemma intern_listing_confined:
  "intern_listing p t cs st = (r, st') \<Longrightarrow> tables_confined root st \<Longrightarrow> under root p \<Longrightarrow> tables_confined root st'"
proof (induction p t cs st arbitrary: r st' rule: intern_listing.induct)
  case (1 p t st)
  then show ?case by simp
next
  case (2 p t name a rest st)
  show ?case
  proof (cases "RemotePath_join p name")
    case (Err e)
    with "2.prems" show ?thesis by simp
  next
    case (Ok child)
    obtain n st1 where i: "intern (validate child t st) child = (n, st1)" by fastforce
    have "tables_confined root st1"
      using intern_confined[OF _ _ i] "2.prems"(2) under_join[OF "2.prems"(3) Ok] by simp
    with "2.IH"[OF Ok i[symmetric]] "2.prems"(1,3) Ok i show ?thesis
      by (auto split: prod.splits result.splits)
  qed
qed

lemma readdir_from_cache_confined:
  assumes "readdir_from_cache v p = Some (es, v')" "confined root v" "under root p"
  shows "confined root v'" "same_config v v'"
proof -
  obtain cs st where c: "collect_children (store v) p (the (get_children (store v) p)) = Some cs"
      "intern_all (state v) cs = (es, st)" "v' = v\<lparr>state := st\<rparr>"
    using assms(1)
    by (auto simp: readdir_from_cache_def bind_eq_Some_conv split: option.splits prod.splits)
  then show "confined root v'" "same_config v v'"
    using intern_all_confined[OF confined_tables[OF assms(2)] collect_children_under[OF c(1) assms(3)] c(2)]
    by auto
qed


section \<open>The remote is only used through its calls\<close>

lemma download_loop_cong:
  fixes d :: "'j cache_dir"
  shows "rf_read R p = rf_read R' p \<Longrightarrow>
   download_loop R p temp cst cl wr d w = download_loop R' p temp cst cl wr d w"
proof (induction "unat cl - length wr" arbitrary: wr d w rule: less_induct)
  case less
  show ?case
  proof (cases "length wr < unat cl")
    case False
    then show ?thesis
      by (simp add: download_loop.simps[of R p temp cst cl wr d w] download_loop.simps[of R' p temp cst cl wr d w])
  next
    case True
    have rec: "download_loop R p temp cst cl (wr @ data) d' w' = download_loop R' p temp cst cl (wr @ data) d' w'"
      if "data \<noteq> []" for data and d' :: "'j cache_dir" and w'
      using that True less.hyps[of "wr @ data"] less.prems by (simp add: diff_less_mono2)
    show ?thesis
      using less.prems True
      by (auto simp: download_loop.simps[of R p temp cst cl wr d w]
          download_loop.simps[of R' p temp cst cl wr d w] Let_def rec split: prod.splits result.splits)
  qed
qed

lemma download_cong:
  assumes "rf_read R p = rf_read R' p"
  shows "download R p a cs chunk temp d w = download R' p a cs chunk temp d w"
  unfolding download_def download_loop_cong[OF assms] ..

lemma fetch_chunk_cong:
  assumes "rf_read R p = rf_read R' p"
  shows "fetch_chunk s R p a chunk w = fetch_chunk s R' p a chunk w"
  unfolding fetch_chunk_def download_cong[OF assms] ..

lemma fetch_missing_cong:
  assumes "rf_read R p = rf_read R' p"
  shows "fetch_missing s R p a cs w = fetch_missing s R' p a cs w"
proof (induction cs arbitrary: s w)
  case Nil
  then show ?case by simp
next
  case (Cons k cs)
  then show ?case
    by (simp add: fetch_chunk_cong[OF assms] split: option.splits prod.splits result.splits)
qed

lemma store_read_cong:
  "rf_read R p = rf_read R' p \<Longrightarrow> store_read s p R a pos sz w = store_read s p R' a pos sz w"
  by (simp add: store_read_def fetch_missing_cong[of R p R'])

lemma remote_upd_simps [simp]:
  "now (v\<lparr>remote := R\<rparr>) = now v" "offline (v\<lparr>remote := R\<rparr>) = offline v"
  "metadata_fresh (v\<lparr>remote := R\<rparr>) = metadata_fresh v"
  "fresh_negative (v\<lparr>remote := R\<rparr>) = fresh_negative v"
  "ensure_writable (v\<lparr>remote := R\<rparr>) = ensure_writable v"
  "child_path (v\<lparr>remote := R\<rparr>) = child_path v"
  "rename_paths (v\<lparr>remote := R\<rparr>) = rename_paths v"
  "readdir_from_cache (v\<lparr>remote := R\<rparr>) p =
     map_option (map_prod id (\<lambda>v. v\<lparr>remote := R\<rparr>)) (readdir_from_cache v p)"
  by (simp_all add: now_def offline_def metadata_fresh_def fresh_negative_def ensure_writable_def
      child_path_def rename_paths_def readdir_from_cache_def fun_eq_iff
      split: option.splits prod.splits result.splits)

lemma agrees_reads:
  "agrees root v R \<Longrightarrow> \<not> offline v \<Longrightarrow> under root p \<Longrightarrow> rf_stat R p = rf_stat (remote v) p"
  "agrees root v R \<Longrightarrow> \<not> offline v \<Longrightarrow> under root p \<Longrightarrow> rf_read_dir R p = rf_read_dir (remote v) p"
  "agrees root v R \<Longrightarrow> \<not> offline v \<Longrightarrow> under root p \<Longrightarrow> rf_read R p = rf_read (remote v) p"
  by (simp_all add: agrees_def)

lemma agrees_writes:
  assumes "agrees root v R" "\<not> read_only v" "under root p"
  shows "rf_write R p = rf_write (remote v) p" "rf_create R p = rf_create (remote v) p"
    "rf_mkdir R p = rf_mkdir (remote v) p" "rf_unlink R p = rf_unlink (remote v) p"
    "rf_rmdir R p = rf_rmdir (remote v) p" "rf_setattr R p = rf_setattr (remote v) p"
    "under root q \<Longrightarrow> rf_rename R p q = rf_rename (remote v) p q"
  using assms by (auto simp: agrees_def)

lemma ensure_writable_Ok: "ensure_writable v = Ok u \<Longrightarrow> \<not> read_only v"
  by (simp add: ensure_writable_def split: if_splits)

lemmas confined_dests = intern_confined[rotated 2] open_handle_confined[rotated 2] intern_listing_confined
  readdir_from_cache_confined

section \<open>Every operation meets the contract\<close>

lemma lookup_keeps:
  assumes "confined root v" "vfs_lookup n name v = (r, v')"
  shows "confined root v' \<and> same_config v v'"
proof (cases "child_path v n name")
  case (Err e)
  with assms show ?thesis by (simp add: vfs_lookup_def)
next
  case (Ok child)
  have u: "under root child" using child_path_under[OF assms(1) Ok] .
  show ?thesis
    using assms(2) Ok confined_tables[OF assms(1)] assms(1) u
    by (auto simp: vfs_lookup_def Let_def split: if_splits option.splits result.splits prod.splits
        dest: confined_dests)
qed


lemma lookup_depends:
  assumes "confined root v" "agrees root v R"
  shows "vfs_lookup n name (v\<lparr>remote := R\<rparr>) = map_prod id (\<lambda>v. v\<lparr>remote := R\<rparr>) (vfs_lookup n name v)"
proof (cases "child_path v n name")
  case (Err e)
  then show ?thesis by (simp add: vfs_lookup_def)
next
  case (Ok child)
  have st: "\<not> offline v \<Longrightarrow> rf_stat R child = rf_stat (remote v) child"
    using agrees_reads(1)[OF assms(2) _ child_path_under[OF assms(1) Ok]] .
  show ?thesis
  proof (cases "offline v")
    case True
    with Ok show ?thesis by (simp add: vfs_lookup_def Let_def split: option.splits prod.splits)
  next
    case False
    obtain r w where r: "rf_stat (remote v) child (world v) = (r, w)" by fastforce
    with Ok False st show ?thesis
      by (cases r) (auto simp: vfs_lookup_def Let_def now_def split: option.splits prod.splits)
  qed
qed

interpretation lookup_op: vfs_operation "vfs_lookup n name" for n name
  by unfold_locales (fact lookup_keeps, fact lookup_depends)

lemma getattr_keeps:
  assumes "confined root v" "vfs_getattr n v = (r, v')"
  shows "confined root v' \<and> same_config v v'"
  using assms
  by (auto simp: vfs_getattr_def Let_def confined_tables
      split: if_splits option.splits result.splits prod.splits)

lemma getattr_depends:
  assumes "confined root v" "agrees root v R"
  shows "vfs_getattr n (v\<lparr>remote := R\<rparr>) = map_prod id (\<lambda>v. v\<lparr>remote := R\<rparr>) (vfs_getattr n v)"
proof (cases "path_of (state v) n")
  case (Err e)
  then show ?thesis by (simp add: vfs_getattr_def)
next
  case (Ok p)
  have st: "\<not> offline v \<Longrightarrow> rf_stat R p = rf_stat (remote v) p"
    using agrees_reads(1)[OF assms(2) _ path_of_under[OF assms(1) Ok]] .
  show ?thesis
  proof (cases "offline v")
    case True
    with Ok show ?thesis by (simp add: vfs_getattr_def Let_def split: option.splits)
  next
    case False
    obtain r w where r: "rf_stat (remote v) p (world v) = (r, w)" by fastforce
    with Ok False st show ?thesis
      by (cases r) (auto simp: vfs_getattr_def Let_def now_def split: option.splits)
  qed
qed

interpretation getattr_op: vfs_operation "vfs_getattr n" for n
  by unfold_locales (fact getattr_keeps, fact getattr_depends)

lemma readdir_keeps:
  assumes "confined root v" "vfs_readdir n v = (r, v')"
  shows "confined root v' \<and> same_config v v'"
proof (cases "path_of (state v) n")
  case (Err e)
  with assms show ?thesis by (simp add: vfs_readdir_def)
next
  case (Ok p)
  have u: "under root p" using path_of_under[OF assms(1) Ok] .
  have cache: "confined root x \<and> same_config y x"
    if "readdir_from_cache y p = Some (es, x)" "confined root y" for es x y
    using readdir_from_cache_confined[OF that u] by simp
  show ?thesis
    using assms(2) Ok confined_tables[OF assms(1)] assms(1) u
    by (auto simp: vfs_readdir_def Let_def split: if_splits option.splits result.splits prod.splits
        dest: cache intern_listing_confined)
qed

lemma readdir_depends:
  assumes "confined root v" "agrees root v R"
  shows "vfs_readdir n (v\<lparr>remote := R\<rparr>) = map_prod id (\<lambda>v. v\<lparr>remote := R\<rparr>) (vfs_readdir n v)"
proof (cases "path_of (state v) n")
  case (Err e)
  then show ?thesis by (simp add: vfs_readdir_def)
next
  case (Ok p)
  have st: "\<not> offline v \<Longrightarrow> rf_read_dir R p = rf_read_dir (remote v) p"
    using agrees_reads(2)[OF assms(2) _ path_of_under[OF assms(1) Ok]] .
  have sw: "readdir_from_cache (v\<lparr>remote := R, world := w\<rparr>) p =
      map_option (map_prod id (\<lambda>v. v\<lparr>remote := R\<rparr>)) (readdir_from_cache (v\<lparr>world := w\<rparr>) p)" for w
    by (simp add: readdir_from_cache_def split: option.splits prod.splits)
  show ?thesis
  proof (cases "offline v")
    case True
    with Ok show ?thesis by (simp add: vfs_readdir_def Let_def split: option.splits)
  next
    case False
    obtain r w where r: "rf_read_dir (remote v) p (world v) = (r, w)" by fastforce
    with Ok False st show ?thesis
      by (cases r) (auto simp: vfs_readdir_def Let_def now_def sw split: option.splits prod.splits result.splits)
  qed
qed

interpretation readdir_op: vfs_operation "vfs_readdir n" for n
  by unfold_locales (fact readdir_keeps, fact readdir_depends)


lemma open_keeps:
  assumes "confined root v" "vfs_open n flags v = (r, v')"
  shows "confined root v' \<and> same_config v v'"
proof (cases "path_of (state v) n")
  case (Err e)
  with assms show ?thesis by (auto simp: vfs_open_def split: if_splits result.splits)
next
  case (Ok p)
  have u: "under root p" using path_of_under[OF assms(1) Ok] .
  show ?thesis
    using assms(2) Ok confined_tables[OF assms(1)] assms(1) u
    by (auto simp: vfs_open_def split: if_splits result.splits prod.splits dest: confined_dests)
qed

lemma open_depends:
  assumes "confined root v" "agrees root v R"
  shows "vfs_open n flags (v\<lparr>remote := R\<rparr>) = map_prod id (\<lambda>v. v\<lparr>remote := R\<rparr>) (vfs_open n flags v)"
proof (cases "path_of (state v) n")
  case (Err e)
  then show ?thesis by (simp add: vfs_open_def split: result.splits)
next
  case (Ok p)
  note st = agrees_writes(6)[OF assms(2) _ path_of_under[OF assms(1) Ok]]
  obtain r w where r: "rf_setattr (remote v) p (SetAttributes_default\<lparr>sa_size := Some 0\<rparr>) (world v) = (r, w)"
    by fastforce
  show ?thesis
  proof (cases "of_truncate flags \<and> \<not> read_only v")
    case True
    with Ok st r show ?thesis
      by (cases r) (auto simp: vfs_open_def ensure_writable_def split: prod.splits)
  next
    case False
    with Ok show ?thesis by (auto simp: vfs_open_def ensure_writable_def split: prod.splits)
  qed
qed

interpretation open_op: vfs_operation "vfs_open n flags" for n flags
  by unfold_locales (fact open_keeps, fact open_depends)

lemma read_keeps:
  assumes "confined root v" "vfs_read h pos sz v = (r, v')"
  shows "confined root v' \<and> same_config v v'"
proof -
  have ga: "confined root v1 \<and> same_config v v1" if "vfs_getattr n v = (r1, v1)" for n r1 v1
    by (rule getattr_keeps[OF assms(1) that])
  show ?thesis
    using assms
    by (auto simp: vfs_read_def split: option.splits CacheMode.splits prod.splits result.splits dest: ga)
qed

lemma read_depends:
  assumes "confined root v" "agrees root v R"
  shows "vfs_read h pos sz (v\<lparr>remote := R\<rparr>) = map_prod id (\<lambda>v. v\<lparr>remote := R\<rparr>) (vfs_read h pos sz v)"
proof (cases "fmlookup (handles (state v)) h")
  case None
  then show ?thesis by (simp add: vfs_read_def)
next
  case (Some fl)
  have rd: "\<not> offline v \<Longrightarrow> rf_read R (of_path fl) = rf_read (remote v) (of_path fl)"
    using agrees_reads(3)[OF assms(2) _ handle_under[OF assms(1) Some]] .
  obtain r1 v1 where g: "vfs_getattr (of_node fl) v = (r1, v1)" by fastforce
  have v1: "remote v1 = remote v" using getattr_keeps[OF assms(1) g] by (simp add: same_config_def)
  have g': "vfs_getattr (of_node fl) (v\<lparr>remote := R\<rparr>) = (r1, v1\<lparr>remote := R\<rparr>)"
    using getattr_depends[OF assms] g by simp
  show ?thesis
  proof (cases "offline v")
    case True
    then have "cache_mode v = Offline" by (simp add: offline_def)
    with Some show ?thesis by (simp add: vfs_read_def split: prod.splits)
  next
    case False
    then have "cache_mode v \<noteq> Offline" by (simp add: offline_def)
    moreover have "store_read (store v1) (of_path fl) R a pos sz w =
        store_read (store v1) (of_path fl) (remote v) a pos sz w" for a w
      by (rule store_read_cong[OF rd[OF False]])
    ultimately show ?thesis
      using Some g g' v1 rd[OF False]
      by (cases r1) (auto simp: vfs_read_def split: CacheMode.splits prod.splits)
  qed
qed

interpretation read_op: vfs_operation "vfs_read h pos sz" for h pos sz
  by unfold_locales (fact read_keeps, fact read_depends)


lemma write_keeps:
  assumes "confined root v" "vfs_write h pos data v = (r, v')"
  shows "confined root v' \<and> same_config v v'"
  using assms
  by (auto simp: vfs_write_def confined_tables split: option.splits prod.splits result.splits)

lemma write_depends:
  assumes "confined root v" "agrees root v R"
  shows "vfs_write h pos data (v\<lparr>remote := R\<rparr>) = map_prod id (\<lambda>v. v\<lparr>remote := R\<rparr>) (vfs_write h pos data v)"
proof (cases "ensure_writable v")
  case (Err e)
  then show ?thesis by (simp add: vfs_write_def)
next
  case w: (Ok u)
  note ag = agrees_writes[OF assms(2) ensure_writable_Ok[OF w]]
  show ?thesis
  proof (cases "fmlookup (handles (state v)) h")
    case None
    with w show ?thesis by (simp add: vfs_write_def)
  next
    case (Some fl)
    obtain r wd where "rf_write (remote v) (of_path fl) pos data (world v) = (r, wd)" by fastforce
    with Some w ag(1)[OF handle_under[OF assms(1) Some]] show ?thesis
      by (cases r) (auto simp: vfs_write_def)
  qed
qed

interpretation write_op: vfs_operation "vfs_write h pos data" for h pos data
  by unfold_locales (fact write_keeps, fact write_depends)

interpretation flush_op: vfs_operation "vfs_flush h" for h
  by unfold_locales (auto simp: vfs_flush_def)

interpretation release_op: vfs_operation "vfs_release h" for h
  by unfold_locales (auto simp: vfs_release_def tables_confined_def confined_def split: if_splits)

lemma create_keeps:
  assumes "confined root v" "vfs_create n name m flags v = (r, v')"
  shows "confined root v' \<and> same_config v v'"
proof -
  have u: "under root p" if "path_of (state v) n = Ok q" "RemotePath_join q name = Ok p" for p q
    using under_join[OF path_of_under[OF assms(1) that(1)] that(2)] .
  show ?thesis
    using assms confined_tables[OF assms(1)] u
    by (auto simp: vfs_create_def Let_def split: result.splits prod.splits
        dest: intern_open_confined)
qed

lemma mkdir_keeps:
  assumes "confined root v" "vfs_mkdir n name m v = (r, v')"
  shows "confined root v' \<and> same_config v v'"
proof -
  have u: "under root p" if "path_of (state v) n = Ok q" "RemotePath_join q name = Ok p" for p q
    using under_join[OF path_of_under[OF assms(1) that(1)] that(2)] .
  show ?thesis
    using assms confined_tables[OF assms(1)] u
    by (auto simp: vfs_mkdir_def Let_def split: result.splits prod.splits dest: confined_dests)
qed

lemma unlink_keeps:
  assumes "confined root v" "vfs_unlink n name v = (r, v')"
  shows "confined root v' \<and> same_config v v'"
  using assms
  by (auto simp: vfs_unlink_def forget_child_def confined_tables split: result.splits prod.splits)

lemma rmdir_keeps:
  assumes "confined root v" "vfs_rmdir n name v = (r, v')"
  shows "confined root v' \<and> same_config v v'"
  using assms
  by (auto simp: vfs_rmdir_def forget_child_def confined_tables split: result.splits prod.splits)

lemma rename_paths_under:
  assumes "confined root v" "rename_paths v n name n' name' = Ok (p, q, pp, qp)"
  shows "under root p" "under root q"
  using assms
  by (auto simp: rename_paths_def split: result.splits intro: under_join path_of_under)

lemma rename_keeps:
  assumes "confined root v" "vfs_rename n name n' name' v = (r, v')"
  shows "confined root v' \<and> same_config v v'"
  using assms confined_tables[OF assms(1)]
  by (auto simp: vfs_rename_def Let_def split: result.splits prod.splits
      intro!: rename_path_confined dest: rename_paths_under)

lemma setattr_keeps:
  assumes "confined root v" "vfs_setattr n sa v = (r, v')"
  shows "confined root v' \<and> same_config v v'"
  using assms
  by (auto simp: vfs_setattr_def Let_def confined_tables split: result.splits prod.splits)


lemma create_depends:
  assumes "confined root v" "agrees root v R"
  shows "vfs_create n name m flags (v\<lparr>remote := R\<rparr>) = map_prod id (\<lambda>v. v\<lparr>remote := R\<rparr>) (vfs_create n name m flags v)"
proof (cases "ensure_writable v")
  case (Err e)
  then show ?thesis by (simp add: vfs_create_def)
next
  case w: (Ok u)
  note ag = agrees_writes(2)[OF assms(2) ensure_writable_Ok[OF w]]
  show ?thesis
  proof (cases "child_path v n name")
    case (Err e)
    with w show ?thesis by (auto simp: vfs_create_def child_path_def split: result.splits)
  next
    case (Ok p)
    obtain r wd where r: "rf_create (remote v) p m (world v) = (r, wd)" by fastforce
    from Ok obtain q where "path_of (state v) n = Ok q" "RemotePath_join q name = Ok p"
      by (auto simp: child_path_def split: result.splits)
    with w r ag[OF child_path_under[OF assms(1) Ok]] show ?thesis
      by (cases r) (auto simp: vfs_create_def Let_def now_def split: prod.splits)
  qed
qed

interpretation create_op: vfs_operation "vfs_create n name m flags" for n name m flags
  by unfold_locales (fact create_keeps, fact create_depends)

lemma mkdir_depends:
  assumes "confined root v" "agrees root v R"
  shows "vfs_mkdir n name m (v\<lparr>remote := R\<rparr>) = map_prod id (\<lambda>v. v\<lparr>remote := R\<rparr>) (vfs_mkdir n name m v)"
proof (cases "ensure_writable v")
  case (Err e)
  then show ?thesis by (simp add: vfs_mkdir_def)
next
  case w: (Ok u)
  note ag = agrees_writes(3)[OF assms(2) ensure_writable_Ok[OF w]]
  show ?thesis
  proof (cases "child_path v n name")
    case (Err e)
    with w show ?thesis by (auto simp: vfs_mkdir_def child_path_def split: result.splits)
  next
    case (Ok p)
    obtain r wd where r: "rf_mkdir (remote v) p m (world v) = (r, wd)" by fastforce
    from Ok obtain q where "path_of (state v) n = Ok q" "RemotePath_join q name = Ok p"
      by (auto simp: child_path_def split: result.splits)
    with w r ag[OF child_path_under[OF assms(1) Ok]] show ?thesis
      by (cases r) (auto simp: vfs_mkdir_def Let_def now_def split: prod.splits)
  qed
qed

interpretation mkdir_op: vfs_operation "vfs_mkdir n name m" for n name m
  by unfold_locales (fact mkdir_keeps, fact mkdir_depends)

lemma unlink_depends:
  assumes "confined root v" "agrees root v R"
  shows "vfs_unlink n name (v\<lparr>remote := R\<rparr>) = map_prod id (\<lambda>v. v\<lparr>remote := R\<rparr>) (vfs_unlink n name v)"
proof (cases "ensure_writable v")
  case (Err e)
  then show ?thesis by (simp add: vfs_unlink_def)
next
  case w: (Ok u)
  note ag = agrees_writes(4)[OF assms(2) ensure_writable_Ok[OF w]]
  show ?thesis
  proof (cases "child_path v n name")
    case (Err e)
    with w show ?thesis by (auto simp: vfs_unlink_def child_path_def split: result.splits)
  next
    case (Ok p)
    obtain r wd where r: "rf_unlink (remote v) p (world v) = (r, wd)" by fastforce
    from Ok obtain q where "path_of (state v) n = Ok q" "RemotePath_join q name = Ok p"
      by (auto simp: child_path_def split: result.splits)
    with w r ag[OF child_path_under[OF assms(1) Ok]] show ?thesis
      by (cases r) (auto simp: vfs_unlink_def Let_def now_def forget_child_def split: prod.splits)
  qed
qed

interpretation unlink_op: vfs_operation "vfs_unlink n name" for n name
  by unfold_locales (fact unlink_keeps, fact unlink_depends)

lemma rmdir_depends:
  assumes "confined root v" "agrees root v R"
  shows "vfs_rmdir n name (v\<lparr>remote := R\<rparr>) = map_prod id (\<lambda>v. v\<lparr>remote := R\<rparr>) (vfs_rmdir n name v)"
proof (cases "ensure_writable v")
  case (Err e)
  then show ?thesis by (simp add: vfs_rmdir_def)
next
  case w: (Ok u)
  note ag = agrees_writes(5)[OF assms(2) ensure_writable_Ok[OF w]]
  show ?thesis
  proof (cases "child_path v n name")
    case (Err e)
    with w show ?thesis by (auto simp: vfs_rmdir_def child_path_def split: result.splits)
  next
    case (Ok p)
    obtain r wd where r: "rf_rmdir (remote v) p (world v) = (r, wd)" by fastforce
    from Ok obtain q where "path_of (state v) n = Ok q" "RemotePath_join q name = Ok p"
      by (auto simp: child_path_def split: result.splits)
    with w r ag[OF child_path_under[OF assms(1) Ok]] show ?thesis
      by (cases r) (auto simp: vfs_rmdir_def Let_def now_def forget_child_def split: prod.splits)
  qed
qed

interpretation rmdir_op: vfs_operation "vfs_rmdir n name" for n name
  by unfold_locales (fact rmdir_keeps, fact rmdir_depends)

lemma rename_depends:
  assumes "confined root v" "agrees root v R"
  shows "vfs_rename n name n' name' (v\<lparr>remote := R\<rparr>) =
    map_prod id (\<lambda>v. v\<lparr>remote := R\<rparr>) (vfs_rename n name n' name' v)"
proof (cases "ensure_writable v")
  case (Err e)
  then show ?thesis by (simp add: vfs_rename_def)
next
  case w: (Ok u)
  note ag = agrees_writes(7)[OF assms(2) ensure_writable_Ok[OF w]]
  show ?thesis
  proof (cases "rename_paths v n name n' name'")
    case (Err e)
    with w show ?thesis by (simp add: vfs_rename_def)
  next
    case (Ok x)
    obtain p q pp qp where x: "x = (p, q, pp, qp)" by (cases x)
    obtain r wd where r: "rf_rename (remote v) p q (world v) = (r, wd)" by fastforce
    note u = rename_paths_under[OF assms(1) Ok[unfolded x]]
    show ?thesis
      using w r Ok x ag[OF u] by (cases r) (auto simp: vfs_rename_def Let_def now_def)
  qed
qed

interpretation rename_op: vfs_operation "vfs_rename n name n' name'" for n name n' name'
  by unfold_locales (fact rename_keeps, fact rename_depends)

lemma setattr_depends:
  assumes "confined root v" "agrees root v R"
  shows "vfs_setattr n sa (v\<lparr>remote := R\<rparr>) = map_prod id (\<lambda>v. v\<lparr>remote := R\<rparr>) (vfs_setattr n sa v)"
proof (cases "ensure_writable v")
  case (Err e)
  then show ?thesis by (simp add: vfs_setattr_def)
next
  case w: (Ok u)
  note ag = agrees_writes(6)[OF assms(2) ensure_writable_Ok[OF w]]
  show ?thesis
  proof (cases "path_of (state v) n")
    case (Err e)
    with w show ?thesis by (simp add: vfs_setattr_def)
  next
    case (Ok p)
    obtain r wd where "rf_setattr (remote v) p sa (world v) = (r, wd)" by fastforce
    with w Ok ag[OF path_of_under[OF assms(1) Ok]] show ?thesis
      by (cases r) (auto simp: vfs_setattr_def Let_def now_def)
  qed
qed

interpretation setattr_op: vfs_operation "vfs_setattr n sa" for n sa
  by unfold_locales (fact setattr_keeps, fact setattr_depends)

section \<open>Sequences of operations\<close>

datatype vfs_op =
    Lookup NodeId string
  | Getattr NodeId
  | Readdir NodeId
  | Open NodeId OpenFlags
  | Read FileHandle u64 u32
  | Write FileHandle u64 bytes
  | Flush FileHandle
  | Release FileHandle
  | Create NodeId string u32 OpenFlags
  | Mkdir NodeId string u32
  | Unlink NodeId string
  | Rmdir NodeId string
  | Rename NodeId string NodeId string
  | Setattr NodeId SetAttributes

datatype vfs_answer =
    AMetadata "FileMetadata result"
  | AEntries "DirectoryEntry list result"
  | AHandle "FileHandle result"
  | ABytes "bytes result"
  | ACount "u32 result"
  | ACreated "CreatedFile result"
  | ADone "unit result"

fun exec_op :: "'s VirtualFilesystem \<Rightarrow> vfs_op \<Rightarrow> 's \<Rightarrow> vfs_answer \<times> 's" where
  "exec_op fs (Lookup n name) s = map_prod AMetadata id (vf_lookup fs n name s)"
| "exec_op fs (Getattr n) s = map_prod AMetadata id (vf_getattr fs n s)"
| "exec_op fs (Readdir n) s = map_prod AEntries id (vf_readdir fs n s)"
| "exec_op fs (Open n flags) s = map_prod AHandle id (vf_open fs n flags s)"
| "exec_op fs (Read h pos sz) s = map_prod ABytes id (vf_read fs h pos sz s)"
| "exec_op fs (Write h pos data) s = map_prod ACount id (vf_write fs h pos data s)"
| "exec_op fs (Flush h) s = map_prod ADone id (vf_flush fs h s)"
| "exec_op fs (Release h) s = map_prod ADone id (vf_release fs h s)"
| "exec_op fs (Create n name m flags) s = map_prod ACreated id (vf_create fs n name m flags s)"
| "exec_op fs (Mkdir n name m) s = map_prod AMetadata id (vf_mkdir fs n name m s)"
| "exec_op fs (Unlink n name) s = map_prod ADone id (vf_unlink fs n name s)"
| "exec_op fs (Rmdir n name) s = map_prod ADone id (vf_rmdir fs n name s)"
| "exec_op fs (Rename n name n' name') s = map_prod ADone id (vf_rename fs n name n' name' s)"
| "exec_op fs (Setattr n sa) s = map_prod AMetadata id (vf_setattr fs n sa s)"

fun exec_ops :: "'s VirtualFilesystem \<Rightarrow> vfs_op list \<Rightarrow> 's \<Rightarrow> vfs_answer list \<times> 's" where
  "exec_ops fs [] s = ([], s)"
| "exec_ops fs (x # xs) s =
     (case exec_op fs x s of (a, s') \<Rightarrow> (case exec_ops fs xs s' of (as, s'') \<Rightarrow> (a # as, s'')))"


lemma exec_op_keeps:
  assumes "confined root v" "exec_op CacheVfs_ops x v = (a, v')"
  shows "confined root v' \<and> same_config v v'"
proof -
  have "confined root (snd (exec_op CacheVfs_ops x v)) \<and> same_config v (snd (exec_op CacheVfs_ops x v))"
    by (cases x)
       (simp_all add: CacheVfs_ops_def lookup_op.keeps_snd[OF assms(1)] getattr_op.keeps_snd[OF assms(1)]
          readdir_op.keeps_snd[OF assms(1)] open_op.keeps_snd[OF assms(1)] read_op.keeps_snd[OF assms(1)]
          write_op.keeps_snd[OF assms(1)] flush_op.keeps_snd[OF assms(1)] release_op.keeps_snd[OF assms(1)]
          create_op.keeps_snd[OF assms(1)] mkdir_op.keeps_snd[OF assms(1)] unlink_op.keeps_snd[OF assms(1)]
          rmdir_op.keeps_snd[OF assms(1)] rename_op.keeps_snd[OF assms(1)] setattr_op.keeps_snd[OF assms(1)])
  with assms(2) show ?thesis by simp
qed

lemma exec_op_depends:
  assumes "confined root v" "agrees root v R"
  shows "exec_op CacheVfs_ops x (v\<lparr>remote := R\<rparr>) = map_prod id (\<lambda>v. v\<lparr>remote := R\<rparr>) (exec_op CacheVfs_ops x v)"
  by (cases x)
     (simp_all add: CacheVfs_ops_def map_prod.compositionality o_def
        lookup_op.depends[OF assms] getattr_op.depends[OF assms] readdir_op.depends[OF assms]
        open_op.depends[OF assms] read_op.depends[OF assms] write_op.depends[OF assms]
        flush_op.depends[OF assms] release_op.depends[OF assms] create_op.depends[OF assms]
        mkdir_op.depends[OF assms] unlink_op.depends[OF assms] rmdir_op.depends[OF assms]
        rename_op.depends[OF assms] setattr_op.depends[OF assms])

lemma agrees_same_config: "same_config v v' \<Longrightarrow> agrees root v R \<Longrightarrow> agrees root v' R"
  by (simp add: agrees_def same_config_def offline_def)

lemma exec_ops_depends:
  "confined root v \<Longrightarrow> agrees root v R \<Longrightarrow>
   exec_ops CacheVfs_ops xs (v\<lparr>remote := R\<rparr>) = map_prod id (\<lambda>v. v\<lparr>remote := R\<rparr>) (exec_ops CacheVfs_ops xs v)"
proof (induction xs arbitrary: v)
  case Nil
  then show ?case by simp
next
  case (Cons x xs)
  obtain a v1 where e: "exec_op CacheVfs_ops x v = (a, v1)" by fastforce
  note k = exec_op_keeps[OF Cons.prems(1) e]
  have "exec_ops CacheVfs_ops xs (v1\<lparr>remote := R\<rparr>) =
      map_prod id (\<lambda>v. v\<lparr>remote := R\<rparr>) (exec_ops CacheVfs_ops xs v1)"
    using k Cons.prems(2) by (auto intro: Cons.IH agrees_same_config)
  with exec_op_depends[OF Cons.prems, of x] e show ?case
    by (simp split: prod.splits)
qed

lemma CacheVfs_new_confined:
  "valid_path root \<Longrightarrow> confined root (CacheVfs_new R root ro cm ttl cd d cs w t)"
  by (auto simp: confined_def CacheVfs_new_def State_new_def under_refl split: if_splits)

text \<open>
  C4: a mount is confined to its root, a read-only mount never changes the server, and an offline
  mount never reads from it.  Take any sequence of filesystem operations on a fresh \<open>CacheVfs\<close> and
  replace the remote by one that may differ arbitrarily outside the mounted root (and, for a
  read-only mount, in every mutating call; in offline mode, in every reading call): all answers, the
  cache and the state of the world are the same.
\<close>

theorem mount_is_confined:
  assumes "valid_path root"
    and "agrees root (CacheVfs_new R root ro cm ttl cd d cs w t) R'"
  shows "exec_ops CacheVfs_ops xs (CacheVfs_new R' root ro cm ttl cd d cs w t)
    = map_prod id (\<lambda>v. v\<lparr>remote := R'\<rparr>)
        (exec_ops CacheVfs_ops xs (CacheVfs_new R root ro cm ttl cd d cs w t))"
proof -
  have "CacheVfs_new R' root ro cm ttl cd d cs w t = (CacheVfs_new R root ro cm ttl cd d cs w t)\<lparr>remote := R'\<rparr>"
    by (simp add: CacheVfs_new_def)
  then show ?thesis
    using exec_ops_depends[OF CacheVfs_new_confined[OF assms(1)] assms(2)] by simp
qed

theorem mount_is_confined_witness:
  "exec_ops CacheVfs_ops [Lookup ROOT ''a'', Mkdir ROOT ''b'' 0]
      (CacheVfs_new DisconnectedRemote RemotePath_root True Remote 0 \<lparr>to_vec = Some, from_reader = Some\<rparr>
        \<lparr>objects = fmempty, tmp = fmempty, index_json = None, io_plan = []\<rparr> 4 (0 :: nat) id)
    = map_prod id (\<lambda>v. v\<lparr>remote := DisconnectedRemote\<rparr>)
      (exec_ops CacheVfs_ops [Lookup ROOT ''a'', Mkdir ROOT ''b'' 0]
        (CacheVfs_new (DisconnectedRemote\<lparr>rf_mkdir := \<lambda>p m w. (Err NotFound, w + 1)\<rparr>) RemotePath_root True Remote 0
          \<lparr>to_vec = Some, from_reader = Some\<rparr>
          \<lparr>objects = fmempty, tmp = fmempty, index_json = None, io_plan = []\<rparr> 4 0 id))"
  by (rule mount_is_confined[OF valid_path_root])
     (simp add: agrees_def CacheVfs_new_def offline_def DisconnectedRemote_def)

end
