(* ===== verification/Vfs_Tables.thy ===== *)
theory Vfs_Tables
  imports Vfs_Confinement Store_Properties
begin

text \<open>
  The node and handle tables.  Every operation changes them only by the steps of the relation
  \<open>evolves\<close>: interning a path, opening a handle, moving a path, releasing handles, and bookkeeping of freshness.
  The invariant is proved by rule induction over these steps: node ids and paths agree, the root
  keeps its id, and a new handle never collides with an open one.

  Node ids and handles are \<open>u64\<close> counters that the code increments without a check.  The
  invariant is therefore relative to two bounds: the node table holds fewer than \<open>2\<^sup>6\<^sup>4 - 1\<close> entries
  (it never shrinks, so the bound at the end of a run covers the whole run), and fewer than
  \<open>2\<^sup>6\<^sup>4 - 1\<close> handles have been opened.
\<close>

section \<open>How operations change the tables\<close>

definition same_tables :: "State \<Rightarrow> State \<Rightarrow> bool" where
  "same_tables st st' \<longleftrightarrow> next_node st' = next_node st \<and> next_handle st' = next_handle st \<and>
     path_to_node st' = path_to_node st \<and> node_to_path st' = node_to_path st"

inductive evolves :: "RemotePath \<Rightarrow> nat \<Rightarrow> State \<Rightarrow> State \<Rightarrow> bool" for root :: RemotePath where
  refl: "evolves root 0 st st"
| freshness: "evolves root k st st' \<Longrightarrow> same_tables st' st'' \<Longrightarrow> handles st'' = handles st' \<Longrightarrow> evolves root k st st''"
| intern: "evolves root k st st' \<Longrightarrow> intern st' p = (n, st'') \<Longrightarrow> evolves root k st st''"
| open_handle: "evolves root k st st' \<Longrightarrow> open_handle st' n p = (h, st'') \<Longrightarrow> evolves root (Suc k) st st''"
| rename: "evolves root k st st' \<Longrightarrow> p \<noteq> root \<Longrightarrow> q \<noteq> root \<Longrightarrow> evolves root k st (rename_path st' p q)"
| release: "evolves root k st st' \<Longrightarrow> same_tables st' st'' \<Longrightarrow> handles st'' = fmdrop h (handles st') \<Longrightarrow> evolves root k st st''"

lemma evolves_trans: "evolves root j st' st'' \<Longrightarrow> evolves root k st st' \<Longrightarrow> evolves root (j + k) st st''"
  by (induction rule: evolves.induct) (auto intro: evolves.intros)

lemma same_tables_bookkeeping [simp]:
  "same_tables st (validate p t st') = same_tables st st'"
  "same_tables st (unvalidate p st') = same_tables st st'"
  "same_tables st (add_negative n name t st') = same_tables st st'"
  "same_tables st (drop_negative n name st') = same_tables st st'"
  "same_tables st st"
  by (simp_all add: same_tables_def validate_def unvalidate_def add_negative_def drop_negative_def)

lemma handles_bookkeeping [simp]:
  "handles (validate p t st) = handles st" "handles (unvalidate p st) = handles st"
  "handles (add_negative n name t st) = handles st" "handles (drop_negative n name st) = handles st"
  by (simp_all add: validate_def unvalidate_def add_negative_def drop_negative_def)

lemma evolves_bookkeeping:
  "evolves root k st st' \<Longrightarrow> evolves root k st (validate p t st')"
  "evolves root k st st' \<Longrightarrow> evolves root k st (unvalidate p st')"
  "evolves root k st st' \<Longrightarrow> evolves root k st (add_negative n name t st')"
  "evolves root k st st' \<Longrightarrow> evolves root k st (drop_negative n name st')"
  by (rule evolves.freshness, assumption, simp_all)+

lemma evolves_release: "evolves root k st st' \<Longrightarrow> evolves root k st (st'\<lparr>handles := fmdrop h (handles st')\<rparr>)"
  by (erule evolves.release) (simp_all add: same_tables_def)

lemmas evolves_steps = evolves.intern[rotated] evolves.open_handle[rotated]

lemma intern_all_evolves: "intern_all st cs = (es, st') \<Longrightarrow> evolves root 0 st st'"
proof (induction st cs arbitrary: es st' rule: intern_all.induct)
  case (1 st)
  then show ?case by (simp add: evolves.refl)
next
  case (2 st name child a rest)
  obtain n st1 where i: "intern st child = (n, st1)" by fastforce
  obtain es1 st2 where r: "intern_all st1 rest = (es1, st2)" by fastforce
  have "evolves root (0 + 0) st st2"
    by (rule evolves_trans[OF "2.IH"[OF i[symmetric] r] evolves.intern[OF evolves.refl i]])
  with "2.prems" i r show ?case by simp
qed

lemma intern_listing_evolves: "intern_listing p t cs st = (r, st') \<Longrightarrow> evolves root 0 st st'"
proof (induction p t cs st arbitrary: r st' rule: intern_listing.induct)
  case (1 p t st)
  then show ?case by (simp add: evolves.refl)
next
  case (2 p t name a rest st)
  show ?case
  proof (cases "RemotePath_join p name")
    case (Err e)
    with "2.prems" show ?thesis by (simp add: evolves.refl)
  next
    case (Ok child)
    obtain n st1 where i: "intern (validate child t st) child = (n, st1)" by fastforce
    obtain r1 st2 where l: "intern_listing p t rest st1 = (r1, st2)" by fastforce
    have "evolves root 0 st st1" by (rule evolves.intern[OF evolves_bookkeeping(1)[OF evolves.refl] i])
    from evolves_trans[OF "2.IH"[OF Ok i[symmetric] l] this] "2.prems" Ok i l show ?thesis
      by (auto split: result.splits)
  qed
qed

lemma readdir_from_cache_evolves:
  "readdir_from_cache v p = Some (es, v') \<Longrightarrow> evolves root 0 (state v) (state v')"
  by (auto simp: readdir_from_cache_def split: option.splits prod.splits dest: intern_all_evolves)

lemma join_not_root:
  assumes "under root p" "RemotePath_join p name = Ok q"
  shows "q \<noteq> root"
proof
  assume "q = root"
  with components_join[OF assms(2)] assms(1) show False
    by (auto simp: under_def dest: prefix_length_le)
qed

section \<open>Every operation evolves the tables\<close>

lemma lookup_evolves: "vfs_lookup n name v = (r, v') \<Longrightarrow> evolves root 0 (state v) (state v')"
  by (auto simp: vfs_lookup_def Let_def intro!: evolves_bookkeeping evolves.refl intro: evolves_steps
      split: result.splits if_splits option.splits prod.splits)

lemma getattr_evolves: "vfs_getattr n v = (r, v') \<Longrightarrow> evolves root 0 (state v) (state v')"
  by (auto simp: vfs_getattr_def Let_def intro!: evolves_bookkeeping evolves.refl
      split: result.splits if_splits option.splits prod.splits)

lemma readdir_evolves: "vfs_readdir n v = (r, v') \<Longrightarrow> evolves root 0 (state v) (state v')"
  by (auto simp: vfs_readdir_def Let_def intro!: evolves_bookkeeping evolves.refl
      dest: readdir_from_cache_evolves[where root = root] intern_listing_evolves[where root = root]
      split: result.splits if_splits option.splits prod.splits)

lemma open_evolves: "vfs_open n flags v = (r, v') \<Longrightarrow> evolves root 0 (state v) (state v') \<or> evolves root 1 (state v) (state v')"
  unfolding One_nat_def
  by (auto simp: vfs_open_def Let_def intro!: evolves_bookkeeping evolves.refl intro: evolves_steps
      split: result.splits if_splits option.splits prod.splits)

lemma read_evolves: "vfs_read h pos sz v = (r, v') \<Longrightarrow> evolves root 0 (state v) (state v')"
  by (auto simp: vfs_read_def intro!: evolves.refl dest: getattr_evolves
      split: option.splits CacheMode.splits prod.splits result.splits)

lemma write_evolves: "vfs_write h pos data v = (r, v') \<Longrightarrow> evolves root 0 (state v) (state v')"
  by (auto simp: vfs_write_def intro!: evolves_bookkeeping evolves.refl split: result.splits option.splits prod.splits)

lemma create_evolves:
  "vfs_create n name m flags v = (r, v') \<Longrightarrow> evolves root 0 (state v) (state v') \<or> evolves root 1 (state v) (state v')"
  unfolding One_nat_def
  by (auto simp: vfs_create_def Let_def intro!: evolves_bookkeeping evolves.refl intro: evolves_steps
      split: result.splits if_splits option.splits prod.splits)

lemma mkdir_evolves: "vfs_mkdir n name m v = (r, v') \<Longrightarrow> evolves root 0 (state v) (state v')"
  by (auto simp: vfs_mkdir_def Let_def intro!: evolves_bookkeeping evolves.refl intro: evolves_steps
      split: result.splits if_splits option.splits prod.splits)

lemma unlink_evolves: "vfs_unlink n name v = (r, v') \<Longrightarrow> evolves root 0 (state v) (state v')"
  by (auto simp: vfs_unlink_def forget_child_def intro!: evolves_bookkeeping evolves.refl
      split: result.splits prod.splits)

lemma rmdir_evolves: "vfs_rmdir n name v = (r, v') \<Longrightarrow> evolves root 0 (state v) (state v')"
  by (auto simp: vfs_rmdir_def forget_child_def intro!: evolves_bookkeeping evolves.refl
      split: result.splits prod.splits)

lemma rename_paths_not_root:
  assumes "confined root v" "rename_paths v n name n' name' = Ok (p, q, pp, qp)"
  shows "p \<noteq> root \<and> q \<noteq> root"
  using assms
  by (auto simp: rename_paths_def split: result.splits dest: path_of_under join_not_root)

lemma rename_evolves:
  "confined root v \<Longrightarrow> vfs_rename n name n' name' v = (r, v') \<Longrightarrow> evolves root 0 (state v) (state v')"
  by (auto simp: vfs_rename_def Let_def intro!: evolves_bookkeeping evolves.refl evolves.rename
      dest: rename_paths_not_root split: result.splits prod.splits)

lemma setattr_evolves: "vfs_setattr n sa v = (r, v') \<Longrightarrow> evolves root 0 (state v) (state v')"
  by (auto simp: vfs_setattr_def Let_def intro!: evolves_bookkeeping evolves.refl
      split: result.splits option.splits prod.splits)

lemma map_prod_answer: "map_prod f id x = (a, v) \<longleftrightarrow> (\<exists>r. x = (r, v) \<and> a = f r)"
  by (cases x) auto

lemma exec_op_evolves:
  assumes "confined root v" "exec_op CacheVfs_ops x v = (a, v')"
  shows "\<exists>k \<le> 1. evolves root k (state v) (state v')"
proof -
  have "evolves root 0 (state v) (state v') \<or> evolves root 1 (state v) (state v')"
    using assms
    by (cases x)
       (auto simp: CacheVfs_ops_def map_prod_answer vfs_flush_def vfs_release_def intro!: evolves_release evolves.refl
          dest: lookup_evolves[where root = root] getattr_evolves[where root = root]
          readdir_evolves[where root = root] open_evolves[where root = root] read_evolves[where root = root]
          write_evolves[where root = root] create_evolves[where root = root] mkdir_evolves[where root = root]
          unlink_evolves[where root = root] rmdir_evolves[where root = root] rename_evolves
          setattr_evolves[where root = root])
  then show ?thesis by auto
qed

lemma exec_ops_evolves:
  "confined root v \<Longrightarrow> exec_ops CacheVfs_ops xs v = (as, v') \<Longrightarrow>
   \<exists>k \<le> length xs. evolves root k (state v) (state v') \<and> confined root v'"
proof (induction xs arbitrary: v as v')
  case Nil
  then show ?case by (auto intro: evolves.refl)
next
  case (Cons x xs)
  obtain a v1 where e: "exec_op CacheVfs_ops x v = (a, v1)" by fastforce
  obtain as1 v2 where es: "exec_ops CacheVfs_ops xs v1 = (as1, v2)" by fastforce
  obtain j where j: "j \<le> 1" "evolves root j (state v) (state v1)"
    using exec_op_evolves[OF Cons.prems(1) e] by blast
  obtain k where k: "k \<le> length xs" "evolves root k (state v1) (state v2)" "confined root v2"
    using Cons.IH[OF _ es] exec_op_keeps[OF Cons.prems(1) e] by blast
  have "evolves root (k + j) (state v) (state v2)" using evolves_trans[OF k(2) j(2)] .
  moreover have "k + j \<le> length (x # xs)" using j(1) k(1) by simp
  ultimately show ?case using Cons.prems(2) e es k(3) by auto
qed

section \<open>The invariant\<close>

definition node_count :: "State \<Rightarrow> nat" where
  "node_count st = card (fmdom' (node_to_path st))"

definition nodes_ok :: "RemotePath \<Rightarrow> State \<Rightarrow> bool" where
  "nodes_ok root st \<longleftrightarrow>
     fmdom' (node_to_path st) = {n. 1 \<le> unat (node_num n) \<and> unat (node_num n) < unat (next_node st)} \<and>
     (\<forall>p n. fmlookup (path_to_node st) p = Some n \<longrightarrow> fmlookup (node_to_path st) n = Some p) \<and>
     fmlookup (path_to_node st) root = Some ROOT"

definition handles_ok :: "nat \<Rightarrow> State \<Rightarrow> bool" where
  "handles_ok k st \<longleftrightarrow> unat (next_handle st) = Suc k \<and>
     (\<forall>h. h \<in> fmdom' (handles st) \<longrightarrow> unat (handle_num h) < Suc k)"

lemma node_ids_card:
  assumes "N \<le> 2 ^ 64"
  shows "card {n. 1 \<le> unat (node_num n) \<and> unat (node_num n) < N} = N - 1"
proof -
  have "{n. 1 \<le> unat (node_num n) \<and> unat (node_num n) < N} = (\<lambda>k. NodeId (of_nat k)) ` {1..<N}" (is "?A = ?f ` _")
  proof (intro set_eqI iffI)
    fix n
    assume "n \<in> ?A"
    then show "n \<in> ?f ` {1..<N}" by (intro image_eqI[of _ _ "unat (node_num n)"]) auto
  next
    fix n
    assume "n \<in> ?f ` {1..<N}"
    then show "n \<in> ?A" using assms by (auto simp: unat_of_nat_u64)
  qed
  moreover have "inj_on ?f {1..<N}"
  proof (rule inj_onI)
    fix j k
    assume jk: "j \<in> {1..<N}" "k \<in> {1..<N}" and eq: "?f j = ?f k"
    have "unat (of_nat j :: u64) = j" "unat (of_nat k :: u64) = k"
      using assms jk by (simp_all add: unat_of_nat_u64)
    with eq show "j = k" by (metis NodeId.inject)
  qed
  ultimately show ?thesis by (simp add: card_image)
qed

lemma node_count_ok: "nodes_ok root st \<Longrightarrow> node_count st = unat (next_node st) - 1"
  using node_ids_card[of "unat (next_node st)"] unat_u64_less[of "next_node st"]
  by (simp add: nodes_ok_def node_count_def)

lemma ROOT_known: "nodes_ok root st \<Longrightarrow> fmlookup (node_to_path st) ROOT = Some root"
  by (simp add: nodes_ok_def)

lemma intern_new_ok:
  assumes ok: "nodes_ok root st" and new: "fmlookup (path_to_node st) p = None"
    and few: "unat (next_node st) + 1 < 2 ^ 64"
  shows "nodes_ok root (snd (intern st p))"
proof -
  let ?n = "NodeId (next_node st)"
  have "ROOT \<in> fmdom' (node_to_path st)" using ROOT_known[OF ok] by (simp add: fmlookup_dom'_iff)
  with ok have two: "1 \<le> unat (next_node st)" by (simp add: nodes_ok_def)
  have nx: "unat (next_node st + 1) = unat (next_node st) + 1" using unat_Suc_u64[OF few] .
  have fresh: "?n \<notin> fmdom' (node_to_path st)" using ok by (simp add: nodes_ok_def)
  have dom: "insert ?n (fmdom' (node_to_path st)) =
      {n. 1 \<le> unat (node_num n) \<and> unat (node_num n) < unat (next_node st + 1)}"
    unfolding nx using ok two by (auto simp: nodes_ok_def less_Suc_eq NodeId.expand dest: unsigned_word_eqI)
  have "fmlookup (node_to_path st) n \<noteq> None \<Longrightarrow> n \<noteq> ?n" for n
    using fresh by (auto simp: fmlookup_dom'_iff)
  then have inv: "fmlookup (path_to_node st) q = Some n \<Longrightarrow> fmlookup (node_to_path st) n = Some q \<and> n \<noteq> ?n" for q n
    using ok unfolding nodes_ok_def by (metis option.distinct(1))
  show ?thesis
    unfolding nodes_ok_def
  proof (intro conjI allI impI)
    show "fmdom' (node_to_path (snd (intern st p))) =
        {n. 1 \<le> unat (node_num n) \<and> unat (node_num n) < unat (next_node (snd (intern st p)))}"
      using dom new by (simp add: intern_def Let_def)
    show "fmlookup (path_to_node (snd (intern st p))) root = Some ROOT"
      using ok new by (auto simp: nodes_ok_def intern_def Let_def)
    fix q n
    assume "fmlookup (path_to_node (snd (intern st p))) q = Some n"
    then show "fmlookup (node_to_path (snd (intern st p))) n = Some q"
      using inv[of q n] new by (auto simp: intern_def Let_def split: if_splits)
  qed
qed

lemma rename_path_ok:
  assumes ok: "nodes_ok root st" and "p \<noteq> root" "q \<noteq> root"
  shows "nodes_ok root (rename_path st p q)"
proof (cases "fmlookup (path_to_node st) p")
  case None
  with ok show ?thesis by (simp add: rename_path_def)
next
  case (Some n)
  with ok have n: "fmlookup (node_to_path st) n = Some p" by (simp add: nodes_ok_def)
  then have "insert n (fmdom' (node_to_path st)) = fmdom' (node_to_path st)"
    by (auto simp: fmlookup_dom'_iff)
  moreover have "m \<noteq> n" if "fmlookup (path_to_node st) x = Some m" "x \<noteq> p" for x m
    using that n ok by (auto simp: nodes_ok_def)
  ultimately show ?thesis
    using Some ok assms(2,3) by (auto simp: rename_path_def nodes_ok_def)
qed

lemma node_count_intern: "intern st p = (n, st') \<Longrightarrow> node_count st \<le> node_count st'"
  by (auto simp: intern_def Let_def node_count_def split: option.splits intro!: card_mono)

lemma node_count_rename: "node_count st \<le> node_count (rename_path st p q)"
  by (auto simp: rename_path_def node_count_def split: option.splits intro!: card_mono)

lemma evolves_nodes_ok:
  "evolves root k st st' \<Longrightarrow> nodes_ok root st \<Longrightarrow> node_count st' < 2 ^ 64 - 1 \<Longrightarrow> nodes_ok root st'"
proof (induction rule: evolves.induct)
  case (intern k st st' p n st'')
  with node_count_intern[OF intern.hyps(2)] have ok: "nodes_ok root st'" by simp
  show ?case
  proof (cases "fmlookup (path_to_node st') p")
    case (Some m)
    with ok intern.hyps(2) show ?thesis by (simp add: intern_def)
  next
    case None
    have "NodeId (next_node st') \<notin> fmdom' (node_to_path st')" using ok by (simp add: nodes_ok_def)
    then have "node_count st'' = Suc (node_count st')"
      using None intern.hyps(2) by (auto simp: intern_def Let_def node_count_def)
    then have "unat (next_node st') + 1 < 2 ^ 64"
      using node_count_ok[OF ok] intern.prems(2) by linarith
    from intern_new_ok[OF ok None this] intern.hyps(2) show ?thesis by simp
  qed
next
  case (rename k st st' p q)
  with node_count_rename[of st' p q] rename_path_ok show ?case by force
qed (auto simp: nodes_ok_def same_tables_def node_count_def open_handle_def Let_def)

lemma evolves_handles_ok:
  "evolves root k st st' \<Longrightarrow> handles_ok j st \<Longrightarrow> j + k < 2 ^ 64 - 1 \<Longrightarrow> handles_ok (j + k) st'"
proof (induction rule: evolves.induct)
  case (open_handle k st st' n p h st'')
  then have ok: "handles_ok (j + k) st'" by simp
  have "unat (next_handle st' + 1) = Suc (j + Suc k)"
    using ok open_handle.prems(2) by (subst unat_Suc_u64) (auto simp: handles_ok_def)
  with ok open_handle.hyps(2) show ?case
    by (auto simp: handles_ok_def open_handle_def Let_def less_Suc_eq)
qed (auto simp: handles_ok_def same_tables_def intern_def rename_path_def Let_def split: option.splits)

lemma State_new_ok: "nodes_ok root (State_new root)" "handles_ok 0 (State_new root)"
proof -
  have "{n. 1 \<le> unat (node_num n) \<and> unat (node_num n) < 2} = {NodeId 1}"
    by (auto simp: NodeId.expand) (metis NodeId.collapse One_nat_def Suc_1 le_antisym less_Suc_eq_le not_less_eq_eq unat_1 unsigned_word_eqI)
  then show "nodes_ok root (State_new root)" by (simp add: nodes_ok_def State_new_def ROOT_def)
  show "handles_ok 0 (State_new root)" by (simp add: handles_ok_def State_new_def)
qed

lemma run_tables:
  assumes "valid_path root" "exec_ops CacheVfs_ops xs (CacheVfs_new R root ro cm ttl cd d cs w t) = (as, v)"
  obtains k where "k \<le> length xs" "evolves root k (State_new root) (state v)" "confined root v"
  using exec_ops_evolves[OF CacheVfs_new_confined[OF assms(1)] assms(2)] by (auto simp: CacheVfs_new_def)

lemma run_nodes_ok:
  assumes "valid_path root" "exec_ops CacheVfs_ops xs (CacheVfs_new R root ro cm ttl cd d cs w t) = (as, v)"
    and "node_count (state v) < 2 ^ 64 - 1"
  shows "nodes_ok root (state v)"
  using run_tables[OF assms(1,2)] evolves_nodes_ok[OF _ State_new_ok(1) assms(3)] by blast

lemma run_handles_ok:
  assumes "valid_path root" "exec_ops CacheVfs_ops xs (CacheVfs_new R root ro cm ttl cd d cs w t) = (as, v)"
    and "length xs < 2 ^ 64 - 1"
  shows "\<exists>k \<le> length xs. handles_ok k (state v)"
proof -
  obtain k where k: "k \<le> length xs" "evolves root k (State_new root) (state v)" using run_tables[OF assms(1,2)] by blast
  then show ?thesis using evolves_handles_ok[OF k(2) State_new_ok(2)] assms(3) by auto
qed

lemma intern_node: "intern st p = (n, st') \<Longrightarrow> nodes_ok root st' \<Longrightarrow> fmlookup (node_to_path st') n = Some p"
  by (auto simp: intern_def nodes_ok_def Let_def split: option.splits)

lemma intern_count: "intern st p = (n, st') \<Longrightarrow> evolves root 0 st st'"
  by (rule evolves.intern[OF evolves.refl])

lemma lookup_Ok:
  assumes "vfs_lookup parent name v = (Ok m, v')"
  obtains child st where "child_path v parent name = Ok child" "intern st child = (node m, state v')"
  using assms
  by (auto simp: vfs_lookup_def Let_def split: result.splits if_splits option.splits prod.splits)

section \<open>A mount of the in-memory remote\<close>

definition fresh_mount :: "(Index, MockState) CacheVfs" where
  "fresh_mount = CacheVfs_new MockRemote RemotePath_root False OnDemand (secs 5) plain_json empty_dir 4 MockRemote_new (\<lambda>_. 0)"

lemma join_sub: "RemotePath_join RemotePath_root ''sub'' = Ok (RemotePath ''/sub'')"
  by (simp add: RemotePath_join_def RemotePath_new_def RemotePath_root_def trim_end_matches_def)

lemma stat_sub: "fst (mock_stat (RemotePath ''/sub'') MockRemote_new) = Ok dir_attrs"
  by (simp add: mock_stat_def MockRemote_new_def fmlookup_of_list Let_def)

lemma fresh_lookup:
  obtains v where "vfs_lookup ROOT ''sub'' fresh_mount = (Ok \<lparr>node = NodeId 2, attributes = dir_attrs\<rparr>, v)"
    "state v = (State_new RemotePath_root)\<lparr>next_node := 3,
       path_to_node := fmupd (RemotePath ''/sub'') (NodeId 2) (path_to_node (State_new RemotePath_root)),
       node_to_path := fmupd (NodeId 2) (RemotePath ''/sub'') (node_to_path (State_new RemotePath_root)),
       validated := fmupd (RemotePath ''/sub'') 0 fmempty\<rparr>"
proof -
  obtain w where s: "mock_stat (RemotePath ''/sub'') MockRemote_new = (Ok dir_attrs, w)"
    using stat_sub by (metis prod.collapse)
  note unf = vfs_lookup_def fresh_mount_def CacheVfs_new_def child_path_def path_of_def State_new_def
    join_sub[unfolded RemotePath_root_def] metadata_fresh_def offline_def MockRemote_def s Let_def validate_def
    drop_negative_def intern_def RemotePath_root_def now_def ROOT_def
  have "fst (vfs_lookup ROOT ''sub'' fresh_mount) = Ok \<lparr>node = NodeId 2, attributes = dir_attrs\<rparr>"
    by (simp add: unf)
  then have "vfs_lookup ROOT ''sub'' fresh_mount =
      (Ok \<lparr>node = NodeId 2, attributes = dir_attrs\<rparr>, snd (vfs_lookup ROOT ''sub'' fresh_mount))"
    by (metis prod.collapse)
  then show thesis by (rule that) (simp add: unf)
qed

section \<open>Properties\<close>


lemma fresh_lookup_count:
  assumes "vfs_lookup ROOT ''sub'' fresh_mount = (r, v)"
  shows "node_count (state v) < 2 ^ 64 - 1"
  by (rule fresh_lookup) (use assms in \<open>simp add: node_count_def State_new_def ROOT_def\<close>)


text \<open>
  C16: a successful lookup hands out an id of exactly the child that was asked for: it denotes the
  parent's path extended by the name, so later operations on the id go to that path.
\<close>

theorem lookup_answer_names_child:
  assumes "valid_path root" "exec_ops CacheVfs_ops xs (CacheVfs_new R root ro cm ttl cd d cs w t) = (as, v)"
    and "vfs_lookup parent name v = (Ok m, v')" "node_count (state v') < 2 ^ 64 - 1"
  shows "\<exists>pp child. path_of (state v) parent = Ok pp \<and> RemotePath_join pp name = Ok child \<and>
    path_of (state v') (node m) = Ok child"
proof -
  obtain child st where c: "child_path v parent name = Ok child" "intern st child = (node m, state v')"
    using lookup_Ok[OF assms(3)] .
  obtain k where "evolves root k (State_new root) (state v)" using run_tables[OF assms(1,2)] by blast
  from evolves_trans[OF lookup_evolves[OF assms(3)] this]
  have "nodes_ok root (state v')" using evolves_nodes_ok[OF _ State_new_ok(1) assms(4)] by blast
  from intern_node[OF c(2) this] c(1) show ?thesis
    by (auto simp: child_path_def path_of_def split: result.splits)
qed

theorem lookup_answer_names_child_witness:
  "\<exists>v. vfs_lookup ROOT ''sub'' fresh_mount = (Ok \<lparr>node = NodeId 2, attributes = dir_attrs\<rparr>, v) \<and>
     path_of (state v) (NodeId 2) = Ok (RemotePath ''/sub'')"
proof -
  obtain v where l: "vfs_lookup ROOT ''sub'' fresh_mount = (Ok \<lparr>node = NodeId 2, attributes = dir_attrs\<rparr>, v)"
    by (rule fresh_lookup)
  have "exec_ops CacheVfs_ops [] fresh_mount = ([], fresh_mount)" by simp
  from lookup_answer_names_child[OF valid_path_root this[unfolded fresh_mount_def] l[unfolded fresh_mount_def]
      fresh_lookup_count[OF l]]
  have "path_of (state v) (NodeId 2) = Ok (RemotePath ''/sub'')"
    by (auto simp: CacheVfs_new_def State_new_def path_of_def ROOT_def join_sub)
  with l show ?thesis by blast
qed

text \<open>
  C15: handles are fresh.  During the first \<open>2\<^sup>6\<^sup>4 - 2\<close> operations of a mount, a handle returned by
  \<open>open\<close> or \<open>create\<close> is not open yet, refers to the path of the opened node, and the other open
  handles are unchanged.
\<close>

theorem opened_handle_is_fresh:
  assumes "valid_path root" "exec_ops CacheVfs_ops xs (CacheVfs_new R root ro cm ttl cd d cs w t) = (as, v)"
    and "length xs < 2 ^ 64 - 2"
  shows "(vfs_open n flags v = (Ok h, v') \<longrightarrow>
      fmlookup (handles (state v)) h = None \<and>
      (\<exists>p. path_of (state v) n = Ok p \<and>
        handles (state v') = fmupd h \<lparr>of_node = n, of_path = p\<rparr> (handles (state v)))) \<and>
    (vfs_create parent name m flags v = (Ok c, v'') \<longrightarrow>
      fmlookup (handles (state v)) (cf_handle c) = None \<and>
      (\<exists>child. child_path v parent name = Ok child \<and>
        handles (state v'') = fmupd (cf_handle c) \<lparr>of_node = node (cf_metadata c), of_path = child\<rparr> (handles (state v))))"
proof -
  obtain k where "handles_ok k (state v)" using run_handles_ok[OF assms(1,2)] assms(3) by auto
  then have fresh: "fmlookup (handles (state v)) (FileHandle (next_handle (state v))) = None"
    by (auto simp: handles_ok_def fmlookup_dom'_iff)
  have same: "intern st p = (n', st') \<Longrightarrow> handles st' = handles st \<and> next_handle st' = next_handle st" for st st' p n'
    by (auto simp: intern_def Let_def split: option.splits)
  show ?thesis
  proof (intro conjI impI)
    assume "vfs_open n flags v = (Ok h, v')"
    with fresh show "fmlookup (handles (state v)) h = None"
      "\<exists>p. path_of (state v) n = Ok p \<and> handles (state v') = fmupd h \<lparr>of_node = n, of_path = p\<rparr> (handles (state v))"
      by (auto simp: vfs_open_def open_handle_def unvalidate_def Let_def split: result.splits if_splits prod.splits)
  next
    assume "vfs_create parent name m flags v = (Ok c, v'')"
    then obtain child n' st t' where c: "child_path v parent name = Ok child"
        and i: "intern (drop_negative parent name (validate child t' (state v))) child = (n', st)"
        and o: "open_handle st (node (cf_metadata c)) child = (cf_handle c, state v'')"
      by (auto simp: vfs_create_def Let_def child_path_def split: result.splits prod.splits)
    have st: "handles st = handles (state v)" "next_handle st = next_handle (state v)"
      using same[OF i] by (simp_all add: drop_negative_def validate_def)
    have "cf_handle c = fst (open_handle st (node (cf_metadata c)) child)"
      "handles (state v'') = handles (snd (open_handle st (node (cf_metadata c)) child))"
      using o by simp_all
    with fresh c st show "fmlookup (handles (state v)) (cf_handle c) = None"
      "\<exists>child. child_path v parent name = Ok child \<and>
        handles (state v'') = fmupd (cf_handle c) \<lparr>of_node = node (cf_metadata c), of_path = child\<rparr> (handles (state v))"
      by (simp_all add: open_handle_def Let_def)
  qed
qed

theorem opened_handle_is_fresh_witness:
  "\<exists>v. vfs_open ROOT \<lparr>of_read = True, of_write = False, of_append = False, of_truncate = False\<rparr> fresh_mount
      = (Ok (FileHandle 1), v) \<and>
     handles (state v) = fmupd (FileHandle 1) \<lparr>of_node = ROOT, of_path = RemotePath_root\<rparr> fmempty"
proof -
  let ?fl = "\<lparr>of_read = True, of_write = False, of_append = False, of_truncate = False\<rparr>"
  obtain v where o: "vfs_open ROOT ?fl fresh_mount = (Ok (FileHandle 1), v)"
    by (simp add: vfs_open_def fresh_mount_def CacheVfs_new_def State_new_def path_of_def open_handle_def Let_def)
  have "exec_ops CacheVfs_ops [] fresh_mount = ([], fresh_mount)" by simp
  from opened_handle_is_fresh[OF valid_path_root this[unfolded fresh_mount_def], of ROOT ?fl "FileHandle 1" v] o
  have "handles (state v) = fmupd (FileHandle 1) \<lparr>of_node = ROOT, of_path = RemotePath_root\<rparr> fmempty"
    by (auto simp: fresh_mount_def CacheVfs_new_def State_new_def path_of_def)
  with o show ?thesis by blast
qed

end
