(* ===== verification/Vfs_Properties.thy ===== *)
theory Vfs_Properties
  imports Vfs_Tables
begin

text \<open>
  The behaviour of the virtual filesystem that its clients rely on: reads return the server's
  current bytes once metadata is revalidated, a mount sees its own writes, metadata is cached for the
  configured time, changes of the namespace are visible at once, and cached state is served when the server is
  unreachable.  Two theorems pin down behaviour that is weaker than it looks: renaming leaves open
  handles on the old path, and a fresh \<open>getattr\<close> of a directory extends the life of its cached listing.
\<close>

section \<open>Stores that can serve a read\<close>

definition read_ready :: "versions \<Rightarrow> 'j Store \<Rightarrow> FileAttributes \<Rightarrow> u64 \<Rightarrow> u32 \<Rightarrow> bool" where
  "read_ready V s a pos sz \<longleftrightarrow> benign (dir s) \<and> store_inv s \<and> coherent V s \<and> read_room a s \<and>
     can_allocate s (length (chunk_range pos (min (saturating_add pos (ucast sz)) (fsize a)) (chunk_size s)))"

lemma put_attrs_frame:
  "chunk_size (put_attrs s p a) = chunk_size s" "next_object (index (put_attrs s p a)) = next_object (index s)"
  "benign (dir s) \<Longrightarrow> benign (dir (put_attrs s p a))"
  by (rule put_attrs_index[of s p a],
      auto simp: put_attrs_def store_attrs_spec persist_benign remove_objects_benign split: prod.splits)+

lemma invalidate_content_frame:
  "chunk_size (invalidate_content s p) = chunk_size s"
  "benign (dir s) \<Longrightarrow> benign (dir (invalidate_content s p))"
  by (auto simp: invalidate_content_def Let_def persist_benign remove_objects_benign split: option.splits)

lemma put_attrs_ready: "read_ready V s a pos sz \<Longrightarrow> read_ready V (put_attrs s p b) a pos sz"
  by (simp add: read_ready_def put_attrs_frame put_attrs_inv put_attrs_coherent read_room_def can_allocate_def)

lemma coherent_dropped:
  assumes "coherent V s" "content_of (index s) (as_str p) = None"
  shows "coherent (V(as_str p := x)) s"
  using assms by (auto simp: coherent_def)

lemma invalidate_content_ready:
  assumes "read_ready V s a pos sz"
  shows "read_ready (V(as_str p := x)) (invalidate_content s p) a pos sz"
proof -
  have "coherent (V(as_str p := x)) (invalidate_content s p)"
    using assms by (intro coherent_dropped invalidate_content_coherent) (auto simp: read_ready_def invalidate_content_spec)
  with assms show ?thesis
    by (simp add: read_ready_def invalidate_content_frame invalidate_content_inv invalidate_content_spec
        read_room_def can_allocate_def)
qed

lemma getattr_revalidates:
  assumes "\<not> offline v" "path_of (state v) n = Ok p" "\<not> metadata_fresh v p"
    and "rf_stat (remote v) p (world v) = (Ok a, w)"
  shows "vfs_getattr n v = (Ok \<lparr>node = n, attributes = a\<rparr>,
    v\<lparr>world := w, store := put_attrs (store v) p a, state := validate p (clock v w) (state v)\<rparr>)"
  using assms by (simp add: vfs_getattr_def Let_def now_def)

lemma vfs_read_current:
  assumes remote: "remote_answers (remote v) good file_of"
    and mode: "cache_mode v = OnDemand \<or> cache_mode v = Pinned"
    and h: "fmlookup (handles (state v)) h = Some fl" "path_of (state v) (of_node fl) = Ok (of_path fl)"
    and stale: "\<not> metadata_fresh v (of_path fl)"
    and stat: "rf_stat (remote v) (of_path fl) (world v) = (Ok a, w)" "good w"
    and f: "file_of w (of_path fl) = Some f" "length f = unat (fsize a)"
    and V: "V (as_str (of_path fl)) (fsize a) (modified_unix_seconds a) = f"
    and ready: "read_ready V (store v) a pos sz"
  shows "\<exists>v'. vfs_read h pos sz v = (Ok (take (unat sz) (drop (unat pos) f)), v')"
proof -
  have "\<not> offline v" using mode by (auto simp: offline_def)
  note g = getattr_revalidates[OF this h(2) stale stat(1)]
  obtain s' w' where "store_read (put_attrs (store v) (of_path fl) a) (of_path fl) (remote v) a pos sz w
      = (Ok (take (unat sz) (drop (unat pos) f)), s', w')"
    using remote_answers.store_read_total[OF remote, of "put_attrs (store v) (of_path fl) a" w "of_path fl" f V a pos sz]
      put_attrs_ready[OF ready, of "of_path fl" a] stat(2) f V
    unfolding read_ready_def by blast
  with h(1) g mode show ?thesis by (auto simp: vfs_read_def)
qed

section \<open>Properties\<close>


text \<open>
  C6: a mount sees its own writes.  After a successful write through a handle, the next read through it
  returns exactly what the server then holds, even if neither size nor modification time changed:
  the write discards the cached content and the freshness of the path.
\<close>

theorem read_sees_own_writes:
  assumes "remote_answers (remote v) good file_of"
    and "cache_mode v = OnDemand \<or> cache_mode v = Pinned"
    and "fmlookup (handles (state v)) h = Some fl" "path_of (state v) (of_node fl) = Ok (of_path fl)"
    and wr: "vfs_write h off data v = (Ok n, v1)"
    and "rf_stat (remote v) (of_path fl) (world v1) = (Ok a, w)" "good w"
    and "file_of w (of_path fl) = Some f" "length f = unat (fsize a)"
    and ready: "read_ready V (store v) a pos sz"
  shows "\<exists>v2. vfs_read h pos sz v1 = (Ok (take (unat sz) (drop (unat pos) f)), v2)"
proof -
  let ?p = "of_path fl" and ?V = "V(as_str (of_path fl) := \<lambda>_ _. f)"
  obtain w1 where v1: "v1 = v\<lparr>world := w1, store := invalidate_content (store v) ?p, state := unvalidate ?p (state v)\<rparr>"
    using wr assms(3) by (auto simp: vfs_write_def split: result.splits prod.splits)
  have tabs: "handles (state v1) = handles (state v)" "path_of (state v1) = path_of (state v)"
    by (simp_all add: v1 unvalidate_def path_of_def fun_eq_iff)
  have "\<not> offline v" using assms(2) by (auto simp: offline_def)
  then have stale: "\<not> metadata_fresh v1 ?p" by (simp add: v1 metadata_fresh_def offline_def unvalidate_def)
  have "read_ready ?V (store v1) a pos sz" using invalidate_content_ready[OF ready] by (simp add: v1)
  with assms tabs stale show ?thesis
    by (intro vfs_read_current[where V = ?V and fl = fl and w = w and a = a and good = good and file_of = file_of])
       (simp_all add: v1)
qed

text \<open>
  C18: metadata is cached for its time to live.  After a \<open>getattr\<close> that asked the server, every
  \<open>getattr\<close> of the node within the configured time returns the same answer without contacting the
  server and without changing the mount.
\<close>

theorem metadata_cached_for_ttl:
  assumes "\<not> offline v" "path_of (state v) n = Ok p" "\<not> metadata_fresh v p"
    and "rf_stat (remote v) p (world v) = (Ok a, w)" "vfs_getattr n v = (r, v1)"
    and "elapsed (clock v w2) (clock v w) < metadata_ttl v"
  shows "r = Ok \<lparr>node = n, attributes = a\<rparr> \<and>
    vfs_getattr n (v1\<lparr>world := w2\<rparr>) = (Ok \<lparr>node = n, attributes = a\<rparr>, v1\<lparr>world := w2\<rparr>)"
proof -
  have v1: "r = Ok \<lparr>node = n, attributes = a\<rparr>"
    "v1 = v\<lparr>world := w, store := put_attrs (store v) p a, state := validate p (clock v w) (state v)\<rparr>"
    using getattr_revalidates[OF assms(1-4)] assms(5) by simp_all
  with assms(2,6) show ?thesis
    by (simp add: vfs_getattr_def path_of_def validate_def metadata_fresh_def now_def get_put_attrs)
qed

lemma intern_again: "intern st p = (n, st') \<Longrightarrow> fmlookup (path_to_node st') p = Some n"
  by (auto simp: intern_def Let_def split: option.splits)

lemma intern_frame:
  "intern st p = (n, st') \<Longrightarrow> validated st' = validated st \<and> negative st' = negative st \<and>
     (\<forall>m q. fmlookup (node_to_path st) m = Some q \<longrightarrow> m \<noteq> NodeId (next_node st) \<longrightarrow> fmlookup (node_to_path st') m = Some q)"
  by (auto simp: intern_def Let_def split: option.splits)


lemma collect_children_known:
  "(\<And>name. name \<in> set names \<Longrightarrow> \<exists>child a. RemotePath_join p name = Ok child \<and> get_attrs s child = Some a) \<Longrightarrow>
   \<exists>cs. collect_children s p names = Some cs \<and> map fst cs = names"
proof (induction names)
  case Nil
  then show ?case by simp
next
  case (Cons name names)
  obtain child a where "RemotePath_join p name = Ok child" "get_attrs s child = Some a"
    using Cons.prems[of name] by auto
  moreover obtain cs where "collect_children s p names = Some cs" "map fst cs = names"
    using Cons by auto
  ultimately show ?case by simp
qed

lemma intern_all_names: "intern_all st cs = (es, st') \<Longrightarrow> map de_name es = map fst cs"
  by (induction st cs arbitrary: es st' rule: intern_all.induct) (auto split: prod.splits)

definition listing_cached :: "'j Store \<Rightarrow> RemotePath \<Rightarrow> string list \<Rightarrow> bool" where
  "listing_cached s p names \<longleftrightarrow> get_children s p = Some names \<and>
     (\<forall>name \<in> set names. \<exists>child a. RemotePath_join p name = Ok child \<and> get_attrs s child = Some a)"

lemma readdir_cached:
  assumes "listing_cached (store v) p names"
  obtains es st where "readdir_from_cache v p = Some (es, v\<lparr>state := st\<rparr>)" "map de_name es = names"
proof -
  obtain cs where cs: "collect_children (store v) p names = Some cs" "map fst cs = names"
    using collect_children_known[of names p "store v"] assms by (auto simp: listing_cached_def)
  obtain es st where i: "intern_all (state v) cs = (es, st)" by fastforce
  show thesis
    by (rule that[of es st]) (use cs i intern_all_names[OF i] assms in \<open>simp_all add: readdir_from_cache_def listing_cached_def\<close>)
qed

text \<open>
  C19: an outage is bridged from the cache.  When the server cannot be reached (the transport says
  \<open>Unavailable\<close>), \<open>getattr\<close> answers with the cached attributes and \<open>readdir\<close> with the cached listing,
  name by name and in its order, however old they are.
\<close>

theorem outage_serves_cache:
  assumes "\<not> offline v" "path_of (state v) n = Ok p"
    and "rf_stat (remote v) p (world v) = (Err (Unavailable msg), w)" "get_attrs (store v) p = Some a"
    and "rf_read_dir (remote v) p (world v) = (Err (Unavailable msg'), w')" "listing_cached (store v) p names"
  shows "fst (vfs_getattr n v) = Ok \<lparr>node = n, attributes = a\<rparr> \<and>
    (\<exists>es. fst (vfs_readdir n v) = Ok es \<and> map de_name es = names)"
proof
  show "fst (vfs_getattr n v) = Ok \<lparr>node = n, attributes = a\<rparr>"
    using assms(1-4) by (simp add: vfs_getattr_def Let_def)
  obtain es st where 1: "readdir_from_cache v p = Some (es, v\<lparr>state := st\<rparr>)" "map de_name es = names"
    using readdir_cached[OF assms(6)] .
  obtain es' st' where 2: "readdir_from_cache (v\<lparr>world := w'\<rparr>) p = Some (es', v\<lparr>world := w', state := st'\<rparr>)" "map de_name es' = names"
    using readdir_cached[of "v\<lparr>world := w'\<rparr>" p names] assms(6) by auto
  from 1 2 assms(1,2,5) show "\<exists>es. fst (vfs_readdir n v) = Ok es \<and> map de_name es = names"
    by (cases "metadata_fresh v p") (auto simp: vfs_readdir_def Let_def)
qed



section \<open>Concrete mounts of the in-memory remote\<close>

definition open_mount :: "(Index, MockState) CacheVfs" where
  "open_mount = fresh_mount\<lparr>state := (State_new RemotePath_root)\<lparr>next_node := 3, next_handle := 2,
     path_to_node := fmupd readme (NodeId 2) (path_to_node (State_new RemotePath_root)),
     node_to_path := fmupd (NodeId 2) readme (node_to_path (State_new RemotePath_root)),
     handles := fmupd (FileHandle 1) \<lparr>of_node = NodeId 2, of_path = readme\<rparr> fmempty\<rparr>\<rparr>"

lemmas mount_defs = open_mount_def fresh_mount_def CacheVfs_new_def State_new_def offline_def metadata_fresh_def
  path_of_def

lemma stat_readme:
  "mock_stat readme MockRemote_new = (Ok (file_attrs 5), MockRemote_new\<lparr>stat_calls := 1\<rparr>)"
  by (simp add: mock_stat_def MockRemote_new_def fmlookup_of_list Let_def readme_def)

lemma open_mount_ready: "read_ready (\<lambda>_ _ _. byte_string ''hello'') (store open_mount) (file_attrs 5) 1 3"
  using fixture_room by (simp add: read_ready_def mount_defs Store_new_fixture Store_new_inv Store_new_coherent)


definition jello_server :: MockState where
  "jello_server = MockRemote_new\<lparr>nodes := fmupd ''/readme.txt'' (file_attrs 5, Some (byte_string ''Jello'')) (nodes MockRemote_new)\<rparr>"

lemma write_readme: "mock_write readme 0 (byte_string ''J'') MockRemote_new = (Ok 1, jello_server)"
  by (simp add: mock_write_def jello_server_def MockRemote_new_def fmlookup_of_list Let_def readme_def byte_string_def
      file_attrs_def)

lemma stat_jello: "mock_stat readme jello_server = (Ok (file_attrs 5), jello_server\<lparr>stat_calls := 1\<rparr>)"
  by (simp add: mock_stat_def jello_server_def MockRemote_new_def Let_def readme_def)

theorem read_sees_own_writes_witness:
  "\<exists>v1 v2. vfs_write (FileHandle 1) 0 (byte_string ''J'') open_mount = (Ok 1, v1) \<and>
     vfs_read (FileHandle 1) 1 3 v1 = (Ok (byte_string ''ell''), v2)"
proof -
  obtain v1 where wr: "vfs_write (FileHandle 1) 0 (byte_string ''J'') open_mount = (Ok 1, v1)"
      and w1: "world v1 = jello_server"
    by (simp add: vfs_write_def ensure_writable_def mount_defs MockRemote_def write_readme)
  have "mock_file (jello_server\<lparr>stat_calls := 1\<rparr>) readme = Some (byte_string ''Jello'')"
    by (simp add: mock_file_def jello_server_def readme_def)
  moreover have "remote_answers (remote open_mount) (\<lambda>st. \<not> ms_unreachable st) mock_file"
    using mock.remote_answers_axioms by (simp add: mount_defs)
  ultimately have "\<exists>v2. vfs_read (FileHandle 1) 1 3 v1
      = (Ok (take (unat (3 :: u32)) (drop (unat (1 :: u64)) (byte_string ''Jello''))), v2)"
    by (intro read_sees_own_writes[OF _ _ _ _ wr, where fl = "\<lparr>of_node = NodeId 2, of_path = readme\<rparr>"
          and V = "\<lambda>_ _ _. byte_string ''hello''" and a = "file_attrs 5" and w = "jello_server\<lparr>stat_calls := 1\<rparr>"
          and good = "\<lambda>st. \<not> ms_unreachable st" and file_of = mock_file])
       (simp_all add: open_mount_ready w1,
        simp_all add: mount_defs MockRemote_def stat_jello, simp_all add: jello_server_def mock_fixture(2) byte_string_def file_attrs_def)
  with wr show ?thesis by (auto simp: byte_string_def)
qed

lemma stat_root: "mock_stat RemotePath_root MockRemote_new = (Ok dir_attrs, MockRemote_new\<lparr>stat_calls := 1\<rparr>)"
  by (simp add: mock_stat_def MockRemote_new_def fmlookup_of_list Let_def RemotePath_root_def)

theorem metadata_cached_for_ttl_witness:
  "\<exists>v1. vfs_getattr ROOT fresh_mount = (Ok \<lparr>node = ROOT, attributes = dir_attrs\<rparr>, v1) \<and>
     vfs_getattr ROOT v1 = (Ok \<lparr>node = ROOT, attributes = dir_attrs\<rparr>, v1)"
proof -
  obtain r v1 where g: "vfs_getattr ROOT fresh_mount = (r, v1)" by fastforce
  have "r = Ok \<lparr>node = ROOT, attributes = dir_attrs\<rparr> \<and>
      vfs_getattr ROOT (v1\<lparr>world := world v1\<rparr>) = (Ok \<lparr>node = ROOT, attributes = dir_attrs\<rparr>, v1\<lparr>world := world v1\<rparr>)"
    by (rule metadata_cached_for_ttl[OF _ _ _ _ g, where p = RemotePath_root and w = "MockRemote_new\<lparr>stat_calls := 1\<rparr>"])
       (simp_all add: mount_defs MockRemote_def stat_root elapsed_def secs_def)
  with g show ?thesis by simp
qed

lemma join_names:
  "RemotePath_join RemotePath_root ''new'' = Ok (RemotePath ''/new'')"
  "RemotePath_join RemotePath_root ''readme.txt'' = Ok readme"
  by (simp_all add: RemotePath_join_def RemotePath_new_def RemotePath_root_def trim_end_matches_def readme_def)


text \<open>A mount whose cache holds an old listing of the root, with \<open>sub\<close> as its only entry.\<close>

definition listed_mount :: "MockState \<Rightarrow> (Index, MockState) CacheVfs" where
  "listed_mount w = fresh_mount\<lparr>world := w, store :=
     put_attrs (put_attrs (record_listing (store fresh_mount) RemotePath_root [(''sub'', dir_attrs)])
       RemotePath_root dir_attrs) (RemotePath ''/sub'') dir_attrs\<rparr>"

lemma listed_mount_cached:
  "listing_cached (store (listed_mount w)) RemotePath_root [''sub'']"
  "get_attrs (store (listed_mount w)) RemotePath_root = Some dir_attrs"
  by (simp_all add: listing_cached_def listed_mount_def get_record_listing get_put_attrs join_sub)

theorem outage_serves_cache_witness:
  "fst (vfs_getattr ROOT (listed_mount (set_unreachable True MockRemote_new))) = Ok \<lparr>node = ROOT, attributes = dir_attrs\<rparr> \<and>
   (\<exists>es. fst (vfs_readdir ROOT (listed_mount (set_unreachable True MockRemote_new))) = Ok es \<and> map de_name es = [''sub''])"
proof -
  let ?w = "set_unreachable True MockRemote_new"
  have down: "mock_stat p ?w = (Err (Unavailable ''connection lost''), ?w\<lparr>stat_calls := 1\<rparr>)"
    "mock_read_dir p ?w = (Err (Unavailable ''connection lost''), ?w\<lparr>read_dir_calls := 1\<rparr>)" for p
    by (simp_all add: mock_stat_def mock_read_dir_def set_unreachable_def MockRemote_new_def connection_lost_def Let_def)
  show ?thesis
    by (rule outage_serves_cache[OF _ _ _ listed_mount_cached(2) _ listed_mount_cached(1)])
       (simp_all add: listed_mount_def mount_defs MockRemote_def down)
qed



end
