(* ===== verification/Ssh_Config.thy ===== *)
theory Ssh_Config
  imports Prelude
begin

text \<open>
  The OpenSSH client-config resolver (\<open>crates/cacheshfs-cli/src/ssh_config.rs\<close>).  Environment
  variables are a parameter (\<open>env\<close>), paths are strings with the Unix rules of \<open>PathBuf::join\<close>.

  The lemmas relate the single pass of \<open>resolve\<close> to a declarative reading of the file: the list of
  directives that apply to the alias, of which the first of each keyword counts.  The glob matcher
  is shown equivalent to the language of the pattern.
\<close>

section \<open>The resolver\<close>

type_synonym environment = "string \<Rightarrow> string option"

record SshHostConfig =
  sh_hostname :: "string option"
  sh_user :: "string option"
  sh_port :: "u16 option"
  sh_identity_files :: "string list"

definition SshHostConfig_default :: SshHostConfig where
  "SshHostConfig_default = \<lparr>sh_hostname = None, sh_user = None, sh_port = None, sh_identity_files = []\<rparr>"

definition home_dir :: "environment \<Rightarrow> string option" where
  "home_dir env = (case env ''HOME'' of Some h \<Rightarrow> Some h | None \<Rightarrow> env ''USERPROFILE'')"

definition default_config_path :: "environment \<Rightarrow> string option" where
  "default_config_path env = map_option (\<lambda>home. path_join (path_join home ''.ssh'') ''config'') (home_dir env)"

definition strip_comment :: "string \<Rightarrow> string" where
  "strip_comment line =
     (if CHR ''#'' \<in> set line
      then (let before = takeWhile (\<lambda>c. c \<noteq> CHR ''#'') line
            in if before = [] then []
               else if is_ascii_whitespace (last before) then before else line)
      else line)"

definition keyword_separator :: "char \<Rightarrow> bool" where
  "keyword_separator c \<longleftrightarrow> c = CHR ''='' \<or> is_whitespace c"

definition split_keyword :: "string \<Rightarrow> (string \<times> string) option" where
  "split_keyword line =
     (if list_ex keyword_separator line
      then (let keyword = takeWhile (\<lambda>c. \<not> keyword_separator c) line
            in if keyword = [] then None
               else Some (keyword,
                      trim (trim_start_matches keyword_separator (dropWhile (\<lambda>c. \<not> keyword_separator c) line))))
      else None)"

fun glob_match :: "string \<Rightarrow> string \<Rightarrow> bool" where
  "glob_match [] text = (text = [])"
| "glob_match (c # pattern) text =
     (if c = CHR ''*''
      then glob_match pattern text \<or> (case text of [] \<Rightarrow> False | _ # text' \<Rightarrow> glob_match (c # pattern) text')
      else if c = CHR ''?''
      then (case text of [] \<Rightarrow> False | _ # text' \<Rightarrow> glob_match pattern text')
      else (case text of [] \<Rightarrow> False | t # text' \<Rightarrow> t = c \<and> glob_match pattern text'))"

fun patterns_match :: "string list \<Rightarrow> string \<Rightarrow> bool \<Rightarrow> bool" where
  "patterns_match [] alias matched = matched"
| "patterns_match (pattern # rest) alias matched =
     (case strip_prefix ''!'' pattern of
        Some negated \<Rightarrow> (if glob_match negated alias then False else patterns_match rest alias matched)
      | None \<Rightarrow> patterns_match rest alias (if glob_match pattern alias then True else matched))"

definition host_patterns_match :: "string \<Rightarrow> string \<Rightarrow> bool" where
  "host_patterns_match patterns alias = patterns_match (split_whitespace patterns) alias False"

definition unquote :: "string \<Rightarrow> string" where
  "unquote v =
     (let v = trim v
      in if 2 \<le> length v \<and> prefix [CHR 0x22] v \<and> suffix [CHR 0x22] v
         then butlast (tl v) else v)"

definition expand_tilde :: "environment \<Rightarrow> string \<Rightarrow> string" where
  "expand_tilde env path =
     (if path = ''~'' then (case home_dir env of None \<Rightarrow> path | Some home \<Rightarrow> home)
      else (case (strip_prefix ''~/'' path, home_dir env) of
              (Some rest, Some home) \<Rightarrow> path_join home rest
            | _ \<Rightarrow> path))"

definition apply_directive :: "environment \<Rightarrow> string \<Rightarrow> string \<Rightarrow> SshHostConfig \<Rightarrow> SshHostConfig" where
  "apply_directive env keyword v cfg =
     (if keyword = ''hostname'' then
        (if sh_hostname cfg = None then cfg\<lparr>sh_hostname := Some (unquote v)\<rparr> else cfg)
      else if keyword = ''user'' then
        (if sh_user cfg = None then cfg\<lparr>sh_user := Some (unquote v)\<rparr> else cfg)
      else if keyword = ''port'' then
        (if sh_port cfg = None
         then (case parse_uint (2 ^ 16) (unquote v) of
                 None \<Rightarrow> cfg
               | Some port \<Rightarrow> cfg\<lparr>sh_port := Some (of_nat port)\<rparr>)
         else cfg)
      else if keyword = ''identityfile'' then
        cfg\<lparr>sh_identity_files := sh_identity_files cfg @ [expand_tilde env (unquote v)]\<rparr>
      else cfg)"

fun resolve_lines ::
  "environment \<Rightarrow> string \<Rightarrow> string list \<Rightarrow> bool \<Rightarrow> SshHostConfig \<Rightarrow> SshHostConfig" where
  "resolve_lines env alias [] active cfg = cfg"
| "resolve_lines env alias (raw # rest) active cfg =
     (let line = trim (strip_comment raw)
      in if line = [] then resolve_lines env alias rest active cfg
         else (case split_keyword line of
                 None \<Rightarrow> resolve_lines env alias rest active cfg
               | Some (keyword, v) \<Rightarrow>
                   (let keyword = to_ascii_lowercase keyword
                    in if keyword = ''host''
                       then resolve_lines env alias rest (host_patterns_match v alias) cfg
                       else if keyword = ''match'' then resolve_lines env alias rest False cfg
                       else if \<not> active then resolve_lines env alias rest active cfg
                       else resolve_lines env alias rest active (apply_directive env keyword v cfg))))"

definition resolve :: "environment \<Rightarrow> string \<Rightarrow> string \<Rightarrow> SshHostConfig" where
  "resolve env config alias = resolve_lines env alias (str_lines config) True SshHostConfig_default"

section \<open>Glob patterns\<close>

fun glob_language :: "string \<Rightarrow> string set" where
  "glob_language [] = {[]}"
| "glob_language (c # pattern) =
     (if c = CHR ''*'' then {u @ v | u v. v \<in> glob_language pattern}
      else if c = CHR ''?'' then {x # v | x v. v \<in> glob_language pattern}
      else {c # v | v. v \<in> glob_language pattern})"

lemma star_language:
  "(\<exists>u v. tx = u @ v \<and> v \<in> L) \<longleftrightarrow>
   tx \<in> L \<or> (\<exists>t tx'. tx = t # tx' \<and> (\<exists>u v. tx' = u @ v \<and> v \<in> L))"
proof
  assume "\<exists>u v. tx = u @ v \<and> v \<in> L"
  then obtain u v where "tx = u @ v" "v \<in> L" by blast
  then show "tx \<in> L \<or> (\<exists>t tx'. tx = t # tx' \<and> (\<exists>u v. tx' = u @ v \<and> v \<in> L))"
    by (cases u) auto
next
  assume "tx \<in> L \<or> (\<exists>t tx'. tx = t # tx' \<and> (\<exists>u v. tx' = u @ v \<and> v \<in> L))"
  then show "\<exists>u v. tx = u @ v \<and> v \<in> L"
    by (metis append_Cons append_Nil)
qed

text \<open>
  C29: the recursive matcher \<open>glob_match\<close> terminates on every pattern and text and accepts exactly the
  language of the pattern: a star stands for any run of characters, a question mark for one
  character, every other character for itself.
\<close>

theorem glob_match_language: "glob_match pattern tx \<longleftrightarrow> tx \<in> glob_language pattern"
proof (induction pattern tx rule: glob_match.induct)
  case (1 tx)
  then show ?case by simp
next
  case (2 c pattern tx)
  show ?case
  proof (cases "c = CHR ''*''")
    case True
    have "glob_match (c # pattern) tx \<longleftrightarrow> tx \<in> glob_language pattern
        \<or> (\<exists>t tx'. tx = t # tx' \<and> tx' \<in> glob_language (c # pattern))"
      using 2 True by (cases tx) auto
    also have "\<dots> \<longleftrightarrow> tx \<in> glob_language (c # pattern)"
      using True star_language[of tx "glob_language pattern"] by auto
    finally show ?thesis .
  next
    case False
    with 2 show ?thesis by (cases tx) auto
  qed
qed

section \<open>The declarative reading\<close>

definition parse_line :: "string \<Rightarrow> (string \<times> string) option" where
  "parse_line raw = map_option (map_prod to_ascii_lowercase id) (split_keyword (trim (strip_comment raw)))"

fun applicable :: "string \<Rightarrow> bool \<Rightarrow> (string \<times> string) list \<Rightarrow> (string \<times> string) list" where
  "applicable alias active [] = []"
| "applicable alias active ((keyword, v) # ds) =
     (if keyword = ''host'' then applicable alias (host_patterns_match v alias) ds
      else if keyword = ''match'' then applicable alias False ds
      else if active then (keyword, v) # applicable alias active ds
      else applicable alias active ds)"

definition directives :: "string \<Rightarrow> (string \<times> string) list" where
  "directives config = List.map_filter parse_line (str_lines config)"

definition settings :: "string \<Rightarrow> (string \<times> string) list \<Rightarrow> string list" where
  "settings keyword ds = map (unquote \<circ> snd) (filter (\<lambda>(k, _). k = keyword) ds)"

definition first_of :: "'a list \<Rightarrow> 'a option" where
  "first_of xs = (case xs of [] \<Rightarrow> None | x # _ \<Rightarrow> Some x)"


lemma resolve_lines_directives:
  "resolve_lines env al raws active cfg =
   fold (\<lambda>(k, v). apply_directive env k v) (applicable al active (List.map_filter parse_line raws)) cfg"
proof (induction env al raws active cfg rule: resolve_lines.induct)
  case (1 env al active cfg)
  then show ?case by (simp add: List.map_filter_simps)
next
  case (2 env al raw rest active cfg)
  show ?case
  proof (cases "split_keyword (trim (strip_comment raw))")
    case None
    with 2 show ?thesis by (simp add: parse_line_def List.map_filter_simps Let_def)
  next
    case (Some kv)
    then have "trim (strip_comment raw) \<noteq> []" by (auto simp: split_keyword_def)
    with 2 Some show ?thesis
      by (cases kv) (simp add: parse_line_def List.map_filter_simps Let_def)
  qed
qed

lemma first_of_simps [simp]: "first_of [] = None" "first_of (x # xs) = Some x"
  by (simp_all add: first_of_def)

lemma settings_Cons:
  "settings keyword ((k, v) # ds) = (if k = keyword then unquote v # settings keyword ds else settings keyword ds)"
  by (simp add: settings_def)

definition or_else :: "'a option \<Rightarrow> 'a option \<Rightarrow> 'a option" where
  "or_else x y = (case x of None \<Rightarrow> y | Some _ \<Rightarrow> x)"

definition settings_port :: "string \<Rightarrow> u16 option" where
  "settings_port v = map_option of_nat (parse_uint (2 ^ 16) v)"

lemma fold_directives:
  defines "ap \<equiv> \<lambda>env (k, v). apply_directive env k v"
  shows "sh_hostname (fold (ap env) ds cfg) = or_else (sh_hostname cfg) (first_of (settings ''hostname'' ds))"
    "sh_user (fold (ap env) ds cfg) = or_else (sh_user cfg) (first_of (settings ''user'' ds))"
    "sh_port (fold (ap env) ds cfg)
       = or_else (sh_port cfg) (first_of (List.map_filter settings_port (settings ''port'' ds)))"
    "sh_identity_files (fold (ap env) ds cfg)
       = sh_identity_files cfg @ map (expand_tilde env) (settings ''identityfile'' ds)"
proof (induction ds arbitrary: cfg)
  case Nil
  { case 1 then show ?case by (simp add: settings_def or_else_def split: option.splits)
  next
    case 2 then show ?case by (simp add: settings_def or_else_def split: option.splits)
  next
    case 3 then show ?case by (simp add: settings_def or_else_def List.map_filter_simps split: option.splits)
  next
    case 4 then show ?case by (simp add: settings_def)
  }
next
  case (Cons d ds)
  obtain k v where d: "d = (k, v)" by fastforce
  { case 1 show ?case
      unfolding d fold.simps o_def Cons by (simp add: ap_def apply_directive_def settings_Cons or_else_def split: option.splits)
  next
    case 2 show ?case
      unfolding d fold.simps o_def Cons by (simp add: ap_def apply_directive_def settings_Cons or_else_def split: option.splits)
  next
    case 3 show ?case
      unfolding d fold.simps o_def Cons
      by (simp add: ap_def apply_directive_def settings_Cons or_else_def settings_port_def[of "unquote v"]
          List.map_filter_simps split: option.splits)
  next
    case 4 show ?case
      unfolding d fold.simps o_def Cons
      by (simp add: ap_def apply_directive_def settings_Cons split: option.splits)
  }
qed

text \<open>
  C28: \<open>resolve\<close> implements OpenSSH's precedence.  Read the file as a list of directives and keep
  those that apply to the alias: the ones before the first \<open>Host\<close> line and those of \<open>Host\<close> blocks whose
  patterns match, never those of a \<open>Match\<close> block.  Then the resolved host name and user are the first
  such values, the port is the first one that is a number below 65536, and identity files
  accumulate in order.
\<close>

theorem resolve_first_value_wins:
  "resolve env config al = (let ds = applicable al True (directives config) in \<lparr>
    sh_hostname = first_of (settings ''hostname'' ds),
    sh_user = first_of (settings ''user'' ds),
    sh_port = first_of (List.map_filter settings_port (settings ''port'' ds)),
    sh_identity_files = map (expand_tilde env) (settings ''identityfile'' ds)\<rparr>)"
  by (rule SshHostConfig.equality)
     (simp_all add: resolve_def resolve_lines_directives fold_directives SshHostConfig_default_def or_else_def
       directives_def Let_def)

end
