(* ===== verification/Sftp_Transport.thy ===== *)
theory Sftp_Transport
  imports Core_Types Ssh_Config
begin

text \<open>
  The SSH/SFTP transport (\<open>crates/cacheshfs-sftp/src/lib.rs\<close>): targets and connection options, host-key
  verification, authentication, the conversions of attributes and errors, and the ten operations
  of \<open>RemoteFilesystem\<close>.

  The russh, russh-sftp and tokio crates are not part of the repository.  What the transport calls of
  them is a parameter: a record of state-passing functions for the SFTP session, one for the
  SSH client and one for the console; their error types are datatypes with the constructors that the
  code distinguishes.  A tokio timeout may expire at any await point of a read; the session's function
  \<open>expired\<close> decides it for each point.
\<close>

section \<open>Targets and options\<close>

record SftpTarget =
  st_username :: string
  st_host :: string
  st_port :: u16

record SftpConnectOptions =
  so_target :: SftpTarget
  so_known_hosts_files :: "string list"
  so_accept_unknown_hosts :: bool
  so_use_agent :: bool
  so_identity_files :: "string list"
  so_passphrase :: "string option"
  so_read_timeout :: duration

definition DEFAULT_READ_TIMEOUT :: duration where
  "DEFAULT_READ_TIMEOUT = secs 30"

definition default_username :: "environment \<Rightarrow> string result" where
  "default_username env =
     (case env ''USER'' of
        Some u \<Rightarrow> Ok u
      | None \<Rightarrow>
          (case env ''USERNAME'' of
             Some u \<Rightarrow> Ok u
           | None \<Rightarrow> Err (InvalidInput ''sftp target must include a username'')))"

definition default_known_hosts_files :: "environment \<Rightarrow> string list" where
  "default_known_hosts_files env =
     (case home_dir env of
        None \<Rightarrow> []
      | Some home \<Rightarrow> [path_join (path_join home ''.ssh'') ''known_hosts''])"

definition default_identity_files :: "environment \<Rightarrow> string list" where
  "default_identity_files env =
     (case home_dir env of
        None \<Rightarrow> []
      | Some home \<Rightarrow>
          map (path_join (path_join home ''.ssh'')) [''id_ed25519'', ''id_ecdsa'', ''id_rsa''])"

definition parse_port :: "string \<Rightarrow> u16 result" where
  "parse_port port =
     (case parse_uint (2 ^ 16) port of
        Some n \<Rightarrow> Ok (of_nat n)
      | None \<Rightarrow> Err (InvalidInput (''invalid sftp target port: '' @ port)))"

definition parse_host_and_port :: "string \<Rightarrow> (string \<times> u16) result" where
  "parse_host_and_port host_and_port =
     (if host_and_port = [] then Err (InvalidInput ''sftp target host is empty'')
      else
        (case strip_prefix ''['' host_and_port of
           Some rest \<Rightarrow>
             (case split_once CHR '']'' rest of
                None \<Rightarrow> Err (InvalidInput (''bracketed IPv6 host is missing '' @ CHR 0x27 # CHR '']'' # [CHR 0x27]))
              | Some (host, port) \<Rightarrow>
                  (case strip_prefix '':'' port of
                     Some port \<Rightarrow>
                       (if port \<noteq> []
                        then (case parse_port port of Err e \<Rightarrow> Err e | Ok n \<Rightarrow> Ok (host, n))
                        else Ok (host, 22))
                   | None \<Rightarrow>
                       Err (InvalidInput (''bracketed host port must follow '' @ CHR 0x27 # CHR '']'' # CHR 0x27 #
                            '' with '' @ CHR 0x27 # CHR '':'' # [CHR 0x27]))))
         | None \<Rightarrow>
             (case rsplit_once CHR '':'' host_and_port of
                Some (host, port) \<Rightarrow>
                  (if CHR '':'' \<notin> set host
                   then (case parse_port port of Err e \<Rightarrow> Err e | Ok n \<Rightarrow> Ok (host, n))
                   else Ok (host_and_port, 22))
              | None \<Rightarrow> Ok (host_and_port, 22))))"

definition SftpTarget_parse :: "environment \<Rightarrow> string \<Rightarrow> SftpTarget result" where
  "SftpTarget_parse env target =
     (case (case rsplit_once CHR ''@'' target of
              Some (username, host_and_port) \<Rightarrow>
                (if username \<noteq> [] then Ok (username, host_and_port)
                 else (case default_username env of Err e \<Rightarrow> Err e | Ok u \<Rightarrow> Ok (u, target)))
            | None \<Rightarrow> (case default_username env of Err e \<Rightarrow> Err e | Ok u \<Rightarrow> Ok (u, target))) of
        Err e \<Rightarrow> Err e
      | Ok (username, host_and_port) \<Rightarrow>
          (case parse_host_and_port host_and_port of
             Err e \<Rightarrow> Err e
           | Ok (host, port) \<Rightarrow> Ok \<lparr>st_username = username, st_host = host, st_port = port\<rparr>))"

definition for_target :: "environment \<Rightarrow> SftpTarget \<Rightarrow> SftpConnectOptions" where
  "for_target env target = \<lparr>
     so_target = target, so_known_hosts_files = default_known_hosts_files env,
     so_accept_unknown_hosts = False, so_use_agent = True,
     so_identity_files = default_identity_files env, so_passphrase = None,
     so_read_timeout = DEFAULT_READ_TIMEOUT\<rparr>"

definition accept_unknown_hosts :: "bool \<Rightarrow> SftpConnectOptions \<Rightarrow> SftpConnectOptions" where
  "accept_unknown_hosts b o' = o'\<lparr>so_accept_unknown_hosts := b\<rparr>"

definition with_known_hosts_file :: "string \<Rightarrow> SftpConnectOptions \<Rightarrow> SftpConnectOptions" where
  "with_known_hosts_file path o' = o'\<lparr>so_known_hosts_files := so_known_hosts_files o' @ [path]\<rparr>"

definition with_identity_file :: "string \<Rightarrow> SftpConnectOptions \<Rightarrow> SftpConnectOptions" where
  "with_identity_file path o' = o'\<lparr>so_identity_files := so_identity_files o' @ [path]\<rparr>"

definition with_passphrase :: "string \<Rightarrow> SftpConnectOptions \<Rightarrow> SftpConnectOptions" where
  "with_passphrase p o' = o'\<lparr>so_passphrase := Some p\<rparr>"

definition with_read_timeout :: "duration \<Rightarrow> SftpConnectOptions \<Rightarrow> SftpConnectOptions" where
  "with_read_timeout t o' = o'\<lparr>so_read_timeout := t\<rparr>"

section \<open>Errors and attributes\<close>

datatype io_kind = IoNotFound | IoAlreadyExists | IoPermissionDenied | IoOther

record io_error =
  io_kind_of :: io_kind
  io_message :: string

datatype status_code = NoSuchFile | StPermissionDenied | OpUnsupported | StOther

datatype sftp_error = Status status_code string | SftpOther string

datatype ssh_error =
    SshIO string
  | SshConnectionTimeout string
  | SshKeepaliveTimeout string
  | SshInactivityTimeout string
  | SshHUP string
  | SshDisconnect string
  | SshUnknownKey string
  | SshKeyChanged string
  | SshNotAuthenticated string
  | SshNoAuthMethod string
  | SshOther string

definition map_io_error :: "io_error \<Rightarrow> error" where
  "map_io_error e =
     (case io_kind_of e of
        IoNotFound \<Rightarrow> NotFound
      | IoAlreadyExists \<Rightarrow> AlreadyExists
      | IoPermissionDenied \<Rightarrow> PermissionDenied
      | IoOther \<Rightarrow> RemoteBackend (io_message e))"

fun map_sftp_error :: "sftp_error \<Rightarrow> error" where
  "map_sftp_error (Status code msg) =
     (case code of
        NoSuchFile \<Rightarrow> NotFound
      | StPermissionDenied \<Rightarrow> PermissionDenied
      | OpUnsupported \<Rightarrow> UnsupportedOperation ''remote sftp server does not support this operation''
      | StOther \<Rightarrow> RemoteBackend (''sftp error: '' @ msg))"
| "map_sftp_error (SftpOther msg) = RemoteBackend (''sftp error: '' @ msg)"

fun map_russh_error :: "ssh_error \<Rightarrow> error" where
  "map_russh_error (SshIO m) = Unavailable (''ssh connection error: '' @ m)"
| "map_russh_error (SshConnectionTimeout m) = Unavailable (''ssh connection lost: '' @ m)"
| "map_russh_error (SshKeepaliveTimeout m) = Unavailable (''ssh connection lost: '' @ m)"
| "map_russh_error (SshInactivityTimeout m) = Unavailable (''ssh connection lost: '' @ m)"
| "map_russh_error (SshHUP m) = Unavailable (''ssh connection lost: '' @ m)"
| "map_russh_error (SshDisconnect m) = Unavailable (''ssh connection lost: '' @ m)"
| "map_russh_error (SshUnknownKey m) = PermissionDenied"
| "map_russh_error (SshKeyChanged m) = PermissionDenied"
| "map_russh_error (SshNotAuthenticated m) = PermissionDenied"
| "map_russh_error (SshNoAuthMethod m) = PermissionDenied"
| "map_russh_error (SshOther m) = RemoteBackend (''ssh error: '' @ m)"

record SftpAttributes =
  at_size :: "u64 option"
  at_uid :: "u32 option"
  at_gid :: "u32 option"
  at_permissions :: "u32 option"
  at_atime :: "u32 option"
  at_mtime :: "u32 option"

definition SftpAttributes_empty :: SftpAttributes where
  "SftpAttributes_empty = \<lparr>at_size = None, at_uid = None, at_gid = None, at_permissions = None,
     at_atime = None, at_mtime = None\<rparr>"

datatype FileType = FtDir | FtSymlink | FtFile | FtOther

definition unwrap_or :: "'a \<Rightarrow> 'a option \<Rightarrow> 'a" where
  "unwrap_or d x = (case x of None \<Rightarrow> d | Some y \<Rightarrow> y)"

definition file_attributes :: "(SftpAttributes \<Rightarrow> FileType) \<Rightarrow> SftpAttributes \<Rightarrow> FileAttributes" where
  "file_attributes file_type m = \<lparr>
     kind = (case file_type m of FtDir \<Rightarrow> Directory | FtSymlink \<Rightarrow> Symlink | _ \<Rightarrow> File),
     fsize = unwrap_or 0 (at_size m), mode = unwrap_or 0 (at_permissions m),
     uid = unwrap_or 0 (at_uid m), gid = unwrap_or 0 (at_gid m),
     modified_unix_seconds = map_option ucast (at_mtime m),
     accessed_unix_seconds = map_option ucast (at_atime m),
     changed_unix_seconds = None\<rparr>"

definition set_attributes :: "SetAttributes \<Rightarrow> SftpAttributes" where
  "set_attributes sa = SftpAttributes_empty\<lparr>
     at_size := sa_size sa, at_permissions := sa_mode sa,
     at_atime := map_option ucast (sa_accessed sa), at_mtime := map_option ucast (sa_modified sa)\<rparr>"

section \<open>The session and the remote operations\<close>

datatype OpenMode = OpenRead | OpenWrite | OpenCreateExcludeWrite

record ('f, 'w) SftpSession =
  se_file_type :: "SftpAttributes \<Rightarrow> FileType"
  se_metadata :: "string \<Rightarrow> 'w \<Rightarrow> (sftp_error + SftpAttributes) \<times> 'w"
  se_read_dir :: "string \<Rightarrow> 'w \<Rightarrow> (sftp_error + (string \<times> SftpAttributes) list) \<times> 'w"
  se_open :: "string \<Rightarrow> OpenMode \<Rightarrow> SftpAttributes \<Rightarrow> 'w \<Rightarrow> (sftp_error + 'f) \<times> 'w"
  se_seek :: "'f \<Rightarrow> u64 \<Rightarrow> 'w \<Rightarrow> (io_error + unit) \<times> 'w"
  se_file_read :: "'f \<Rightarrow> nat \<Rightarrow> 'w \<Rightarrow> (io_error + bytes) \<times> 'w"
  se_write_all :: "'f \<Rightarrow> bytes \<Rightarrow> 'w \<Rightarrow> (io_error + unit) \<times> 'w"
  se_flush :: "'f \<Rightarrow> 'w \<Rightarrow> (io_error + unit) \<times> 'w"
  se_create_dir :: "string \<Rightarrow> 'w \<Rightarrow> (sftp_error + unit) \<times> 'w"
  se_set_metadata :: "string \<Rightarrow> SftpAttributes \<Rightarrow> 'w \<Rightarrow> (sftp_error + unit) \<times> 'w"
  se_remove_file :: "string \<Rightarrow> 'w \<Rightarrow> (sftp_error + unit) \<times> 'w"
  se_remove_dir :: "string \<Rightarrow> 'w \<Rightarrow> (sftp_error + unit) \<times> 'w"
  se_rename :: "string \<Rightarrow> string \<Rightarrow> 'w \<Rightarrow> (sftp_error + unit) \<times> 'w"
  se_expired :: "'w \<Rightarrow> bool"

fun sftp_result :: "(sftp_error + 'a) \<times> 'w \<Rightarrow> 'a result \<times> 'w" where
  "sftp_result (Inl e, w) = (Err (map_sftp_error e), w)"
| "sftp_result (Inr x, w) = (Ok x, w)"

fun io_result :: "(io_error + 'a) \<times> 'w \<Rightarrow> 'a result \<times> 'w" where
  "io_result (Inl e, w) = (Err (map_io_error e), w)"
| "io_result (Inr x, w) = (Ok x, w)"

definition and_then :: "'a result \<times> 'w \<Rightarrow> ('a \<Rightarrow> 'w \<Rightarrow> 'b result \<times> 'w) \<Rightarrow> 'b result \<times> 'w" where
  "and_then x f = (case x of (Err e, w) \<Rightarrow> (Err e, w) | (Ok a, w) \<Rightarrow> f a w)"

definition sftp_stat :: "('f, 'w) SftpSession \<Rightarrow> RemotePath \<Rightarrow> 'w \<Rightarrow> FileAttributes result \<times> 'w" where
  "sftp_stat se path w =
     and_then (sftp_result (se_metadata se (as_str path) w))
       (\<lambda>m w. (Ok (file_attributes (se_file_type se) m), w))"

definition sftp_read_dir :: "('f, 'w) SftpSession \<Rightarrow> RemotePath \<Rightarrow> 'w \<Rightarrow> RemoteDirectoryEntry list result \<times> 'w" where
  "sftp_read_dir se path w =
     and_then (sftp_result (se_read_dir se (as_str path) w))
       (\<lambda>es w. (Ok (map (\<lambda>(name, m). \<lparr>re_name = name,
                      re_attributes = file_attributes (se_file_type se) m\<rparr>) es), w))"

definition read_timed_out :: "duration \<Rightarrow> error" where
  "read_timed_out t = Unavailable (''remote read timed out after '' @ show_nat (t div 1000000000) @ ''s'')"

function sftp_read_loop ::
  "('f, 'w) SftpSession \<Rightarrow> duration \<Rightarrow> 'f \<Rightarrow> nat \<Rightarrow> bytes \<Rightarrow> 'w \<Rightarrow> bytes result \<times> 'w" where
  "sftp_read_loop se t file len buffer w =
     (if length buffer < len then
        if se_expired se w then (Err (read_timed_out t), w)
        else
          (case io_result (se_file_read se file (len - length buffer) w) of
             (Err e, w') \<Rightarrow> (Err e, w')
           | (Ok data, w') \<Rightarrow>
               (let data = take (len - length buffer) data
                in if data = [] then (Ok buffer, w') else sftp_read_loop se t file len (buffer @ data) w'))
      else (Ok buffer, w))"
  by pat_completeness auto
termination
  by (relation "measure (\<lambda>(se, t, file, len, buffer, w). len - length buffer)")
     (auto intro!: diff_less_mono2)

declare sftp_read_loop.simps [simp del]

definition sftp_read ::
  "('f, 'w) SftpSession \<Rightarrow> duration \<Rightarrow> RemotePath \<Rightarrow> u64 \<Rightarrow> u32 \<Rightarrow> 'w \<Rightarrow> bytes result \<times> 'w" where
  "sftp_read se t path offset sz w =
     (if se_expired se w then (Err (read_timed_out t), w)
      else
        and_then (sftp_result (se_open se (as_str path) OpenRead SftpAttributes_empty w)) (\<lambda>file w.
          if se_expired se w then (Err (read_timed_out t), w)
          else
            and_then (io_result (se_seek se file offset w)) (\<lambda>_ w.
              sftp_read_loop se t file (unat sz) [] w)))"

definition sftp_write ::
  "('f, 'w) SftpSession \<Rightarrow> RemotePath \<Rightarrow> u64 \<Rightarrow> bytes \<Rightarrow> 'w \<Rightarrow> u32 result \<times> 'w" where
  "sftp_write se path offset data w =
     and_then (sftp_result (se_open se (as_str path) OpenWrite SftpAttributes_empty w)) (\<lambda>file w.
       and_then (io_result (se_seek se file offset w)) (\<lambda>_ w.
         and_then (io_result (se_write_all se file data w)) (\<lambda>_ w.
           and_then (io_result (se_flush se file w)) (\<lambda>_ w. (Ok (of_nat (length data)), w)))))"

definition sftp_create :: "('f, 'w) SftpSession \<Rightarrow> RemotePath \<Rightarrow> u32 \<Rightarrow> 'w \<Rightarrow> FileAttributes result \<times> 'w" where
  "sftp_create se path m w =
     and_then (sftp_result (se_open se (as_str path) OpenCreateExcludeWrite
                 (SftpAttributes_empty\<lparr>at_permissions := Some m\<rparr>) w)) (\<lambda>_ w. sftp_stat se path w)"

definition sftp_mkdir :: "('f, 'w) SftpSession \<Rightarrow> RemotePath \<Rightarrow> u32 \<Rightarrow> 'w \<Rightarrow> FileAttributes result \<times> 'w" where
  "sftp_mkdir se path m w =
     and_then (sftp_result (se_create_dir se (as_str path) w)) (\<lambda>_ w.
       case se_set_metadata se (as_str path) (SftpAttributes_empty\<lparr>at_permissions := Some m\<rparr>) w of
         (_, w) \<Rightarrow> sftp_stat se path w)"

definition sftp_unlink :: "('f, 'w) SftpSession \<Rightarrow> RemotePath \<Rightarrow> 'w \<Rightarrow> unit result \<times> 'w" where
  "sftp_unlink se path w = sftp_result (se_remove_file se (as_str path) w)"

definition sftp_rmdir :: "('f, 'w) SftpSession \<Rightarrow> RemotePath \<Rightarrow> 'w \<Rightarrow> unit result \<times> 'w" where
  "sftp_rmdir se path w = sftp_result (se_remove_dir se (as_str path) w)"

definition sftp_rename :: "('f, 'w) SftpSession \<Rightarrow> RemotePath \<Rightarrow> RemotePath \<Rightarrow> 'w \<Rightarrow> unit result \<times> 'w" where
  "sftp_rename se from to w = sftp_result (se_rename se (as_str from) (as_str to) w)"

definition sftp_setattr ::
  "('f, 'w) SftpSession \<Rightarrow> RemotePath \<Rightarrow> SetAttributes \<Rightarrow> 'w \<Rightarrow> FileAttributes result \<times> 'w" where
  "sftp_setattr se path sa w =
     and_then (sftp_result (se_set_metadata se (as_str path) (set_attributes sa) w))
       (\<lambda>_ w. sftp_stat se path w)"

definition SftpBackend :: "('f, 'w) SftpSession \<Rightarrow> duration \<Rightarrow> 'w RemoteFilesystem" where
  "SftpBackend se t = \<lparr>
     rf_stat = sftp_stat se, rf_read_dir = sftp_read_dir se, rf_read = sftp_read se t,
     rf_write = sftp_write se, rf_create = sftp_create se, rf_mkdir = sftp_mkdir se,
     rf_unlink = sftp_unlink se, rf_rmdir = sftp_rmdir se, rf_rename = sftp_rename se,
     rf_setattr = sftp_setattr se\<rparr>"

section \<open>Host-key verification\<close>

datatype HostKeyStatus = Known | Changed | Unknown

record ClientHandler =
  ch_known_hosts_files :: "string list"
  ch_accept_unknown_hosts :: bool
  ch_host :: string
  ch_port :: u16

datatype target_os = Unix | Windows | OtherOs

datatype AgentEndpoint = EnvSocket | NamedPipe string | Pageant

record ('k, 'w) ssh_client =
  kh_exists :: "string \<Rightarrow> 'w \<Rightarrow> bool"
  kh_check :: "string \<Rightarrow> u16 \<Rightarrow> 'k \<Rightarrow> string \<Rightarrow> 'w \<Rightarrow> bool option" \<comment> \<open>\<open>None\<close>: an error\<close>
  kh_learn :: "string \<Rightarrow> u16 \<Rightarrow> 'k \<Rightarrow> string option \<Rightarrow> 'w \<Rightarrow> bool \<times> 'w"
  co_is_terminal :: "'w \<Rightarrow> bool"
  co_read_line :: "'w \<Rightarrow> string option \<times> 'w"
  cl_runtime :: "'w \<Rightarrow> (string + unit) \<times> 'w"
  cl_connect :: "string \<Rightarrow> u16 \<Rightarrow> ('k \<Rightarrow> 'w \<Rightarrow> bool \<times> 'w) \<Rightarrow> 'w \<Rightarrow> (ssh_error + unit) \<times> 'w"
  cl_rsa_hash :: "'w \<Rightarrow> string option \<times> 'w"
  cl_is_rsa :: "'k \<Rightarrow> bool"
  cl_target_os :: target_os
  cl_auth_sock :: "string option"
  cl_agent_connect :: "AgentEndpoint \<Rightarrow> 'w \<Rightarrow> bool \<times> 'w"
  cl_agent_identities :: "AgentEndpoint \<Rightarrow> 'w \<Rightarrow> ('k option) list option \<times> 'w" \<comment> \<open>\<open>None\<close> in the list: a certificate\<close>
  cl_auth_agent :: "AgentEndpoint \<Rightarrow> string \<Rightarrow> 'k \<Rightarrow> string option \<Rightarrow> 'w \<Rightarrow> bool option \<times> 'w"
  cl_file_exists :: "string \<Rightarrow> 'w \<Rightarrow> bool"
  cl_load_key :: "string \<Rightarrow> string option \<Rightarrow> 'w \<Rightarrow> 'k option"
  cl_auth_key :: "string \<Rightarrow> 'k \<Rightarrow> string option \<Rightarrow> 'w \<Rightarrow> bool option \<times> 'w"
  cl_channel :: "'w \<Rightarrow> (ssh_error + unit) \<times> 'w"
  cl_subsystem :: "string \<Rightarrow> 'w \<Rightarrow> (ssh_error + unit) \<times> 'w"
  cl_sftp :: "'w \<Rightarrow> (sftp_error + unit) \<times> 'w"

fun classify_files :: "('k, 'w) ssh_client \<Rightarrow> string \<Rightarrow> u16 \<Rightarrow> 'k \<Rightarrow> string list \<Rightarrow> 'w \<Rightarrow> HostKeyStatus" where
  "classify_files cl host port key [] w = Unknown"
| "classify_files cl host port key (path # rest) w =
     (if \<not> kh_exists cl path w then classify_files cl host port key rest w
      else (case kh_check cl host port key path w of
              Some True \<Rightarrow> Known
            | Some False \<Rightarrow> classify_files cl host port key rest w
            | None \<Rightarrow> Changed))"

definition classify_host_key :: "('k, 'w) ssh_client \<Rightarrow> ClientHandler \<Rightarrow> 'k \<Rightarrow> 'w \<Rightarrow> HostKeyStatus" where
  "classify_host_key cl ch key w = classify_files cl (ch_host ch) (ch_port ch) key (ch_known_hosts_files ch) w"

definition prompt_unknown_host ::
  "('k, 'w) ssh_client \<Rightarrow> string \<Rightarrow> u16 \<Rightarrow> 'k \<Rightarrow> string option \<Rightarrow> 'w \<Rightarrow> bool \<times> 'w" where
  "prompt_unknown_host cl host port key known_hosts_path w =
     (if \<not> co_is_terminal cl w then (False, w)
      else (case co_read_line cl w of
              (None, w) \<Rightarrow> (False, w)
            | (Some answer, w) \<Rightarrow>
                if to_ascii_lowercase (trim answer) \<noteq> ''yes'' then (False, w)
                else (case kh_learn cl host port key known_hosts_path w of (_, w) \<Rightarrow> (True, w))))"

definition check_server_key :: "('k, 'w) ssh_client \<Rightarrow> ClientHandler \<Rightarrow> 'k \<Rightarrow> 'w \<Rightarrow> bool \<times> 'w" where
  "check_server_key cl ch key w =
     (case classify_host_key cl ch key w of
        Known \<Rightarrow> (True, w)
      | Changed \<Rightarrow> (False, w)
      | Unknown \<Rightarrow>
          if ch_accept_unknown_hosts ch then (True, w)
          else prompt_unknown_host cl (ch_host ch) (ch_port ch) key
                 (case ch_known_hosts_files ch of [] \<Rightarrow> None | path # _ \<Rightarrow> Some path) w)"

section \<open>Authentication and connection\<close>

fun try_identities ::
  "('k, 'w) ssh_client \<Rightarrow> AgentEndpoint \<Rightarrow> string \<Rightarrow> string option \<Rightarrow> 'k option list \<Rightarrow> 'w \<Rightarrow> bool \<times> 'w" where
  "try_identities cl agent user rsa_hash [] w = (False, w)"
| "try_identities cl agent user rsa_hash (None # rest) w = try_identities cl agent user rsa_hash rest w"
| "try_identities cl agent user rsa_hash (Some key # rest) w =
     (case cl_auth_agent cl agent user key (if cl_is_rsa cl key then rsa_hash else None) w of
        (Some True, w) \<Rightarrow> (True, w)
      | (_, w) \<Rightarrow> try_identities cl agent user rsa_hash rest w)"

definition authenticate_with_agent ::
  "('k, 'w) ssh_client \<Rightarrow> AgentEndpoint \<Rightarrow> string \<Rightarrow> string option \<Rightarrow> 'w \<Rightarrow> bool \<times> 'w" where
  "authenticate_with_agent cl agent user rsa_hash w =
     (case cl_agent_identities cl agent w of
        (None, w) \<Rightarrow> (False, w)
      | (Some identities, w) \<Rightarrow> try_identities cl agent user rsa_hash identities w)"

definition try_agent ::
  "('k, 'w) ssh_client \<Rightarrow> AgentEndpoint \<Rightarrow> string \<Rightarrow> string option \<Rightarrow> 'w \<Rightarrow> bool \<times> 'w" where
  "try_agent cl agent user rsa_hash w =
     (case cl_agent_connect cl agent w of
        (True, w) \<Rightarrow> authenticate_with_agent cl agent user rsa_hash w
      | (False, w) \<Rightarrow> (False, w))"

fun try_pipes ::
  "('k, 'w) ssh_client \<Rightarrow> string list \<Rightarrow> string \<Rightarrow> string option \<Rightarrow> 'w \<Rightarrow> bool \<times> 'w" where
  "try_pipes cl [] user rsa_hash w = try_agent cl Pageant user rsa_hash w"
| "try_pipes cl (pipe # pipes) user rsa_hash w =
     (case try_agent cl (NamedPipe pipe) user rsa_hash w of
        (True, w) \<Rightarrow> (True, w)
      | (False, w) \<Rightarrow> try_pipes cl pipes user rsa_hash w)"

definition agent_pipes :: "string option \<Rightarrow> string list" where
  "agent_pipes sock = (case sock of Some s \<Rightarrow> [s] | None \<Rightarrow> []) @
     [CHR 0x5C # CHR 0x5C # CHR ''.'' # CHR 0x5C # ''pipe'' @ CHR 0x5C # ''openssh-ssh-agent'']"

definition try_agent_auth :: "('k, 'w) ssh_client \<Rightarrow> string \<Rightarrow> string option \<Rightarrow> 'w \<Rightarrow> bool \<times> 'w" where
  "try_agent_auth cl user rsa_hash w =
     (case cl_target_os cl of
        Unix \<Rightarrow> try_agent cl EnvSocket user rsa_hash w
      | Windows \<Rightarrow> try_pipes cl (agent_pipes (cl_auth_sock cl)) user rsa_hash w
      | OtherOs \<Rightarrow> (False, w))"

fun try_identity_files ::
  "('k, 'w) ssh_client \<Rightarrow> string \<Rightarrow> string option \<Rightarrow> string option \<Rightarrow> string list \<Rightarrow> 'w \<Rightarrow> unit result \<times> 'w" where
  "try_identity_files cl user passphrase rsa_hash [] w = (Err PermissionDenied, w)"
| "try_identity_files cl user passphrase rsa_hash (path # rest) w =
     (if \<not> cl_file_exists cl path w then try_identity_files cl user passphrase rsa_hash rest w
      else (case cl_load_key cl path passphrase w of
              None \<Rightarrow> try_identity_files cl user passphrase rsa_hash rest w
            | Some key \<Rightarrow>
                (case cl_auth_key cl user key rsa_hash w of
                   (Some True, w) \<Rightarrow> (Ok (), w)
                 | (_, w) \<Rightarrow> try_identity_files cl user passphrase rsa_hash rest w)))"

definition authenticate :: "('k, 'w) ssh_client \<Rightarrow> SftpConnectOptions \<Rightarrow> 'w \<Rightarrow> unit result \<times> 'w" where
  "authenticate cl opts w =
     (case cl_rsa_hash cl w of
        (rsa_hash, w) \<Rightarrow>
          (case (if so_use_agent opts then try_agent_auth cl (st_username (so_target opts)) rsa_hash w
                 else (False, w)) of
             (True, w) \<Rightarrow> (Ok (), w)
           | (False, w) \<Rightarrow>
               try_identity_files cl (st_username (so_target opts)) (so_passphrase opts) rsa_hash
                 (so_identity_files opts) w))"

fun ssh_result :: "(ssh_error + 'a) \<times> 'w \<Rightarrow> 'a result \<times> 'w" where
  "ssh_result (Inl e, w) = (Err (map_russh_error e), w)"
| "ssh_result (Inr x, w) = (Ok x, w)"

definition connect_async :: "('k, 'w) ssh_client \<Rightarrow> SftpConnectOptions \<Rightarrow> 'w \<Rightarrow> unit result \<times> 'w" where
  "connect_async cl opts w =
     (let handler = \<lparr>ch_known_hosts_files = so_known_hosts_files opts,
                     ch_accept_unknown_hosts = so_accept_unknown_hosts opts,
                     ch_host = st_host (so_target opts), ch_port = st_port (so_target opts)\<rparr>
      in and_then (ssh_result (cl_connect cl (st_host (so_target opts)) (st_port (so_target opts))
                     (check_server_key cl handler) w)) (\<lambda>_ w.
         and_then (authenticate cl opts w) (\<lambda>_ w.
         and_then (ssh_result (cl_channel cl w)) (\<lambda>_ w.
         and_then (ssh_result (cl_subsystem cl ''sftp'' w)) (\<lambda>_ w.
         sftp_result (cl_sftp cl w))))))"

definition connect_with_options ::
  "('k, 'w) ssh_client \<Rightarrow> ('f, 'w) SftpSession \<Rightarrow> SftpConnectOptions \<Rightarrow> 'w \<Rightarrow> 'w RemoteFilesystem result \<times> 'w" where
  "connect_with_options cl se opts w =
     (case cl_runtime cl w of
        (Inl m, w) \<Rightarrow> (Err (Unavailable (''failed to start ssh transport runtime: '' @ m)), w)
      | (Inr _, w) \<Rightarrow>
          and_then (connect_async cl opts w) (\<lambda>_ w. (Ok (SftpBackend se (so_read_timeout opts)), w)))"

definition connect_target ::
  "('k, 'w) ssh_client \<Rightarrow> ('f, 'w) SftpSession \<Rightarrow> environment \<Rightarrow> SftpTarget \<Rightarrow> 'w \<Rightarrow> 'w RemoteFilesystem result \<times> 'w" where
  "connect_target cl se env target w = connect_with_options cl se (for_target env target) w"

definition sftp_connect ::
  "('k, 'w) ssh_client \<Rightarrow> ('f, 'w) SftpSession \<Rightarrow> environment \<Rightarrow> string \<Rightarrow> 'w \<Rightarrow> 'w RemoteFilesystem result \<times> 'w" where
  "sftp_connect cl se env target w =
     (case SftpTarget_parse env target of
        Err e \<Rightarrow> (Err e, w)
      | Ok t \<Rightarrow> connect_target cl se env t w)"

end
