(* ===== verification/Cli_Options.thy ===== *)
theory Cli_Options
  imports Sftp_Transport Cache_Vfs
begin

text \<open>
  The command line (\<open>crates/cacheshfs-cli/src/cli.rs\<close> and \<open>main.rs\<close>): the options record that clap fills,
  their translation into a \<open>MountConfig\<close> and into SFTP connection options, the small parsers for
  remotes, durations and byte sizes, the lexical test that keeps the cache out of the mount, and the
  function \<open>run\<close> that wires everything together.

  clap itself, the environment, the reading of the ssh config, the network and the platform's mount
  call are parameters.  Errors of this crate are strings: \<open>Inl\<close> is Rust's \<open>Err\<close>.  Arithmetic is that
  of a release build: an overflowing \<open>u64\<close> product wraps.
\<close>

section \<open>Options\<close>

datatype CacheModeArg = ArgRemote | ArgOnDemand | ArgPinned | ArgOffline

fun cache_mode_of :: "CacheModeArg \<Rightarrow> CacheMode" where
  "cache_mode_of ArgRemote = Remote"
| "cache_mode_of ArgOnDemand = OnDemand"
| "cache_mode_of ArgPinned = Pinned"
| "cache_mode_of ArgOffline = Offline"

record Cli =
  cli_remote :: string
  cli_mountpoint :: string
  cli_cache_dir :: "string option"
  cli_cache_mode :: CacheModeArg
  cli_cache_chunk_size :: "string option"
  cli_read_only :: bool
  cli_port :: "u16 option"
  cli_identity_file :: "string option"
  cli_accept_unknown_host_key :: bool
  cli_ssh_config :: "string option"
  cli_metadata_ttl :: "string option"
  cli_remote_read_timeout :: "string option"
  cli_content_ttl :: "string option"
  cli_download :: "string option"
  cli_allow_other :: bool

definition unwired_options :: "Cli \<Rightarrow> string list" where
  "unwired_options cli =
     (if cli_content_ttl cli \<noteq> None then [''--content-ttl''] else []) @
     (if cli_download cli \<noteq> None then [''--download''] else []) @
     (if cli_allow_other cli then [''--allow-other''] else [])"

section \<open>Parsers\<close>

definition quoted :: "string \<Rightarrow> string" where
  "quoted s = CHR 0x27 # s @ [CHR 0x27]"

definition DEFAULT_METADATA_TTL :: duration where
  "DEFAULT_METADATA_TTL = secs 5"

definition invalid_duration :: "string \<Rightarrow> string" where
  "invalid_duration txt = ''invalid duration '' @ quoted txt @ '' (use e.g. 30s, 5m, 1h, 500ms)''"

definition duration_unit :: "string \<Rightarrow> string \<times> string" where
  "duration_unit txt =
     (case strip_suffix ''ms'' txt of Some rest \<Rightarrow> (rest, ''ms'')
      | None \<Rightarrow> (case strip_suffix ''s'' txt of Some rest \<Rightarrow> (rest, ''s'')
      | None \<Rightarrow> (case strip_suffix ''m'' txt of Some rest \<Rightarrow> (rest, ''m'')
      | None \<Rightarrow> (case strip_suffix ''h'' txt of Some rest \<Rightarrow> (rest, ''h'')
      | None \<Rightarrow> (txt, ''s'')))))"

definition parse_duration :: "string \<Rightarrow> string + duration" where
  "parse_duration txt =
     (let txt = trim txt
      in case duration_unit txt of
           (v, unit) \<Rightarrow>
             (case parse_uint (2 ^ 64) (trim v) of
                None \<Rightarrow> Inl (invalid_duration txt)
              | Some n \<Rightarrow>
                  (let value = (of_nat n :: u64)
                   in if unit = ''ms'' then Inr (unat value * 1000000)
                      else if unit = ''s'' then Inr (secs (unat value))
                      else if unit = ''m'' then Inr (secs (unat (value * 60)))
                      else if unit = ''h'' then Inr (secs (unat (value * 3600)))
                      else Inl (invalid_duration txt))))"

definition parse_remote :: "string \<Rightarrow> string + RemoteConfig" where
  "parse_remote spec =
     (case split_once CHR '':'' spec of
        None \<Rightarrow> Inl (''invalid remote '' @ quoted spec @ '': expected the form [user@]host:/remote/path'')
      | Some (target, root) \<Rightarrow>
          if target = [] then Inl (''invalid remote '' @ quoted spec @ '': missing host before '' @ quoted '':'')
          else if root = []
          then Inl (''invalid remote '' @ quoted spec @ '': missing remote path after '' @ quoted '':'')
          else Inr \<lparr>rc_target = target, rc_root = root\<rparr>)"

definition size_multiplier :: "string \<Rightarrow> u64 option" where
  "size_multiplier suff =
     (if suff \<in> {'''', ''b''} then Some 1
      else if suff \<in> {''k'', ''kb'', ''kib''} then Some 1024
      else if suff \<in> {''m'', ''mb'', ''mib''} then Some (1024 * 1024)
      else if suff \<in> {''g'', ''gb'', ''gib''} then Some (1024 * 1024 * 1024)
      else None)"

definition parse_byte_size :: "string \<Rightarrow> string + u64" where
  "parse_byte_size txt =
     (let trimmed = trim txt
      in if trimmed = [] then Inl ''byte size must not be empty''
         else
           (let digits = takeWhile is_ascii_digit trimmed
            in if digits = [] then Inl (''invalid byte size '' @ quoted txt)
               else
                 (case parse_uint (2 ^ 64) digits of
                    None \<Rightarrow> Inl (''invalid byte size '' @ quoted txt)
                  | Some n \<Rightarrow>
                      if n = 0 then Inl ''byte size must be greater than zero''
                      else
                        (case size_multiplier (to_ascii_lowercase (trim (dropWhile is_ascii_digit trimmed))) of
                           None \<Rightarrow> Inl (''invalid byte size suffix in '' @ quoted txt)
                         | Some multiplier \<Rightarrow>
                             (case checked_mul (of_nat n) multiplier of
                                None \<Rightarrow> Inl (''byte size '' @ quoted txt @ '' is too large'')
                              | Some sz \<Rightarrow> Inr sz)))))"

definition default_cache_dir :: "environment \<Rightarrow> string" where
  "default_cache_dir env =
     (case env ''LOCALAPPDATA'' of
        Some base \<Rightarrow> path_join (path_join base ''cacheshfs'') ''cache''
      | None \<Rightarrow>
          (case env ''XDG_CACHE_HOME'' of
             Some base \<Rightarrow> path_join base ''cacheshfs''
           | None \<Rightarrow>
               (case env ''HOME'' of
                  Some home \<Rightarrow> path_join (path_join home ''.cache'') ''cacheshfs''
                | None \<Rightarrow> ''.cacheshfs-cache'')))"

section \<open>The lexical containment test\<close>

datatype Component = RootDir | CurDir | ParentDir | Normal string

fun component_str :: "Component \<Rightarrow> string" where
  "component_str RootDir = ''/''"
| "component_str CurDir = ''.''"
| "component_str ParentDir = ''..''"
| "component_str (Normal s) = s"

definition path_components :: "string \<Rightarrow> Component list" where
  "path_components path =
     (let parts = str_split CHR ''/'' path
      in (if prefix ''/'' path then [RootDir] else if hd parts = ''.'' then [CurDir] else []) @
         map (\<lambda>part. if part = ''..'' then ParentDir else Normal part)
           (filter (\<lambda>part. part \<noteq> [] \<and> part \<noteq> ''.'') parts))"

definition normalize :: "string \<Rightarrow> string" where
  "normalize path =
     foldl (\<lambda>out c. if c = CurDir then out else path_join out (component_str c)) [] (path_components path)"

definition is_inside :: "string \<Rightarrow> string \<Rightarrow> bool" where
  "is_inside path ancestor =
     prefix (path_components (normalize ancestor)) (path_components (normalize path))"

section \<open>From options to configuration\<close>

definition to_mount_config :: "environment \<Rightarrow> Cli \<Rightarrow> string + MountConfig" where
  "to_mount_config env cli =
     (case parse_remote (cli_remote cli) of
        Inl e \<Rightarrow> Inl e
      | Inr rc \<Rightarrow>
          (let cache_dir = (case cli_cache_dir cli of Some d \<Rightarrow> d | None \<Rightarrow> default_cache_dir env)
           in if is_inside cache_dir (cli_mountpoint cli)
              then Inl (''cache directory '' @ quoted cache_dir @ '' must not be inside the mountpoint '' @
                        quoted (cli_mountpoint cli))
              else
                (case (case cli_cache_chunk_size cli of
                         Some txt \<Rightarrow> parse_byte_size txt
                       | None \<Rightarrow> Inr DEFAULT_CACHE_CHUNK_SIZE) of
                   Inl e \<Rightarrow> Inl e
                 | Inr cs \<Rightarrow>
                     Inr \<lparr>mc_remote = rc, mc_mountpoint = cli_mountpoint cli, mc_cache_dir = cache_dir,
                          mc_cache_mode = cache_mode_of (cli_cache_mode cli),
                          mc_cache_chunk_size = cs, mc_read_only = cli_read_only cli\<rparr>)))"

definition metadata_ttl_duration :: "Cli \<Rightarrow> string + duration" where
  "metadata_ttl_duration cli =
     (case cli_metadata_ttl cli of Some txt \<Rightarrow> parse_duration txt | None \<Rightarrow> Inr DEFAULT_METADATA_TTL)"

type_synonym read_file = "string \<Rightarrow> io_error + string"

definition resolve_ssh_config ::
  "environment \<Rightarrow> read_file \<Rightarrow> Cli \<Rightarrow> string \<Rightarrow> string + SshHostConfig" where
  "resolve_ssh_config env read_to_string cli al =
     (case (case cli_ssh_config cli of
              Some path \<Rightarrow> Some (path, True)
            | None \<Rightarrow> map_option (\<lambda>path. (path, False)) (default_config_path env)) of
        None \<Rightarrow> Inr SshHostConfig_default
      | Some (path, required) \<Rightarrow>
          (case read_to_string path of
             Inr txt \<Rightarrow> Inr (resolve env txt al)
           | Inl e \<Rightarrow>
               if io_kind_of e = IoNotFound \<and> \<not> required then Inr SshHostConfig_default
               else Inl (''failed to read ssh config '' @ quoted path @ '': '' @ io_message e)))"

definition split_user :: "string \<Rightarrow> string option \<times> string" where
  "split_user target =
     (case rsplit_once CHR ''@'' target of
        Some (user, host) \<Rightarrow> if user \<noteq> [] then (Some user, host) else (None, target)
      | None \<Rightarrow> (None, target))"

definition override_target :: "Cli \<Rightarrow> SshHostConfig \<Rightarrow> string option \<Rightarrow> SftpTarget \<Rightarrow> SftpTarget" where
  "override_target cli hc explicit_user t =
     (let t = (case sh_hostname hc of Some h \<Rightarrow> t\<lparr>st_host := h\<rparr> | None \<Rightarrow> t);
          t = (case (explicit_user, sh_user hc) of
                 (None, Some u) \<Rightarrow> t\<lparr>st_username := u\<rparr>
               | _ \<Rightarrow> t)
      in case cli_port cli of
           Some p \<Rightarrow> t\<lparr>st_port := p\<rparr>
         | None \<Rightarrow> (case sh_port hc of Some p \<Rightarrow> t\<lparr>st_port := p\<rparr> | None \<Rightarrow> t))"

definition connect_options ::
  "environment \<Rightarrow> read_file \<Rightarrow> Cli \<Rightarrow> string \<Rightarrow> string + SftpConnectOptions" where
  "connect_options env read_to_string cli target =
     (case split_user target of
        (explicit_user, al) \<Rightarrow>
          (case resolve_ssh_config env read_to_string cli al of
             Inl e \<Rightarrow> Inl e
           | Inr hc \<Rightarrow>
               (case SftpTarget_parse env target of
                  Err e \<Rightarrow> Inl (error_display e)
                | Ok t \<Rightarrow>
                    (let opts = for_target env (override_target cli hc explicit_user t);
                         opts = (case cli_identity_file cli of
                                   Some f \<Rightarrow> with_identity_file f opts
                                 | None \<Rightarrow> opts);
                         opts = fold with_identity_file (sh_identity_files hc) opts;
                         opts = (if cli_accept_unknown_host_key cli then accept_unknown_hosts True opts else opts)
                     in case cli_remote_read_timeout cli of
                          None \<Rightarrow> Inr opts
                        | Some txt \<Rightarrow>
                            (case parse_duration txt of
                               Inl e \<Rightarrow> Inl e
                             | Inr d \<Rightarrow> Inr (with_read_timeout d opts))))))"

section \<open>Running a mount\<close>

record ('j, 'k, 'f, 'w) platform =
  pl_env :: environment
  pl_read_to_string :: read_file
  pl_client :: "('k, 'w) ssh_client"
  pl_session :: "('f, 'w) SftpSession"
  pl_json :: "'j codec"
  pl_disk :: "string \<Rightarrow> 'j cache_dir"
  pl_clock :: "'w \<Rightarrow> instant"
  pl_mount :: "MountConfig \<Rightarrow> ('j, 'w) CacheVfs \<Rightarrow> unit result \<times> 'w"

definition build_filesystem ::
  "('j, 'k, 'f, 'w) platform \<Rightarrow> Cli \<Rightarrow> MountConfig \<Rightarrow> RemotePath \<Rightarrow> duration \<Rightarrow> 'w
   \<Rightarrow> (string + ('j, 'w) CacheVfs) \<times> 'w" where
  "build_filesystem pl cli config root ttl w =
     (if mc_cache_mode config = Offline
      then (Inr (CacheVfs_new_offline root (mc_read_only config) ttl (pl_json pl)
              (pl_disk pl (mc_cache_dir config)) (mc_cache_chunk_size config) w (pl_clock pl)), w)
      else
        (case connect_options (pl_env pl) (pl_read_to_string pl) cli (rc_target (mc_remote config)) of
           Inl e \<Rightarrow> (Inl e, w)
         | Inr opts \<Rightarrow>
             (case connect_with_options (pl_client pl) (pl_session pl) opts w of
                (Err e, w) \<Rightarrow>
                  (Inl (''failed to connect to '' @ rc_target (mc_remote config) @ '': '' @ error_display e), w)
              | (Ok remote', w) \<Rightarrow>
                  (Inr (CacheVfs_new remote' root (mc_read_only config) (mc_cache_mode config) ttl (pl_json pl)
                     (pl_disk pl (mc_cache_dir config)) (mc_cache_chunk_size config) w (pl_clock pl)), w))))"

definition run :: "('j, 'k, 'f, 'w) platform \<Rightarrow> Cli \<Rightarrow> 'w \<Rightarrow> (string + unit) \<times> 'w" where
  "run pl cli w =
     (case to_mount_config (pl_env pl) cli of
        Inl e \<Rightarrow> (Inl e, w)
      | Inr config \<Rightarrow>
          (case RemotePath_new (rc_root (mc_remote config)) of
             Err e \<Rightarrow> (Inl (''invalid remote path: '' @ error_display e), w)
           | Ok root \<Rightarrow>
               (case metadata_ttl_duration cli of
                  Inl e \<Rightarrow> (Inl e, w)
                | Inr ttl \<Rightarrow>
                    (case build_filesystem pl cli config root ttl w of
                       (Inl e, w) \<Rightarrow> (Inl e, w)
                     | (Inr fs, w) \<Rightarrow>
                         (case pl_mount pl config fs of
                            (Err e, w) \<Rightarrow> (Inl (error_display e), w)
                          | (Ok _, w) \<Rightarrow> (Inr (), w))))))"

end
