(* ===== verification/Sftp_Properties.thy ===== *)
theory Sftp_Properties
  imports Sftp_Transport Cache_Vfs Store_Properties
begin

text \<open>
  What the SFTP transport guarantees: targets survive printing and parsing; the host-key policy and
  the authentication that stand between \<open>connect\<close> and a session; which failures of the transport the
  virtual filesystem above can recognise as an outage; and, for any session that answers as the
  SFTP protocol says, exact reads and with them the transport contract of the content cache.
\<close>

section \<open>Targets\<close>

definition show_target :: "SftpTarget \<Rightarrow> string" where
  "show_target t = st_username t @ ''@'' @
     (if CHR '':'' \<in> set (st_host t) then ''['' @ st_host t @ '']'' else st_host t) @ '':'' @
     show_nat (unat (st_port t))"

lemma show_nat_char: "c \<in> set (show_nat n) \<Longrightarrow> is_ascii_digit c"
  using show_nat_digits[of n] by (auto simp: list_all_iff)

lemma show_nat_seps [simp]: "CHR ''@'' \<notin> set (show_nat n)" "CHR '':'' \<notin> set (show_nat n)"
  by (auto dest!: show_nat_char simp: is_ascii_digit_def)

lemma parse_port_show: "parse_port (show_nat (unat n)) = Ok n"
proof -
  have "unat n < 2 ^ 16" using unsigned_less[of n, where 'a = nat] by simp
  then show ?thesis by (simp add: parse_port_def parse_uint_show_nat)
qed

lemma parse_plain_host:
  assumes "h \<noteq> []" "CHR '':'' \<notin> set h" "\<not> prefix ''['' h"
  shows "parse_host_and_port (h @ '':'' @ show_nat (unat n)) = Ok (h, n)"
proof -
  have "rsplit_once CHR '':'' (h @ '':'' @ show_nat (unat n)) = Some (h, show_nat (unat n))"
    by (simp add: rsplit_once_Some)
  moreover have "strip_prefix ''['' (h @ '':'' @ show_nat (unat n)) = None"
    using assms(1,3) by (cases h) (auto simp: strip_prefix_def)
  ultimately show ?thesis
    using assms by (simp add: parse_host_and_port_def parse_port_show)
qed

lemma parse_bracketed_host:
  assumes "CHR '']'' \<notin> set h"
  shows "parse_host_and_port (''['' @ h @ '']:'' @ show_nat (unat n)) = Ok (h, n)"
proof -
  have "split_once CHR '']'' (h @ '']:'' @ show_nat (unat n)) = Some (h, '':'' @ show_nat (unat n))"
    using assms by (simp add: split_once_Some)
  then show ?thesis
    using show_nat_digits[of "unat n"] by (simp add: parse_host_and_port_def strip_prefix_def parse_port_show)
qed

text \<open>
  C34: targets round-trip.  A target with a user, and a host that has no \<open>@\<close>, no closing bracket
  and no leading opening bracket, is recovered exactly from its printed form
  \<open>user@host:port\<close>, where a host with colons (an IPv6 address) is printed in brackets.
\<close>

theorem target_roundtrip:
  assumes "st_username t \<noteq> []" "st_host t \<noteq> []" "CHR ''@'' \<notin> set (st_host t)" "CHR '']'' \<notin> set (st_host t)"
    "\<not> prefix ''['' (st_host t)"
  shows "SftpTarget_parse env (show_target t) = Ok t"
proof -
  let ?hp = "(if CHR '':'' \<in> set (st_host t) then ''['' @ st_host t @ '']'' else st_host t) @ '':'' @
     show_nat (unat (st_port t))"
  have "rsplit_once CHR ''@'' (show_target t) = Some (st_username t, ?hp)"
    using assms(3) by (simp add: rsplit_once_Some show_target_def)
  moreover have "parse_host_and_port ?hp = Ok (st_host t, st_port t)"
    using parse_plain_host[OF assms(2) _ assms(5)] parse_bracketed_host[OF assms(4)] by simp
  ultimately show ?thesis
    using assms(1) by (simp add: SftpTarget_parse_def)
qed

theorem target_roundtrip_witness:
  "show_target \<lparr>st_username = ''bob'', st_host = ''::1'', st_port = 22\<rparr> = ''bob@[::1]:22''
   \<and> SftpTarget_parse (\<lambda>_. None) ''bob@[::1]:22'' = Ok \<lparr>st_username = ''bob'', st_host = ''::1'', st_port = 22\<rparr>"
  using target_roundtrip[of "\<lparr>st_username = ''bob'', st_host = ''::1'', st_port = 22\<rparr>" "\<lambda>_. None"]
  by (simp add: show_target_def show_nat.simps char_of_def bit_0)

section \<open>Host keys\<close>

definition decisive :: "('k, 'w) ssh_client \<Rightarrow> ClientHandler \<Rightarrow> 'k \<Rightarrow> 'w \<Rightarrow> string list" where
  "decisive cl ch key w =
     filter (\<lambda>path. kh_exists cl path w \<and> kh_check cl (ch_host ch) (ch_port ch) key path w \<noteq> Some False)
       (ch_known_hosts_files ch)"

definition confirmed :: "('k, 'w) ssh_client \<Rightarrow> 'w \<Rightarrow> bool" where
  "confirmed cl w \<longleftrightarrow> co_is_terminal cl w \<and>
     (\<exists>answer. fst (co_read_line cl w) = Some answer \<and> to_ascii_lowercase (trim answer) = ''yes'')"

definition trusted :: "('k, 'w) ssh_client \<Rightarrow> ClientHandler \<Rightarrow> 'k \<Rightarrow> 'w \<Rightarrow> bool" where
  "trusted cl ch key w \<longleftrightarrow>
     (case decisive cl ch key w of
        path # _ \<Rightarrow> kh_check cl (ch_host ch) (ch_port ch) key path w = Some True
      | [] \<Rightarrow> ch_accept_unknown_hosts ch \<or> confirmed cl w)"

lemma classify_files_decisive:
  "classify_files cl (ch_host ch) (ch_port ch) key paths w =
     (case filter (\<lambda>path. kh_exists cl path w \<and> kh_check cl (ch_host ch) (ch_port ch) key path w \<noteq> Some False) paths of
        [] \<Rightarrow> Unknown
      | path # _ \<Rightarrow> if kh_check cl (ch_host ch) (ch_port ch) key path w = Some True then Known else Changed)"
  by (induction paths) (auto split: option.splits bool.splits)

lemma prompt_confirmed: "fst (prompt_unknown_host cl host port key path w) \<longleftrightarrow> confirmed cl w"
  by (auto simp: prompt_unknown_host_def confirmed_def split: prod.splits option.splits)

lemma check_server_key_trusted: "fst (check_server_key cl ch key w) \<longleftrightarrow> trusted cl ch key w"
  by (auto simp: check_server_key_def classify_host_key_def classify_files_decisive trusted_def decisive_def
      prompt_confirmed split: list.splits)

text \<open>
  C9: the host-key policy.  A server key is accepted exactly when the first known-hosts file that
  says anything about the host vouches for this very key; when no file knows the host, it is accepted
  exactly when the user opted in to unknown hosts or answered \<open>yes\<close> on a terminal.  In particular
  a changed key is never accepted, not even with the opt-in.  The user is asked, and a key recorded (in the
  first known-hosts file), only when no file knows the host and the opt-in is off; otherwise
  nothing changes.
\<close>

theorem host_key_policy:
  "(fst (check_server_key cl ch key w) \<longleftrightarrow> trusted cl ch key w) \<and>
   snd (check_server_key cl ch key w) =
     (if decisive cl ch key w = [] \<and> \<not> ch_accept_unknown_hosts ch
      then snd (prompt_unknown_host cl (ch_host ch) (ch_port ch) key
             (if ch_known_hosts_files ch = [] then None else Some (hd (ch_known_hosts_files ch))) w)
      else w)"
  by (simp add: check_server_key_trusted)
     (auto simp: check_server_key_def classify_host_key_def classify_files_decisive decisive_def
        split: list.splits)

section \<open>Connecting\<close>

lemma try_identities_sound:
  "try_identities cl agent user h ks w = (True, w') \<Longrightarrow>
   \<exists>key h' v. cl_auth_agent cl agent user key h' v = (Some True, w')"
  by (induction cl agent user h ks w rule: try_identities.induct)
     (auto split: prod.splits option.splits bool.splits)

lemma try_agent_sound:
  "try_agent cl agent user h w = (True, w') \<Longrightarrow>
   \<exists>key h' v. cl_auth_agent cl agent user key h' v = (Some True, w')"
  by (auto simp: try_agent_def authenticate_with_agent_def split: prod.splits bool.splits option.splits
      dest: try_identities_sound)

lemma some_agent_sound:
  "try_agent cl agent user h w = (True, w') \<Longrightarrow>
   \<exists>agent key h' v. cl_auth_agent cl agent user key h' v = (Some True, w')"
  by (rule exI[of _ agent]) (rule try_agent_sound)

lemma try_pipes_sound:
  "try_pipes cl pipes user h w = (True, w') \<Longrightarrow>
   \<exists>agent key h' v. cl_auth_agent cl agent user key h' v = (Some True, w')"
  by (induction cl pipes user h w rule: try_pipes.induct)
     (auto split: prod.splits bool.splits dest: some_agent_sound)

lemma try_agent_auth_sound:
  "try_agent_auth cl user h w = (True, w') \<Longrightarrow>
   \<exists>agent key h' v. cl_auth_agent cl agent user key h' v = (Some True, w')"
  by (auto simp: try_agent_auth_def split: target_os.splits dest: some_agent_sound try_pipes_sound)

lemma try_identity_files_sound:
  "try_identity_files cl user pw h paths w = (Ok (), w') \<Longrightarrow>
   \<exists>key path v. path \<in> set paths \<and> cl_load_key cl path pw v = Some key
      \<and> cl_auth_key cl user key h v = (Some True, w')"
  by (induction cl user pw h paths w rule: try_identity_files.induct)
     (fastforce split: prod.splits option.splits bool.splits if_splits)+

definition authenticated :: "('k, 'w) ssh_client \<Rightarrow> SftpConnectOptions \<Rightarrow> bool" where
  "authenticated cl opts \<longleftrightarrow>
     so_use_agent opts \<and>
       (\<exists>agent key h v v'. cl_auth_agent cl agent (st_username (so_target opts)) key h v = (Some True, v')) \<or>
     (\<exists>path \<in> set (so_identity_files opts). \<exists>key h v v'.
        cl_load_key cl path (so_passphrase opts) v = Some key \<and>
        cl_auth_key cl (st_username (so_target opts)) key h v = (Some True, v'))"

lemma authenticate_sound:
  assumes "authenticate cl opts w = (Ok (), w')"
  shows "authenticated cl opts"
proof -
  obtain h w1 where h: "cl_rsa_hash cl w = (h, w1)" by fastforce
  let ?user = "st_username (so_target opts)"
  obtain ok w2 where a: "(if so_use_agent opts then try_agent_auth cl ?user h w1 else (False, w1)) = (ok, w2)"
    by fastforce
  show ?thesis
  proof (cases ok)
    case True
    with a have "so_use_agent opts" "try_agent_auth cl ?user h w1 = (True, w2)" by (auto split: if_splits)
    with try_agent_auth_sound[OF this(2)] show ?thesis unfolding authenticated_def by blast
  next
    case False
    with assms h a have "try_identity_files cl ?user (so_passphrase opts) h (so_identity_files opts) w2 = (Ok (), w')"
      by (auto simp: authenticate_def split: if_splits)
    from try_identity_files_sound[OF this] show ?thesis unfolding authenticated_def by blast
  qed
qed

definition handler_of :: "SftpConnectOptions \<Rightarrow> ClientHandler" where
  "handler_of opts = \<lparr>ch_known_hosts_files = so_known_hosts_files opts,
     ch_accept_unknown_hosts = so_accept_unknown_hosts opts,
     ch_host = st_host (so_target opts), ch_port = st_port (so_target opts)\<rparr>"

lemma and_then_Ok: "and_then x f = (Ok b, w') \<longleftrightarrow> (\<exists>a w. x = (Ok a, w) \<and> f a w = (Ok b, w'))"
  by (cases x; cases "fst x") (auto simp: and_then_def)

lemma ssh_result_Ok: "ssh_result x = (Ok a, w) \<longleftrightarrow> x = (Inr a, w)"
  by (cases x rule: ssh_result.cases) auto


text \<open>
  The witnesses below use a console-less client whose only known host key is 7, read from the one
  known-hosts file \<open>kh\<close>, and a server that holds this key and accepts the key of the
  identity file \<open>id\<close>.
\<close>

definition sample_client :: "(nat, 'w) ssh_client" where
  "sample_client = \<lparr>
     kh_exists = (\<lambda>path w. path = ''kh''), kh_check = (\<lambda>_ _ key _ _. Some (key = 7)),
     kh_learn = (\<lambda>_ _ _ _ w. (True, w)), co_is_terminal = (\<lambda>_. False), co_read_line = (\<lambda>w. (None, w)),
     cl_runtime = (\<lambda>w. (Inr (), w)),
     cl_connect = (\<lambda>_ _ check w. case check 7 w of (True, w) \<Rightarrow> (Inr (), w) | (False, w) \<Rightarrow> (Inl (SshUnknownKey []), w)),
     cl_rsa_hash = (\<lambda>w. (None, w)), cl_is_rsa = (\<lambda>_. False),
     cl_target_os = Unix, cl_auth_sock = None,
     cl_agent_connect = (\<lambda>_ w. (False, w)), cl_agent_identities = (\<lambda>_ w. (None, w)),
     cl_auth_agent = (\<lambda>_ _ _ _ w. (None, w)), cl_file_exists = (\<lambda>path w. path = ''id''),
     cl_load_key = (\<lambda>path _ w. Some 3), cl_auth_key = (\<lambda>_ key _ w. (Some (key = 3), w)),
     cl_channel = (\<lambda>w. (Inr (), w)), cl_subsystem = (\<lambda>_ w. (Inr (), w)), cl_sftp = (\<lambda>w. (Inr (), w))\<rparr>"

definition sample_options :: SftpConnectOptions where
  "sample_options = \<lparr>so_target = \<lparr>st_username = ''bob'', st_host = ''h'', st_port = 22\<rparr>,
     so_known_hosts_files = [''kh''], so_accept_unknown_hosts = False, so_use_agent = True,
     so_identity_files = [''id''], so_passphrase = None, so_read_timeout = DEFAULT_READ_TIMEOUT\<rparr>"

lemma sample_handshake:
  "cl_connect sample_client host port check w = (Inr (), w') \<Longrightarrow> \<exists>w0. fst (check 7 w0)"
  by (auto simp: sample_client_def split: prod.splits bool.splits intro!: exI[of _ w])

lemma sample_connects:
  "connect_with_options sample_client se sample_options w = (Ok (SftpBackend se (so_read_timeout sample_options)), w)"
  by (simp add: connect_with_options_def connect_async_def and_then_def authenticate_def try_agent_auth_def
      try_agent_def check_server_key_def classify_host_key_def sample_client_def sample_options_def)


section \<open>Failures of the transport\<close>

lemma map_sftp_error_reachable: "\<not> is_unreachable (map_sftp_error e)"
  by (cases e) (auto split: status_code.splits)

lemma map_io_error_reachable: "\<not> is_unreachable (map_io_error e)"
  by (auto simp: map_io_error_def split: io_kind.splits)

lemma sftp_read_loop_unavailable:
  "sftp_read_loop se t h len buf w = (Err e, w') \<Longrightarrow> is_unreachable e \<Longrightarrow> e = read_timed_out t"
proof (induction se t h len buf w rule: sftp_read_loop.induct)
  case (1 se t h len buf w)
  obtain r w1 where rd: "se_file_read se h (len - length buf) w = (r, w1)" by fastforce
  from 1 rd show ?case
    by (cases r) (auto simp: sftp_read_loop.simps[of se t h len buf w] Let_def map_io_error_reachable
        split: if_splits)
qed

lemma sftp_result_Err: "sftp_result x = (Err e, w) \<longleftrightarrow> (\<exists>e'. x = (Inl e', w) \<and> e = map_sftp_error e')"
  by (cases x rule: sftp_result.cases) auto

lemma io_result_Err: "io_result x = (Err e, w) \<longleftrightarrow> (\<exists>e'. x = (Inl e', w) \<and> e = map_io_error e')"
  by (cases x rule: io_result.cases) auto

lemma and_then_Err:
  "and_then x f = (Err e, w') \<longleftrightarrow> x = (Err e, w') \<or> (\<exists>a w. x = (Ok a, w) \<and> f a w = (Err e, w'))"
  by (cases x; cases "fst x") (auto simp: and_then_def)

lemma sftp_read_unavailable:
  "sftp_read se t p pos sz w = (Err e, w') \<Longrightarrow> is_unreachable e \<Longrightarrow> e = read_timed_out t"
  by (auto simp: sftp_read_def and_then_Err sftp_result_Err io_result_Err map_sftp_error_reachable
      map_io_error_reachable dest: sftp_read_loop_unavailable split: if_splits)

lemma sftp_stat_Err:
  "se_metadata se (as_str p) w = (Inl e, w') \<Longrightarrow> rf_stat (SftpBackend se t) p w = (Err (map_sftp_error e), w')"
  by (simp add: SftpBackend_def sftp_stat_def and_then_def)

lemma sftp_read_dir_Err:
  "se_read_dir se (as_str p) w = (Inl e, w') \<Longrightarrow> rf_read_dir (SftpBackend se t) p w = (Err (map_sftp_error e), w')"
  by (simp add: SftpBackend_def sftp_read_dir_def and_then_def)

text \<open>
  C20: an outage of the SFTP connection is reported, never masked by the cache.  The conversion of
  SFTP errors has no case that yields \<open>Unavailable\<close>, so on a mount over the SFTP transport every failure
  of a \<open>stat\<close> or \<open>read_dir\<close> request, a lost connection included, is returned to the caller once the
  metadata is no longer fresh, whatever the cache holds for the path.  (The fallback of
  \<open>CacheVfs\<close> to cached metadata is taken only on \<open>Unavailable\<close>.)
\<close>

theorem sftp_outage_is_reported:
  assumes "remote v = SftpBackend se t" "\<not> offline v" "path_of (state v) n = Ok p" "\<not> metadata_fresh v p"
    and "se_metadata se (as_str p) (world v) = (Inl e, w)" "se_read_dir se (as_str p) (world v) = (Inl e', w')"
  shows "fst (vfs_getattr n v) = Err (map_sftp_error e) \<and> fst (vfs_readdir n v) = Err (map_sftp_error e')"
proof
  show "fst (vfs_getattr n v) = Err (map_sftp_error e)"
    using assms(1-4) sftp_stat_Err[OF assms(5)] map_sftp_error_reachable[of e]
    by (auto simp: vfs_getattr_def Let_def split: option.splits)
  show "fst (vfs_readdir n v) = Err (map_sftp_error e')"
    using assms(1-4) sftp_read_dir_Err[OF assms(6)] map_sftp_error_reachable[of e']
    by (simp add: vfs_readdir_def Let_def)
qed

section \<open>Sessions that answer as the protocol says\<close>

text \<open>
  What the reads rely on of an SFTP session that is up (\<open>good\<close>): opening an existing file yields a
  handle at position 0, seeking moves it, and reading from it returns a non-empty part of what
  follows, advancing the handle, or nothing at the end of the file.  How much of the request one
  answer covers is up to the server.  None of the calls changes a file, and no timeout expires.
\<close>

locale sftp_session =
  fixes se :: "('f, 'w) SftpSession" and good :: "'w \<Rightarrow> bool"
    and served :: "'w \<Rightarrow> string \<Rightarrow> bytes option" and cursor :: "'w \<Rightarrow> 'f \<Rightarrow> (string \<times> nat) option"
  assumes up: "good w \<Longrightarrow> \<not> se_expired se w"
    and open_keeps: "good w \<Longrightarrow> se_open se path OpenRead SftpAttributes_empty w = (r, w') \<Longrightarrow> good w' \<and> served w' = served w"
    and open_file: "good w \<Longrightarrow> served w path = Some b \<Longrightarrow>
      \<exists>h w'. se_open se path OpenRead SftpAttributes_empty w = (Inr h, w') \<and> cursor w' h = Some (path, 0)"
    and seek_keeps: "good w \<Longrightarrow> se_seek se h pos w = (r', w') \<Longrightarrow> good w' \<and> served w' = served w"
    and seek_file: "good w \<Longrightarrow> cursor w h = Some (path, k) \<Longrightarrow>
      \<exists>w'. se_seek se h pos w = (Inr (), w') \<and> cursor w' h = Some (path, unat pos)"
    and read_keeps: "good w \<Longrightarrow> se_file_read se h n w = (r'', w') \<Longrightarrow> good w' \<and> served w' = served w"
    and read_file: "good w \<Longrightarrow> cursor w h = Some (path, k) \<Longrightarrow> served w path = Some b \<Longrightarrow> 0 < n \<Longrightarrow>
      \<exists>data w'. se_file_read se h n w = (Inr data, w') \<and> prefix data (take n (drop k b)) \<and>
        (data = [] \<longrightarrow> length b \<le> k) \<and> cursor w' h = Some (path, k + length data)"
begin

lemma session_loop_exact:
  assumes "good w" "cursor w h = Some (path, k + length buf)" "served w path = Some b"
    and "length buf \<le> len" "prefix buf (drop k b)"
  shows "\<exists>w'. sftp_read_loop se t h len buf w = (Ok (take len (drop k b)), w')
    \<and> good w' \<and> served w' = served w"
  using assms
proof (induction "len - length buf" arbitrary: buf w rule: less_induct)
  case less
  note unf = sftp_read_loop.simps[of se t h len buf w]
  from less.prems(5) obtain rest where rest: "drop k b = buf @ rest" by (auto simp: prefix_def)
  show ?case
  proof (cases "length buf < len")
    case False
    then have "take len (drop k b) = buf" using less.prems(4) rest by simp
    with False less.prems(1) show ?thesis by (simp add: unf)
  next
    case True
    let ?n = "len - length buf"
    have rest': "drop (k + length buf) b = rest"
      using rest by (metis add.commute append_eq_conv_conj drop_drop)
    obtain data w1 where rd: "se_file_read se h ?n w = (Inr data, w1)"
        and pre: "prefix data (take ?n rest)" and eof: "data = [] \<longrightarrow> length b \<le> k + length buf"
        and cur: "cursor w1 h = Some (path, k + length buf + length data)"
      using read_file[OF less.prems(1,2,3), of ?n] True rest' by auto
    note w1 = read_keeps[OF less.prems(1) rd]
    have short: "take ?n data = data" using prefix_length_le[OF pre] by simp
    show ?thesis
    proof (cases "data = []")
      case emp: True
      then have "rest = []" using eof rest' by (metis drop_all)
      then have "take len (drop k b) = buf" using rest less.prems(4) by simp
      with emp True rd w1 up[OF less.prems(1)] show ?thesis by (simp add: unf)
    next
      case False
      have "prefix (buf @ data) (drop k b)"
        using pre rest by (metis prefix_append prefix_order.trans take_is_prefix same_prefix_prefix)
      moreover have "length (buf @ data) \<le> len" using prefix_length_le[OF pre] True by auto
      moreover have "len - length (buf @ data) < len - length buf"
        using False True by (cases data) auto
      ultimately obtain w2 where "sftp_read_loop se t h len (buf @ data) w1 = (Ok (take len (drop k b)), w2)"
          "good w2 \<and> served w2 = served w1"
        using less.hyps[of "buf @ data" w1] w1 cur less.prems(3) by (auto simp: add.assoc)
      with False True rd w1 short up[OF less.prems(1)] show ?thesis by (simp add: unf)
    qed
  qed
qed

lemma sftp_read_total:
  assumes "good w" "served w (as_str p) = Some b"
  shows "\<exists>w'. sftp_read se t p pos sz w = (Ok (take (unat sz) (drop (unat pos) b)), w')
    \<and> good w' \<and> served w' = served w"
proof -
  obtain h w1 where o: "se_open se (as_str p) OpenRead SftpAttributes_empty w = (Inr h, w1)"
      and c: "cursor w1 h = Some (as_str p, 0)"
    using open_file[OF assms] by blast
  note w1 = open_keeps[OF assms(1) o]
  obtain w2 where s: "se_seek se h pos w1 = (Inr (), w2)" and c2: "cursor w2 h = Some (as_str p, unat pos)"
    using seek_file[OF _ c] w1 by blast
  have w2: "good w2" "served w2 = served w" using seek_keeps[OF _ s] w1 by auto
  with session_loop_exact[of w2 h "as_str p" "unat pos" "[]" b "unat sz" t] c2 assms(2)
  obtain w3 where "sftp_read_loop se t h (unat sz) [] w2 = (Ok (take (unat sz) (drop (unat pos) b)), w3)"
      "good w3" "served w3 = served w"
    by auto
  then show ?thesis
    using o s up assms(1) w1 by (simp add: sftp_read_def and_then_def)
qed

lemma session_loop_keeps:
  "sftp_read_loop se t h len buf w = (r, w') \<Longrightarrow> good w \<Longrightarrow> good w' \<and> served w' = served w"
proof (induction "len - length buf" arbitrary: buf w rule: less_induct)
  case less
  obtain q w1 where rd: "se_file_read se h (len - length buf) w = (q, w1)" by fastforce
  have m: "b \<noteq> [] \<Longrightarrow> length buf < len \<Longrightarrow>
      len - (length buf + min (length b) (len - length buf)) < len - length buf" for b :: bytes
    by (cases b) auto
  from less.prems rd read_keeps[OF less.prems(2) rd] less.hyps[of "buf @ take (len - length buf) (projr q)" w1]
  show ?case
    by (cases q) (auto simp: sftp_read_loop.simps[of se t h len buf w] Let_def m split: if_splits)
qed

lemma sftp_read_keeps:
  assumes "sftp_read se t p pos sz w = (r, w')" "good w"
  shows "good w' \<and> served w' = served w"
proof -
  obtain q w1 where o: "se_open se (as_str p) OpenRead SftpAttributes_empty w = (q, w1)" by fastforce
  note w1 = open_keeps[OF assms(2) o]
  show ?thesis
  proof (cases q)
    case (Inl e)
    with o w1 assms show ?thesis by (simp add: sftp_read_def and_then_def up)
  next
    case (Inr h)
    obtain q2 w2 where s: "se_seek se h pos w1 = (q2, w2)" by fastforce
    note w2 = seek_keeps[OF conjunct1[OF w1] s]
    from assms o Inr s w1 w2 show ?thesis
      by (cases q2) (auto simp: sftp_read_def and_then_def up dest: session_loop_keeps)
  qed
qed

end

sublocale sftp_session \<subseteq> transport: remote_answers "SftpBackend se t" good "\<lambda>w p. served w (as_str p)" for t
proof
  fix w p pos sz r w'
  assume "good w" "rf_read (SftpBackend se t) p pos sz w = (r, w')"
  then show "good w' \<and> (\<lambda>p. served w' (as_str p)) = (\<lambda>p. served w (as_str p))"
    using sftp_read_keeps by (simp add: SftpBackend_def)
next
  fix w p f pos sz data w'
  assume w: "good w" "served w (as_str p) = Some f" and rd: "rf_read (SftpBackend se t) p pos sz w = (Ok data, w')"
  have "data = take (unat sz) (drop (unat pos) f)"
    using sftp_read_total[OF w, of t pos sz] rd by (auto simp: SftpBackend_def)
  then show "prefix data (take (unat sz) (drop (unat pos) f)) \<and> (data = [] \<longrightarrow> sz = 0 \<or> length f \<le> unat pos)"
    by (auto simp: unat_eq_0)
next
  fix w p f pos sz
  assume "good w" "served w (as_str p) = Some f"
  then show "\<exists>data w'. rf_read (SftpBackend se t) p pos sz w = (Ok data, w')"
    using sftp_read_total by (fastforce simp: SftpBackend_def)
qed

text \<open>
  An in-memory server: files by path, and a table of open handles with their positions.  It answers
  a read with at most two bytes.
\<close>

record memory_server =
  mem_files :: "(string, bytes) fmap"
  mem_cursors :: "(nat, string \<times> nat) fmap"

definition mem_attributes :: "bytes \<Rightarrow> SftpAttributes" where
  "mem_attributes b = SftpAttributes_empty\<lparr>at_size := Some (of_nat (length b)), at_mtime := Some 1000\<rparr>"

definition mem_open :: "string \<Rightarrow> OpenMode \<Rightarrow> SftpAttributes \<Rightarrow> memory_server \<Rightarrow> (sftp_error + nat) \<times> memory_server" where
  "mem_open path m a w =
     (if path |\<in>| fmdom (mem_files w)
      then (Inr (fcard (fmdom (mem_cursors w))),
            w\<lparr>mem_cursors := fmupd (fcard (fmdom (mem_cursors w))) (path, 0) (mem_cursors w)\<rparr>)
      else (Inl (Status NoSuchFile ''no such file''), w))"

definition mem_seek :: "nat \<Rightarrow> u64 \<Rightarrow> memory_server \<Rightarrow> (io_error + unit) \<times> memory_server" where
  "mem_seek h pos w =
     (case fmlookup (mem_cursors w) h of
        None \<Rightarrow> (Inl \<lparr>io_kind_of = IoOther, io_message = ''closed''\<rparr>, w)
      | Some (path, k) \<Rightarrow> (Inr (), w\<lparr>mem_cursors := fmupd h (path, unat pos) (mem_cursors w)\<rparr>))"

definition mem_read :: "nat \<Rightarrow> nat \<Rightarrow> memory_server \<Rightarrow> (io_error + bytes) \<times> memory_server" where
  "mem_read h n w =
     (case fmlookup (mem_cursors w) h of
        None \<Rightarrow> (Inl \<lparr>io_kind_of = IoOther, io_message = ''closed''\<rparr>, w)
      | Some (path, k) \<Rightarrow>
          (case fmlookup (mem_files w) path of
             None \<Rightarrow> (Inl \<lparr>io_kind_of = IoNotFound, io_message = ''removed''\<rparr>, w)
           | Some b \<Rightarrow>
               (let data = take (min n 2) (drop k b)
                in (Inr data, w\<lparr>mem_cursors := fmupd h (path, k + length data) (mem_cursors w)\<rparr>))))"

definition memory_session :: "(nat, memory_server) SftpSession" where
  "memory_session = \<lparr>
     se_file_type = (\<lambda>_. FtFile),
     se_metadata = (\<lambda>path w. (case fmlookup (mem_files w) path of
        None \<Rightarrow> Inl (Status NoSuchFile ''no such file'') | Some b \<Rightarrow> Inr (mem_attributes b), w)),
     se_read_dir = (\<lambda>path w. (Inl (SftpOther ''connection lost''), w)),
     se_open = mem_open, se_seek = mem_seek, se_file_read = mem_read,
     se_write_all = (\<lambda>_ _ w. (Inl \<lparr>io_kind_of = IoPermissionDenied, io_message = ''read only''\<rparr>, w)),
     se_flush = (\<lambda>_ w. (Inr (), w)),
     se_create_dir = (\<lambda>_ w. (Inl (Status StPermissionDenied ''read only''), w)),
     se_set_metadata = (\<lambda>_ _ w. (Inl (Status StPermissionDenied ''read only''), w)),
     se_remove_file = (\<lambda>_ w. (Inl (Status StPermissionDenied ''read only''), w)),
     se_remove_dir = (\<lambda>_ w. (Inl (Status StPermissionDenied ''read only''), w)),
     se_rename = (\<lambda>_ _ w. (Inl (Status StPermissionDenied ''read only''), w)),
     se_expired = (\<lambda>_. False)\<rparr>"

interpretation memory: sftp_session memory_session "\<lambda>_. True" "\<lambda>w. fmlookup (mem_files w)" "\<lambda>w. fmlookup (mem_cursors w)"
proof
  have two: "prefix (take (min n 2) xs) (take n xs)" for n and xs :: bytes
    by (metis min.commute take_is_prefix take_take)
  fix w :: memory_server and h path k b n
  assume "fmlookup (mem_cursors w) h = Some (path, k)" "fmlookup (mem_files w) path = Some b" "0 < (n :: nat)"
  then show "\<exists>data w'. se_file_read memory_session h n w = (Inr data, w') \<and> prefix data (take n (drop k b)) \<and>
      (data = [] \<longrightarrow> length b \<le> k) \<and> fmlookup (mem_cursors w') h = Some (path, k + length data)"
    using two[of n "drop k b"] by (auto simp: memory_session_def mem_read_def Let_def)
qed (auto simp: memory_session_def mem_open_def mem_seek_def mem_read_def Let_def fmdomI
      split: if_splits option.splits)

definition memory_fixture :: memory_server where
  "memory_fixture = \<lparr>mem_files = fmupd ''/readme.txt'' (byte_string ''hello'') fmempty, mem_cursors = fmempty\<rparr>"

text \<open>A mount whose connection is gone, although the cache still holds the attributes of its root.\<close>

definition lost_mount :: "(Index, memory_server) CacheVfs" where
  "lost_mount =
     (let v = CacheVfs_new (SftpBackend (memory_session\<lparr>se_metadata := \<lambda>_ w. (Inl (SftpOther ''connection lost''), w)\<rparr>)
                DEFAULT_READ_TIMEOUT) RemotePath_root False OnDemand 0 plain_json empty_dir 4 memory_fixture (\<lambda>_. 0)
      in v\<lparr>store := put_attrs (store v) RemotePath_root dir_attrs\<rparr>)"

theorem sftp_outage_is_reported_witness:
  "get_attrs (store lost_mount) RemotePath_root = Some dir_attrs \<and>
   fst (vfs_getattr ROOT lost_mount) = Err (RemoteBackend ''sftp error: connection lost'') \<and>
   fst (vfs_readdir ROOT lost_mount) = Err (RemoteBackend ''sftp error: connection lost'')"
proof -
  let ?se = "memory_session\<lparr>se_metadata := \<lambda>_ w. (Inl (SftpOther ''connection lost''), w)\<rparr>"
  have "fst (vfs_getattr ROOT lost_mount) = Err (map_sftp_error (SftpOther ''connection lost'')) \<and>
        fst (vfs_readdir ROOT lost_mount) = Err (map_sftp_error (SftpOther ''connection lost''))"
    by (rule sftp_outage_is_reported[of lost_mount ?se DEFAULT_READ_TIMEOUT ROOT RemotePath_root])
       (auto simp: lost_mount_def CacheVfs_new_def offline_def path_of_def State_new_def metadata_fresh_def
          memory_session_def)
  then show ?thesis by (simp add: lost_mount_def CacheVfs_new_def get_put_attrs)
qed

text \<open>
  C14: SFTP reads are exact.  On a session that answers as the protocol says, \<open>SftpBackend::read\<close>
  terminates with exactly the bytes of the file in the requested range (fewer only at the end of the
  file), however the server splits its answers, and leaves every file as it is.
\<close>

theorem sftp_read_exact:
  assumes "sftp_session se good served cursor" "good w" "served w (as_str p) = Some b"
  shows "\<exists>w'. sftp_read se t p pos sz w = (Ok (take (unat sz) (drop (unat pos) b)), w')
    \<and> good w' \<and> served w' = served w"
  using sftp_session.sftp_read_total[OF assms] .

theorem sftp_read_exact_witness:
  "\<exists>w'. sftp_read memory_session DEFAULT_READ_TIMEOUT readme 1 3 memory_fixture = (Ok (byte_string ''ell''), w')"
proof -
  have "fmlookup (mem_files memory_fixture) (as_str readme) = Some (byte_string ''hello'')"
    by (simp add: memory_fixture_def readme_def)
  from sftp_read_exact[OF memory.sftp_session_axioms TrueI this, of DEFAULT_READ_TIMEOUT 1 3]
  show ?thesis by (auto simp: byte_string_def)
qed

section \<open>Times over the wire\<close>

text \<open>
  What a server that stores the requested attributes reports back.  Times travel as 32-bit unsigned
  seconds: every time from 1970 to 2106 comes back exactly, any other one comes back reduced
  modulo \<open>2\<^sup>3\<^sup>2\<close>; sizes and modes are exact.
\<close>

lemma setattr_times_modulo:
  "(let a = file_attributes ft (set_attributes sa)
    in modified_unix_seconds a = map_option (\<lambda>t. word_of_int (sint t mod 2 ^ 32)) (sa_modified sa) \<and>
       accessed_unix_seconds a = map_option (\<lambda>t. word_of_int (sint t mod 2 ^ 32)) (sa_accessed sa) \<and>
       fsize a = unwrap_or 0 (sa_size sa) \<and> mode a = unwrap_or 0 (sa_mode sa))"
proof -
  have "(ucast (ucast t :: u32) :: i64) = word_of_int (sint t mod 2 ^ 32)" for t :: i64
    unfolding take_bit_eq_mod[symmetric] by (rule bit_word_eqI) (auto simp: bit_simps)
  then show ?thesis
    by (simp add: file_attributes_def set_attributes_def SftpAttributes_empty_def option.map_comp o_def)
qed

end
