(* ===== verification/Cli_Properties.thy ===== *)
theory Cli_Properties
  imports Cli_Options Sftp_Properties
begin

text \<open>
  What the command line guarantees: the remote specification, byte sizes and durations are read
  exactly; the containment test compares path components; connection settings follow the
  documented precedence up to the default identity files; and \<open>run\<close> mounts only checked
  configurations and opens no connection in offline mode.
\<close>

section \<open>Remote specifications\<close>

lemma parse_remote_splits_first_colon:
  "parse_remote spec = Inr rc \<longleftrightarrow>
     spec = rc_target rc @ '':'' @ rc_root rc \<and> rc_target rc \<noteq> [] \<and> CHR '':'' \<notin> set (rc_target rc) \<and> rc_root rc \<noteq> []"
proof -
  have "parse_remote spec = Inr rc \<longleftrightarrow>
      split_once CHR '':'' spec = Some (rc_target rc, rc_root rc) \<and> rc_target rc \<noteq> [] \<and> rc_root rc \<noteq> []"
    by (cases rc) (auto simp: parse_remote_def split: option.splits)
  then show ?thesis by (auto simp: split_once_Some)
qed

section \<open>Byte sizes and durations\<close>

lemma digit_not_space: "is_ascii_digit c \<Longrightarrow> \<not> is_whitespace c"
  by (auto simp: is_ascii_digit_def is_whitespace_def)

lemma dropWhile_not: "list_all (\<lambda>c. \<not> P c) s \<Longrightarrow> dropWhile P s = s"
  by (cases s) auto

lemma trim_spaces:
  assumes "list_all is_whitespace a" "list_all is_whitespace b" "list_all (\<lambda>c. \<not> is_whitespace c) s"
  shows "trim (a @ s @ b) = s"
proof (cases s)
  case Nil
  with assms have "\<forall>x \<in> set (a @ s @ b). is_whitespace x" by (auto simp: list_all_iff)
  then have "dropWhile is_whitespace (a @ s @ b) = []" by (simp only: dropWhile_eq_Nil_conv)
  then show ?thesis unfolding trim_def using Nil by (simp only: dropWhile.simps rev.simps)
next
  case (Cons x xs)
  have "dropWhile is_whitespace (a @ s @ b) = dropWhile is_whitespace (s @ b)"
    using assms(1) by (simp add: dropWhile_append2 list_all_iff)
  also have "\<dots> = s @ b" using assms(3) Cons by simp
  finally have "trim (a @ s @ b) = rev (dropWhile is_whitespace (rev b @ rev s))" by (simp add: trim_def)
  also have "dropWhile is_whitespace (rev b @ rev s) = dropWhile is_whitespace (rev s)"
    using assms(2) by (intro dropWhile_append2) (auto simp: list_all_iff)
  also have "\<dots> = rev s" using assms(3) by (intro dropWhile_not) (simp add: list_all_iff)
  finally show ?thesis by simp
qed

lemmas trim_id = trim_spaces[of "[]" "[]", simplified]

lemma show_nat_no_space: "list_all (\<lambda>c. \<not> is_whitespace c) (show_nat n)"
  using show_nat_digits[of n] digit_not_space by (auto simp: list_all_iff)

lemma trim_show_nat [simp]: "trim (show_nat n) = show_nat n"
  by (rule trim_id[OF show_nat_no_space])

lemma suffix_letters:
  assumes "size_multiplier (to_ascii_lowercase suff) = Some m" "c \<in> set suff"
  shows "\<not> is_whitespace c \<and> \<not> is_ascii_digit c"
proof -
  let ?lc = "\<lambda>c. if 65 \<le> (of_char c :: nat) \<and> (of_char c :: nat) \<le> 90 then char_of (of_char c + 32 :: nat) else c :: char"
  have "?lc c \<in> set (to_ascii_lowercase suff)" using assms(2) by (auto simp: to_ascii_lowercase_def)
  moreover have "set (to_ascii_lowercase suff) \<subseteq> {CHR ''b'', CHR ''k'', CHR ''i'', CHR ''m'', CHR ''g''}"
    using assms(1) by (auto simp: size_multiplier_def split: if_splits)
  ultimately have "?lc c \<in> {CHR ''b'', CHR ''k'', CHR ''i'', CHR ''m'', CHR ''g''}" by blast
  then show ?thesis
    by (auto simp: is_whitespace_def is_ascii_digit_def split: if_splits)
qed



lemma strip_suffix_append: "strip_suffix u (v @ u) = Some v"
  by (simp add: strip_suffix_def suffix_def)

lemma no_unit_suffix:
  assumes "\<not> is_ascii_digit c"
  shows "\<not> suffix (us @ [c]) (show_nat n)"
  using set_mono_suffix[of "us @ [c]" "show_nat n"] show_nat_char[of c n] assms by auto

lemma strip_unit:
  assumes "\<not> is_ascii_digit c"
  shows "strip_suffix [c] (show_nat n) = None" "strip_suffix [c] (show_nat n @ [d]) = (if d = c then Some (show_nat n) else None)"
    "strip_suffix [c, e] (show_nat n @ [d]) = None" "strip_suffix [c, e] (show_nat n @ [c, e]) = Some (show_nat n)"
    "\<not> is_ascii_digit e \<Longrightarrow> strip_suffix [c, e] (show_nat n) = None"
  using no_unit_suffix[OF assms, of "[]" n] no_unit_suffix[of e "[c]" n]
    strip_suffix_append[of "[c, e]" "show_nat n"]
  by (auto simp: strip_suffix_def suffix_snoc Cons_eq_append_conv)

lemma unit_letters: "\<not> is_ascii_digit CHR ''m''" "\<not> is_ascii_digit CHR ''s''" "\<not> is_ascii_digit CHR ''h''"
  by (simp_all add: is_ascii_digit_def)

lemma duration_unit_show:
  "duration_unit (show_nat n @ ''ms'') = (show_nat n, ''ms'')" "duration_unit (show_nat n @ ''s'') = (show_nat n, ''s'')"
  "duration_unit (show_nat n @ ''m'') = (show_nat n, ''m'')" "duration_unit (show_nat n @ ''h'') = (show_nat n, ''h'')"
  "duration_unit (show_nat n) = (show_nat n, ''s'')"
  by (simp_all add: duration_unit_def strip_unit unit_letters)

lemma parse_duration_unit:
  assumes "duration_unit (show_nat n @ u) = (show_nat n, unit)" "list_all (\<lambda>c. \<not> is_whitespace c) u" "n < 2 ^ 64"
  shows "parse_duration (show_nat n @ u) =
    (if unit = ''ms'' then Inr (n * 1000000)
     else if unit = ''s'' then Inr (secs n)
     else if unit = ''m'' then Inr (secs (n * 60 mod 2 ^ 64))
     else if unit = ''h'' then Inr (secs (n * 3600 mod 2 ^ 64))
     else Inl (invalid_duration (show_nat n @ u)))"
proof -
  have t: "trim (show_nat n @ u) = show_nat n @ u"
    using assms(2) show_nat_no_space[of n] by (intro trim_id) simp
  have w: "unat (of_nat n * 60 :: u64) = n * 60 mod 2 ^ 64" "unat (of_nat n * 3600 :: u64) = n * 3600 mod 2 ^ 64"
    using assms(3) by (simp_all add: unat_word_ariths unat_of_nat)
  show ?thesis
    using assms(3) by (simp add: parse_duration_def t assms(1) parse_uint_show_nat unat_of_nat_u64 w Let_def)
qed

text \<open>
  C33: durations.  A decimal number that fits in \<open>u64\<close> with the unit \<open>ms\<close> or \<open>s\<close>, or without a unit,
  denotes exactly that time.  With \<open>m\<close> or \<open>h\<close> the number of seconds is computed in \<open>u64\<close> without
  an overflow check, so it is exact up to \<open>2\<^sup>6\<^sup>4\<close> seconds and wraps beyond (the arithmetic of
  a release build).
\<close>

theorem duration_values:
  assumes "n < 2 ^ 64"
  shows "parse_duration (show_nat n @ ''ms'') = Inr (n * 1000000) \<and>
    parse_duration (show_nat n @ ''s'') = Inr (secs n) \<and> parse_duration (show_nat n) = Inr (secs n) \<and>
    parse_duration (show_nat n @ ''m'') = Inr (secs (n * 60 mod 2 ^ 64)) \<and>
    parse_duration (show_nat n @ ''h'') = Inr (secs (n * 3600 mod 2 ^ 64))"
  using parse_duration_unit[OF duration_unit_show(1) _ assms] parse_duration_unit[OF duration_unit_show(2) _ assms]
    parse_duration_unit[OF duration_unit_show(3) _ assms] parse_duration_unit[OF duration_unit_show(4) _ assms]
    parse_duration_unit[of n "[]", OF _ _ assms] duration_unit_show(5)[of n]
  by (simp add: is_whitespace_def)

theorem duration_values_witness:
  "parse_duration ''5m'' = Inr (secs 300) \<and> parse_duration (show_nat (2 ^ 62) @ ''h'') = Inr (secs 0)"
proof -
  have "show_nat 5 = ''5''" by (simp add: show_nat.simps char_of_def bit_0)
  then show ?thesis
    using duration_values[of 5] duration_values[of "2 ^ 62"] by simp
qed

section \<open>The containment test\<close>

definition lexical_components :: "string \<Rightarrow> Component list" where
  "lexical_components path = filter (\<lambda>c. c \<noteq> CurDir) (path_components path)"

definition named :: "string \<Rightarrow> bool" where
  "named x \<longleftrightarrow> x \<noteq> [] \<and> x \<noteq> ''.'' \<and> CHR ''/'' \<notin> set x"

lemma lexical_components_alt:
  "lexical_components path = (if prefix ''/'' path then [RootDir] else []) @
     map (\<lambda>part. if part = ''..'' then ParentDir else Normal part)
       (filter (\<lambda>part. part \<noteq> [] \<and> part \<noteq> ''.'') (str_split CHR ''/'' path))"
proof -
  let ?ps = "map (\<lambda>part. if part = ''..'' then ParentDir else Normal part)
    (filter (\<lambda>part. part \<noteq> [] \<and> part \<noteq> ''.'') (str_split CHR ''/'' path))"
  have "filter (\<lambda>c. c \<noteq> CurDir) ?ps = ?ps" by (rule filter_True) auto
  then show ?thesis by (simp add: lexical_components_def path_components_def Let_def)
qed

lemma path_components_join:
  assumes "named x"
  shows "path_components (path_join b x) = path_components b @ [if x = ''..'' then ParentDir else Normal x]"
proof -
  have x: "str_split CHR ''/'' x = [x]" "\<not> prefix ''/'' x"
    using assms by (auto simp: named_def str_split_single prefix_def)
  consider "b = []" | a where "b = a @ ''/''" | "b \<noteq> []" "last b \<noteq> CHR ''/''"
    by (metis append_butlast_last_id)
  then show ?thesis
  proof cases
    case 1
    with x assms show ?thesis by (auto simp: path_join_def path_components_def named_def)
  next
    case 2
    have "str_split CHR ''/'' (a @ ''/'' @ x) = str_split CHR ''/'' a @ [x]"
      "str_split CHR ''/'' b = str_split CHR ''/'' a @ [[]]"
      using str_split_append[of "CHR ''/''" a x] str_split_append[of "CHR ''/''" a "[]"] 2 x by simp_all
    moreover have "prefix ''/'' (a @ ''/'' @ x) \<longleftrightarrow> prefix ''/'' b"
      using 2 by (cases a) (auto simp: prefix_def)
    ultimately show ?thesis
      using 2 x assms by (auto simp: path_join_def path_components_def named_def Let_def)
  next
    case 3
    have "str_split CHR ''/'' (b @ ''/'' @ x) = str_split CHR ''/'' b @ [x]"
      using str_split_append[of "CHR ''/''" b x] x by simp
    moreover have "prefix ''/'' (b @ ''/'' @ x) \<longleftrightarrow> prefix ''/'' b"
      using 3 by (cases b) auto
    ultimately show ?thesis
      using 3 x assms by (auto simp: path_join_def path_components_def named_def Let_def)
  qed
qed

lemma path_components_foldl:
  "list_all named xs \<Longrightarrow>
   path_components (foldl path_join b xs) = path_components b @ map (\<lambda>x. if x = ''..'' then ParentDir else Normal x) xs"
  by (induction xs arbitrary: b) (auto simp: path_components_join)

lemma normalize_foldl: "normalize path = foldl path_join [] (map component_str (lexical_components path))"
proof -
  have "foldl (\<lambda>out c. if c = CurDir then out else path_join out (component_str c)) b cs =
      foldl path_join b (map component_str (filter (\<lambda>c. c \<noteq> CurDir) cs))" for b cs
    by (induction cs arbitrary: b) auto
  then show ?thesis by (simp add: normalize_def lexical_components_def)
qed

lemma path_components_normalize: "path_components (normalize path) = lexical_components path"
proof -
  let ?xs = "filter (\<lambda>part. part \<noteq> [] \<and> part \<noteq> ''.'') (str_split CHR ''/'' path)"
  have xs: "list_all named ?xs" by (auto simp: list_all_iff named_def dest: str_split_no_sep)
  have "map component_str (lexical_components path) = (if prefix ''/'' path then [''/''] else []) @ ?xs"
    by (simp add: lexical_components_alt comp_def if_distrib[of component_str] cong: if_cong)
  moreover have "path_components ''/'' = [RootDir]" "path_components [] = []"
    by (simp_all add: path_components_def)
  moreover have "path_join [] ''/'' = ''/''" by (simp add: path_join_def)
  ultimately show ?thesis
    using path_components_foldl[OF xs] by (simp add: normalize_foldl lexical_components_alt)
qed

text \<open>
  C31: the containment test is a test on path components.  \<open>is_inside\<close> goes through printed normalised
  paths, but decides exactly whether the components of the ancestor, without \<open>.\<close>, are a prefix of those of
  the path; so \<open>/mnt-cache\<close> is not inside \<open>/mnt\<close>, while \<open>/mnt/./c\<close> is.
\<close>

theorem is_inside_components:
  "is_inside path ancestor \<longleftrightarrow> prefix (lexical_components ancestor) (lexical_components path)"
  by (simp add: is_inside_def path_components_normalize)

section \<open>Connection settings\<close>

lemma fold_identity_files: "fold with_identity_file fs opts = opts\<lparr>so_identity_files := so_identity_files opts @ fs\<rparr>"
  by (induction fs arbitrary: opts) (simp_all add: with_identity_file_def)

lemma override_target_fields:
  "st_host (override_target cli hc u t) = unwrap_or (st_host t) (sh_hostname hc)"
  "st_username (override_target cli hc u t) = (if u = None then unwrap_or (st_username t) (sh_user hc) else st_username t)"
  "st_port (override_target cli hc u t) = unwrap_or (unwrap_or (st_port t) (sh_port hc)) (cli_port cli)"
  by (auto simp: override_target_def Let_def unwrap_or_def split: option.splits)

text \<open>
  C30: where connection settings come from.  When \<open>connect_options\<close> succeeds, the host is the
  config's \<open>HostName\<close> or else the one written; the user is the one written, else the config's, else the
  environment's; the port is \<open>--port\<close>, else the config's, else the target's; unknown hosts are
  accepted exactly with the flag; and the identity files are the three default ones first, then
  \<open>--identity-file\<close>, then those of the config.
\<close>

theorem connect_options_precedence:
  assumes "connect_options env rd cli target = Inr opts"
  shows "\<exists>hc t. resolve_ssh_config env rd cli (snd (split_user target)) = Inr hc \<and>
    SftpTarget_parse env target = Ok t \<and>
    st_host (so_target opts) = unwrap_or (st_host t) (sh_hostname hc) \<and>
    st_username (so_target opts) = unwrap_or (unwrap_or (st_username t) (sh_user hc)) (fst (split_user target)) \<and>
    st_port (so_target opts) = unwrap_or (unwrap_or (st_port t) (sh_port hc)) (cli_port cli) \<and>
    so_identity_files opts = default_identity_files env @
      (case cli_identity_file cli of Some f \<Rightarrow> [f] | None \<Rightarrow> []) @ sh_identity_files hc \<and>
    so_accept_unknown_hosts opts = cli_accept_unknown_host_key cli \<and>
    so_known_hosts_files opts = default_known_hosts_files env \<and>
    (case cli_remote_read_timeout cli of
       None \<Rightarrow> so_read_timeout opts = DEFAULT_READ_TIMEOUT
     | Some txt \<Rightarrow> parse_duration txt = Inr (so_read_timeout opts))"
proof -
  obtain u al where su: "split_user target = (u, al)" by fastforce
  obtain hc where hc: "resolve_ssh_config env rd cli al = Inr hc"
    using assms su by (auto simp: connect_options_def split: sum.splits)
  obtain t where t: "SftpTarget_parse env target = Ok t"
    using assms su hc by (auto simp: connect_options_def split: result.splits)
  have user: "u = Some x \<Longrightarrow> st_username t = x" for x
    using su t by (auto simp: split_user_def SftpTarget_parse_def split: option.splits if_splits result.splits)
  let ?T = "override_target cli hc u t"
  let ?ids = "default_identity_files env @ (case cli_identity_file cli of Some f \<Rightarrow> [f] | None \<Rightarrow> []) @ sh_identity_files hc"
  obtain tm where tm: "case cli_remote_read_timeout cli of None \<Rightarrow> tm = DEFAULT_READ_TIMEOUT
        | Some txt \<Rightarrow> parse_duration txt = Inr tm"
      and opts: "opts = (for_target env ?T)\<lparr>so_identity_files := ?ids,
        so_accept_unknown_hosts := cli_accept_unknown_host_key cli, so_read_timeout := tm\<rparr>"
    using assms unfolding connect_options_def su prod.case hc sum.case t result.case Let_def
      fold_identity_files with_identity_file_def accept_unknown_hosts_def with_read_timeout_def
    by (cases "cli_remote_read_timeout cli"; cases "cli_identity_file cli")
       (auto simp: for_target_def split: sum.splits if_splits)
  have "st_username ?T = unwrap_or (unwrap_or (st_username t) (sh_user hc)) u"
    using user by (auto simp: override_target_fields unwrap_or_def split: option.splits)
  moreover have "so_read_timeout opts = tm" by (simp add: opts)
  ultimately show ?thesis
    using tm su hc t
    by (intro exI[of _ hc] exI[of _ t])
       (simp add: opts for_target_def override_target_fields split: option.splits)
qed

definition sample_cli :: Cli where
  "sample_cli = \<lparr>cli_remote = ''bob@dev:/srv'', cli_mountpoint = ''/mnt'', cli_cache_dir = Some ''/var/cache'',
     cli_cache_mode = ArgOffline, cli_cache_chunk_size = None, cli_read_only = False, cli_port = Some 2222,
     cli_identity_file = Some ''key'', cli_accept_unknown_host_key = False, cli_ssh_config = None,
     cli_metadata_ttl = None, cli_remote_read_timeout = None, cli_content_ttl = None, cli_download = None,
     cli_allow_other = False\<rparr>"

lemma sample_connect_options: "\<exists>opts. connect_options (\<lambda>_. None) rd sample_cli ''bob@dev'' = Inr opts"
  by (simp add: connect_options_def split_user_def rsplit_once_def split_once_def resolve_ssh_config_def
      default_config_path_def home_dir_def sample_cli_def SftpTarget_parse_def parse_host_and_port_def
      strip_prefix_def Let_def)

theorem connect_options_precedence_witness:
  "\<exists>opts. connect_options (\<lambda>_. None) (\<lambda>_. Inr []) sample_cli ''bob@dev'' = Inr opts \<and>
     st_username (so_target opts) = ''bob'' \<and> st_port (so_target opts) = 2222 \<and> so_identity_files opts = [''key'']"
proof -
  obtain opts where opts: "connect_options (\<lambda>_. None) (\<lambda>_. Inr []) sample_cli ''bob@dev'' = Inr opts"
    using sample_connect_options by blast
  from connect_options_precedence[OF opts]
  have "st_username (so_target opts) = ''bob'' \<and> st_port (so_target opts) = 2222 \<and> so_identity_files opts = [''key'']"
    by (auto simp: sample_cli_def split_user_def rsplit_once_def split_once_def unwrap_or_def
        resolve_ssh_config_def default_config_path_def home_dir_def SshHostConfig_default_def default_identity_files_def)
  with opts show ?thesis by blast
qed

section \<open>Running\<close>

lemma size_multiplier_positive: "size_multiplier suff = Some m \<Longrightarrow> 0 < unat m"
  by (auto simp: size_multiplier_def split: if_splits)

lemma byte_size_positive:
  assumes "parse_byte_size txt = Inr sz"
  shows "0 < sz"
proof -
  obtain n m where "0 < n" "n < 2 ^ 64" "checked_mul (of_nat n) m = Some sz" "0 < unat m"
    using assms
    by (auto simp: parse_byte_size_def Let_def parse_uint_def parse_digits_def
        split: if_splits option.splits list.splits dest: size_multiplier_positive)
  then show ?thesis
    by (auto simp: checked_mul_def word_less_nat_alt unat_mult_u64 unat_of_nat_u64 split: if_splits)
qed

lemma to_mount_config_checked:
  assumes "to_mount_config env cli = Inr config"
  shows "0 < mc_cache_chunk_size config"
    and "\<not> prefix (lexical_components (mc_mountpoint config)) (lexical_components (mc_cache_dir config))"
    and "mc_mountpoint config = cli_mountpoint cli" "mc_read_only config = cli_read_only cli"
    and "mc_cache_mode config = cache_mode_of (cli_cache_mode cli)"
    and "parse_remote (cli_remote cli) = Inr (mc_remote config)"
  using assms
  by (auto simp: to_mount_config_def Let_def DEFAULT_CACHE_CHUNK_SIZE_def is_inside_def path_components_normalize
      split: sum.splits if_splits option.splits dest: byte_size_positive)

lemma cache_mode_offline: "cache_mode_of m = Offline \<longleftrightarrow> m = ArgOffline"
  by (cases m) auto

lemma build_filesystem_Inr:
  assumes "build_filesystem pl cli config root ttl w = (Inr fs, w0)"
  obtains R where "fs = CacheVfs_new R root (mc_read_only config) (mc_cache_mode config) ttl
      (pl_json pl) (pl_disk pl (mc_cache_dir config)) (mc_cache_chunk_size config) w0 (pl_clock pl)"
    "if mc_cache_mode config = Offline then R = DisconnectedRemote \<and> w0 = w
     else \<exists>opts. connect_options (pl_env pl) (pl_read_to_string pl) cli (rc_target (mc_remote config)) = Inr opts \<and>
       connect_with_options (pl_client pl) (pl_session pl) opts w = (Ok R, w0)"
proof (cases "mc_cache_mode config = Offline")
  case True
  with assms have "fs = CacheVfs_new DisconnectedRemote root (mc_read_only config) (mc_cache_mode config) ttl
      (pl_json pl) (pl_disk pl (mc_cache_dir config)) (mc_cache_chunk_size config) w0 (pl_clock pl)" "w0 = w"
    unfolding build_filesystem_def CacheVfs_new_offline_def by auto
  with True show thesis by (intro that[of DisconnectedRemote]) simp_all
next
  case False
  then obtain opts where o: "connect_options (pl_env pl) (pl_read_to_string pl) cli (rc_target (mc_remote config)) = Inr opts"
    using assms by (auto simp: build_filesystem_def split: sum.splits)
  obtain r w1 where c: "connect_with_options (pl_client pl) (pl_session pl) opts w = (r, w1)" by fastforce
  with False o assms obtain R where "r = Ok R" by (cases r) (auto simp: build_filesystem_def)
  with False o c assms have "fs = CacheVfs_new R root (mc_read_only config) (mc_cache_mode config) ttl
      (pl_json pl) (pl_disk pl (mc_cache_dir config)) (mc_cache_chunk_size config) w0 (pl_clock pl)" "w1 = w0"
    unfolding build_filesystem_def by auto
  with False o c \<open>r = Ok R\<close> show thesis by (intro that[of R]) simp_all
qed

text \<open>
  C26: \<open>run\<close> mounts only checked configurations.  When it succeeds, the platform's mount was called on
  a configuration whose remote is the argument split at its first colon into a non-empty target and
  root, whose chunk size is positive and whose cache directory is not inside the mountpoint,
  with a fresh \<open>CacheVfs\<close> on a valid absolute remote root in the requested mode and with the requested
  write protection; its remote is the disconnected one in offline mode, and otherwise
  one handed out by \<open>connect_with_options\<close> for the options of the command line.
\<close>

theorem run_mounts_checked_configuration:
  assumes "run pl cli w = (Inr (), w')"
  shows "\<exists>config root ttl R w0. to_mount_config (pl_env pl) cli = Inr config \<and>
    cli_remote cli = rc_target (mc_remote config) @ '':'' @ rc_root (mc_remote config) \<and>
    rc_target (mc_remote config) \<noteq> [] \<and> CHR '':'' \<notin> set (rc_target (mc_remote config)) \<and>
    0 < mc_cache_chunk_size config \<and>
    \<not> prefix (lexical_components (mc_mountpoint config)) (lexical_components (mc_cache_dir config)) \<and>
    RemotePath_new (rc_root (mc_remote config)) = Ok root \<and> valid_path root \<and>
    pl_mount pl config (CacheVfs_new R root (cli_read_only cli) (cache_mode_of (cli_cache_mode cli)) ttl
      (pl_json pl) (pl_disk pl (mc_cache_dir config)) (mc_cache_chunk_size config) w0 (pl_clock pl)) = (Ok (), w') \<and>
    (if cli_cache_mode cli = ArgOffline then R = DisconnectedRemote \<and> w0 = w
     else \<exists>opts. connect_options (pl_env pl) (pl_read_to_string pl) cli (rc_target (mc_remote config)) = Inr opts \<and>
       connect_with_options (pl_client pl) (pl_session pl) opts w = (Ok R, w0))"
proof -
  obtain config where c: "to_mount_config (pl_env pl) cli = Inr config"
    using assms by (auto simp: run_def split: sum.splits)
  note checked = to_mount_config_checked[OF c]
  note spec = checked(6)[unfolded parse_remote_splits_first_colon]
  obtain root where r: "RemotePath_new (rc_root (mc_remote config)) = Ok root"
    using assms c by (auto simp: run_def split: result.splits)
  obtain ttl where ttl: "metadata_ttl_duration cli = Inr ttl"
    using assms c r by (auto simp: run_def split: sum.splits)
  obtain fs w0 where fs: "build_filesystem pl cli config root ttl w = (Inr fs, w0)"
      and m: "pl_mount pl config fs = (Ok (), w')"
    using assms c r ttl by (auto simp: run_def split: sum.splits prod.splits result.splits)
  obtain R where R: "fs = CacheVfs_new R root (mc_read_only config) (mc_cache_mode config) ttl
      (pl_json pl) (pl_disk pl (mc_cache_dir config)) (mc_cache_chunk_size config) w0 (pl_clock pl)"
    "if mc_cache_mode config = Offline then R = DisconnectedRemote \<and> w0 = w
     else \<exists>opts. connect_options (pl_env pl) (pl_read_to_string pl) cli (rc_target (mc_remote config)) = Inr opts \<and>
       connect_with_options (pl_client pl) (pl_session pl) opts w = (Ok R, w0)"
    using build_filesystem_Inr[OF fs] by blast
  have "valid_path root" using r RemotePath_new_Ok by blast
  with c r m checked R spec show ?thesis
    by (intro exI[of _ config] exI[of _ root] exI[of _ ttl] exI[of _ R] exI[of _ w0]) (simp add: cache_mode_offline)
qed

definition sample_platform :: "(Index, nat, nat, memory_server) platform" where
  "sample_platform = \<lparr>pl_env = (\<lambda>_. None), pl_read_to_string = (\<lambda>_. Inr []), pl_client = sample_client,
     pl_session = memory_session, pl_json = plain_json, pl_disk = (\<lambda>_. empty_dir), pl_clock = (\<lambda>_. 0),
     pl_mount = (\<lambda>_ v. (Ok (), world v))\<rparr>"

lemma sample_run: "run sample_platform sample_cli memory_fixture = (Inr (), memory_fixture)"
proof -
  have "parse_remote ''bob@dev:/srv'' = Inr \<lparr>rc_target = ''bob@dev'', rc_root = ''/srv''\<rparr>"
    by (simp add: parse_remote_def split_once_def)
  moreover have "\<not> is_inside ''/var/cache'' ''/mnt''"
    unfolding is_inside_def path_components_normalize by (simp add: lexical_components_def path_components_def)
  moreover have "RemotePath_new ''/srv'' = Ok (RemotePath ''/srv'')" by (simp add: RemotePath_new_def)
  ultimately show ?thesis
    by (simp add: run_def to_mount_config_def sample_cli_def sample_platform_def metadata_ttl_duration_def
        build_filesystem_def CacheVfs_new_offline_def CacheVfs_new_def Let_def)
qed

theorem run_mounts_checked_configuration_witness:
  "\<exists>config. to_mount_config (pl_env sample_platform) sample_cli = Inr config \<and> 0 < mc_cache_chunk_size config \<and>
     \<not> prefix (lexical_components (mc_mountpoint config)) (lexical_components (mc_cache_dir config))"
  using run_mounts_checked_configuration[OF sample_run] by blast



end
