(* ===== verification/Windows_Adapter.thy ===== *)
theory Windows_Adapter
  imports Vfs_Tables
begin

text \<open>
  The Windows mount adapter (\<open>crates/cacheshfs-windows/src\<close>): file times and attributes (\<open>attr.rs\<close>), the
  \<open>NTSTATUS\<close> of errors (\<open>error.rs\<close>), the walk along WinFsp paths (\<open>path.rs\<close>), the WinFsp callbacks over any
  \<open>VirtualFilesystem\<close> (\<open>fs.rs\<close>) and the blocking mount call (\<open>mount.rs\<close>).

  WinFsp is a parameter: its directory buffer is a record of functions, and a path is the string that
  \<open>to_string_lossy\<close> gives.  A callback that fills a \<open>FileInfo\<close> returns it; the mutable parts of a
  \<open>CacheFile\<close> (the pending deletion and the directory buffer) are returned with the context.
\<close>

section \<open>Attributes\<close>

definition FILE_ATTRIBUTE_READONLY :: u32 where
  "FILE_ATTRIBUTE_READONLY = 0x1"

definition FILE_ATTRIBUTE_DIRECTORY :: u32 where
  "FILE_ATTRIBUTE_DIRECTORY = 0x10"

definition FILE_ATTRIBUTE_NORMAL :: u32 where
  "FILE_ATTRIBUTE_NORMAL = 0x80"

definition FILE_ATTRIBUTE_REPARSE_POINT :: u32 where
  "FILE_ATTRIBUTE_REPARSE_POINT = 0x400"

definition UNIX_EPOCH_IN_FILETIME :: int where
  "UNIX_EPOCH_IN_FILETIME = 116444736000000000"

definition TICKS_PER_SECOND :: int where
  "TICKS_PER_SECOND = 10000000"

definition saturate_i64 :: "int \<Rightarrow> int" where
  "saturate_i64 x = max (- (2 ^ 63)) (min x (2 ^ 63 - 1))"

definition truncating_div :: "int \<Rightarrow> int \<Rightarrow> int" where
  "truncating_div a b = sgn a * sgn b * (\<bar>a\<bar> div \<bar>b\<bar>)"

definition unix_to_filetime :: "i64 option \<Rightarrow> u64" where
  "unix_to_filetime seconds =
     (case seconds of
        Some s \<Rightarrow> word_of_int (max (saturate_i64 (saturate_i64 (sint s * TICKS_PER_SECOND) + UNIX_EPOCH_IN_FILETIME)) 0)
      | None \<Rightarrow> 0)"

definition filetime_to_unix :: "u64 \<Rightarrow> i64" where
  "filetime_to_unix filetime =
     word_of_int (truncating_div (sint (filetime - word_of_int UNIX_EPOCH_IN_FILETIME :: i64)) TICKS_PER_SECOND)"

definition windows_file_attributes :: "FileAttributes \<Rightarrow> u32" where
  "windows_file_attributes a =
     (case kind a of
        Directory \<Rightarrow> FILE_ATTRIBUTE_DIRECTORY
      | Symlink \<Rightarrow> FILE_ATTRIBUTE_REPARSE_POINT
      | File \<Rightarrow> if and (mode a) 0x92 = 0 then FILE_ATTRIBUTE_READONLY else FILE_ATTRIBUTE_NORMAL)"

definition allocation_size :: "u64 \<Rightarrow> u64" where
  "allocation_size sz = saturating_add sz (4096 - 1) div 4096 * 4096"

record FileInfo =
  fi_file_attributes :: u32
  fi_reparse_tag :: u32
  fi_file_size :: u64
  fi_allocation_size :: u64
  fi_last_write_time :: u64
  fi_last_access_time :: u64
  fi_change_time :: u64
  fi_creation_time :: u64
  fi_index_number :: u64
  fi_hard_links :: u32
  fi_ea_size :: u32

definition fill_file_info :: "FileAttributes \<Rightarrow> u64 \<Rightarrow> FileInfo" where
  "fill_file_info a n =
     (let mtime = unix_to_filetime (modified_unix_seconds a);
          atime = unix_to_filetime (accessed_unix_seconds a);
          ctime = unix_to_filetime (changed_unix_seconds a)
      in \<lparr>fi_file_attributes = windows_file_attributes a, fi_reparse_tag = 0, fi_file_size = fsize a,
          fi_allocation_size = allocation_size (fsize a), fi_last_write_time = mtime,
          fi_last_access_time = (if atime \<noteq> 0 then atime else mtime),
          fi_change_time = (if ctime \<noteq> 0 then ctime else mtime), fi_creation_time = mtime,
          fi_index_number = n, fi_hard_links = 0, fi_ea_size = 0\<rparr>)"

section \<open>Errors\<close>

type_synonym ntstatus = "32 word" \<comment> \<open>\<open>i32\<close>, read by \<open>sint\<close>\<close>

fun to_fsp :: "error \<Rightarrow> ntstatus" where
  "to_fsp NotFound = 0xC0000034"
| "to_fsp AlreadyExists = 0xC0000035"
| "to_fsp PermissionDenied = 0xC0000022"
| "to_fsp (InvalidInput _) = 0xC000000D"
| "to_fsp (UnsupportedOperation _) = 0xC0000002"
| "to_fsp (Unavailable _) = 0xC00000A3"
| "to_fsp (RemoteBackend _) = 0xC00000C4"
| "to_fsp (MountBackend _) = 0xC00000E5"
| "to_fsp (UnsupportedPlatform _) = 0xC00000BB"

fun fsp :: "'a result \<times> 's \<Rightarrow> (ntstatus + 'a) \<times> 's" where
  "fsp (Ok x, s) = (Inr x, s)"
| "fsp (Err e, s) = (Inl (to_fsp e), s)"

definition fsp_then :: "(ntstatus + 'a) \<times> 's \<Rightarrow> ('a \<Rightarrow> 's \<Rightarrow> (ntstatus + 'b) \<times> 's) \<Rightarrow> (ntstatus + 'b) \<times> 's" where
  "fsp_then x f = (case x of (Inl e, s) \<Rightarrow> (Inl e, s) | (Inr a, s) \<Rightarrow> f a s)"

section \<open>Paths\<close>

definition win_components :: "string \<Rightarrow> string list" where
  "win_components name =
     filter (\<lambda>c. c \<noteq> []) (str_split CHR ''/'' (map (\<lambda>c. if c = CHR 0x5C then CHR ''/'' else c) name))"

definition eq_ignore_ascii_case :: "string \<Rightarrow> string \<Rightarrow> bool" where
  "eq_ignore_ascii_case a b \<longleftrightarrow> to_ascii_lowercase a = to_ascii_lowercase b"

definition lookup_component ::
  "'s VirtualFilesystem \<Rightarrow> NodeId \<Rightarrow> string \<Rightarrow> 's \<Rightarrow> (FileMetadata \<times> string) result \<times> 's" where
  "lookup_component fs parent name s =
     (case vf_lookup fs parent name s of
        (Ok m, s) \<Rightarrow> (Ok (m, name), s)
      | (Err e, s) \<Rightarrow>
          if e = NotFound then
            (case vf_readdir fs parent s of
               (Err e, s) \<Rightarrow> (Err e, s)
             | (Ok es, s) \<Rightarrow>
                 (case find (\<lambda>entry. eq_ignore_ascii_case (de_name entry) name) es of
                    Some entry \<Rightarrow> (Ok (de_metadata entry, de_name entry), s)
                  | None \<Rightarrow> (Err NotFound, s)))
          else (Err e, s))"

fun resolve_components ::
  "'s VirtualFilesystem \<Rightarrow> FileMetadata \<Rightarrow> NodeId \<Rightarrow> string \<Rightarrow> string list \<Rightarrow> 's \<Rightarrow> (FileMetadata \<times> string) result \<times> 's" where
  "resolve_components fs m n canonical [] s = (Ok (m, canonical), s)"
| "resolve_components fs m n canonical (c # cs) s =
     (case lookup_component fs n c s of
        (Err e, s) \<Rightarrow> (Err e, s)
      | (Ok (found, real_name), s) \<Rightarrow>
          resolve_components fs found (node found) (canonical @ CHR 0x5C # real_name) cs s)"

definition win_resolve :: "'s VirtualFilesystem \<Rightarrow> string \<Rightarrow> 's \<Rightarrow> (FileMetadata \<times> string) result \<times> 's" where
  "win_resolve fs name s =
     (case vf_getattr fs ROOT s of
        (Err e, s) \<Rightarrow> (Err e, s)
      | (Ok m, s) \<Rightarrow>
          (case resolve_components fs m ROOT [] (win_components name) s of
             (Err e, s) \<Rightarrow> (Err e, s)
           | (Ok (m, canonical), s) \<Rightarrow> (Ok (m, if canonical = [] then [CHR 0x5C] else canonical), s)))"

fun resolve_parents :: "'s VirtualFilesystem \<Rightarrow> NodeId \<Rightarrow> string list \<Rightarrow> 's \<Rightarrow> NodeId result \<times> 's" where
  "resolve_parents fs n [] s = (Ok n, s)"
| "resolve_parents fs n (c # cs) s =
     (case lookup_component fs n c s of
        (Err e, s) \<Rightarrow> (Err e, s)
      | (Ok (m, _), s) \<Rightarrow> resolve_parents fs (node m) cs s)"

definition resolve_parent :: "'s VirtualFilesystem \<Rightarrow> string \<Rightarrow> 's \<Rightarrow> (NodeId \<times> string) result \<times> 's" where
  "resolve_parent fs name s =
     (let cs = win_components name
      in if cs = [] then (Err (InvalidInput ''the root has no parent''), s)
         else (case resolve_parents fs ROOT (butlast cs) s of
                 (Err e, s) \<Rightarrow> (Err e, s)
               | (Ok n, s) \<Rightarrow> (Ok (n, last cs), s)))"

section \<open>Contexts and flags\<close>

record 'd CacheFile =
  wf_node :: NodeId
  wf_handle :: "FileHandle option"
  wf_is_dir :: bool
  wf_dir_buffer :: 'd
  wf_delete_pending :: bool

record 'd dir_buffer =
  db_new :: 'd
  db_acquire :: "bool \<Rightarrow> 'd \<Rightarrow> 'd option"
  db_write :: "string \<Rightarrow> FileInfo \<Rightarrow> 'd \<Rightarrow> ntstatus + 'd" \<comment> \<open>\<open>set_name\<close> and \<open>write\<close>\<close>
  db_read :: "string option \<Rightarrow> nat \<Rightarrow> 'd \<Rightarrow> bytes"

definition win_open_flags :: "u32 \<Rightarrow> u32 \<Rightarrow> OpenFlags" where
  "win_open_flags create_options granted_access = \<lparr>
     of_read = True, of_write = (and granted_access (or (or 0x2 0x4) 0x100) \<noteq> 0),
     of_append = (and granted_access 0x4 \<noteq> 0), of_truncate = False\<rparr>"

definition mode_for_create :: "u32 \<Rightarrow> bool \<Rightarrow> u32" where
  "mode_for_create file_attributes is_dir =
     (let ro = (and file_attributes FILE_ATTRIBUTE_READONLY \<noteq> 0)
      in if is_dir then (if ro then 0x16D else 0x1ED) else (if ro then 0x124 else 0x1A4))"

section \<open>Callbacks\<close>

definition refreshed :: "'s VirtualFilesystem \<Rightarrow> NodeId \<Rightarrow> 's \<Rightarrow> (ntstatus + FileInfo) \<times> 's" where
  "refreshed fs n s = fsp_then (fsp (vf_getattr fs n s)) (\<lambda>m s. (Inr (fill_file_info (attributes m) (node_num n)), s))"

definition win_get_security_by_name :: "'s VirtualFilesystem \<Rightarrow> string \<Rightarrow> 's \<Rightarrow> (ntstatus + u32) \<times> 's" where
  "win_get_security_by_name fs name s =
     fsp_then (fsp (win_resolve fs name s)) (\<lambda>(m, _) s. (Inr (windows_file_attributes (attributes m)), s))"

definition win_open ::
  "'s VirtualFilesystem \<Rightarrow> 'd dir_buffer \<Rightarrow> string \<Rightarrow> u32 \<Rightarrow> u32 \<Rightarrow> 's
   \<Rightarrow> (ntstatus + ('d CacheFile \<times> FileInfo \<times> string)) \<times> 's" where
  "win_open fs db name create_options granted_access s =
     fsp_then (fsp (win_resolve fs name s)) (\<lambda>(m, canonical) s.
       let is_dir = (kind (attributes m) = Directory)
       in fsp_then (if is_dir then (Inr None, s)
                    else (case fsp (vf_open fs (node m) (win_open_flags create_options granted_access) s) of
                            (Inl e, s) \<Rightarrow> (Inl e, s)
                          | (Inr h, s) \<Rightarrow> (Inr (Some h), s)))
            (\<lambda>h s. (Inr (\<lparr>wf_node = node m, wf_handle = h, wf_is_dir = is_dir, wf_dir_buffer = db_new db,
                          wf_delete_pending = False\<rparr>,
                         fill_file_info (attributes m) (node_num (node m)), canonical), s)))"

definition win_close :: "'s VirtualFilesystem \<Rightarrow> 'd CacheFile \<Rightarrow> 's \<Rightarrow> 's" where
  "win_close fs ctx s = (case wf_handle ctx of None \<Rightarrow> s | Some h \<Rightarrow> snd (vf_release fs h s))"

definition win_create ::
  "'s VirtualFilesystem \<Rightarrow> 'd dir_buffer \<Rightarrow> string \<Rightarrow> u32 \<Rightarrow> u32 \<Rightarrow> u32 \<Rightarrow> 's
   \<Rightarrow> (ntstatus + ('d CacheFile \<times> FileInfo \<times> string)) \<times> 's" where
  "win_create fs db name create_options granted_access file_attributes s =
     fsp_then (fsp (resolve_parent fs name s)) (\<lambda>(parent, leaf) s.
       if and create_options 0x1 \<noteq> 0 then
         fsp_then (fsp (vf_mkdir fs parent leaf (mode_for_create file_attributes True) s)) (\<lambda>m s.
           (Inr (\<lparr>wf_node = node m, wf_handle = None, wf_is_dir = True, wf_dir_buffer = db_new db,
                  wf_delete_pending = False\<rparr>, fill_file_info (attributes m) (node_num (node m)), name), s))
       else
         fsp_then (fsp (vf_create fs parent leaf (mode_for_create file_attributes False)
                          (win_open_flags create_options granted_access) s)) (\<lambda>c s.
           (Inr (\<lparr>wf_node = node (cf_metadata c), wf_handle = Some (cf_handle c), wf_is_dir = False,
                  wf_dir_buffer = db_new db, wf_delete_pending = False\<rparr>,
                 fill_file_info (attributes (cf_metadata c)) (node_num (node (cf_metadata c))), name), s)))"

definition win_cleanup :: "'s VirtualFilesystem \<Rightarrow> 'd CacheFile \<Rightarrow> string option \<Rightarrow> u32 \<Rightarrow> 's \<Rightarrow> 's" where
  "win_cleanup fs ctx name flags s =
     (if and flags 1 = 0 \<or> \<not> wf_delete_pending ctx then s
      else
        (case name of
           None \<Rightarrow> s
         | Some name \<Rightarrow>
             (case resolve_parent fs name s of
                (Err _, s) \<Rightarrow> s
              | (Ok (parent, leaf), s) \<Rightarrow>
                  snd (if wf_is_dir ctx then vf_rmdir fs parent leaf s else vf_unlink fs parent leaf s))))"

definition win_flush :: "'s VirtualFilesystem \<Rightarrow> 'd CacheFile option \<Rightarrow> 's \<Rightarrow> (ntstatus + FileInfo option) \<times> 's" where
  "win_flush fs ctx s =
     (case ctx of
        None \<Rightarrow> (Inr None, s)
      | Some ctx \<Rightarrow>
          fsp_then (case wf_handle ctx of None \<Rightarrow> (Inr (), s) | Some h \<Rightarrow> fsp (vf_flush fs h s)) (\<lambda>_ s.
            fsp_then (refreshed fs (wf_node ctx) s) (\<lambda>info s. (Inr (Some info), s))))"

definition win_get_file_info :: "'s VirtualFilesystem \<Rightarrow> 'd CacheFile \<Rightarrow> 's \<Rightarrow> (ntstatus + FileInfo) \<times> 's" where
  "win_get_file_info fs ctx s = refreshed fs (wf_node ctx) s"

definition win_overwrite :: "'s VirtualFilesystem \<Rightarrow> 'd CacheFile \<Rightarrow> 's \<Rightarrow> (ntstatus + FileInfo) \<times> 's" where
  "win_overwrite fs ctx s =
     fsp_then (fsp (vf_setattr fs (wf_node ctx) (SetAttributes_default\<lparr>sa_size := Some 0\<rparr>) s)) (\<lambda>_ s.
       refreshed fs (wf_node ctx) s)"

fun write_entries :: "'d dir_buffer \<Rightarrow> (string \<times> FileInfo) list \<Rightarrow> 'd \<Rightarrow> (ntstatus + unit) \<times> 'd" where
  "write_entries db [] d = (Inr (), d)"
| "write_entries db ((name, info) # es) d =
     (case db_write db name info d of Inl e \<Rightarrow> (Inl e, d) | Inr d \<Rightarrow> write_entries db es d)"

definition child_info :: "DirectoryEntry \<Rightarrow> string \<times> FileInfo" where
  "child_info e = (de_name e, fill_file_info (attributes (de_metadata e)) (node_num (node (de_metadata e))))"

definition fill_dir_buffer ::
  "'s VirtualFilesystem \<Rightarrow> 'd dir_buffer \<Rightarrow> NodeId \<Rightarrow> 'd \<Rightarrow> 's \<Rightarrow> (ntstatus + unit) \<times> 'd \<times> 's" where
  "fill_dir_buffer fs db n d s =
     (case fsp (vf_getattr fs n s) of
        (Inl e, s) \<Rightarrow> (Inl e, d, s)
      | (Inr m, s) \<Rightarrow>
          (let info = fill_file_info (attributes m) (node_num n)
           in case write_entries db [(''.'', info), (''..'', info)] d of
                (Inl e, d) \<Rightarrow> (Inl e, d, s)
              | (Inr _, d) \<Rightarrow>
                  (case fsp (vf_readdir fs n s) of
                     (Inl e, s) \<Rightarrow> (Inl e, d, s)
                   | (Inr es, s) \<Rightarrow>
                       (case write_entries db (map child_info es) d of (r, d) \<Rightarrow> (r, d, s)))))"

definition win_read_directory ::
  "'s VirtualFilesystem \<Rightarrow> 'd dir_buffer \<Rightarrow> 'd CacheFile \<Rightarrow> string option \<Rightarrow> nat \<Rightarrow> 's
   \<Rightarrow> (ntstatus + bytes) \<times> 'd CacheFile \<times> 's" where
  "win_read_directory fs db ctx marker len s =
     (case db_acquire db (marker = None) (wf_dir_buffer ctx) of
        None \<Rightarrow> (Inr (db_read db marker len (wf_dir_buffer ctx)), ctx, s)
      | Some d \<Rightarrow>
          (case fill_dir_buffer fs db (wf_node ctx) d s of
             (Inl e, d, s) \<Rightarrow> (Inl e, ctx\<lparr>wf_dir_buffer := d\<rparr>, s)
           | (Inr _, d, s) \<Rightarrow> (Inr (db_read db marker len d), ctx\<lparr>wf_dir_buffer := d\<rparr>, s)))"

definition win_rename :: "'s VirtualFilesystem \<Rightarrow> string \<Rightarrow> string \<Rightarrow> 's \<Rightarrow> (ntstatus + unit) \<times> 's" where
  "win_rename fs name new_name s =
     fsp_then (fsp (resolve_parent fs name s)) (\<lambda>(old_parent, old_leaf) s.
       fsp_then (fsp (resolve_parent fs new_name s)) (\<lambda>(new_parent, new_leaf) s.
         fsp (vf_rename fs old_parent old_leaf new_parent new_leaf s)))"

definition basic_info :: "u32 \<Rightarrow> u64 \<Rightarrow> u64 \<Rightarrow> SetAttributes" where
  "basic_info file_attributes last_access_time last_write_time = \<lparr>
     sa_size = None,
     sa_mode = (if file_attributes \<noteq> 0 \<and> file_attributes \<noteq> - 1
                then Some (if and file_attributes FILE_ATTRIBUTE_READONLY \<noteq> 0 then 0x124 else 0x1A4) else None),
     sa_modified = (if last_write_time \<noteq> 0 then Some (filetime_to_unix last_write_time) else None),
     sa_accessed = (if last_access_time \<noteq> 0 then Some (filetime_to_unix last_access_time) else None)\<rparr>"

definition win_set_basic_info ::
  "'s VirtualFilesystem \<Rightarrow> 'd CacheFile \<Rightarrow> u32 \<Rightarrow> u64 \<Rightarrow> u64 \<Rightarrow> 's \<Rightarrow> (ntstatus + FileInfo) \<times> 's" where
  "win_set_basic_info fs ctx file_attributes last_access_time last_write_time s =
     fsp_then (fsp (vf_setattr fs (wf_node ctx) (basic_info file_attributes last_access_time last_write_time) s))
       (\<lambda>_ s. refreshed fs (wf_node ctx) s)"

definition win_set_delete :: "'d CacheFile \<Rightarrow> bool \<Rightarrow> 'd CacheFile" where
  "win_set_delete ctx delete_file = ctx\<lparr>wf_delete_pending := delete_file\<rparr>"

definition win_set_file_size ::
  "'s VirtualFilesystem \<Rightarrow> 'd CacheFile \<Rightarrow> u64 \<Rightarrow> bool \<Rightarrow> 's \<Rightarrow> (ntstatus + FileInfo) \<times> 's" where
  "win_set_file_size fs ctx new_size set_allocation_size s =
     fsp_then (if set_allocation_size then (Inr (), s)
               else fsp_then (fsp (vf_setattr fs (wf_node ctx) (SetAttributes_default\<lparr>sa_size := Some new_size\<rparr>) s))
                      (\<lambda>_ s. (Inr (), s)))
       (\<lambda>_ s. refreshed fs (wf_node ctx) s)"

definition win_read :: "'s VirtualFilesystem \<Rightarrow> 'd CacheFile \<Rightarrow> nat \<Rightarrow> u64 \<Rightarrow> 's \<Rightarrow> (ntstatus + bytes) \<times> 's" where
  "win_read fs ctx buffer_len offset s =
     (case wf_handle ctx of
        None \<Rightarrow> (Inl (to_fsp (InvalidInput ''read on a directory'')), s)
      | Some h \<Rightarrow>
          fsp_then (fsp (vf_read fs h offset (of_nat buffer_len) s)) (\<lambda>data s. (Inr (take buffer_len data), s)))"

definition write_range :: "bool \<Rightarrow> bool \<Rightarrow> u64 \<Rightarrow> u64 \<Rightarrow> bytes \<Rightarrow> (u64 \<times> bytes) option" where
  "write_range write_to_eof constrained_io sz offset buffer =
     (let offset = (if write_to_eof then sz else offset)
      in if constrained_io
         then if sz \<le> offset then None else Some (offset, take (unat (sz - offset)) buffer)
         else Some (offset, buffer))"

definition win_write ::
  "'s VirtualFilesystem \<Rightarrow> 'd CacheFile \<Rightarrow> bytes \<Rightarrow> u64 \<Rightarrow> bool \<Rightarrow> bool \<Rightarrow> 's \<Rightarrow> (ntstatus + u32 \<times> FileInfo) \<times> 's" where
  "win_write fs ctx buffer offset write_to_eof constrained_io s =
     (case wf_handle ctx of
        None \<Rightarrow> (Inl (to_fsp (InvalidInput ''write on a directory'')), s)
      | Some h \<Rightarrow>
          fsp_then (if write_to_eof \<or> constrained_io
                    then fsp_then (fsp (vf_getattr fs (wf_node ctx) s))
                           (\<lambda>m s. (Inr (write_range write_to_eof constrained_io (fsize (attributes m)) offset buffer), s))
                    else (Inr (Some (offset, buffer)), s)) (\<lambda>range s.
            case range of
              None \<Rightarrow> fsp_then (refreshed fs (wf_node ctx) s) (\<lambda>info s. (Inr (0, info), s))
            | Some (offset, data) \<Rightarrow>
                fsp_then (fsp (vf_write fs h offset data s)) (\<lambda>written s.
                  fsp_then (refreshed fs (wf_node ctx) s) (\<lambda>info s. (Inr (written, info), s)))))"

record VolumeInfo =
  vi_total_size :: u64
  vi_free_size :: u64
  vi_volume_label :: string

definition win_get_volume_info :: VolumeInfo where
  "win_get_volume_info = \<lparr>vi_total_size = 2 ^ 40, vi_free_size = 2 ^ 39, vi_volume_label = ''cacheshfs''\<rparr>"

section \<open>The mount call\<close>

record VolumeParams =
  vp_filesystem_name :: string
  vp_sector_size :: u16
  vp_sectors_per_allocation_unit :: u16
  vp_file_info_timeout :: u32
  vp_case_sensitive_search :: bool
  vp_case_preserved_names :: bool
  vp_unicode_on_disk :: bool
  vp_persistent_acls :: bool
  vp_post_cleanup_when_modified_only :: bool
  vp_read_only_volume :: bool

definition volume_params :: "MountConfig \<Rightarrow> VolumeParams" where
  "volume_params config = \<lparr>vp_filesystem_name = ''cacheshfs'', vp_sector_size = 4096,
     vp_sectors_per_allocation_unit = 1, vp_file_info_timeout = 1000, vp_case_sensitive_search = False,
     vp_case_preserved_names = True, vp_unicode_on_disk = True, vp_persistent_acls = False,
     vp_post_cleanup_when_modified_only = True, vp_read_only_volume = mc_read_only config\<rparr>"

record ('s, 'w) winfsp_host =
  wh_init :: "'w \<Rightarrow> (string + unit) \<times> 'w"
  wh_new :: "VolumeParams \<Rightarrow> 's VirtualFilesystem \<Rightarrow> 'w \<Rightarrow> (string + unit) \<times> 'w"
  wh_mount :: "string \<Rightarrow> 'w \<Rightarrow> (string + unit) \<times> 'w"
  wh_start :: "'w \<Rightarrow> (string + unit) \<times> 'w"
  wh_set_handler :: "'w \<Rightarrow> (string + unit) \<times> 'w"
  wh_shutdown :: "'w \<Rightarrow> bool"
  wh_sleep :: "'w \<Rightarrow> 'w"

partial_function (option) wait_for_shutdown :: "('s, 'w) winfsp_host \<Rightarrow> 'w \<Rightarrow> 'w option" where
  "wait_for_shutdown wh w = (if \<not> wh_shutdown wh w then wait_for_shutdown wh (wh_sleep wh w) else Some w)"

fun or_fail :: "(string \<Rightarrow> error) \<Rightarrow> (string + unit) \<times> 'w \<Rightarrow> ('w \<Rightarrow> (unit result \<times> 'w) option) \<Rightarrow> (unit result \<times> 'w) option" where
  "or_fail err (Inl m, w) k = Some (Err (err m), w)"
| "or_fail err (Inr _, w) k = k w"

definition win_mount ::
  "('s, 'w) winfsp_host \<Rightarrow> MountConfig \<Rightarrow> 's VirtualFilesystem \<Rightarrow> 'w \<Rightarrow> (unit result \<times> 'w) option" where
  "win_mount wh config fs w =
     or_fail (\<lambda>m. Unavailable (''could not initialize WinFsp (is the WinFsp runtime installed?): '' @ m)) (wh_init wh w) (\<lambda>w.
     or_fail (\<lambda>m. MountBackend (''failed to create WinFsp host: '' @ m)) (wh_new wh (volume_params config) fs w) (\<lambda>w.
     or_fail (\<lambda>m. MountBackend (''failed to set mount point '' @ CHR 0x27 # mc_mountpoint config @ CHR 0x27 # '': '' @ m))
       (wh_mount wh (mc_mountpoint config) w) (\<lambda>w.
     or_fail (\<lambda>m. MountBackend (''failed to start WinFsp dispatcher: '' @ m)) (wh_start wh w) (\<lambda>w.
     or_fail (\<lambda>m. MountBackend (''failed to install signal handler: '' @ m)) (wh_set_handler wh w) (\<lambda>w.
     map_option (\<lambda>w. (Ok (), w)) (wait_for_shutdown wh w))))))"

section \<open>The filesystem of the path tests\<close>

definition test_attrs :: "FileKind \<Rightarrow> FileAttributes" where
  "test_attrs k = \<lparr>kind = k, fsize = 0, mode = 0x1A4, uid = 0, gid = 0, modified_unix_seconds = None,
     accessed_unix_seconds = None, changed_unix_seconds = None\<rparr>"

definition test_meta :: "u64 \<Rightarrow> FileKind \<Rightarrow> FileMetadata" where
  "test_meta n k = \<lparr>node = NodeId n, attributes = test_attrs k\<rparr>"

definition TestVfs :: "unit VirtualFilesystem" where
  "TestVfs = \<lparr>
     vf_lookup = (\<lambda>parent name s. (if parent = NodeId 1 \<and> name = ''dir'' then Ok (test_meta 2 Directory)
        else if parent = NodeId 2 \<and> name = ''file.txt'' then Ok (test_meta 3 File) else Err NotFound, s)),
     vf_getattr = (\<lambda>n s. (if n = NodeId 1 \<or> n = NodeId 2 then Ok (test_meta (node_num n) Directory)
        else if n = NodeId 3 then Ok (test_meta 3 File) else Err NotFound, s)),
     vf_readdir = (\<lambda>n s. (Ok (if n = NodeId 1 then [\<lparr>de_name = ''dir'', de_metadata = test_meta 2 Directory\<rparr>]
        else if n = NodeId 2 then [\<lparr>de_name = ''file.txt'', de_metadata = test_meta 3 File\<rparr>] else []), s)),
     vf_open = (\<lambda>_ _ s. (Err (UnsupportedOperation ''test''), s)),
     vf_read = (\<lambda>_ _ _ s. (Err (UnsupportedOperation ''test''), s)),
     vf_write = (\<lambda>_ _ _ s. (Err (UnsupportedOperation ''test''), s)),
     vf_flush = (\<lambda>_ s. (Err (UnsupportedOperation ''test''), s)),
     vf_release = (\<lambda>_ s. (Err (UnsupportedOperation ''test''), s)),
     vf_create = (\<lambda>_ _ _ _ s. (Err (UnsupportedOperation ''test''), s)),
     vf_mkdir = (\<lambda>_ _ _ s. (Err (UnsupportedOperation ''test''), s)),
     vf_unlink = (\<lambda>_ _ s. (Err (UnsupportedOperation ''test''), s)),
     vf_rmdir = (\<lambda>_ _ s. (Err (UnsupportedOperation ''test''), s)),
     vf_rename = (\<lambda>_ _ _ _ s. (Err (UnsupportedOperation ''test''), s)),
     vf_setattr = (\<lambda>_ _ s. (Err (UnsupportedOperation ''test''), s))\<rparr>"

end
