(* ===== verification/Windows_Properties.thy ===== *)
theory Windows_Properties
  imports Windows_Adapter
begin

text \<open>
  What the Windows adapter guarantees: paths resolve case-insensitively and report the case that exists on
  the server, for every filesystem whose directory entries are single path components (the
  locale \<open>clean_directories\<close>, interpreted on \<open>CacheVfs\<close> and on the filesystem of the repository's path tests);
  file times survive the conversion; and constrained writes never extend a file.
\<close>

section \<open>Names of directory entries\<close>

definition clean_name :: "string \<Rightarrow> bool" where
  "clean_name name \<longleftrightarrow> name \<noteq> [] \<and> CHR ''/'' \<notin> set name \<and> CHR 0x5C \<notin> set name"

lemma str_split_sub: "w \<in> set (str_split c s) \<Longrightarrow> set w \<subseteq> set s"
proof (induction s arbitrary: w)
  case Nil
  then show ?case by simp
next
  case (Cons x xs)
  then show ?case by (cases "str_split c xs") (fastforce split: if_splits)+
qed

lemma win_components_clean:
  assumes "c \<in> set (win_components name)"
  shows "clean_name c"
proof -
  let ?t = "map (\<lambda>c. if c = CHR 0x5C then CHR ''/'' else c) name"
  have c: "c \<in> set (str_split CHR ''/'' ?t)" "c \<noteq> []" using assms by (auto simp: win_components_def)
  have "CHR 0x5C \<notin> set ?t" by auto
  with str_split_sub[OF c(1)] str_split_no_sep[OF c(1)] c(2) show ?thesis by (auto simp: clean_name_def)
qed

lemma win_components_append:
  assumes "clean_name name"
  shows "win_components (path @ CHR 0x5C # name) = win_components path @ [name]"
proof -
  let ?f = "\<lambda>c. if c = CHR 0x5C then CHR ''/'' else c"
  have "map ?f name = name" using assms by (intro map_idI) (auto simp: clean_name_def)
  moreover have "str_split CHR ''/'' name = [name]" using assms by (simp add: clean_name_def str_split_single)
  ultimately show ?thesis
    using assms str_split_append[of "CHR ''/''" "map ?f path" name]
    by (simp add: win_components_def clean_name_def)
qed

locale clean_directories =
  fixes fs :: "'s VirtualFilesystem"
  assumes readdir_clean: "vf_readdir fs n s = (Ok es, s') \<Longrightarrow> e \<in> set es \<Longrightarrow> clean_name (de_name e)"
begin

lemma lookup_component_name:
  assumes "lookup_component fs n c s = (Ok (m, real_name), s')" "clean_name c"
  shows "clean_name real_name" "eq_ignore_ascii_case real_name c"
proof -
  have "clean_name real_name \<and> eq_ignore_ascii_case real_name c"
  proof (cases "real_name = c")
    case True
    with assms(2) show ?thesis by (simp add: eq_ignore_ascii_case_def)
  next
    case False
    with assms(1) obtain s1 s2 es e where "vf_readdir fs n s1 = (Ok es, s2)"
        "find (\<lambda>entry. eq_ignore_ascii_case (de_name entry) c) es = Some e" "real_name = de_name e"
      by (auto simp: lookup_component_def split: prod.splits result.splits if_splits option.splits)
    then show ?thesis using readdir_clean by (auto simp: find_Some_iff)
  qed
  then show "clean_name real_name" "eq_ignore_ascii_case real_name c" by auto
qed

lemma resolve_components_names:
  "resolve_components fs m0 n canonical cs s = (Ok (m, canonical'), s') \<Longrightarrow> (\<forall>c \<in> set cs. clean_name c) \<Longrightarrow>
   \<exists>real. win_components canonical' = win_components canonical @ real \<and> list_all2 eq_ignore_ascii_case real cs"
proof (induction cs arbitrary: m0 n canonical s)
  case Nil
  then show ?case by simp
next
  case (Cons c cs)
  obtain r s1 where l: "lookup_component fs n c s = (r, s1)" by fastforce
  with Cons.prems(1) obtain found real_name where r: "r = Ok (found, real_name)"
    by (cases r) auto
  have names: "clean_name real_name" "eq_ignore_ascii_case real_name c"
    using lookup_component_name[OF l[unfolded r]] Cons.prems(2) by auto
  obtain real where "win_components canonical' = win_components (canonical @ CHR 0x5C # real_name) @ real"
      "list_all2 eq_ignore_ascii_case real cs"
    using Cons.IH[of found "node found" "canonical @ CHR 0x5C # real_name" s1] Cons.prems l r by auto
  then show ?case
    using win_components_append[OF names(1)] names(2) by (intro exI[of _ "real_name # real"]) simp
qed

end

lemma join_clean: "RemotePath_join p name = Ok q \<Longrightarrow> clean_name name"
  by (auto simp: RemotePath_join_def clean_name_def split: if_splits)

lemma collect_children_clean: "collect_children s p names = Some cs \<Longrightarrow> x \<in> set cs \<Longrightarrow> clean_name (fst x)"
  by (induction s p names arbitrary: cs rule: collect_children.induct)
     (auto split: result.splits option.splits, metis join_clean)

lemma intern_all_fst: "intern_all st cs = (es, st') \<Longrightarrow> map de_name es = map fst cs"
  by (induction st cs arbitrary: es st' rule: intern_all.induct) (auto split: prod.splits)

lemma readdir_from_cache_clean: "readdir_from_cache v p = Some (es, v') \<Longrightarrow> e \<in> set es \<Longrightarrow> clean_name (de_name e)"
proof -
  assume r: "readdir_from_cache v p = Some (es, v')" and e: "e \<in> set es"
  then obtain names cs st where c: "collect_children (store v) p names = Some cs" "intern_all (state v) cs = (es, st)"
    by (auto simp: readdir_from_cache_def bind_eq_Some_conv split: option.splits prod.splits)
  have "de_name e \<in> set (map fst cs)" using e intern_all_fst[OF c(2)] by (metis image_eqI list.set_map)
  then show "clean_name (de_name e)" using collect_children_clean[OF c(1)] by auto
qed

lemma intern_listing_clean: "intern_listing p t cs st = (Ok es, st') \<Longrightarrow> e \<in> set es \<Longrightarrow> clean_name (de_name e)"
  by (induction p t cs st arbitrary: es st' rule: intern_listing.induct)
     (auto split: result.splits prod.splits, metis join_clean)

interpretation cache_vfs: clean_directories CacheVfs_ops
proof
  fix n v es v' e
  assume "vf_readdir CacheVfs_ops n v = (Ok es, v')" "e \<in> set es"
  then show "clean_name (de_name e)"
    by (auto simp: CacheVfs_ops_def vfs_readdir_def Let_def
        split: result.splits option.splits if_splits prod.splits dest: readdir_from_cache_clean intern_listing_clean)
qed

interpretation test_vfs: clean_directories TestVfs
  by unfold_locales (auto simp: TestVfs_def clean_name_def split: if_splits)



section \<open>File times\<close>

text \<open>
  C38: file times survive the conversion.  Every time from the start of 1601 up to the largest
  representable FILETIME comes back exactly as the same number of Unix seconds.
\<close>

theorem filetime_roundtrip:
  assumes "- 11644473600 \<le> sint t" "sint t \<le> 910692730085"
  shows "filetime_to_unix (unix_to_filetime (Some t)) = t"
proof -
  let ?x = "sint t * 10000000 + 116444736000000000"
  have "unix_to_filetime (Some t) = word_of_int ?x"
    using assms by (simp add: unix_to_filetime_def saturate_i64_def TICKS_PER_SECOND_def UNIX_EPOCH_IN_FILETIME_def)
  moreover have "sint (word_of_int ?x - word_of_int UNIX_EPOCH_IN_FILETIME :: i64) = sint t * 10000000"
  proof -
    have "word_of_int ?x - word_of_int UNIX_EPOCH_IN_FILETIME = (word_of_int (sint t * 10000000) :: i64)"
      by (simp add: UNIX_EPOCH_IN_FILETIME_def)
    then show ?thesis using assms by (simp add: signed_of_int signed_take_bit_int_eq_self_iff del: of_int_mult)
  qed
  moreover have "truncating_div (sint t * 10000000) 10000000 = sint t"
    by (simp add: truncating_div_def abs_mult sgn_mult mult_sgn_abs)
  ultimately show ?thesis
    by (simp add: filetime_to_unix_def TICKS_PER_SECOND_def)
qed

theorem filetime_roundtrip_witness:
  "filetime_to_unix (unix_to_filetime (Some 1700000000)) = 1700000000 \<and>
   filetime_to_unix (unix_to_filetime (Some (- 5))) = - 5"
proof -
  have "sint (1700000000 :: i64) = 1700000000" "sint (- 5 :: i64) = - 5" by simp_all
  then show ?thesis using filetime_roundtrip[of 1700000000] filetime_roundtrip[of "- 5"] by simp
qed

section \<open>Writes\<close>

lemma fsp_then_Inr: "fsp_then x f = (Inr b, s') \<longleftrightarrow> (\<exists>a s. x = (Inr a, s) \<and> f a s = (Inr b, s'))"
  by (cases x; cases "fst x") (auto simp: fsp_then_def)

lemma fsp_Inr: "fsp x = (Inr a, s) \<longleftrightarrow> x = (Ok a, s)"
  by (cases x rule: fsp.cases) auto

lemma write_range_constrained:
  assumes "write_range eof True sz off buf = Some (off', data)"
  shows "prefix data buf" "unat off' + length data \<le> unat sz"
proof -
  let ?off = "if eof then sz else off"
  have d: "off' = ?off" "data = take (unat (sz - ?off)) buf" "\<not> sz \<le> ?off"
    using assms by (auto simp: write_range_def Let_def split: if_splits)
  show "prefix data buf" by (simp add: d(2) take_is_prefix)
  have "unat (sz - ?off) = unat sz - unat ?off" "unat ?off < unat sz"
    using d(3) by (simp_all add: unat_sub_u64 word_le_nat_alt not_le)
  then show "unat off' + length data \<le> unat sz" by (simp add: d(1,2))
qed

text \<open>
  C37: constrained writes stay inside the file.  When a write with \<open>constrained_io\<close> succeeds, either
  nothing was written and the answer is 0, because the start is at or beyond the end of the file; or
  exactly one write went to the filesystem, of a prefix of the buffer that ends at or before the
  size that \<open>getattr\<close> reported, and its count is the answer.
\<close>

theorem constrained_write_stays_inside:
  assumes "wf_handle ctx = Some h" "vf_getattr fs (wf_node ctx) s = (Ok m, s1)"
    and "win_write fs ctx buf off eof True s = (Inr (written, info), s')"
  shows "(written = 0 \<and> refreshed fs (wf_node ctx) s1 = (Inr info, s') \<and>
      fsize (attributes m) \<le> (if eof then fsize (attributes m) else off)) \<or>
    (\<exists>off' data s2. prefix data buf \<and> unat off' + length data \<le> unat (fsize (attributes m)) \<and>
      vf_write fs h off' data s1 = (Ok written, s2) \<and> refreshed fs (wf_node ctx) s2 = (Inr info, s'))"
proof (cases "write_range eof True (fsize (attributes m)) off buf")
  case None
  with assms show ?thesis
    by (auto simp: win_write_def fsp_then_Inr fsp_Inr write_range_def Let_def split: if_splits)
next
  case (Some od)
  obtain off' data where od: "od = (off', data)" by (cases od) auto
  with Some assms obtain s2 where "vf_write fs h off' data s1 = (Ok written, s2)" "refreshed fs (wf_node ctx) s2 = (Inr info, s')"
    by (auto simp: win_write_def fsp_then_Inr fsp_Inr)
  with write_range_constrained[OF Some[unfolded od]] show ?thesis by blast
qed

text \<open>A filesystem of one file of five bytes that counts what is written to it.\<close>

definition five_bytes_vfs :: "nat VirtualFilesystem" where
  "five_bytes_vfs = UnimplementedVirtualFilesystem\<lparr>
     vf_getattr := \<lambda>n s. (Ok \<lparr>node = n, attributes = file_attrs 5\<rparr>, s),
     vf_write := \<lambda>h off data s. (Ok (of_nat (length data)), s + length data)\<rparr>"

theorem constrained_write_stays_inside_witness:
  "\<exists>info. win_write five_bytes_vfs \<lparr>wf_node = NodeId 2, wf_handle = Some (FileHandle 1), wf_is_dir = False,
      wf_dir_buffer = (), wf_delete_pending = False\<rparr> [1, 2, 3, 4] 3 False True 0 = (Inr (2, info), 2)"
proof -
  let ?ctx = "\<lparr>wf_node = NodeId 2, wf_handle = Some (FileHandle 1), wf_is_dir = False,
      wf_dir_buffer = (), wf_delete_pending = False\<rparr>"
  let ?info = "fill_file_info (file_attrs 5) 2"
  have r: "win_write five_bytes_vfs ?ctx [1, 2, 3, 4] 3 False True 0 = (Inr (2, ?info), 2)"
    by (simp add: win_write_def five_bytes_vfs_def fsp_then_def write_range_def refreshed_def file_attrs_def)
  have "vf_getattr five_bytes_vfs (wf_node ?ctx) 0 = (Ok \<lparr>node = NodeId 2, attributes = file_attrs 5\<rparr>, 0)"
    by (simp add: five_bytes_vfs_def)
  from constrained_write_stays_inside[OF _ this r] r show ?thesis by auto
qed

end
