(* ===== verification/Linux_Adapter.thy ===== *)
theory Linux_Adapter
  imports Vfs_Tables
begin

text \<open>
  The Linux mount adapter (\<open>crates/cacheshfs-linux/src\<close>): attributes and errors as FUSE sees them
  (\<open>attr.rs\<close>, \<open>error.rs\<close>), the FUSE callbacks over any \<open>VirtualFilesystem\<close> (\<open>fs.rs\<close>) and the blocking
  mount call (\<open>mount.rs\<close>).

  fuser is a parameter: a callback returns the reply it sends, as a value; whether a directory entry
  still fits in the kernel's buffer is a function of the entries already there.  An \<open>OsStr\<close> is what
  its \<open>to_str\<close> gives: \<open>None\<close> when it is not valid UTF-8.  A \<open>SystemTime\<close> is an integer number of
  nanoseconds since the Unix epoch.
\<close>

section \<open>Attributes and errors\<close>

type_synonym system_time = int

definition DEFAULT_TTL :: duration where
  "DEFAULT_TTL = secs 1"

definition DEFAULT_BLOCK_SIZE :: u32 where
  "DEFAULT_BLOCK_SIZE = 4096"

record LinuxOwner =
  lo_uid :: u32
  lo_gid :: u32

datatype FuseFileType = FuseRegularFile | FuseDirectory | FuseSymlink

record FileAttr =
  fa_ino :: u64
  fa_size :: u64
  fa_blocks :: u64
  fa_atime :: system_time
  fa_mtime :: system_time
  fa_ctime :: system_time
  fa_crtime :: system_time
  fa_kind :: FuseFileType
  fa_perm :: u16
  fa_nlink :: u32
  fa_uid :: u32
  fa_gid :: u32
  fa_rdev :: u32
  fa_blksize :: u32
  fa_flags :: u32

definition div_ceil :: "u64 \<Rightarrow> u64 \<Rightarrow> u64" where
  "div_ceil a b = (if a mod b > 0 then a div b + 1 else a div b)"

definition unix_time :: "i64 option \<Rightarrow> system_time" where
  "unix_time seconds = (case seconds of Some s \<Rightarrow> sint s * 1000000000 | None \<Rightarrow> 0)"

fun file_type :: "FileKind \<Rightarrow> FuseFileType" where
  "file_type File = FuseRegularFile"
| "file_type Directory = FuseDirectory"
| "file_type Symlink = FuseSymlink"

definition permissions :: "FileAttributes \<Rightarrow> u16" where
  "permissions a =
     (let m = and (mode a) 0xFFF
      in if m = 0 then (case kind a of Directory \<Rightarrow> 0x1ED | File \<Rightarrow> 0x1A4 | Symlink \<Rightarrow> 0x1FF)
         else ucast m)"

fun link_count :: "FileKind \<Rightarrow> u32" where
  "link_count Directory = 2"
| "link_count File = 1"
| "link_count Symlink = 1"

definition file_attr :: "FileMetadata \<Rightarrow> LinuxOwner \<Rightarrow> FileAttr" where
  "file_attr m owner =
     (let a = attributes m
      in \<lparr>fa_ino = node_num (node m), fa_size = fsize a, fa_blocks = div_ceil (fsize a) 512,
          fa_atime = unix_time (accessed_unix_seconds a), fa_mtime = unix_time (modified_unix_seconds a),
          fa_ctime = unix_time (changed_unix_seconds a), fa_crtime = 0,
          fa_kind = file_type (kind a), fa_perm = permissions a, fa_nlink = link_count (kind a),
          fa_uid = lo_uid owner, fa_gid = lo_gid owner, fa_rdev = 0,
          fa_blksize = DEFAULT_BLOCK_SIZE, fa_flags = 0\<rparr>)"

datatype Errno = ENOENT | EEXIST | EACCES | EINVAL | ENOSYS | EIO

fun errno :: "error \<Rightarrow> Errno" where
  "errno NotFound = ENOENT"
| "errno AlreadyExists = EEXIST"
| "errno PermissionDenied = EACCES"
| "errno (InvalidInput _) = EINVAL"
| "errno (UnsupportedOperation _) = ENOSYS"
| "errno (UnsupportedPlatform _) = ENOSYS"
| "errno (Unavailable _) = EIO"
| "errno (MountBackend _) = EIO"
| "errno (RemoteBackend _) = EIO"

section \<open>Flags and times of requests\<close>

text \<open>The access mode is what fuser's \<open>acc_mode\<close> decodes; the other flags are tested on the raw bits.\<close>

datatype OpenAccMode = O_RDONLY | O_WRONLY | O_RDWR

record FuseOpenFlags =
  fo_acc_mode :: OpenAccMode
  fo_bits :: "32 word"

definition O_APPEND :: "32 word" where
  "O_APPEND = 0x400"

definition O_TRUNC :: "32 word" where
  "O_TRUNC = 0x200"

definition linux_open_flags :: "FuseOpenFlags \<Rightarrow> OpenFlags" where
  "linux_open_flags flags = \<lparr>of_read = (fo_acc_mode flags \<noteq> O_WRONLY), of_write = (fo_acc_mode flags \<noteq> O_RDONLY),
     of_append = (and (fo_bits flags) O_APPEND = O_APPEND),
     of_truncate = (and (fo_bits flags) O_TRUNC = O_TRUNC)\<rparr>"

datatype TimeOrNow = SpecificTime system_time | Now

definition unix_seconds :: "system_time \<Rightarrow> i64 option" where
  "unix_seconds t = Some (if 0 \<le> t then word_of_int (t div 1000000000) else - word_of_int (- t div 1000000000))"

fun time_or_now :: "system_time \<Rightarrow> TimeOrNow option \<Rightarrow> i64 option" where
  "time_or_now system_now (Some (SpecificTime t)) = unix_seconds t"
| "time_or_now system_now (Some Now) = unix_seconds system_now"
| "time_or_now system_now None = None"

section \<open>Callbacks\<close>

type_synonym os_str = "string option"

record dir_record =
  dr_ino :: u64
  dr_offset :: u64
  dr_kind :: FuseFileType
  dr_name :: string

datatype fuse_reply =
    ReplyError Errno
  | ReplyEntry duration FileAttr
  | ReplyAttr duration FileAttr
  | ReplyOk
  | ReplyOpened u64
  | ReplyData bytes
  | ReplyWritten u32
  | ReplyCreated duration FileAttr u64
  | ReplyDirectory "dir_record list"

record 's LinuxFilesystem =
  lf_filesystem :: "'s VirtualFilesystem"
  lf_owner :: LinuxOwner

fun reply_with :: "('a \<Rightarrow> fuse_reply) \<Rightarrow> 'a result \<times> 's \<Rightarrow> fuse_reply \<times> 's" where
  "reply_with f (Ok x, s) = (f x, s)"
| "reply_with f (Err e, s) = (ReplyError (errno e), s)"

definition with_name :: "os_str \<Rightarrow> (string \<Rightarrow> 's \<Rightarrow> fuse_reply \<times> 's) \<Rightarrow> 's \<Rightarrow> fuse_reply \<times> 's" where
  "with_name name f s = (case name of None \<Rightarrow> (ReplyError EINVAL, s) | Some n \<Rightarrow> f n s)"

definition entry_reply :: "'s LinuxFilesystem \<Rightarrow> FileMetadata \<Rightarrow> fuse_reply" where
  "entry_reply lf m = ReplyEntry DEFAULT_TTL (file_attr m (lf_owner lf))"

definition attr_reply :: "'s LinuxFilesystem \<Rightarrow> FileMetadata \<Rightarrow> fuse_reply" where
  "attr_reply lf m = ReplyAttr DEFAULT_TTL (file_attr m (lf_owner lf))"

definition linux_lookup :: "'s LinuxFilesystem \<Rightarrow> u64 \<Rightarrow> os_str \<Rightarrow> 's \<Rightarrow> fuse_reply \<times> 's" where
  "linux_lookup lf parent name =
     with_name name (\<lambda>n s. reply_with (entry_reply lf) (vf_lookup (lf_filesystem lf) (NodeId parent) n s))"

definition linux_getattr :: "'s LinuxFilesystem \<Rightarrow> u64 \<Rightarrow> 's \<Rightarrow> fuse_reply \<times> 's" where
  "linux_getattr lf ino s = reply_with (attr_reply lf) (vf_getattr (lf_filesystem lf) (NodeId ino) s)"

definition linux_setattr ::
  "'s LinuxFilesystem \<Rightarrow> system_time \<Rightarrow> u64 \<Rightarrow> u32 option \<Rightarrow> u64 option \<Rightarrow> TimeOrNow option \<Rightarrow> TimeOrNow option
   \<Rightarrow> 's \<Rightarrow> fuse_reply \<times> 's" where
  "linux_setattr lf system_now ino m sz atime mtime s =
     reply_with (attr_reply lf) (vf_setattr (lf_filesystem lf) (NodeId ino)
       \<lparr>sa_size = sz, sa_mode = m, sa_modified = time_or_now system_now mtime,
        sa_accessed = time_or_now system_now atime\<rparr> s)"

definition linux_mkdir :: "'s LinuxFilesystem \<Rightarrow> u64 \<Rightarrow> os_str \<Rightarrow> u32 \<Rightarrow> u32 \<Rightarrow> 's \<Rightarrow> fuse_reply \<times> 's" where
  "linux_mkdir lf parent name m umask =
     with_name name (\<lambda>n s. reply_with (entry_reply lf)
       (vf_mkdir (lf_filesystem lf) (NodeId parent) n (and m (not umask)) s))"

definition linux_unlink :: "'s LinuxFilesystem \<Rightarrow> u64 \<Rightarrow> os_str \<Rightarrow> 's \<Rightarrow> fuse_reply \<times> 's" where
  "linux_unlink lf parent name =
     with_name name (\<lambda>n s. reply_with (\<lambda>_. ReplyOk) (vf_unlink (lf_filesystem lf) (NodeId parent) n s))"

definition linux_rmdir :: "'s LinuxFilesystem \<Rightarrow> u64 \<Rightarrow> os_str \<Rightarrow> 's \<Rightarrow> fuse_reply \<times> 's" where
  "linux_rmdir lf parent name =
     with_name name (\<lambda>n s. reply_with (\<lambda>_. ReplyOk) (vf_rmdir (lf_filesystem lf) (NodeId parent) n s))"

definition linux_rename ::
  "'s LinuxFilesystem \<Rightarrow> u64 \<Rightarrow> os_str \<Rightarrow> u64 \<Rightarrow> os_str \<Rightarrow> u32 \<Rightarrow> 's \<Rightarrow> fuse_reply \<times> 's" where
  "linux_rename lf parent name newparent newname flags s =
     (if flags \<noteq> 0 then (ReplyError EINVAL, s)
      else with_name name (\<lambda>n. with_name newname (\<lambda>n' s.
        reply_with (\<lambda>_. ReplyOk) (vf_rename (lf_filesystem lf) (NodeId parent) n (NodeId newparent) n' s))) s)"

definition linux_open :: "'s LinuxFilesystem \<Rightarrow> u64 \<Rightarrow> FuseOpenFlags \<Rightarrow> 's \<Rightarrow> fuse_reply \<times> 's" where
  "linux_open lf ino flags s =
     reply_with (\<lambda>h. ReplyOpened (handle_num h))
       (vf_open (lf_filesystem lf) (NodeId ino) (linux_open_flags flags) s)"

definition linux_read :: "'s LinuxFilesystem \<Rightarrow> u64 \<Rightarrow> u64 \<Rightarrow> u32 \<Rightarrow> 's \<Rightarrow> fuse_reply \<times> 's" where
  "linux_read lf fh offset sz s = reply_with ReplyData (vf_read (lf_filesystem lf) (FileHandle fh) offset sz s)"

definition linux_write :: "'s LinuxFilesystem \<Rightarrow> u64 \<Rightarrow> u64 \<Rightarrow> bytes \<Rightarrow> 's \<Rightarrow> fuse_reply \<times> 's" where
  "linux_write lf fh offset data s =
     reply_with ReplyWritten (vf_write (lf_filesystem lf) (FileHandle fh) offset data s)"

definition linux_flush :: "'s LinuxFilesystem \<Rightarrow> u64 \<Rightarrow> 's \<Rightarrow> fuse_reply \<times> 's" where
  "linux_flush lf fh s = reply_with (\<lambda>_. ReplyOk) (vf_flush (lf_filesystem lf) (FileHandle fh) s)"

definition linux_release :: "'s LinuxFilesystem \<Rightarrow> u64 \<Rightarrow> 's \<Rightarrow> fuse_reply \<times> 's" where
  "linux_release lf fh s = reply_with (\<lambda>_. ReplyOk) (vf_release (lf_filesystem lf) (FileHandle fh) s)"

definition linux_opendir :: "'s \<Rightarrow> fuse_reply \<times> 's" where
  "linux_opendir s = (ReplyOpened 0, s)"

definition linux_create ::
  "'s LinuxFilesystem \<Rightarrow> u64 \<Rightarrow> os_str \<Rightarrow> u32 \<Rightarrow> u32 \<Rightarrow> FuseOpenFlags \<Rightarrow> 's \<Rightarrow> fuse_reply \<times> 's" where
  "linux_create lf parent name m umask flags =
     with_name name (\<lambda>n s. reply_with
       (\<lambda>c. ReplyCreated DEFAULT_TTL (file_attr (cf_metadata c) (lf_owner lf)) (handle_num (cf_handle c)))
       (vf_create (lf_filesystem lf) (NodeId parent) n (and m (not umask)) (linux_open_flags flags) s))"

definition dir_record_of :: "nat \<Rightarrow> DirectoryEntry \<Rightarrow> dir_record" where
  "dir_record_of i e = \<lparr>dr_ino = node_num (node (de_metadata e)), dr_offset = of_nat (i + 1),
     dr_kind = file_type (kind (attributes (de_metadata e))), dr_name = de_name e\<rparr>"

fun add_entries ::
  "(dir_record list \<Rightarrow> dir_record \<Rightarrow> bool) \<Rightarrow> dir_record list \<Rightarrow> nat \<Rightarrow> DirectoryEntry list \<Rightarrow> dir_record list" where
  "add_entries fits added i [] = added"
| "add_entries fits added i (e # es) =
     (if fits added (dir_record_of i e)
      then add_entries fits (added @ [dir_record_of i e]) (i + 1) es else added)"

definition linux_readdir ::
  "'s LinuxFilesystem \<Rightarrow> (dir_record list \<Rightarrow> dir_record \<Rightarrow> bool) \<Rightarrow> u64 \<Rightarrow> u64 \<Rightarrow> 's \<Rightarrow> fuse_reply \<times> 's" where
  "linux_readdir lf fits ino offset s =
     reply_with (\<lambda>es. ReplyDirectory (add_entries fits [] (unat offset) (drop (unat offset) es)))
       (vf_readdir (lf_filesystem lf) (NodeId ino) s)"

section \<open>The mount call\<close>

datatype linux_io_error = PathNotFound | PathError string

datatype MountOption = FSName string | Subtype string | RO

record ('s, 'w) fuse_host =
  fu_geteuid :: "'w \<Rightarrow> u32"
  fu_getegid :: "'w \<Rightarrow> u32"
  fu_metadata :: "string \<Rightarrow> 'w \<Rightarrow> linux_io_error + bool" \<comment> \<open>whether the path is a directory\<close>
  fu_spawn :: "'s LinuxFilesystem \<Rightarrow> string \<Rightarrow> MountOption list \<Rightarrow> 'w \<Rightarrow> (string + unit) \<times> 'w"
  fu_set_handler :: "'w \<Rightarrow> (string + unit) \<times> 'w"
  fu_shutdown :: "'w \<Rightarrow> bool"
  fu_finished :: "'w \<Rightarrow> bool"
  fu_sleep :: "'w \<Rightarrow> 'w"
  fu_join :: "'w \<Rightarrow> (string + unit) \<times> 'w"
  fu_umount_and_join :: "'w \<Rightarrow> (string + unit) \<times> 'w"

partial_function (option) wait_loop :: "('s, 'w) fuse_host \<Rightarrow> 'w \<Rightarrow> 'w option" where
  "wait_loop fu w = (if \<not> fu_shutdown fu w \<and> \<not> fu_finished fu w then wait_loop fu (fu_sleep fu w) else Some w)"

declare wait_loop.simps [code]

definition mount_options :: "MountConfig \<Rightarrow> MountOption list" where
  "mount_options config = [FSName ''cacheshfs'', Subtype ''cacheshfs''] @ (if mc_read_only config then [RO] else [])"

definition linux_quoted :: "string \<Rightarrow> string" where
  "linux_quoted s = CHR 0x27 # s @ [CHR 0x27]"

definition check_mountpoint :: "('s, 'w) fuse_host \<Rightarrow> string \<Rightarrow> 'w \<Rightarrow> unit result" where
  "check_mountpoint fu mountpoint w =
     (case fu_metadata fu mountpoint w of
        Inr is_dir \<Rightarrow>
          if is_dir then Ok ()
          else Err (InvalidInput (''mountpoint '' @ linux_quoted mountpoint @ '' is not a directory''))
      | Inl PathNotFound \<Rightarrow>
          Err (InvalidInput (''mountpoint '' @ linux_quoted mountpoint @ '' does not exist; create it first (e.g. `mkdir -p '' @
            mountpoint @ ''`)''))
      | Inl (PathError m) \<Rightarrow>
          Err (MountBackend (''cannot access mountpoint '' @ linux_quoted mountpoint @ '': '' @ m)))"

fun mount_result :: "(string + unit) \<times> 'w \<Rightarrow> unit result \<times> 'w" where
  "mount_result (Inl m, w) = (Err (MountBackend m), w)"
| "mount_result (Inr _, w) = (Ok (), w)"

definition mount_owner :: "('s, 'w) fuse_host \<Rightarrow> 'w \<Rightarrow> LinuxOwner" where
  "mount_owner fu w = \<lparr>lo_uid = fu_geteuid fu w, lo_gid = fu_getegid fu w\<rparr>"

definition linux_mount ::
  "('s, 'w) fuse_host \<Rightarrow> MountConfig \<Rightarrow> 's VirtualFilesystem \<Rightarrow> 'w \<Rightarrow> (unit result \<times> 'w) option" where
  "linux_mount fu config fs w =
     (case check_mountpoint fu (mc_mountpoint config) w of
        Err e \<Rightarrow> Some (Err e, w)
      | Ok _ \<Rightarrow>
          (case fu_spawn fu \<lparr>lf_filesystem = fs, lf_owner = mount_owner fu w\<rparr> (mc_mountpoint config) (mount_options config) w of
             (Inl m, w) \<Rightarrow> Some (Err (MountBackend m), w)
           | (Inr _, w) \<Rightarrow>
               (case fu_set_handler fu w of
                  (Inl m, w) \<Rightarrow> Some (Err (MountBackend (''failed to install signal handler: '' @ m)), w)
                | (Inr _, w) \<Rightarrow>
                    (case wait_loop fu w of
                       None \<Rightarrow> None
                     | Some w \<Rightarrow>
                         Some (mount_result (if fu_finished fu w then fu_join fu w else fu_umount_and_join fu w))))))"

section \<open>Times and sizes\<close>

lemma unix_time_roundtrip: "unix_seconds (unix_time (Some t)) = Some t"
proof (cases "0 \<le> sint t")
  case True
  then show ?thesis by (simp add: unix_seconds_def unix_time_def)
next
  case False
  then have "- (sint t * 1000000000) div 1000000000 = - sint t" by simp
  with False show ?thesis by (simp add: unix_seconds_def unix_time_def)
qed

lemma ceil_div_512: "(n + 511) div 512 = (if n mod 512 > 0 then n div 512 + 1 else n div 512)" for n :: nat
proof -
  have "(n + 511) div 512 = (512 * (n div 512) + (n mod 512 + 511)) div 512" by simp
  also have "\<dots> = n div 512 + (n mod 512 + 511) div 512" by (rule div_mult_self4) simp
  also have "(n mod 512 + 511) div 512 = (if n mod 512 > 0 then 1 else 0)"
    by (rule div_nat_eqI) auto
  finally show ?thesis by simp
qed

lemma permissions_bounds: "permissions a \<noteq> 0 \<and> permissions a < 2 ^ 12"
proof -
  let ?m = "and (mode a) 0xFFF"
  have "?m = take_bit 12 (mode a)" by (simp add: take_bit_eq_mask mask_eq_exp_minus_1)
  then have m: "unat ?m < 2 ^ 12"
    using take_bit_nat_less_exp[of 12 "unat (mode a)"] by (simp add: unsigned_take_bit_eq)
  then have "unat (ucast ?m :: u16) = unat ?m" by (simp add: unsigned_ucast_eq take_bit_nat_eq_self_iff)
  with m have "ucast ?m < (2 ^ 12 :: u16)" "?m \<noteq> 0 \<Longrightarrow> (ucast ?m :: u16) \<noteq> 0"
    by (auto simp: word_less_nat_alt unat_eq_0)
  then show ?thesis by (auto simp: permissions_def Let_def split: FileKind.splits)
qed

lemma unat_div_ceil_512: "unat (div_ceil a 512) = (unat a + 511) div 512"
proof -
  have d: "unat (a div 512) = unat a div 512" "unat (a mod 512) = unat a mod 512"
    by (simp_all add: unat_div unat_mod)
  have "unat a div 512 + 1 < 2 ^ 64" using unat_u64_less[of a] by simp
  then have "unat (a div 512 + 1) = unat a div 512 + 1" using d by (subst unat_Suc_u64) auto
  moreover have "a mod 512 > 0 \<longleftrightarrow> unat a mod 512 > 0" using d(2) by (simp add: word_less_nat_alt)
  moreover have "(unat a + 511) div 512 = (if unat a mod 512 > 0 then unat a div 512 + 1 else unat a div 512)"
    by (rule ceil_div_512)
  ultimately show ?thesis using d by (simp add: div_ceil_def)
qed


section \<open>Paging through a directory\<close>

definition dir_records :: "DirectoryEntry list \<Rightarrow> dir_record list" where
  "dir_records es = map (\<lambda>(i, e). dir_record_of i e) (enumerate 0 es)"

lemma add_entries_prefix:
  "\<exists>k \<le> length es. add_entries fits added i es = added @ map (\<lambda>(i, e). dir_record_of i e) (enumerate i (take k es))
    \<and> (k < length es \<longrightarrow> \<not> fits (add_entries fits added i es) (dir_record_of (i + k) (es ! k)))"
proof (induction fits added i es rule: add_entries.induct)
  case (1 fits added i)
  then show ?case by simp
next
  case (2 fits added i e es)
  show ?case
  proof (cases "fits added (dir_record_of i e)")
    case False
    then show ?thesis by (intro exI[of _ 0]) simp
  next
    case True
    with 2 obtain k where "k \<le> length es"
        "add_entries fits (added @ [dir_record_of i e]) (i + 1) es =
          (added @ [dir_record_of i e]) @ map (\<lambda>(i, e). dir_record_of i e) (enumerate (i + 1) (take k es))"
        "k < length es \<longrightarrow> \<not> fits (add_entries fits (added @ [dir_record_of i e]) (i + 1) es) (dir_record_of (i + 1 + k) (es ! k))"
      by blast
    with True show ?thesis by (intro exI[of _ "Suc k"]) simp
  qed
qed

definition page :: "(dir_record list \<Rightarrow> dir_record \<Rightarrow> bool) \<Rightarrow> DirectoryEntry list \<Rightarrow> nat \<Rightarrow> dir_record list" where
  "page fits es off = add_entries fits [] off (drop off es)"

lemma page_segment:
  assumes "\<And>r. fits [] r" "off < length es"
  obtains k where "0 < k" "off + k \<le> length es" "page fits es off = take k (drop off (dir_records es))"
    "length (page fits es off) = k"
proof -
  obtain k where k: "k \<le> length (drop off es)"
      "page fits es off = map (\<lambda>(i, e). dir_record_of i e) (enumerate off (take k (drop off es)))"
      "k < length (drop off es) \<Longrightarrow> \<not> fits (page fits es off) (dir_record_of (off + k) (drop off es ! k))"
    using add_entries_prefix[of "drop off es" fits "[]" off] unfolding page_def by auto
  have "k \<noteq> 0"
  proof
    assume "k = 0"
    with k(2,3) assms show False by simp
  qed
  moreover have "enumerate off (take k (drop off es)) = take k (drop off (enumerate 0 es))"
    using k(1) assms(2) by (simp add: enumerate_eq_zip take_zip drop_zip take_upt)
  ultimately show thesis using that[of k] k(1,2) assms(2)
    by (simp add: dir_records_def take_map drop_map)
qed

text \<open>The kernel's loop: it asks for the next page at the offset of the last record until a page is empty.\<close>

fun list_directory ::
  "nat \<Rightarrow> 's LinuxFilesystem \<Rightarrow> (dir_record list \<Rightarrow> dir_record \<Rightarrow> bool) \<Rightarrow> u64 \<Rightarrow> u64 \<Rightarrow> 's \<Rightarrow> dir_record list \<times> 's" where
  "list_directory 0 lf fits ino off s = ([], s)"
| "list_directory (Suc n) lf fits ino off s =
     (case linux_readdir lf fits ino off s of
        (ReplyDirectory p, s') \<Rightarrow>
          if p = [] then ([], s')
          else (case list_directory n lf fits ino (dr_offset (last p)) s' of (rest, s'') \<Rightarrow> (p @ rest, s''))
      | (_, s') \<Rightarrow> ([], s'))"

lemma last_record:
  assumes "0 < k" "off + k \<le> length es" "length es < 2 ^ 64"
  shows "unat (dr_offset (last (take k (drop off (dir_records es))))) = off + k"
proof -
  have "last (take k (drop off (dir_records es))) = dir_records es ! (off + (k - 1))"
    using assms by (subst last_conv_nth) (auto simp: dir_records_def)
  then have "dr_offset (last (take k (drop off (dir_records es)))) = of_nat (off + k)"
    using assms by (simp add: dir_records_def dir_record_of_def nth_enumerate_eq)
  then show ?thesis using assms unat_of_nat_u64[of "off + k"] by simp
qed

lemma list_directory_from:
  assumes stable: "\<And>s. good s \<Longrightarrow> \<exists>s'. vf_readdir (lf_filesystem lf) (NodeId ino) s = (Ok es, s') \<and> good s'"
    and fits: "\<And>r. fits [] r" and len: "length es < 2 ^ 64"
  shows "good s \<Longrightarrow> unat off \<le> length es \<Longrightarrow> length es - unat off < n \<Longrightarrow>
    fst (list_directory n lf fits ino off s) = drop (unat off) (dir_records es)"
proof (induction n arbitrary: off s)
  case 0
  then show ?case by simp
next
  case (Suc n)
  obtain s' where s': "vf_readdir (lf_filesystem lf) (NodeId ino) s = (Ok es, s')" "good s'"
    using stable[OF Suc.prems(1)] by blast
  then have r: "linux_readdir lf fits ino off s = (ReplyDirectory (page fits es (unat off)), s')"
    by (simp add: linux_readdir_def page_def)
  show ?case
  proof (cases "unat off < length es")
    case False
    then have "page fits es (unat off) = []" by (simp add: page_def)
    with r False show ?thesis by (simp add: dir_records_def)
  next
    case True
    obtain k where k: "0 < k" "unat off + k \<le> length es"
        "page fits es (unat off) = take k (drop (unat off) (dir_records es))" "length (page fits es (unat off)) = k"
      by (rule page_segment[of fits "unat off" es, OF fits True])
    let ?off = "dr_offset (last (page fits es (unat off)))"
    have off: "unat ?off = unat off + k" using last_record[OF k(1,2) len] k(3) by simp
    have "fst (list_directory n lf fits ino ?off s') = drop (unat off + k) (dir_records es)"
      using Suc.IH[OF s'(2), of ?off] Suc.prems(3) k(1,2) off by simp
    moreover have "page fits es (unat off) \<noteq> []" using k(1,4) by auto
    ultimately show ?thesis
      using r k(3) by (simp add: case_prod_beta) (metis add.commute append_take_drop_id drop_drop)
  qed
qed

text \<open>
  C25: reading a directory page by page is complete.  If the directory does not change meanwhile and a
  fresh reply buffer holds at least one entry, the kernel's loop over \<open>readdir\<close> receives every
  entry exactly once and in order, however few entries fit in each reply, and stops.
\<close>

theorem readdir_pages_are_complete:
  assumes "\<And>s. good s \<Longrightarrow> \<exists>s'. vf_readdir (lf_filesystem lf) (NodeId ino) s = (Ok es, s') \<and> good s'"
    and "\<And>r. fits [] r" "length es < 2 ^ 64" "good s" "length es < n"
  shows "fst (list_directory n lf fits ino 0 s) = dir_records es"
proof -
  have "fst (list_directory n lf fits ino 0 s) = drop (unat (0 :: u64)) (dir_records es)"
    by (rule list_directory_from[where good = good]) (use assms in auto)
  then show ?thesis by simp
qed

definition static_vfs :: "DirectoryEntry list \<Rightarrow> unit VirtualFilesystem" where
  "static_vfs es = UnimplementedVirtualFilesystem\<lparr>vf_readdir := \<lambda>_ s. (Ok es, s)\<rparr>"

definition sample_entries :: "DirectoryEntry list" where
  "sample_entries = map (\<lambda>(n, name). \<lparr>de_name = name, de_metadata = \<lparr>node = NodeId n, attributes = dir_attrs\<rparr>\<rparr>)
     [(2, ''a''), (3, ''b''), (4, ''c'')]"

theorem readdir_pages_are_complete_witness:
  "map dr_name (fst (list_directory 4 \<lparr>lf_filesystem = static_vfs sample_entries, lf_owner = \<lparr>lo_uid = 0, lo_gid = 0\<rparr>\<rparr>
     (\<lambda>added _. length added < 1) 1 0 ())) = [''a'', ''b'', ''c'']"
proof -
  have "fst (list_directory 4 \<lparr>lf_filesystem = static_vfs sample_entries, lf_owner = \<lparr>lo_uid = 0, lo_gid = 0\<rparr>\<rparr>
     (\<lambda>added _. length added < 1) 1 0 ()) = dir_records sample_entries"
    by (rule readdir_pages_are_complete[where good = "\<lambda>_. True"]) (simp_all add: static_vfs_def sample_entries_def)
  then show ?thesis by (simp add: dir_records_def sample_entries_def dir_record_of_def)
qed

section \<open>Read-only mounts\<close>

text \<open>
  C24: a read-only mount refuses every change.  Over a read-only \<open>CacheVfs\<close>, each callback that would change
  something replies an error (\<open>EACCES\<close> when its names are valid UTF-8 and its flags are
  supported) and leaves the mount and the server as they are; so does an \<open>open\<close> for writing, appending or
  truncating.
\<close>

theorem read_only_mount_refuses_changes:
  assumes "lf_filesystem lf = CacheVfs_ops" "read_only v"
  shows "linux_write lf fh off data v = (ReplyError EACCES, v) \<and>
    linux_setattr lf t ino m sz atime mtime v = (ReplyError EACCES, v) \<and>
    linux_mkdir lf parent (Some name) md umask v = (ReplyError EACCES, v) \<and>
    linux_create lf parent (Some name) md umask flags v = (ReplyError EACCES, v) \<and>
    linux_unlink lf parent (Some name) v = (ReplyError EACCES, v) \<and>
    linux_rmdir lf parent (Some name) v = (ReplyError EACCES, v) \<and>
    linux_rename lf parent (Some name) parent' (Some name') 0 v = (ReplyError EACCES, v) \<and>
    (fo_acc_mode flags \<noteq> O_RDONLY \<or> and (fo_bits flags) O_APPEND = O_APPEND \<or> and (fo_bits flags) O_TRUNC = O_TRUNC \<longrightarrow>
      linux_open lf ino flags v = (ReplyError EACCES, v))"
  using assms
  by (simp add: linux_write_def linux_setattr_def linux_mkdir_def linux_create_def linux_unlink_def linux_rmdir_def
      linux_rename_def linux_open_def with_name_def CacheVfs_ops_def vfs_write_def vfs_setattr_def vfs_mkdir_def
      vfs_create_def vfs_unlink_def vfs_rmdir_def vfs_rename_def vfs_open_def ensure_writable_def linux_open_flags_def)

theorem read_only_mount_refuses_changes_witness:
  "linux_unlink \<lparr>lf_filesystem = CacheVfs_ops, lf_owner = \<lparr>lo_uid = 0, lo_gid = 0\<rparr>\<rparr> 1 (Some ''sub'')
     (fresh_mount\<lparr>read_only := True\<rparr>) = (ReplyError EACCES, fresh_mount\<lparr>read_only := True\<rparr>)"
proof -
  let ?lf = "\<lparr>lf_filesystem = CacheVfs_ops, lf_owner = \<lparr>lo_uid = 0, lo_gid = 0\<rparr>\<rparr>" and ?v = "fresh_mount\<lparr>read_only := True\<rparr>"
  have "lf_filesystem ?lf = CacheVfs_ops" "read_only ?v" by simp_all
  from read_only_mount_refuses_changes[OF this, where parent = 1 and name = "''sub''"] show ?thesis by blast
qed

section \<open>Unmounting\<close>

lemma wait_loop_stops: "wait_loop fu w = Some w' \<Longrightarrow> fu_shutdown fu w' \<or> fu_finished fu w'"
  by (erule wait_loop.raw_induct[where P = "\<lambda>fu w w'. fu_shutdown fu w' \<or> fu_finished fu w'", rotated])
    (auto split: if_splits)

interpretation fuse_wait: polling "wait_loop fu" "\<lambda>w. fu_shutdown fu w \<or> fu_finished fu w" "fu_sleep fu" for fu
  by unfold_locales (subst wait_loop.simps, auto dest: wait_loop_stops)

lemma linux_mount_ends:
  assumes "\<And>w. \<exists>k. fu_shutdown fu ((fu_sleep fu ^^ k) w) \<or> fu_finished fu ((fu_sleep fu ^^ k) w)"
  shows "\<exists>r w'. linux_mount fu config fs w = Some (r, w')"
proof -
  let ?lf = "\<lparr>lf_filesystem = fs, lf_owner = mount_owner fu w\<rparr>"
  obtain sp w1 where 1: "fu_spawn fu ?lf (mc_mountpoint config) (mount_options config) w = (sp, w1)" by fastforce
  obtain hd w2 where 2: "fu_set_handler fu w1 = (hd, w2)" by fastforce
  obtain w3 where "wait_loop fu w2 = Some w3" using fuse_wait.returns assms by meson
  then show ?thesis using 1 2 by (auto simp: linux_mount_def split: result.splits sum.splits)
qed

lemma mount_result_Ok: "mount_result x = (Ok u, w) \<longleftrightarrow> x = (Inr (), w)"
  by (cases x rule: mount_result.cases) auto

lemma linux_mount_Ok:
  assumes "linux_mount fu config fs w = Some (Ok u, w')"
  shows "\<exists>w1. fu_finished fu w1 \<and> fu_join fu w1 = (Inr (), w') \<or>
    fu_shutdown fu w1 \<and> fu_umount_and_join fu w1 = (Inr (), w')"
  using assms
  by (auto simp: linux_mount_def mount_result_Ok split: result.splits sum.splits prod.splits option.splits if_splits
      dest!: fuse_wait.stopped)

lemma linux_mount_bad_mountpoint:
  "fu_metadata fu (mc_mountpoint config) w \<noteq> Inr True \<Longrightarrow> \<exists>e. linux_mount fu config fs w = Some (Err e, w)"
  by (auto simp: linux_mount_def check_mountpoint_def split: sum.splits linux_io_error.splits)

end
