(* ===== verification/Platform_Backend.thy ===== *)
theory Platform_Backend
  imports Linux_Adapter Windows_Adapter
begin

text \<open>
  The mount backends behind the \<open>MountBackend\<close> trait and the choice of one at build time
  (\<open>crates/cacheshfs-linux/src/lib.rs\<close>, \<open>crates/cacheshfs-windows/src/lib.rs\<close> and \<open>platform_backend\<close> of
  \<open>crates/cacheshfs-cli/src/main.rs\<close>), and when a mount call returns.  The conditional compilation is the
  argument \<open>os\<close>.
\<close>

section \<open>Backends\<close>

datatype build_os = BuildLinux | BuildWindows | BuildOther

definition LinuxMountBackend ::
  "build_os \<Rightarrow> ('s, 'w) fuse_host \<Rightarrow> MountConfig \<Rightarrow> 's VirtualFilesystem \<Rightarrow> 'w \<Rightarrow> (unit result \<times> 'w) option" where
  "LinuxMountBackend os fu config fs w =
     (if os = BuildLinux then linux_mount fu config fs w
      else Some (Err (UnsupportedPlatform
        ''the cacheshfs Linux backend must be built on Linux with FUSE support available''), w))"

definition WindowsMountBackend ::
  "build_os \<Rightarrow> ('s, 'w) winfsp_host \<Rightarrow> MountConfig \<Rightarrow> 's VirtualFilesystem \<Rightarrow> 'w \<Rightarrow> (unit result \<times> 'w) option" where
  "WindowsMountBackend os wh config fs w =
     (if os = BuildWindows then win_mount wh config fs w
      else Some (Err (UnsupportedPlatform
        ''the cacheshfs Windows backend must be built on Windows with the WinFsp runtime installed''), w))"

definition UnsupportedMountBackend :: "MountConfig \<Rightarrow> 's VirtualFilesystem \<Rightarrow> 'w \<Rightarrow> (unit result \<times> 'w) option" where
  "UnsupportedMountBackend config fs w =
     Some (Err (UnsupportedPlatform ''cacheshfs does not have a mount backend for this platform yet''), w)"

definition platform_backend ::
  "build_os \<Rightarrow> ('s, 'w) fuse_host \<Rightarrow> ('s, 'w) winfsp_host \<Rightarrow> MountConfig \<Rightarrow> 's VirtualFilesystem \<Rightarrow> 'w
   \<Rightarrow> (unit result \<times> 'w) option" where
  "platform_backend os fu wh =
     (case os of
        BuildLinux \<Rightarrow> LinuxMountBackend os fu
      | BuildWindows \<Rightarrow> WindowsMountBackend os wh
      | BuildOther \<Rightarrow> UnsupportedMountBackend)"

section \<open>The Windows mount call\<close>

lemma wait_for_shutdown_stops: "wait_for_shutdown wh w = Some w' \<Longrightarrow> wh_shutdown wh w'"
  by (erule wait_for_shutdown.raw_induct[where P = "\<lambda>wh w w'. wh_shutdown wh w'", rotated]) (auto split: if_splits)

interpretation winfsp_wait: polling "wait_for_shutdown wh" "wh_shutdown wh" "wh_sleep wh" for wh
  by unfold_locales (subst wait_for_shutdown.simps, auto dest: wait_for_shutdown_stops)

lemma or_fail_returns: "(\<And>w. \<exists>y. k w = Some y) \<Longrightarrow> \<exists>y. or_fail err x k = Some y"
  by (cases "(err, x, k)" rule: or_fail.cases) auto

lemma or_fail_Ok: "or_fail err x k = Some (Ok u, w') \<Longrightarrow> \<exists>w. x = (Inr (), w) \<and> k w = Some (Ok u, w')"
  by (cases "(err, x, k)" rule: or_fail.cases) auto

lemma win_mount_ends:
  assumes "\<And>w. \<exists>k. wh_shutdown wh ((wh_sleep wh ^^ k) w)"
  shows "\<exists>y. win_mount wh config fs w = Some y"
  unfolding win_mount_def
  by (intro or_fail_returns) (use winfsp_wait.returns[OF assms] in auto)

lemma win_mount_Ok: "win_mount wh config fs w = Some (Ok u, w') \<Longrightarrow> wh_shutdown wh w'"
  unfolding win_mount_def by (auto dest!: or_fail_Ok winfsp_wait.stopped)

section \<open>Mounting\<close>

lemmas backend_defs = platform_backend_def LinuxMountBackend_def WindowsMountBackend_def UnsupportedMountBackend_def


definition sample_fuse_host :: "(unit, nat) fuse_host" where
  "sample_fuse_host = \<lparr>fu_geteuid = (\<lambda>_. 1000), fu_getegid = (\<lambda>_. 1000), fu_metadata = (\<lambda>_ _. Inr True),
     fu_spawn = (\<lambda>_ _ _ w. (Inr (), w)), fu_set_handler = (\<lambda>w. (Inr (), w)),
     fu_shutdown = (\<lambda>w. 3 < w), fu_finished = (\<lambda>_. False), fu_sleep = Suc, fu_join = (\<lambda>w. (Inr (), w)),
     fu_umount_and_join = (\<lambda>w. (Inr (), w))\<rparr>"

definition sample_winfsp_host :: "(unit, nat) winfsp_host" where
  "sample_winfsp_host = \<lparr>wh_init = (\<lambda>w. (Inr (), w)), wh_new = (\<lambda>_ _ w. (Inr (), w)), wh_mount = (\<lambda>_ w. (Inr (), w)),
     wh_start = (\<lambda>w. (Inr (), w)), wh_set_handler = (\<lambda>w. (Inr (), w)), wh_shutdown = (\<lambda>w. 3 < w), wh_sleep = Suc\<rparr>"

lemma four_sleeps: "(Suc ^^ 4) w = w + 4"
  by (simp add: eval_nat_numeral)

lemma sample_hosts_end:
  "\<exists>k. fu_shutdown sample_fuse_host ((fu_sleep sample_fuse_host ^^ k) w) \<or>
       fu_finished sample_fuse_host ((fu_sleep sample_fuse_host ^^ k) w)"
  "\<exists>k. wh_shutdown sample_winfsp_host ((wh_sleep sample_winfsp_host ^^ k) w)"
  by (intro exI[of _ 4], simp add: sample_fuse_host_def sample_winfsp_host_def four_sleeps)+


end
