(* ===== verification/Core_Conformance.thy ===== *)
theory Core_Conformance
  imports Cache_Vfs Store_Properties
begin

text \<open>
  The tests of \<open>crates/cacheshfs-core/src\<close>, run on the model.  Every \<open>#[test]\<close> function of \<open>vfs.rs\<close> and
  \<open>store.rs\<close> is a definition of type \<open>bool\<close> that is true exactly when the test passes: a failed assertion
  and an \<open>unwrap\<close> of an error make it false.  The lemmas at the end evaluate the whole model, mount,
  store, cache directory and test remote, on the inputs of the tests.

  The clock stands still during a test.  \<open>PanicRemote\<close>, whose operations abort the test, records in its
  world that it was called.  The constructors of the test mounts give each one its own empty cache
  directory.
\<close>

section \<open>Assertions\<close>

definition unwrap :: "('v \<Rightarrow> 'a result \<times> 'v) \<Rightarrow> ('a \<Rightarrow> 'v \<Rightarrow> bool) \<Rightarrow> 'v \<Rightarrow> bool" where
  "unwrap f k v = (case f v of (Ok x, v') \<Rightarrow> k x v' | (Err _, _) \<Rightarrow> False)"

definition rejects :: "('v \<Rightarrow> 'a result \<times> 'v) \<Rightarrow> (error \<Rightarrow> bool) \<Rightarrow> ('v \<Rightarrow> bool) \<Rightarrow> 'v \<Rightarrow> bool" where
  "rejects f p k v = (case f v of (Ok _, _) \<Rightarrow> False | (Err e, v') \<Rightarrow> if p e then k v' else False)"

definition holds :: "bool \<Rightarrow> ('v \<Rightarrow> bool) \<Rightarrow> 'v \<Rightarrow> bool" where
  "holds b k v = (if b then k v else False)"

definition observe :: "('v \<Rightarrow> 'a) \<Rightarrow> ('a \<Rightarrow> 'v \<Rightarrow> bool) \<Rightarrow> 'v \<Rightarrow> bool" where
  "observe f k v = k (f v) v"

definition passed :: "'v \<Rightarrow> bool" where
  "passed v = True"

fun is_invalid_input :: "error \<Rightarrow> bool" where
  "is_invalid_input (InvalidInput _) = True"
| "is_invalid_input _ = False"

section \<open>Fixtures\<close>

definition LONG_TTL :: duration where
  "LONG_TTL = secs 3600"

definition vfs_with :: "CacheMode \<Rightarrow> duration \<Rightarrow> (Index, MockState) CacheVfs" where
  "vfs_with cm ttl = CacheVfs_new MockRemote RemotePath_root False cm ttl plain_json empty_dir
     DEFAULT_CACHE_CHUNK_SIZE MockRemote_new (\<lambda>_. 0)"

definition test_vfs :: "(Index, MockState) CacheVfs" where
  "test_vfs = CacheVfs_new MockRemote RemotePath_root False Remote LONG_TTL plain_json empty_dir
     DEFAULT_CACHE_CHUNK_SIZE MockRemote_new (\<lambda>_. 0)"

definition read_only_vfs :: "(Index, MockState) CacheVfs" where
  "read_only_vfs = CacheVfs_new MockRemote RemotePath_root True Remote LONG_TTL plain_json empty_dir
     DEFAULT_CACHE_CHUNK_SIZE MockRemote_new (\<lambda>_. 0)"

definition content_vfs :: "CacheMode \<Rightarrow> duration \<Rightarrow> (Index, MockState) CacheVfs" where
  "content_vfs cm ttl = CacheVfs_new MockRemote RemotePath_root False cm ttl plain_json empty_dir
     DEFAULT_CACHE_CHUNK_SIZE MockRemote_new (\<lambda>_. 0)"

definition objects_count :: "('j, 'w) CacheVfs \<Rightarrow> nat" where
  "objects_count v = length (fm_keys (objects (dir (store v))))"

definition PanicRemote :: "bool RemoteFilesystem" where
  "PanicRemote = \<lparr>
     rf_stat = (\<lambda>_ _. (Err mock_panic, True)), rf_read_dir = (\<lambda>_ _. (Err mock_panic, True)),
     rf_read = (\<lambda>_ _ _ _. (Err mock_panic, True)), rf_write = (\<lambda>_ _ _ _. (Err mock_panic, True)),
     rf_create = (\<lambda>_ _ _. (Err mock_panic, True)), rf_mkdir = (\<lambda>_ _ _. (Err mock_panic, True)),
     rf_unlink = (\<lambda>_ _. (Err mock_panic, True)), rf_rmdir = (\<lambda>_ _. (Err mock_panic, True)),
     rf_rename = (\<lambda>_ _ _. (Err mock_panic, True)), rf_setattr = (\<lambda>_ _ _. (Err mock_panic, True))\<rparr>"

definition OpenFlags_default :: OpenFlags where
  "OpenFlags_default = \<lparr>of_read = False, of_write = False, of_append = False, of_truncate = False\<rparr>"

definition open_for_read ::
  "string \<Rightarrow> (NodeId \<Rightarrow> FileHandle \<Rightarrow> ('j, 'w) CacheVfs \<Rightarrow> bool) \<Rightarrow> ('j, 'w) CacheVfs \<Rightarrow> bool" where
  "open_for_read name k =
     unwrap (vfs_lookup ROOT name) (\<lambda>m.
     unwrap (vfs_open (node m) (OpenFlags_default\<lparr>of_read := True\<rparr>)) (\<lambda>h. k (node m) h))"

definition on_remote :: "('w \<Rightarrow> 'w option) \<Rightarrow> (('j, 'w) CacheVfs \<Rightarrow> bool) \<Rightarrow> ('j, 'w) CacheVfs \<Rightarrow> bool" where
  "on_remote f k v = (case f (world v) of None \<Rightarrow> False | Some w \<Rightarrow> k (v\<lparr>world := w\<rparr>))"

section \<open>Tests of the filesystem\<close>

definition getattr_root_is_a_directory :: bool where
  "getattr_root_is_a_directory =
     unwrap (vfs_getattr ROOT) (\<lambda>m.
     holds (node m = ROOT) (
     holds (kind (attributes m) = Directory) passed)) test_vfs"

definition lookup_returns_stable_node_ids :: bool where
  "lookup_returns_stable_node_ids =
     unwrap (vfs_lookup ROOT ''readme.txt'') (\<lambda>first.
     unwrap (vfs_lookup ROOT ''readme.txt'') (\<lambda>second.
     holds (node first = node second) (
     holds (node first \<noteq> ROOT) (
     holds (fsize (attributes first) = 5) passed)))) test_vfs"

definition lookup_missing_is_not_found :: bool where
  "lookup_missing_is_not_found = rejects (vfs_lookup ROOT ''nope'') (\<lambda>e. e = NotFound) passed test_vfs"

definition readdir_lists_children_with_consistent_nodes :: bool where
  "readdir_lists_children_with_consistent_nodes =
     unwrap (vfs_readdir ROOT) (\<lambda>es.
     holds (''readme.txt'' \<in> set (map de_name es)) (
     holds (''sub'' \<in> set (map de_name es)) (
     unwrap (vfs_lookup ROOT ''sub'') (\<lambda>m.
     holds (map_option (node \<circ> de_metadata) (find (\<lambda>e. de_name e = ''sub'') es) = Some (node m)) passed)))) test_vfs"

definition nested_lookup_and_read :: bool where
  "nested_lookup_and_read =
     unwrap (vfs_lookup ROOT ''sub'') (\<lambda>sub.
     unwrap (vfs_lookup (node sub) ''a.txt'') (\<lambda>f.
     holds (kind (attributes f) = File) (
     unwrap (vfs_open (node f) (OpenFlags_default\<lparr>of_read := True\<rparr>)) (\<lambda>h.
     unwrap (vfs_read h 0 1024) (\<lambda>data.
     holds (data = byte_string ''aaaa'') (
     unwrap (vfs_read h 1 2) (\<lambda>partial.
     holds (partial = byte_string ''aa'') (
     unwrap (vfs_release h) (\<lambda>_.
     rejects (vfs_read h 0 4) (\<lambda>_. True) passed))))))))) test_vfs"

definition create_write_and_read_back :: bool where
  "create_write_and_read_back =
     unwrap (vfs_create ROOT ''new.txt'' 0x1A4 OpenFlags_default) (\<lambda>c.
     holds (kind (attributes (cf_metadata c)) = File) (
     unwrap (vfs_write (cf_handle c) 0 (byte_string ''hello world'')) (\<lambda>written.
     holds (written = 11) (
     unwrap (vfs_open (node (cf_metadata c)) (OpenFlags_default\<lparr>of_read := True\<rparr>)) (\<lambda>h.
     unwrap (vfs_read h 0 1024) (\<lambda>data.
     holds (data = byte_string ''hello world'') (
     unwrap (vfs_readdir ROOT) (\<lambda>es.
     holds (''new.txt'' \<in> set (map de_name es)) passed)))))))) test_vfs"

definition truncate_via_setattr_and_open :: bool where
  "truncate_via_setattr_and_open =
     unwrap (vfs_lookup ROOT ''readme.txt'') (\<lambda>f.
     unwrap (vfs_setattr (node f) (SetAttributes_default\<lparr>sa_size := Some 2\<rparr>)) (\<lambda>m.
     holds (fsize (attributes m) = 2) (
     unwrap (vfs_open (node f) (OpenFlags_default\<lparr>of_write := True, of_truncate := True\<rparr>)) (\<lambda>_.
     unwrap (vfs_getattr (node f)) (\<lambda>m.
     holds (fsize (attributes m) = 0) passed))))) test_vfs"

definition mkdir_unlink_and_rmdir :: bool where
  "mkdir_unlink_and_rmdir =
     unwrap (vfs_mkdir ROOT ''d'' 0x1ED) (\<lambda>d.
     holds (kind (attributes d) = Directory) (
     unwrap (vfs_create (node d) ''f.txt'' 0x1A4 OpenFlags_default) (\<lambda>_.
     unwrap (vfs_readdir (node d)) (\<lambda>es.
     holds (length es = 1) (
     unwrap (vfs_unlink (node d) ''f.txt'') (\<lambda>_.
     unwrap (vfs_readdir (node d)) (\<lambda>es.
     holds (es = []) (
     unwrap (vfs_rmdir ROOT ''d'') (\<lambda>_.
     rejects (vfs_lookup ROOT ''d'') (\<lambda>e. e = NotFound) passed))))))))) test_vfs"

definition rename_moves_and_keeps_node_identity :: bool where
  "rename_moves_and_keeps_node_identity =
     unwrap (vfs_lookup ROOT ''readme.txt'') (\<lambda>m.
     unwrap (vfs_rename ROOT ''readme.txt'' ROOT ''renamed.txt'') (\<lambda>_.
     rejects (vfs_lookup ROOT ''readme.txt'') (\<lambda>e. e = NotFound) (
     unwrap (vfs_lookup ROOT ''renamed.txt'') (\<lambda>moved.
     holds (node moved = node m) (
     unwrap (vfs_getattr (node m)) (\<lambda>m.
     holds (fsize (attributes m) = 5) passed)))))) test_vfs"

definition read_only_mount_rejects_mutations_but_allows_reads :: bool where
  "read_only_mount_rejects_mutations_but_allows_reads =
     unwrap (vfs_getattr ROOT) (\<lambda>m.
     holds (kind (attributes m) = Directory) (
     unwrap (vfs_lookup ROOT ''readme.txt'') (\<lambda>f.
     unwrap (vfs_open (node f) (OpenFlags_default\<lparr>of_read := True\<rparr>)) (\<lambda>h.
     unwrap (vfs_read h 0 5) (\<lambda>data.
     holds (data = byte_string ''hello'') (
     rejects (vfs_open (node f) (OpenFlags_default\<lparr>of_write := True\<rparr>)) (\<lambda>e. e = PermissionDenied) (
     rejects (vfs_create ROOT ''x'' 0x1A4 OpenFlags_default) (\<lambda>e. e = PermissionDenied) (
     rejects (vfs_mkdir ROOT ''x'' 0x1ED) (\<lambda>e. e = PermissionDenied) (
     rejects (vfs_unlink ROOT ''readme.txt'') (\<lambda>e. e = PermissionDenied) (
     rejects (vfs_setattr (node f) SetAttributes_default) (\<lambda>e. e = PermissionDenied) passed)))))))))) read_only_vfs"

definition lookup_rejects_path_traversal :: bool where
  "lookup_rejects_path_traversal =
     rejects (vfs_lookup ROOT ''..'') is_invalid_input (
     rejects (vfs_lookup ROOT ''a/b'') is_invalid_input passed) test_vfs"

definition getattr_unknown_node_is_not_found :: bool where
  "getattr_unknown_node_is_not_found = rejects (vfs_getattr (NodeId 999)) (\<lambda>e. e = NotFound) passed test_vfs"

definition create_write_flush_release_and_read_round_trip :: bool where
  "create_write_flush_release_and_read_round_trip =
     unwrap (vfs_create ROOT ''created.txt'' 0x1A0 (OpenFlags_default\<lparr>of_read := True, of_write := True\<rparr>)) (\<lambda>c.
     holds (kind (attributes (cf_metadata c)) = File) (
     holds (mode (attributes (cf_metadata c)) = 0x1A0) (
     holds (fsize (attributes (cf_metadata c)) = 0) (
     unwrap (vfs_write (cf_handle c) 0 (byte_string ''hello'')) (\<lambda>n.
     holds (n = 5) (
     unwrap (vfs_flush (cf_handle c)) (\<lambda>_.
     unwrap (vfs_release (cf_handle c)) (\<lambda>_.
     unwrap (vfs_lookup ROOT ''created.txt'') (\<lambda>m.
     holds (node m = node (cf_metadata c)) (
     holds (fsize (attributes m) = 5) (
     unwrap (vfs_open (node m) (OpenFlags_default\<lparr>of_read := True\<rparr>)) (\<lambda>h.
     unwrap (vfs_read h 0 32) (\<lambda>data.
     holds (data = byte_string ''hello'') (
     unwrap (vfs_release h) (\<lambda>_. passed))))))))))))))) test_vfs"

definition write_updates_existing_file_at_offset_and_refreshes_size :: bool where
  "write_updates_existing_file_at_offset_and_refreshes_size =
     unwrap (vfs_lookup ROOT ''readme.txt'') (\<lambda>f.
     unwrap (vfs_open (node f) (OpenFlags_default\<lparr>of_read := True, of_write := True\<rparr>)) (\<lambda>h.
     unwrap (vfs_write h 2 (byte_string ''YY'')) (\<lambda>n.
     holds (n = 2) (
     unwrap (vfs_write h 5 (byte_string ''!'')) (\<lambda>n.
     holds (n = 1) (
     unwrap (vfs_flush h) (\<lambda>_.
     unwrap (vfs_release h) (\<lambda>_.
     unwrap (vfs_getattr (node f)) (\<lambda>m.
     holds (fsize (attributes m) = 6) (
     unwrap (vfs_open (node f) (OpenFlags_default\<lparr>of_read := True\<rparr>)) (\<lambda>h.
     unwrap (vfs_read h 0 32) (\<lambda>data.
     holds (data = byte_string ''heYYo!'') (
     unwrap (vfs_release h) (\<lambda>_. passed)))))))))))))) test_vfs"

section \<open>Tests of the metadata cache\<close>

definition getattr_is_cached_within_ttl :: bool where
  "getattr_is_cached_within_ttl =
     unwrap (vfs_getattr ROOT) (\<lambda>_.
     unwrap (vfs_getattr ROOT) (\<lambda>_.
     observe (stat_calls \<circ> world) (\<lambda>n. holds (n = 1) passed))) (vfs_with OnDemand LONG_TTL)"

definition getattr_refetches_after_write_invalidation :: bool where
  "getattr_refetches_after_write_invalidation =
     unwrap (vfs_lookup ROOT ''readme.txt'') (\<lambda>f.
     unwrap (vfs_getattr (node f)) (\<lambda>_.
     observe (stat_calls \<circ> world) (\<lambda>before.
     unwrap (vfs_open (node f) (OpenFlags_default\<lparr>of_write := True\<rparr>)) (\<lambda>h.
     unwrap (vfs_write h 0 (byte_string ''X'')) (\<lambda>_.
     unwrap (vfs_getattr (node f)) (\<lambda>_.
     observe (stat_calls \<circ> world) (\<lambda>n. holds (n = before + 1) passed))))))) (vfs_with OnDemand LONG_TTL)"

definition readdir_is_cached_and_populates_lookup :: bool where
  "readdir_is_cached_and_populates_lookup =
     unwrap (vfs_readdir ROOT) (\<lambda>_.
     unwrap (vfs_readdir ROOT) (\<lambda>_.
     observe (read_dir_calls \<circ> world) (\<lambda>n. holds (n = 1) (
     unwrap (vfs_lookup ROOT ''readme.txt'') (\<lambda>_.
     observe (stat_calls \<circ> world) (\<lambda>n. holds (n = 0) passed)))))) (vfs_with OnDemand LONG_TTL)"

definition repeated_lookup_is_cached :: bool where
  "repeated_lookup_is_cached =
     unwrap (vfs_lookup ROOT ''readme.txt'') (\<lambda>_.
     unwrap (vfs_lookup ROOT ''readme.txt'') (\<lambda>_.
     observe (stat_calls \<circ> world) (\<lambda>n. holds (n = 1) passed))) (vfs_with OnDemand LONG_TTL)"

definition negative_lookup_is_cached :: bool where
  "negative_lookup_is_cached =
     rejects (vfs_lookup ROOT ''nope'') (\<lambda>e. e = NotFound) (
     rejects (vfs_lookup ROOT ''nope'') (\<lambda>e. e = NotFound) (
     observe (stat_calls \<circ> world) (\<lambda>n. holds (n = 1) passed))) (vfs_with OnDemand LONG_TTL)"

definition zero_ttl_disables_caching :: bool where
  "zero_ttl_disables_caching =
     unwrap (vfs_getattr ROOT) (\<lambda>_.
     unwrap (vfs_getattr ROOT) (\<lambda>_.
     observe (stat_calls \<circ> world) (\<lambda>n. holds (n = 2) passed))) (vfs_with OnDemand 0)"

definition offline_mode_never_contacts_remote :: bool where
  "offline_mode_never_contacts_remote =
     rejects (vfs_getattr ROOT) (\<lambda>e. e = NotFound) (
     rejects (vfs_readdir ROOT) (\<lambda>e. e = NotFound) (
     observe world (\<lambda>st. holds (stat_calls st = 0) (holds (read_dir_calls st = 0) passed)))) (vfs_with Offline LONG_TTL)"

definition create_clears_a_cached_negative_lookup :: bool where
  "create_clears_a_cached_negative_lookup =
     rejects (vfs_lookup ROOT ''fresh.txt'') (\<lambda>e. e = NotFound) (
     unwrap (vfs_create ROOT ''fresh.txt'' 0x1A4 OpenFlags_default) (\<lambda>_.
     unwrap (vfs_lookup ROOT ''fresh.txt'') (\<lambda>m.
     holds (kind (attributes m) = File) (
     unwrap (vfs_readdir ROOT) (\<lambda>es.
     holds (''fresh.txt'' \<in> set (map de_name es)) passed))))) test_vfs"

definition unlink_negatively_caches_without_further_remote_calls :: bool where
  "unlink_negatively_caches_without_further_remote_calls =
     unwrap (vfs_lookup ROOT ''readme.txt'') (\<lambda>_.
     unwrap (vfs_unlink ROOT ''readme.txt'') (\<lambda>_.
     observe (stat_calls \<circ> world) (\<lambda>calls.
     rejects (vfs_lookup ROOT ''readme.txt'') (\<lambda>e. e = NotFound) (
     observe (stat_calls \<circ> world) (\<lambda>n. holds (n = calls) passed))))) (vfs_with OnDemand LONG_TTL)"

definition readdir_reflects_create_and_unlink :: bool where
  "readdir_reflects_create_and_unlink =
     unwrap (vfs_readdir ROOT) (\<lambda>before.
     unwrap (vfs_create ROOT ''extra.txt'' 0x1A4 OpenFlags_default) (\<lambda>_.
     unwrap (vfs_readdir ROOT) (\<lambda>es.
     holds (length es = length before + 1) (
     unwrap (vfs_unlink ROOT ''extra.txt'') (\<lambda>_.
     unwrap (vfs_readdir ROOT) (\<lambda>es.
     holds (length es = length before) passed)))))) test_vfs"

definition setattr_refreshes_cache_without_a_restat :: bool where
  "setattr_refreshes_cache_without_a_restat =
     unwrap (vfs_lookup ROOT ''readme.txt'') (\<lambda>f.
     unwrap (vfs_setattr (node f) (SetAttributes_default\<lparr>sa_mode := Some 0x180\<rparr>)) (\<lambda>_.
     observe (stat_calls \<circ> world) (\<lambda>calls.
     unwrap (vfs_getattr (node f)) (\<lambda>m.
     holds (mode (attributes m) = 0x180) (
     observe (stat_calls \<circ> world) (\<lambda>n. holds (n = calls) passed)))))) (vfs_with OnDemand LONG_TTL)"

definition rename_updates_both_directory_listings :: bool where
  "rename_updates_both_directory_listings =
     unwrap (vfs_readdir ROOT) (\<lambda>_.
     unwrap (vfs_rename ROOT ''readme.txt'' ROOT ''moved.txt'') (\<lambda>_.
     unwrap (vfs_readdir ROOT) (\<lambda>es.
     holds (''moved.txt'' \<in> set (map de_name es)) (
     holds (''readme.txt'' \<notin> set (map de_name es)) passed)))) test_vfs"

section \<open>Tests of the content cache\<close>

definition read_hydrates_then_serves_from_cache :: bool where
  "read_hydrates_then_serves_from_cache =
     open_for_read ''readme.txt'' (\<lambda>_ h.
     unwrap (vfs_read h 0 1024) (\<lambda>data.
     holds (data = byte_string ''hello'') (
     observe objects_count (\<lambda>n. holds (n = 1) (
     observe (read_calls \<circ> world) (\<lambda>reads.
     unwrap (vfs_read h 0 2) (\<lambda>data.
     holds (data = byte_string ''he'') (
     unwrap (vfs_read h 1 3) (\<lambda>data.
     holds (data = byte_string ''ell'') (
     observe (read_calls \<circ> world) (\<lambda>n. holds (n = reads) passed))))))))))) (content_vfs OnDemand LONG_TTL)"

definition write_evicts_cached_content_and_next_read_rehydrates :: bool where
  "write_evicts_cached_content_and_next_read_rehydrates =
     unwrap (vfs_lookup ROOT ''readme.txt'') (\<lambda>f.
     unwrap (vfs_open (node f) (OpenFlags_default\<lparr>of_read := True, of_write := True\<rparr>)) (\<lambda>h.
     unwrap (vfs_read h 0 1024) (\<lambda>data.
     holds (data = byte_string ''hello'') (
     unwrap (vfs_write h 0 (byte_string ''J'')) (\<lambda>_.
     unwrap (vfs_read h 0 1024) (\<lambda>data.
     holds (data = byte_string ''Jello'') passed)))))) (content_vfs OnDemand LONG_TTL)"

definition remote_mode_does_not_cache_content :: bool where
  "remote_mode_does_not_cache_content =
     open_for_read ''readme.txt'' (\<lambda>_ h.
     unwrap (vfs_read h 0 1024) (\<lambda>data.
     holds (data = byte_string ''hello'') (
     observe objects_count (\<lambda>n. holds (n = 0) passed)))) (content_vfs Remote LONG_TTL)"

definition stale_content_is_rehydrated_after_external_change :: bool where
  "stale_content_is_rehydrated_after_external_change =
     open_for_read ''readme.txt'' (\<lambda>_ h.
     unwrap (vfs_read h 0 1024) (\<lambda>data.
     holds (data = byte_string ''hello'') (
     on_remote (set_file ''/readme.txt'' (byte_string ''goodbye!'')) (
     unwrap (vfs_read h 0 1024) (\<lambda>data.
     holds (data = byte_string ''goodbye!'') passed))))) (content_vfs OnDemand 0)"

definition offline_session :: "Index cache_dir \<Rightarrow> (Index, bool) CacheVfs" where
  "offline_session d = CacheVfs_new PanicRemote RemotePath_root False Offline LONG_TTL plain_json d
     DEFAULT_CACHE_CHUNK_SIZE False (\<lambda>_. 0)"

definition cache_persists_across_restart_for_offline_reads :: bool where
  "cache_persists_across_restart_for_offline_reads =
     open_for_read ''readme.txt'' (\<lambda>_ h.
     unwrap (vfs_read h 0 1024) (\<lambda>data.
     holds (data = byte_string ''hello'') (
     observe (\<lambda>v. dir (store v)) (\<lambda>d v.
       open_for_read ''readme.txt'' (\<lambda>_ h.
       unwrap (vfs_read h 0 1024) (\<lambda>data.
       holds (data = byte_string ''hello'') (
       observe world (\<lambda>panicked. holds (\<not> panicked) passed)))) (offline_session d))))) (content_vfs OnDemand LONG_TTL)"

definition offline_read_of_uncached_file_is_unavailable :: bool where
  "offline_read_of_uncached_file_is_unavailable =
     rejects (vfs_lookup ROOT ''readme.txt'') (\<lambda>e. e = NotFound) (
     observe world (\<lambda>panicked. holds (\<not> panicked) passed)) (offline_session empty_dir)"

section \<open>Tests of lost connections\<close>

definition getattr_falls_back_to_cache_when_remote_unreachable :: bool where
  "getattr_falls_back_to_cache_when_remote_unreachable =
     unwrap (vfs_lookup ROOT ''readme.txt'') (\<lambda>f.
     unwrap (vfs_getattr (node f)) (\<lambda>online.
     on_remote (Some \<circ> set_unreachable True) (
     unwrap (vfs_getattr (node f)) (\<lambda>offl.
     holds (attributes offl = attributes online) passed)))) (content_vfs OnDemand 0)"

definition lookup_falls_back_to_cache_but_uncached_paths_surface_the_error :: bool where
  "lookup_falls_back_to_cache_but_uncached_paths_surface_the_error =
     unwrap (vfs_lookup ROOT ''readme.txt'') (\<lambda>online.
     on_remote (Some \<circ> set_unreachable True) (
     unwrap (vfs_lookup ROOT ''readme.txt'') (\<lambda>offl.
     holds (attributes offl = attributes online) (
     rejects (vfs_lookup ROOT ''never-seen.txt'') is_unreachable passed)))) (content_vfs OnDemand 0)"

definition readdir_falls_back_to_cache_when_remote_unreachable :: bool where
  "readdir_falls_back_to_cache_when_remote_unreachable =
     unwrap (vfs_readdir ROOT) (\<lambda>online.
     on_remote (Some \<circ> set_unreachable True) (
     unwrap (vfs_readdir ROOT) (\<lambda>offl.
     holds (map de_name offl = map de_name online) passed))) (content_vfs OnDemand 0)"

definition read_serves_cached_content_when_remote_unreachable :: bool where
  "read_serves_cached_content_when_remote_unreachable =
     open_for_read ''readme.txt'' (\<lambda>_ h.
     unwrap (vfs_read h 0 1024) (\<lambda>data.
     holds (data = byte_string ''hello'') (
     on_remote (Some \<circ> set_unreachable True) (
     unwrap (vfs_read h 0 1024) (\<lambda>data.
     holds (data = byte_string ''hello'') passed))))) (content_vfs OnDemand 0)"

section \<open>Tests of the store\<close>

definition store_file_attrs :: "u64 \<Rightarrow> i64 \<Rightarrow> FileAttributes" where
  "store_file_attrs sz modified = \<lparr>kind = File, fsize = sz, mode = 0x1A4, uid = 0, gid = 0,
     modified_unix_seconds = Some modified, accessed_unix_seconds = None, changed_unix_seconds = None\<rparr>"

definition BytesRemote :: "bytes \<Rightarrow> bool RemoteFilesystem" where
  "BytesRemote b = PanicRemote\<lparr>rf_read := \<lambda>_ offset sz w.
     let start = min (unat offset) (length b); end' = min (start + unat sz) (length b)
     in (Ok (take (end' - start) (drop start b)), w)\<rparr>"

record sparse_state =
  sr_size :: u64
  sr_reads :: "(u64 \<times> u32) list"
  sr_panicked :: bool

definition SparseRemote_new :: "u64 \<Rightarrow> sparse_state" where
  "SparseRemote_new sz = \<lparr>sr_size = sz, sr_reads = [], sr_panicked = False\<rparr>"

definition sparse_panic :: "sparse_state \<Rightarrow> 'a result \<times> sparse_state" where
  "sparse_panic st = (Err mock_panic, st\<lparr>sr_panicked := True\<rparr>)"

definition SparseRemote :: "sparse_state RemoteFilesystem" where
  "SparseRemote = \<lparr>
     rf_stat = (\<lambda>_. sparse_panic), rf_read_dir = (\<lambda>_. sparse_panic),
     rf_read = (\<lambda>_ offset sz st.
       let available = min (unat (sr_size st) - unat offset) (unat sz)
       in (Ok (replicate available (of_char CHR ''x'')), st\<lparr>sr_reads := sr_reads st @ [(offset, sz)]\<rparr>)),
     rf_write = (\<lambda>_ _ _. sparse_panic), rf_create = (\<lambda>_ _. sparse_panic), rf_mkdir = (\<lambda>_ _. sparse_panic),
     rf_unlink = (\<lambda>_. sparse_panic), rf_rmdir = (\<lambda>_. sparse_panic),
     rf_rename = (\<lambda>_ _. sparse_panic), rf_setattr = (\<lambda>_ _. sparse_panic)\<rparr>"

definition reading ::
  "RemotePath \<Rightarrow> 'w RemoteFilesystem \<Rightarrow> FileAttributes \<Rightarrow> u64 \<Rightarrow> u32 \<Rightarrow> 'j Store \<times> 'w \<Rightarrow> bytes result \<times> 'j Store \<times> 'w" where
  "reading p R a offset sz sw = (case sw of (s, w) \<Rightarrow> store_read s p R a offset sz w)"

definition reading_cached :: "RemotePath \<Rightarrow> u64 \<Rightarrow> u32 \<Rightarrow> 'j Store \<times> 'w \<Rightarrow> bytes result \<times> 'j Store \<times> 'w" where
  "reading_cached p offset sz sw = (case sw of (s, w) \<Rightarrow> case read_cached s p offset sz of (r, s) \<Rightarrow> (r, s, w))"

definition updating :: "('v \<Rightarrow> 'v) \<Rightarrow> ('v \<Rightarrow> bool) \<Rightarrow> 'v \<Rightarrow> bool" where
  "updating f k v = k (f v)"

abbreviation storing :: "('j Store \<Rightarrow> 'j Store) \<Rightarrow> ('j Store \<times> 'w \<Rightarrow> bool) \<Rightarrow> 'j Store \<times> 'w \<Rightarrow> bool" where
  "storing f \<equiv> updating (apfst f)"

abbreviation reopened :: "u64 \<Rightarrow> Index Store \<Rightarrow> Index Store" where
  "reopened cs s \<equiv> Store_new plain_json (dir s) cs"

definition read_cached_missing_is_unavailable :: bool where
  "read_cached_missing_is_unavailable =
     rejects (reading_cached (RemotePath ''/x'') 0 8) is_unreachable passed
       (Store_new plain_json empty_dir DEFAULT_CACHE_CHUNK_SIZE, ())"

definition metadata_and_content_persist_across_reopen :: bool where
  "metadata_and_content_persist_across_reopen =
     (let path = RemotePath ''/a.txt''; a = store_file_attrs 5 100
      in storing (\<lambda>s. put_attrs s path a) (
         unwrap (reading path (BytesRemote (byte_string ''hello'')) a 0 16) (\<lambda>_.
         storing (reopened DEFAULT_CACHE_CHUNK_SIZE) (
         observe fst (\<lambda>s. holds (map_option fsize (get_attrs s path) = Some 5) (
         unwrap (reading_cached path 0 16) (\<lambda>data.
         holds (data = byte_string ''hello'') passed))))))
       (Store_new plain_json empty_dir DEFAULT_CACHE_CHUNK_SIZE, False))"

definition read_fetches_only_needed_chunks :: bool where
  "read_fetches_only_needed_chunks =
     (let path = RemotePath ''/video.mkv''; a = store_file_attrs (1024 * 3) 100;
          clear = updating (apsnd (\<lambda>st. st\<lparr>sr_reads := []\<rparr>))
      in unwrap (reading path SparseRemote a 0 1024) (\<lambda>data.
         holds (length data = 1024) (
         observe (sr_reads \<circ> snd) (\<lambda>reads. holds (reads = [(0, 1024)]) (
         clear (
         unwrap (reading path SparseRemote a (1024 + 128) 1024) (\<lambda>data.
         holds (length data = 1024) (
         observe (sr_reads \<circ> snd) (\<lambda>reads. holds (reads = [(1024, 1024), (2048, 1024)]) (
         clear (
         unwrap (reading path SparseRemote a 0 1024) (\<lambda>data.
         holds (length data = 1024) (
         observe (sr_reads \<circ> snd) (\<lambda>reads. holds (reads = []) passed)))))))))))))
       (Store_new plain_json empty_dir 1024, SparseRemote_new (1024 * 3)))"

definition newer_server_version_drops_stale_content :: bool where
  "newer_server_version_drops_stale_content =
     (let path = RemotePath ''/a.txt''
      in storing (\<lambda>s. put_attrs s path (store_file_attrs 5 100)) (
         unwrap (reading path (BytesRemote (byte_string ''hello'')) (store_file_attrs 5 100) 0 16) (\<lambda>_.
         unwrap (reading_cached path 0 16) (\<lambda>data.
         holds (data = byte_string ''hello'') (
         storing (\<lambda>s. put_attrs s path (store_file_attrs 8 200)) (
         rejects (reading_cached path 0 16) is_unreachable passed)))))
       (Store_new plain_json empty_dir DEFAULT_CACHE_CHUNK_SIZE, False))"

definition listings_persist_and_survive_reopen :: bool where
  "listings_persist_and_survive_reopen =
     storing (\<lambda>s. record_listing s RemotePath_root [(''a'', store_file_attrs 1 1), (''b'', store_file_attrs 2 2)]) (
     storing (reopened DEFAULT_CACHE_CHUNK_SIZE) (
     observe fst (\<lambda>s.
     holds (get_children s RemotePath_root = Some [''a'', ''b'']) (
     holds (map_option fsize (get_attrs s (RemotePath ''/a'')) = Some 1) passed))))
       (Store_new plain_json empty_dir DEFAULT_CACHE_CHUNK_SIZE, ())"

section \<open>Evaluation\<close>

lemma fm_keys_sorted: "fm_keys m = sorted_list_of_set (fmdom' m)"
  by (simp add: fm_keys_def sorted_list_of_fset.rep_eq fmdom'_alt_def)

lemma fm_keys_fmupd [simp]: "fm_keys (fmupd k v m) = insort k (remove1 k (fm_keys m))"
  by (simp add: fm_keys_sorted sorted_list_of_set_insert_remove sorted_list_of_set_remove)

lemma fm_keys_fmdrop [simp]: "fm_keys (fmdrop k m) = remove1 k (fm_keys m)"
  by (simp add: fm_keys_sorted sorted_list_of_set_remove)

lemma fm_keys_empty [simp]: "fm_keys fmempty = []"
  by (simp add: fm_keys_sorted)

lemma io_call_idle [simp]: "io_plan d = [] \<Longrightarrow> io_call d = (Ok (), d)"
  by (simp add: io_call_def io_next_def)

lemma io_calls_idle [simp]: "io_plan d = [] \<Longrightarrow> io_calls n d = (Ok (), d)"
  by (induction n) simp_all

lemma numeral_le_one: "(numeral n \<le> (1::u64)) = (unat (numeral n :: u64) \<le> 1)"
  by (simp add: word_le_nat_alt)

lemma upt_one_two: "[Suc 0 ..< 2] = [1]"
  by (simp add: eval_nat_numeral)

lemmas test_language =
  unwrap_def rejects_def holds_def observe_def passed_def on_remote_def open_for_read_def OpenFlags_default_def
  updating_def reading_def reading_cached_def

lemmas fixtures =
  test_vfs_def read_only_vfs_def vfs_with_def content_vfs_def objects_count_def LONG_TTL_def offline_session_def
  PanicRemote_def BytesRemote_def SparseRemote_def SparseRemote_new_def store_file_attrs_def sparse_panic_def
  set_unreachable_def set_file_def

lemmas vfs_eval =
  CacheVfs_new_def MockRemote_def MockRemote_new_def RemotePath_root_def plain_json_def empty_dir_def
  Store_new_def State_new_def ROOT_def Index_default_def vfs_lookup_def vfs_getattr_def vfs_readdir_def
  vfs_open_def vfs_read_def vfs_write_def vfs_flush_def vfs_release_def vfs_create_def vfs_mkdir_def
  vfs_unlink_def vfs_rmdir_def vfs_rename_def vfs_setattr_def path_of_def intern_def open_handle_def
  rename_path_def rename_paths_def forget_child_def metadata_fresh_def offline_def fresh_negative_def
  ensure_writable_def child_path_def RemotePath_join_def RemotePath_new_def trim_end_matches_def Let_def
  validate_def unvalidate_def add_negative_def drop_negative_def now_def elapsed_def readdir_from_cache_def
  real_children_def secs_def NEGATIVE_TTL_CAP_def unknown_handle_def DEFAULT_CACHE_CHUNK_SIZE_def mock_stat_def
  mock_read_dir_def mock_read_def mock_write_def mock_create_def mock_mkdir_def mock_unlink_def mock_rmdir_def
  mock_rename_def mock_setattr_def dir_attrs_def file_attrs_def path_split_def rsplit_once_def split_once_def
  resize_def push_child_def retain_others_def connection_lost_def is_a_directory_def byte_string_def
  SetAttributes_default_def

lemmas store_eval =
  put_attrs_def store_attrs_def get_attrs_def get_children_def to_stored_def from_stored_def u8_to_kind_def
  kind_to_u8.simps persist_def io_next_def remove_objects_def record_listing_def invalidate_children_def
  store_remove_def store_rename_def move_key_def entry_objects_def invalidate_content_def store_read_def
  read_cached_def not_cached_def current_content_def cached_chunk_def download_def record_chunk_def
  fetch_chunk_def read_cached_range_def read_object_def chunk_range_def content_objects_def fm_values_def
  saturating_add_def remove_object_file_def remove_temp_file_def download_loop.simps read_loop.simps

lemmas evaluation =
  test_language fixtures vfs_eval store_eval fmlookup_of_list upt_one_two numeral_le_one

section \<open>The tests pass\<close>

lemma filesystem_tests_1_pass:
  getattr_root_is_a_directory
  lookup_returns_stable_node_ids
  lookup_missing_is_not_found
  readdir_lists_children_with_consistent_nodes
  nested_lookup_and_read
  create_write_and_read_back
  truncate_via_setattr_and_open
  by (simp_all add: getattr_root_is_a_directory_def lookup_returns_stable_node_ids_def lookup_missing_is_not_found_def
      readdir_lists_children_with_consistent_nodes_def nested_lookup_and_read_def
      create_write_and_read_back_def truncate_via_setattr_and_open_def evaluation)

lemma filesystem_tests_2_pass:
  mkdir_unlink_and_rmdir
  rename_moves_and_keeps_node_identity
  read_only_mount_rejects_mutations_but_allows_reads
  lookup_rejects_path_traversal
  getattr_unknown_node_is_not_found
  create_write_flush_release_and_read_round_trip
  write_updates_existing_file_at_offset_and_refreshes_size
  by (simp_all add: mkdir_unlink_and_rmdir_def rename_moves_and_keeps_node_identity_def
      read_only_mount_rejects_mutations_but_allows_reads_def lookup_rejects_path_traversal_def
      getattr_unknown_node_is_not_found_def create_write_flush_release_and_read_round_trip_def
      write_updates_existing_file_at_offset_and_refreshes_size_def evaluation)

lemma metadata_tests_1_pass:
  getattr_is_cached_within_ttl
  getattr_refetches_after_write_invalidation
  readdir_is_cached_and_populates_lookup
  repeated_lookup_is_cached
  negative_lookup_is_cached
  zero_ttl_disables_caching
  by (simp_all add: getattr_is_cached_within_ttl_def getattr_refetches_after_write_invalidation_def
      readdir_is_cached_and_populates_lookup_def repeated_lookup_is_cached_def negative_lookup_is_cached_def
      zero_ttl_disables_caching_def evaluation)

lemma metadata_tests_2_pass:
  offline_mode_never_contacts_remote
  create_clears_a_cached_negative_lookup
  unlink_negatively_caches_without_further_remote_calls
  readdir_reflects_create_and_unlink
  setattr_refreshes_cache_without_a_restat
  rename_updates_both_directory_listings
  by (simp_all add: offline_mode_never_contacts_remote_def create_clears_a_cached_negative_lookup_def
      unlink_negatively_caches_without_further_remote_calls_def readdir_reflects_create_and_unlink_def
      setattr_refreshes_cache_without_a_restat_def rename_updates_both_directory_listings_def evaluation)

lemma content_tests_pass:
  read_hydrates_then_serves_from_cache
  write_evicts_cached_content_and_next_read_rehydrates
  remote_mode_does_not_cache_content
  stale_content_is_rehydrated_after_external_change
  cache_persists_across_restart_for_offline_reads
  offline_read_of_uncached_file_is_unavailable
  by (simp_all add: read_hydrates_then_serves_from_cache_def write_evicts_cached_content_and_next_read_rehydrates_def
      remote_mode_does_not_cache_content_def stale_content_is_rehydrated_after_external_change_def
      cache_persists_across_restart_for_offline_reads_def offline_read_of_uncached_file_is_unavailable_def
      evaluation)

lemma outage_tests_pass:
  getattr_falls_back_to_cache_when_remote_unreachable
  lookup_falls_back_to_cache_but_uncached_paths_surface_the_error
  readdir_falls_back_to_cache_when_remote_unreachable
  read_serves_cached_content_when_remote_unreachable
  by (simp_all add: getattr_falls_back_to_cache_when_remote_unreachable_def
      lookup_falls_back_to_cache_but_uncached_paths_surface_the_error_def
      readdir_falls_back_to_cache_when_remote_unreachable_def
      read_serves_cached_content_when_remote_unreachable_def evaluation)

lemma store_tests_pass:
  read_cached_missing_is_unavailable
  metadata_and_content_persist_across_reopen
  read_fetches_only_needed_chunks
  newer_server_version_drops_stale_content
  listings_persist_and_survive_reopen
  by (simp_all add: read_cached_missing_is_unavailable_def metadata_and_content_persist_across_reopen_def
      read_fetches_only_needed_chunks_def newer_server_version_drops_stale_content_def
      listings_persist_and_survive_reopen_def evaluation)

end
