(* ===== verification/Cli_Conformance.thy ===== *)
theory Cli_Conformance
  imports Cli_Options "HOL-Library.Code_Target_Nat"
begin

text \<open>
  The tests of \<open>crates/cacheshfs-cli/src\<close> and \<open>crates/cacheshfs-sftp/src\<close>, run on the model.  Every test is
  a definition of type \<open>bool\<close> that is true exactly when the test passes; the lemmas at the end evaluate
  them.

  clap is a parameter: where a test parses an argument vector, the definition starts from the options
  record that the vector denotes, and the tests of clap's own behaviour (\<open>applies_defaults\<close>, \<open>parses_all_options\<close>,
  \<open>each_cache_mode_value_parses\<close> and the three about rejected argument vectors) have no counterpart.  The
  environment is that of a user with a home directory, and the temporary ssh config is the only
  file.
\<close>

section \<open>Fixtures\<close>

definition bare_cli :: "string \<Rightarrow> string \<Rightarrow> Cli" where
  "bare_cli spec mountpoint = \<lparr>cli_remote = spec, cli_mountpoint = mountpoint, cli_cache_dir = None,
     cli_cache_mode = ArgOnDemand, cli_cache_chunk_size = None, cli_read_only = False, cli_port = None,
     cli_identity_file = None, cli_accept_unknown_host_key = False, cli_ssh_config = None,
     cli_metadata_ttl = None, cli_remote_read_timeout = None, cli_content_ttl = None, cli_download = None,
     cli_allow_other = False\<rparr>"

definition test_env :: environment where
  "test_env name = (if name = ''HOME'' then Some ''/home/alice'' else if name = ''USER'' then Some ''alice'' else None)"

definition config_text :: "string list \<Rightarrow> string" where
  "config_text ls = concat (map (\<lambda>l. l @ [CHR 0x0A]) ls)"

definition config_file :: "string \<Rightarrow> read_file" where
  "config_file contents path =
     (if path = ''/tmp/config'' then Inr contents
      else Inl \<lparr>io_kind_of = IoNotFound, io_message = ''No such file or directory (os error 2)''\<rparr>)"

fun is_err :: "'e + 'a \<Rightarrow> bool" where
  "is_err (Inl _) = True"
| "is_err (Inr _) = False"

fun ok_and :: "('a \<Rightarrow> bool) \<Rightarrow> 'e + 'a \<Rightarrow> bool" where
  "ok_and p (Inl _) = False"
| "ok_and p (Inr x) = p x"

fun result_and :: "('a \<Rightarrow> bool) \<Rightarrow> 'a result \<Rightarrow> bool" where
  "result_and p (Err _) = False"
| "result_and p (Ok x) = p x"

section \<open>Tests of the command line\<close>

definition parses_user_host_path :: bool where
  "parses_user_host_path =
     ok_and (\<lambda>r. rc_target r = ''alice@example.com'' \<and> rc_root r = ''/srv/data'') (parse_remote ''alice@example.com:/srv/data'')"

definition parses_host_without_user :: bool where
  "parses_host_without_user =
     ok_and (\<lambda>r. rc_target r = ''example.com'' \<and> rc_root r = ''/srv'') (parse_remote ''example.com:/srv'')"

definition preserves_windows_drive_root :: bool where
  "preserves_windows_drive_root =
     ok_and (\<lambda>r. rc_target r = ''bob@winhost'' \<and> rc_root r = ''/C:/Users/bob'') (parse_remote ''bob@winhost:/C:/Users/bob'')"

definition rejects_missing_colon :: bool where
  "rejects_missing_colon = is_err (parse_remote ''example.com'')"

definition rejects_empty_sides :: bool where
  "rejects_empty_sides = (is_err (parse_remote '':/srv'') \<and> is_err (parse_remote ''host:''))"

definition cache_mode_maps_to_core :: bool where
  "cache_mode_maps_to_core = (cache_mode_of ArgOnDemand = OnDemand \<and> cache_mode_of ArgOffline = Offline)"

definition rejects_cache_dir_inside_mountpoint :: bool where
  "rejects_cache_dir_inside_mountpoint =
     is_err (to_mount_config test_env
       ((bare_cli ''host:/srv'' ''/mnt/remote'')\<lparr>cli_cache_dir := Some ''/mnt/remote/.cache''\<rparr>))"

definition accepts_cache_dir_outside_mountpoint :: bool where
  "accepts_cache_dir_outside_mountpoint =
     ok_and (\<lambda>c. mc_read_only c \<and> rc_root (mc_remote c) = ''/srv'') (to_mount_config test_env
       ((bare_cli ''host:/srv'' ''/mnt/remote'')\<lparr>cli_cache_dir := Some ''/var/cache/cacheshfs'', cli_read_only := True\<rparr>))"

definition unwired_options_reports_only_supplied_flags :: bool where
  "unwired_options_reports_only_supplied_flags =
     (unwired_options (bare_cli ''host:/srv'' ''/mnt'') = [] \<and>
      (let reported = unwired_options ((bare_cli ''host:/srv'' ''/mnt'')\<lparr>cli_download := Some ''/d'', cli_allow_other := True\<rparr>)
       in ''--download'' \<in> set reported \<and> ''--allow-other'' \<in> set reported \<and> ''--port'' \<notin> set reported \<and>
          ''--identity-file'' \<notin> set reported \<and> ''--ssh-config'' \<notin> set reported))"

definition port_and_identity_are_not_reported_as_unwired :: bool where
  "port_and_identity_are_not_reported_as_unwired =
     (unwired_options ((bare_cli ''host:/srv'' ''/mnt'')\<lparr>cli_port := Some 2222, cli_identity_file := Some ''/k/id''\<rparr>) = [])"

definition connect_options_apply_port_and_identity :: bool where
  "connect_options_apply_port_and_identity =
     ok_and (\<lambda>opts. st_username (so_target opts) = ''alice'' \<and> st_host (so_target opts) = ''host'' \<and>
         st_port (so_target opts) = 2222 \<and> ''/keys/id_ed25519'' \<in> set (so_identity_files opts) \<and>
         \<not> so_accept_unknown_hosts opts)
       (connect_options test_env (config_file '''') ((bare_cli ''alice@host:/srv'' ''/mnt'')\<lparr>cli_port := Some 2222,
          cli_identity_file := Some ''/keys/id_ed25519'', cli_ssh_config := Some ''/tmp/config''\<rparr>) ''alice@host'')"

definition connect_options_accept_unknown_host_key :: bool where
  "connect_options_accept_unknown_host_key =
     ok_and so_accept_unknown_hosts
       (connect_options test_env (config_file '''') ((bare_cli ''alice@host:/srv'' ''/mnt'')\<lparr>
          cli_accept_unknown_host_key := True, cli_ssh_config := Some ''/tmp/config''\<rparr>) ''alice@host'')"

definition ssh_config_resolves_host_alias :: bool where
  "ssh_config_resolves_host_alias =
     ok_and (\<lambda>opts. st_host (so_target opts) = ''home.example.com'' \<and> st_username (so_target opts) = ''braxton'' \<and>
         st_port (so_target opts) = 2222 \<and> ''/keys/server_ed25519'' \<in> set (so_identity_files opts))
       (connect_options test_env (config_file (config_text [''Host server'', ''    HostName home.example.com'',
            ''    User braxton'', ''    Port 2222'', ''    IdentityFile /keys/server_ed25519'']))
          ((bare_cli ''server:/srv'' ''/mnt'')\<lparr>cli_ssh_config := Some ''/tmp/config''\<rparr>) ''server'')"

definition explicit_values_override_ssh_config :: bool where
  "explicit_values_override_ssh_config =
     ok_and (\<lambda>opts. st_host (so_target opts) = ''home.example.com'' \<and> st_username (so_target opts) = ''root'' \<and>
         st_port (so_target opts) = 2200)
       (connect_options test_env (config_file (config_text [''Host server'', ''    HostName home.example.com'',
            ''    User braxton'', ''    Port 2222'']))
          ((bare_cli ''root@server:/srv'' ''/mnt'')\<lparr>cli_port := Some 2200, cli_ssh_config := Some ''/tmp/config''\<rparr>)
          ''root@server'')"

definition missing_explicit_ssh_config_is_an_error :: bool where
  "missing_explicit_ssh_config_is_an_error =
     is_err (connect_options test_env (config_file '''')
       ((bare_cli ''server:/srv'' ''/mnt'')\<lparr>cli_ssh_config := Some ''/no/such/ssh/config''\<rparr>) ''server'')"

definition end_to_end_builds_mount_config :: bool where
  "end_to_end_builds_mount_config =
     ok_and (\<lambda>c. rc_target (mc_remote c) = ''bob@winhost'' \<and> rc_root (mc_remote c) = ''/C:/Users/bob'' \<and>
         mc_cache_mode c = Offline \<and> mc_cache_chunk_size c = 2 * 1024 * 1024 \<and>
         mc_cache_dir c = ''/var/cache/cacheshfs'' \<and> \<not> mc_read_only c)
       (to_mount_config test_env ((bare_cli ''bob@winhost:/C:/Users/bob'' ''/mnt/win'')\<lparr>
          cli_cache_dir := Some ''/var/cache/cacheshfs'', cli_cache_mode := ArgOffline,
          cli_cache_chunk_size := Some ''2M''\<rparr>))"

definition cache_chunk_size_defaults_and_parses :: bool where
  "cache_chunk_size_defaults_and_parses =
     (ok_and (\<lambda>c. mc_cache_chunk_size c = DEFAULT_CACHE_CHUNK_SIZE)
        (to_mount_config test_env (bare_cli ''host:/srv'' ''/mnt'')) \<and>
      list_all (\<lambda>(txt, expected). ok_and (\<lambda>c. mc_cache_chunk_size c = expected)
          (to_mount_config test_env ((bare_cli ''host:/srv'' ''/mnt'')\<lparr>cli_cache_chunk_size := Some txt\<rparr>)))
        [(''4096'', 4096), (''4K'', 4 * 1024), (''4MB'', 4 * 1024 * 1024), (''4MiB'', 4 * 1024 * 1024),
         (''1G'', 1024 * 1024 * 1024)])"

definition cache_chunk_size_rejects_invalid_values :: bool where
  "cache_chunk_size_rejects_invalid_values =
     list_all (\<lambda>txt. is_err (to_mount_config test_env
         ((bare_cli ''host:/srv'' ''/mnt'')\<lparr>cli_cache_chunk_size := Some txt\<rparr>)))
       [''0'', '''', ''abc'', ''4XB'']"

definition parse_duration_accepts_units_and_bare_seconds :: bool where
  "parse_duration_accepts_units_and_bare_seconds =
     (parse_duration ''30s'' = Inr (secs 30) \<and> parse_duration ''5m'' = Inr (secs 300) \<and>
      parse_duration ''1h'' = Inr (secs 3600) \<and> parse_duration ''500ms'' = Inr (500 * 1000000) \<and>
      parse_duration ''45'' = Inr (secs 45) \<and> parse_duration ''  10s '' = Inr (secs 10))"

definition parse_duration_rejects_garbage :: bool where
  "parse_duration_rejects_garbage =
     (is_err (parse_duration ''abc'') \<and> is_err (parse_duration '''') \<and> is_err (parse_duration ''s'') \<and>
      is_err (parse_duration ''10x''))"

definition metadata_ttl_defaults_and_parses :: bool where
  "metadata_ttl_defaults_and_parses =
     (metadata_ttl_duration (bare_cli ''host:/srv'' ''/mnt'') = Inr (secs 5) \<and>
      metadata_ttl_duration ((bare_cli ''host:/srv'' ''/mnt'')\<lparr>cli_metadata_ttl := Some ''2m''\<rparr>) = Inr (secs 120) \<and>
      is_err (metadata_ttl_duration ((bare_cli ''host:/srv'' ''/mnt'')\<lparr>cli_metadata_ttl := Some ''nope''\<rparr>)))"

section \<open>Tests of the ssh config\<close>

definition resolves_a_simple_host_block :: bool where
  "resolves_a_simple_host_block =
     (let resolved = resolve test_env (config_text [''Host server'', ''    HostName home.example.com'', ''    User braxton'',
        ''    Port 2222'', ''    IdentityFile /keys/id_ed25519'']) ''server''
      in sh_hostname resolved = Some ''home.example.com'' \<and> sh_user resolved = Some ''braxton'' \<and>
         sh_port resolved = Some 2222 \<and> sh_identity_files resolved = [''/keys/id_ed25519''])"

definition non_matching_alias_gets_nothing :: bool where
  "non_matching_alias_gets_nothing =
     (resolve test_env (config_text [''Host server'', ''    HostName home.example.com'']) ''other'' = SshHostConfig_default)"

definition first_value_wins_and_later_blocks_do_not_override :: bool where
  "first_value_wins_and_later_blocks_do_not_override =
     (let resolved = resolve test_env (config_text [''Host server'', ''    HostName first.example.com'', ''Host *'',
        ''    HostName wildcard.example.com'', ''    User fallback'']) ''server''
      in sh_hostname resolved = Some ''first.example.com'' \<and> sh_user resolved = Some ''fallback'')"

definition wildcard_and_question_patterns_match :: bool where
  "wildcard_and_question_patterns_match =
     (let config = config_text [''Host *.example.com'', ''    User web'', ''Host db?'', ''    User dba'']
      in sh_user (resolve test_env config ''api.example.com'') = Some ''web'' \<and>
         sh_user (resolve test_env config ''db1'') = Some ''dba'' \<and> sh_user (resolve test_env config ''db12'') = None)"

definition negated_pattern_vetoes_a_match :: bool where
  "negated_pattern_vetoes_a_match =
     (let config = config_text [''Host * !secret'', ''    User general'']
      in sh_user (resolve test_env config ''public'') = Some ''general'' \<and> sh_user (resolve test_env config ''secret'') = None)"

definition equals_separator_and_comments_and_quotes :: bool where
  "equals_separator_and_comments_and_quotes =
     (let resolved = resolve test_env (config_text [''# a comment'', ''Host=server   # trailing comment'',
        ''    HostName = \"home.example.com\"'', ''    Port=22'']) ''server''
      in sh_hostname resolved = Some ''home.example.com'' \<and> sh_port resolved = Some 22)"

definition multiple_identity_files_accumulate :: bool where
  "multiple_identity_files_accumulate =
     (sh_identity_files (resolve test_env (config_text [''Host server'', ''    IdentityFile /a'', ''    IdentityFile /b''])
        ''server'') = [''/a'', ''/b''])"

definition settings_before_first_host_apply_globally :: bool where
  "settings_before_first_host_apply_globally =
     (let resolved = resolve test_env (config_text [''User global'', ''Host server'', ''    Port 2222'']) ''server''
      in sh_user resolved = Some ''global'' \<and> sh_port resolved = Some 2222)"

definition match_block_settings_are_ignored :: bool where
  "match_block_settings_are_ignored =
     (sh_user (resolve test_env (config_text [''Match host server'', ''    User matched'']) ''server'') = None)"

section \<open>Tests of the SFTP targets\<close>

definition parses_user_host_target :: bool where
  "parses_user_host_target =
     result_and (\<lambda>t. st_username t = ''alice'' \<and> st_host t = ''example.com'' \<and> st_port t = 22)
       (SftpTarget_parse test_env ''alice@example.com'')"

definition parses_user_host_port_target :: bool where
  "parses_user_host_port_target =
     result_and (\<lambda>t. st_username t = ''alice'' \<and> st_host t = ''example.com'' \<and> st_port t = 2222)
       (SftpTarget_parse test_env ''alice@example.com:2222'')"

definition parses_bracketed_ipv6_target :: bool where
  "parses_bracketed_ipv6_target =
     result_and (\<lambda>t. st_username t = ''alice'' \<and> st_host t = ''2001:db8::1'' \<and> st_port t = 2222)
       (SftpTarget_parse test_env ''alice@[2001:db8::1]:2222'')"

definition connection_options_default_to_strict_host_keys :: bool where
  "connection_options_default_to_strict_host_keys =
     result_and (\<lambda>t. let opts = for_target test_env t
         in \<not> so_accept_unknown_hosts opts \<and> st_username (so_target opts) = ''alice'')
       (SftpTarget_parse test_env ''alice@example.com'')"

definition connection_options_can_enable_unknown_host_acceptance :: bool where
  "connection_options_can_enable_unknown_host_acceptance =
     result_and (\<lambda>t. so_accept_unknown_hosts (accept_unknown_hosts True (for_target test_env t)))
       (SftpTarget_parse test_env ''alice@example.com'')"

section \<open>The tests pass\<close>

lemma command_line_tests_1_pass:
  "parses_user_host_path \<and>
   parses_host_without_user \<and>
   preserves_windows_drive_root \<and>
   rejects_missing_colon \<and>
   rejects_empty_sides \<and>
   cache_mode_maps_to_core"
  by code_simp

lemma command_line_tests_2_pass:
  "rejects_cache_dir_inside_mountpoint \<and>
   accepts_cache_dir_outside_mountpoint \<and>
   unwired_options_reports_only_supplied_flags \<and>
   port_and_identity_are_not_reported_as_unwired \<and>
   connect_options_apply_port_and_identity \<and>
   connect_options_accept_unknown_host_key"
  by code_simp

lemma command_line_tests_3_pass:
  "ssh_config_resolves_host_alias \<and>
   explicit_values_override_ssh_config \<and>
   missing_explicit_ssh_config_is_an_error \<and>
   end_to_end_builds_mount_config \<and>
   cache_chunk_size_defaults_and_parses \<and>
   cache_chunk_size_rejects_invalid_values"
  by code_simp

lemma command_line_tests_4_pass:
  "parse_duration_accepts_units_and_bare_seconds \<and>
   parse_duration_rejects_garbage \<and>
   metadata_ttl_defaults_and_parses"
  by code_simp

lemma ssh_config_tests_pass:
  "resolves_a_simple_host_block \<and>
   non_matching_alias_gets_nothing \<and>
   first_value_wins_and_later_blocks_do_not_override \<and>
   wildcard_and_question_patterns_match \<and>
   negated_pattern_vetoes_a_match \<and>
   equals_separator_and_comments_and_quotes \<and>
   multiple_identity_files_accumulate \<and>
   settings_before_first_host_apply_globally \<and>
   match_block_settings_are_ignored"
  by code_simp

lemma sftp_target_tests_pass:
  "parses_user_host_target \<and>
   parses_user_host_port_target \<and>
   parses_bracketed_ipv6_target \<and>
   connection_options_default_to_strict_host_keys \<and>
   connection_options_can_enable_unknown_host_acceptance"
  by code_simp

end
