(* ===== verification/Adapter_Conformance.thy ===== *)
theory Adapter_Conformance
  imports Linux_Adapter Windows_Adapter
begin

text \<open>
  The tests of \<open>crates/cacheshfs-linux/src\<close> and \<open>crates/cacheshfs-windows/src\<close>, run on the model.  Every test
  is a definition of type \<open>bool\<close> that is true exactly when the test passes; the lemmas at the end evaluate
  them.  The raw open flags of the Linux tests are given with the access mode that fuser decodes from them.
\<close>

section \<open>Tests of the Linux adapter\<close>

definition TEST_OWNER :: LinuxOwner where
  "TEST_OWNER = \<lparr>lo_uid = 1000, lo_gid = 1001\<rparr>"

definition test_metadata :: "FileKind \<Rightarrow> u32 \<Rightarrow> FileMetadata" where
  "test_metadata k m = \<lparr>node = NodeId 1, attributes = \<lparr>kind = k, fsize = 0, mode = m, uid = 0, gid = 0,
     modified_unix_seconds = None, accessed_unix_seconds = None, changed_unix_seconds = None\<rparr>\<rparr>"

definition converts_regular_file_metadata_to_fuser_attr :: bool where
  "converts_regular_file_metadata_to_fuser_attr =
     (let attr = file_attr \<lparr>node = NodeId 42, attributes = \<lparr>kind = File, fsize = 1025, mode = 0x81A0, uid = 1000,
            gid = 1001, modified_unix_seconds = Some 10, accessed_unix_seconds = Some 20,
            changed_unix_seconds = Some 30\<rparr>\<rparr> TEST_OWNER
      in fa_ino attr = 42 \<and> fa_size attr = 1025 \<and> fa_blocks attr = 3 \<and> fa_kind attr = FuseRegularFile \<and>
         fa_perm attr = 0x1A0 \<and> fa_nlink attr = 1 \<and> fa_uid attr = 1000 \<and> fa_gid attr = 1001 \<and>
         fa_blksize attr = DEFAULT_BLOCK_SIZE)"

definition supplies_default_permissions_when_remote_mode_is_missing :: bool where
  "supplies_default_permissions_when_remote_mode_is_missing =
     (fa_perm (file_attr (test_metadata File 0) TEST_OWNER) = 0x1A4 \<and>
      fa_perm (file_attr (test_metadata Directory 0) TEST_OWNER) = 0x1ED \<and>
      fa_perm (file_attr (test_metadata Symlink 0) TEST_OWNER) = 0x1FF)"

definition maps_file_kinds_to_fuser_types_and_link_counts :: bool where
  "maps_file_kinds_to_fuser_types_and_link_counts =
     (let directory = file_attr (test_metadata Directory 0x1ED) TEST_OWNER;
          symlink = file_attr (test_metadata Symlink 0x1FF) TEST_OWNER
      in fa_kind directory = FuseDirectory \<and> fa_nlink directory = 2 \<and> fa_kind symlink = FuseSymlink \<and>
         fa_nlink symlink = 1)"

definition maps_remote_ownership_to_mount_owner :: bool where
  "maps_remote_ownership_to_mount_owner =
     (let attr = file_attr (test_metadata File 0x1A4) TEST_OWNER
      in fa_uid attr = lo_uid TEST_OWNER \<and> fa_gid attr = lo_gid TEST_OWNER)"

definition maps_expected_core_errors_to_errno_values :: bool where
  "maps_expected_core_errors_to_errno_values =
     (errno NotFound = ENOENT \<and> errno AlreadyExists = EEXIST \<and> errno PermissionDenied = EACCES \<and>
      errno (InvalidInput ''bad'') = EINVAL \<and> errno (UnsupportedOperation ''not supported'') = ENOSYS \<and>
      errno (Unavailable ''offline'') = EIO \<and> errno (RemoteBackend ''ssh'') = EIO \<and> errno (MountBackend ''fuse'') = EIO)"

definition translates_read_only_open_flags :: bool where
  "translates_read_only_open_flags =
     (let flags = linux_open_flags \<lparr>fo_acc_mode = O_RDONLY, fo_bits = 0\<rparr>
      in of_read flags \<and> \<not> of_write flags \<and> \<not> of_append flags \<and> \<not> of_truncate flags)"

definition translates_write_only_open_flags :: bool where
  "translates_write_only_open_flags =
     (let flags = linux_open_flags \<lparr>fo_acc_mode = O_WRONLY, fo_bits = or 1 O_APPEND\<rparr>
      in \<not> of_read flags \<and> of_write flags \<and> of_append flags \<and> \<not> of_truncate flags)"

definition translates_read_write_truncate_open_flags :: bool where
  "translates_read_write_truncate_open_flags =
     (let flags = linux_open_flags \<lparr>fo_acc_mode = O_RDWR, fo_bits = or 2 O_TRUNC\<rparr>
      in of_read flags \<and> of_write flags \<and> \<not> of_append flags \<and> of_truncate flags)"

definition converts_specific_times_to_unix_seconds :: bool where
  "converts_specific_times_to_unix_seconds =
     (time_or_now 0 (Some (SpecificTime (123 * 1000000000))) = Some 123 \<and> time_or_now 0 None = None)"

definition filesystem_attr_conversion_uses_configured_mount_owner :: bool where
  "filesystem_attr_conversion_uses_configured_mount_owner =
     (let owner = \<lparr>lo_uid = 1234, lo_gid = 5678\<rparr>;
          lf = \<lparr>lf_filesystem = UnimplementedVirtualFilesystem :: unit VirtualFilesystem, lf_owner = owner\<rparr>;
          m = \<lparr>node = NodeId 99, attributes = \<lparr>kind = File, fsize = 10, mode = 0x1A4, uid = 0, gid = 0,
            modified_unix_seconds = None, accessed_unix_seconds = None, changed_unix_seconds = None\<rparr>\<rparr>;
          attr = file_attr m (lf_owner lf)
      in fa_uid attr = lo_uid owner \<and> fa_gid attr = lo_gid owner)"

section \<open>Tests of the Windows adapter\<close>

definition windows_attrs :: "FileKind \<Rightarrow> u32 \<Rightarrow> FileAttributes" where
  "windows_attrs k m = \<lparr>kind = k, fsize = 1234, mode = m, uid = 0, gid = 0, modified_unix_seconds = Some 1700000000,
     accessed_unix_seconds = None, changed_unix_seconds = None\<rparr>"

definition filetime_round_trip :: bool where
  "filetime_round_trip = list_all (\<lambda>s. filetime_to_unix (unix_to_filetime (Some s)) = s) [0, 1, 1700000000, - 5]"

definition directory_attribute :: bool where
  "directory_attribute =
     (and (windows_file_attributes (windows_attrs Directory 0x1ED)) FILE_ATTRIBUTE_DIRECTORY = FILE_ATTRIBUTE_DIRECTORY)"

definition read_only_file_attribute :: bool where
  "read_only_file_attribute =
     (windows_file_attributes (windows_attrs File 0x124) = FILE_ATTRIBUTE_READONLY \<and>
      windows_file_attributes (windows_attrs File 0x1A4) = FILE_ATTRIBUTE_NORMAL)"

definition fill_uses_modified_time_as_fallback :: bool where
  "fill_uses_modified_time_as_fallback =
     (let info = fill_file_info (windows_attrs File 0x1A4) 7
      in fi_file_size info = 1234 \<and> fi_index_number info = 7 \<and> fi_last_write_time info \<noteq> 0 \<and>
         fi_last_access_time info = fi_last_write_time info \<and> fi_change_time info = fi_last_write_time info)"

definition maps_core_errors_to_expected_ntstatus :: bool where
  "maps_core_errors_to_expected_ntstatus =
     (to_fsp NotFound = 0xC0000034 \<and> to_fsp AlreadyExists = 0xC0000035 \<and> to_fsp PermissionDenied = 0xC0000022 \<and>
      to_fsp (InvalidInput ''x'') = 0xC000000D \<and> to_fsp (UnsupportedOperation ''x'') = 0xC0000002 \<and>
      to_fsp (RemoteBackend ''x'') = 0xC00000C4 \<and> sint (to_fsp NotFound) < 0)"

fun resolves_to :: "('a \<Rightarrow> bool) \<Rightarrow> 'a result \<times> unit \<Rightarrow> bool" where
  "resolves_to p (Ok x, _) = p x"
| "resolves_to p (Err _, _) = False"

definition resolves_root_and_nested_paths :: bool where
  "resolves_root_and_nested_paths =
     (resolves_to (\<lambda>(m, _). node m = NodeId 1) (win_resolve TestVfs [CHR 0x5C] ()) \<and>
      resolves_to (\<lambda>(m, _). node m = NodeId 2) (win_resolve TestVfs (CHR 0x5C # ''dir'') ()) \<and>
      resolves_to (\<lambda>(m, _). node m = NodeId 3) (win_resolve TestVfs (CHR 0x5C # ''dir'' @ CHR 0x5C # ''file.txt'') ()))"

definition resolve_returns_canonical_path :: bool where
  "resolve_returns_canonical_path =
     (resolves_to (\<lambda>(_, canonical). canonical = [CHR 0x5C]) (win_resolve TestVfs [CHR 0x5C] ()) \<and>
      resolves_to (\<lambda>(_, canonical). canonical = CHR 0x5C # ''dir'' @ CHR 0x5C # ''file.txt'')
        (win_resolve TestVfs (CHR 0x5C # ''dir'' @ CHR 0x5C # ''file.txt'') ()))"

definition resolves_case_insensitively_with_real_case_canonical :: bool where
  "resolves_case_insensitively_with_real_case_canonical =
     resolves_to (\<lambda>(m, canonical). node m = NodeId 3 \<and> canonical = CHR 0x5C # ''dir'' @ CHR 0x5C # ''file.txt'')
       (win_resolve TestVfs (CHR 0x5C # ''DIR'' @ CHR 0x5C # ''FILE.TXT'') ())"

definition missing_component_is_not_found :: bool where
  "missing_component_is_not_found = (fst (win_resolve TestVfs (CHR 0x5C # ''nope'') ()) = Err NotFound)"

definition resolve_parent_splits_leaf :: bool where
  "resolve_parent_splits_leaf =
     resolves_to (\<lambda>(parent, leaf). parent = NodeId 2 \<and> leaf = ''file.txt'')
       (resolve_parent TestVfs (CHR 0x5C # ''dir'' @ CHR 0x5C # ''file.txt'') ())"

definition resolve_parent_matches_parent_case_insensitively :: bool where
  "resolve_parent_matches_parent_case_insensitively =
     resolves_to (\<lambda>(parent, leaf). parent = NodeId 2 \<and> leaf = ''new.txt'')
       (resolve_parent TestVfs (CHR 0x5C # ''DIR'' @ CHR 0x5C # ''new.txt'') ())"

definition resolve_parent_of_root_is_invalid :: bool where
  "resolve_parent_of_root_is_invalid =
     (case fst (resolve_parent TestVfs [CHR 0x5C] ()) of Err (InvalidInput _) \<Rightarrow> True | _ \<Rightarrow> False)"

section \<open>The tests pass\<close>

lemmas linux_evaluation = TEST_OWNER_def test_metadata_def file_attr_def div_ceil_def permissions_def DEFAULT_BLOCK_SIZE_def
  linux_open_flags_def O_APPEND_def O_TRUNC_def unix_seconds_def Let_def

lemmas windows_evaluation = windows_attrs_def windows_file_attributes_def fill_file_info_def unix_to_filetime_def
  filetime_to_unix_def saturate_i64_def truncating_div_def UNIX_EPOCH_IN_FILETIME_def TICKS_PER_SECOND_def
  FILE_ATTRIBUTE_READONLY_def FILE_ATTRIBUTE_DIRECTORY_def FILE_ATTRIBUTE_NORMAL_def Let_def

lemmas path_evaluation = win_resolve_def resolve_parent_def lookup_component_def win_components_def TestVfs_def
  test_meta_def test_attrs_def ROOT_def eq_ignore_ascii_case_def to_ascii_lowercase_def char_of_def bit_0 Let_def

lemma linux_tests_pass:
  converts_regular_file_metadata_to_fuser_attr
  supplies_default_permissions_when_remote_mode_is_missing
  maps_file_kinds_to_fuser_types_and_link_counts
  maps_remote_ownership_to_mount_owner
  maps_expected_core_errors_to_errno_values
  translates_read_only_open_flags
  translates_write_only_open_flags
  translates_read_write_truncate_open_flags
  converts_specific_times_to_unix_seconds
  filesystem_attr_conversion_uses_configured_mount_owner
  by (simp_all add: converts_regular_file_metadata_to_fuser_attr_def
      supplies_default_permissions_when_remote_mode_is_missing_def
      maps_file_kinds_to_fuser_types_and_link_counts_def
      maps_remote_ownership_to_mount_owner_def
      maps_expected_core_errors_to_errno_values_def
      translates_read_only_open_flags_def
      translates_write_only_open_flags_def
      translates_read_write_truncate_open_flags_def
      converts_specific_times_to_unix_seconds_def
      filesystem_attr_conversion_uses_configured_mount_owner_def
      linux_evaluation)

lemma windows_attribute_tests_pass:
  filetime_round_trip
  directory_attribute
  read_only_file_attribute
  fill_uses_modified_time_as_fallback
  maps_core_errors_to_expected_ntstatus
  by (simp_all add: filetime_round_trip_def
      directory_attribute_def
      read_only_file_attribute_def
      fill_uses_modified_time_as_fallback_def
      maps_core_errors_to_expected_ntstatus_def
      windows_evaluation)

lemma windows_path_tests_pass:
  resolves_root_and_nested_paths
  resolve_returns_canonical_path
  resolves_case_insensitively_with_real_case_canonical
  missing_component_is_not_found
  resolve_parent_splits_leaf
  resolve_parent_matches_parent_case_insensitively
  resolve_parent_of_root_is_invalid
  by (simp_all add: resolves_root_and_nested_paths_def
      resolve_returns_canonical_path_def
      resolves_case_insensitively_with_real_case_canonical_def
      missing_component_is_not_found_def
      resolve_parent_splits_leaf_def
      resolve_parent_matches_parent_case_insensitively_def
      resolve_parent_of_root_is_invalid_def
      path_evaluation)

end
