(* ===== verification/Spec2Isabelle.thy ===== *)
theory Spec2Isabelle
  imports Store_Restart Interleaving_Content Vfs_Properties Cli_Properties Windows_Properties Platform_Backend
    Core_Conformance Cli_Conformance Adapter_Conformance
begin

text \<open>
  \<^bold>\<open>CacheSHFS: a verification development.\<close>

  CacheSHFS mounts a directory of an SSH server as a local filesystem and keeps a persistent cache of
  what it has seen.  A request travels through these parts:

  \<^item> the platform adapter (\<open>crates/cacheshfs-linux\<close> over FUSE, \<open>crates/cacheshfs-windows\<close> over WinFsp) turns a callback
    of the operating system into a call of the trait \<open>VirtualFilesystem\<close>;
  \<^item> \<open>CacheVfs\<close> (\<open>crates/cacheshfs-core/src/vfs.rs\<close>) implements that trait: it owns the tables of node ids and
    open handles and decides, by cache mode and time to live, whether the cache or the server answers;
  \<^item> \<open>Store\<close> (\<open>store.rs\<close>) is the cache: an index of attributes, listings and content chunks, persisted in
    a directory together with one file per chunk;
  \<^item> \<open>SftpBackend\<close> (\<open>crates/cacheshfs-sftp\<close>) implements the trait \<open>RemoteFilesystem\<close> over an SSH session, after it
    has checked the server's key and authenticated the user;
  \<^item> the command line (\<open>crates/cacheshfs-cli\<close>) checks the options, resolves the ssh config, connects, builds
    the \<open>CacheVfs\<close> and hands it to the mount backend of the platform.

  \<^bold>\<open>Theories and code.\<close>  A \<open>struct\<close> is a record, an \<open>enum\<close> a datatype, a fixed-width integer a word, a hash map
  a finite map; \<open>&self\<close> with interior mutability is state passing; \<open>Result\<close> is the datatype \<open>result\<close>.  The world
  behind the code (server, network, operating system) is a type variable that the operations thread through.

  \<^item> \<open>Prelude\<close>: integer types, the string functions of Rust's standard library that the code uses, finite
    maps, and the locale \<open>polling\<close> of the loops that wait for a condition.
  \<^item> \<open>Core_Types\<close> (\<open>core/src/lib.rs\<close>): configuration, errors, paths, attributes, both traits as records of
    operations.
  \<^item> \<open>Cache_Store\<close> (\<open>store.rs\<close>): every operation of \<open>Store\<close> on an explicit cache directory, in which each
    file-system call may fail or read short, as an input plan says; \<open>Store_Interleaving\<close>: the same operations split
    at their lock sections into tasks (\<open>fetch_step\<close> and the index sections \<open>put_attrs_locked\<close> etc.), as several threads
    run them.
  \<^item> \<open>Cache_Vfs\<close> (\<open>vfs.rs\<close>): every operation of \<open>CacheVfs\<close>; \<open>Mock_Remote\<close>: the in-memory server of its tests.
  \<^item> \<open>Ssh_Config\<close> (\<open>ssh_config.rs\<close>), \<open>Sftp_Transport\<close> (\<open>sftp/src/lib.rs\<close>), \<open>Cli_Options\<close> (\<open>cli.rs\<close>, \<open>run\<close> of \<open>main.rs\<close>).
  \<^item> \<open>Linux_Adapter\<close>, \<open>Windows_Adapter\<close>: the conversions, every callback and the mount calls;
    \<open>Platform_Backend\<close>: the \<open>MountBackend\<close> implementations and \<open>platform_backend\<close> of \<open>main.rs\<close>.
  \<^item> \<open>Core_Conformance\<close>, \<open>Cli_Conformance\<close>, \<open>Adapter_Conformance\<close>: the test functions of the repository, each one
    evaluated on the model and proved to pass.

  \<^bold>\<open>What is shown.\<close>

  \<^item> Paths and confinement: a joined name descends by exactly one component (C1), and a mount never
    touches anything outside its root, a read-only mount never changes the server, an offline mount never
    reads from it, whatever operations run (C4; each operation interprets the locale \<open>vfs_operation\<close> in
    \<open>Vfs_Confinement\<close>).
  \<^item> The store: reads return exactly the bytes of the
    current version under any chunking and any short reads (C3, over the locales \<open>remote_content\<close> and \<open>remote_answers\<close>
    in \<open>Store_Content\<close> and \<open>Store_Liveness\<close>); a cached range is served locally (C10); recorded answers
    obey the laws of a keyed cache (C11, C12, locale \<open>keyed_cache\<close> in \<open>Store_Laws\<close>, interpreted for attributes and
    listings); renaming (\<open>rename_moves_entry\<close>); a restart keeps everything (C13, \<open>Store_Restart\<close>).
  \<^item> The store under concurrency: referenced chunks exist, have one owner and are not about to be removed or
    overwritten, however the steps of any number of threads interleave and whatever fails (C2, invariant of the
    step relation \<open>thread_step\<close> in \<open>Store_Interleaving\<close>, which rests on the sequential invariant of
    \<open>Store_Invariant\<close>); while the server's files stay as they are, every chunk recorded by concurrent fetches holds
    exactly its bytes (C23, \<open>Interleaving_Content\<close>); C35 pins down what is lost when they do not: a fetch that
    overlaps a write undoes the write's invalidation.  The lemma \<open>fetch_chunk_as_run\<close> says that the sequential
    \<open>fetch_chunk\<close> is the uninterrupted run of these steps.
  \<^item> The filesystem: revalidated reads are current and a mount sees its own writes (C5, C6); the node
    and handle tables are sound (C7, C15, C16, by the relation \<open>evolves\<close> in \<open>Vfs_Tables\<close>); namespace changes are visible
    at once (C17); metadata is cached for its time to live (C18); an outage is bridged from the cache (C19).
    C21 and C22 pin down two behaviours that are weaker than they look.
  \<^item> The transport: no session without a verified key and an authenticated user (C8), the host-key
    policy (C9), exact reads (C14, locale \<open>sftp_session\<close>, a sublocale of \<open>remote_answers\<close>), how outages surface
    (C20), targets (C34) and times (\<open>setattr_times_modulo\<close>).
  \<^item> The command line: only checked configurations are mounted (C26), no connection in offline mode
    (C27), resolution of the ssh config (C28, C29), precedence of settings (C30), the containment test and
    the parsers (C31, C32, C33).
  \<^item> The adapters: read-only mounts refuse changes (C24), paged directory reads are complete (C25), attributes are
    well formed (C39); case-insensitive paths (C36, locale \<open>clean_directories\<close>, interpreted for \<open>CacheVfs\<close>), constrained
    writes (C37), file times (C38); mount calls return when they are asked to (C40).

  \<^bold>\<open>Bounds and fuel.\<close>  The loops of the code are recursive functions with termination proofs.  Three are
  different: the two waits of the mount calls may run forever and are partial functions into \<open>option\<close> (C40 shows
  when they return), and the kernel's loop over \<open>readdir\<close> replies, which is not code of the repository, takes a
  bound that C25 shows to be enough as soon as it exceeds the number of entries.  The counters of nodes, handles
  and objects are 64-bit words that wrap; the theorems that need them fresh say how many steps they allow.
  \<open>usize\<close> is 64 bits wide.  Arithmetic is that of a release build: it wraps where the code does not say
  otherwise.

  \<^bold>\<open>Parameters.\<close>  Code outside the repository is an argument of the model: serde's JSON (\<open>codec\<close>), the file system
  under the cache (\<open>cache_dir\<close>), russh, russh-sftp and the SSH agent (\<open>ssh_client\<close>, \<open>SftpSession\<close>), the
  environment and the clock, fuser (\<open>fuse_host\<close>, replies as values), WinFsp (\<open>dir_buffer\<close>, \<open>winfsp_host\<close>) and
  the mount call in \<open>run\<close> (\<open>platform\<close>).  What a theorem needs of them is a hypothesis or the assumption of a locale that is
  interpreted on a concrete instance.

  \<^bold>\<open>Not modelled.\<close>  The parsing of arguments by clap, the exit code and the messages on standard error;
  threads above the store: the operations of \<open>Store\<close> interleave, those of \<open>CacheVfs\<close> run one at a time, so the effect of
  two of them that interleave between the mutex sections of its tables is outside the model (the FUSE session of
  the Linux adapter runs callbacks one at a time, the WinFsp dispatcher does not); the reads of object files by
  \<open>read_cached_range\<close> are one step; the accessors and locks that only wrap a field; characters beyond
  \<open>U+00FF\<close> in strings; the rules of \<open>PathBuf\<close> on Windows in \<open>is_inside\<close>; the layout of WinFsp's directory
  buffer; security descriptors and reparse points, which the code leaves empty.
\<close>

end
